(* ===== verification/Prelude.thy ===== *)
theory Prelude
  imports Main "HOL-Library.State_Monad" "HOL-Library.Sublist"
begin

text \<open>
  The prelude: what every theory of the development shares.
  \<^item> The reasoning about programs in the state monad of the library: the weakest
    precondition of a program (\<open>wp\<close>) and the frame predicate \<open>keeps f m\<close>, "running
    \<open>m\<close> does not change \<open>f\<close>", each with the rules that decompose a program along its
    text (collections \<open>wp_simps\<close> and \<open>keeps_intros\<close>).
  \<^item> The two loop forms the handlers use: a loop over a list that always runs to its end,
    and a loop whose body may return early.
  \<^item> Tables: a database table is the list of its rows in insertion order, and the SQL
    statements of the code are the operations \<open>update_rows\<close>, \<open>delete_rows\<close>,
    \<open>find_row\<close> and list append, with the laws the components need.
\<close>

named_theorems wp_simps \<open>weakest preconditions of programs\<close>
named_theorems keeps_intros \<open>frame rules: what a program leaves alone\<close>
named_theorems table_simps \<open>laws of the table operations\<close>


section \<open>Programs in the state monad\<close>

definition wp :: "('s, 'a) state \<Rightarrow> ('a \<Rightarrow> 's \<Rightarrow> bool) \<Rightarrow> 's \<Rightarrow> bool" where
  "wp m Q s = (case run_state m s of (a, s') \<Rightarrow> Q a s')"

lemma wp_return [wp_simps]: "wp (State_Monad.return a) Q s = Q a s"
  by (simp add: wp_def)

lemma wp_bind [wp_simps]: "wp (State_Monad.bind m f) Q s = wp m (\<lambda>a. wp (f a) Q) s"
  by (simp add: wp_def split: prod.splits)

lemma wp_get [wp_simps]: "wp State_Monad.get Q s = Q s s"
  by (simp add: wp_def)

lemma wp_set [wp_simps]: "wp (State_Monad.set t) Q s = Q () t"
  by (simp add: wp_def)

lemma run_state_update [simp]: "run_state (State_Monad.update f) s = ((), f s)"
  by (simp add: State_Monad.update_def)

lemma wp_update [wp_simps]: "wp (State_Monad.update f) Q s = Q () (f s)"
  by (simp add: wp_def)

lemma wp_State [wp_simps]: "wp (State f) Q s = Q (fst (f s)) (snd (f s))"
  by (simp add: wp_def split: prod.splits)

lemma wp_mono: "wp m Q s \<Longrightarrow> (\<And>a t. Q a t \<Longrightarrow> R a t) \<Longrightarrow> wp m R s"
  by (simp add: wp_def split: prod.splits)

lemma wp_runD: "wp m Q s \<Longrightarrow> run_state m s = (a, t) \<Longrightarrow> Q a t"
  by (simp add: wp_def)

lemma wp_snd: "wp m (\<lambda>_. P) s = P (snd (run_state m s))"
  by (simp add: wp_def split: prod.splits)

lemma wp_fst: "wp m (\<lambda>a _. P a) s = P (fst (run_state m s))"
  by (simp add: wp_def split: prod.splits)

definition keeps :: "('s \<Rightarrow> 'b) \<Rightarrow> ('s, 'a) state \<Rightarrow> bool" where
  "keeps f m = (\<forall>s. f (snd (run_state m s)) = f s)"

lemma keepsI: "(\<And>s. f (snd (run_state m s)) = f s) \<Longrightarrow> keeps f m"
  by (simp add: keeps_def)

lemma keepsD: "keeps f m \<Longrightarrow> f (snd (run_state m s)) = f s"
  by (simp add: keeps_def)

lemma keeps_runD: "keeps f m \<Longrightarrow> run_state m s = (a, t) \<Longrightarrow> f t = f s"
  by (metis keepsD snd_conv)

lemma keeps_return [keeps_intros]: "keeps f (State_Monad.return a)"
  by (simp add: keeps_def)

lemma keeps_bind [keeps_intros]:
  "keeps f m \<Longrightarrow> (\<And>a. keeps f (g a)) \<Longrightarrow> keeps f (State_Monad.bind m g)"
  by (simp add: keeps_def split: prod.splits) (metis snd_conv)

lemma keeps_get [keeps_intros]: "keeps f State_Monad.get"
  by (simp add: keeps_def)

lemma keeps_if [keeps_intros]:
  "(b \<Longrightarrow> keeps f m) \<Longrightarrow> (\<not> b \<Longrightarrow> keeps f n) \<Longrightarrow> keeps f (if b then m else n)"
  by simp

lemma keeps_case_sum [keeps_intros]:
  "(\<And>x. keeps f (m x)) \<Longrightarrow> (\<And>y. keeps f (n y)) \<Longrightarrow>
   keeps f (case r of Inl x \<Rightarrow> m x | Inr y \<Rightarrow> n y)"
  by (simp split: sum.split)

lemma keeps_case_option [keeps_intros]:
  "keeps f m \<Longrightarrow> (\<And>y. keeps f (n y)) \<Longrightarrow> keeps f (case r of None \<Rightarrow> m | Some y \<Rightarrow> n y)"
  by (simp split: option.split)

lemma keeps_case_prod [keeps_intros]:
  "(\<And>x y. keeps f (m x y)) \<Longrightarrow> keeps f (case p of (x, y) \<Rightarrow> m x y)"
  by (simp split: prod.split)

lemma keeps_case_list [keeps_intros]:
  "keeps f m \<Longrightarrow> (\<And>x xs. keeps f (n x xs)) \<Longrightarrow> keeps f (case l of [] \<Rightarrow> m | x # xs \<Rightarrow> n x xs)"
  by (simp split: list.split)

lemma keeps_let [keeps_intros]: "keeps f (m e) \<Longrightarrow> keeps f (let x = e in m x)"
  by simp

lemma keeps_update [keeps_intros]: "(\<And>s. f (u s) = f s) \<Longrightarrow> keeps f (State_Monad.update u)"
  by (simp add: keeps_def)

lemma keeps_State: "(\<And>s. f (snd (g s)) = f s) \<Longrightarrow> keeps f (State g)"
  by (simp add: keeps_def)

lemma keeps_comp: "keeps f m \<Longrightarrow> keeps (\<lambda>s. h (f s)) m"
  by (simp add: keeps_def)


section \<open>Loops\<close>

text \<open>\<open>for_each\<close> is a Go \<open>for range\<close> whose body always falls through;
  \<open>for_return\<close> is one whose body may \<open>return\<close>: \<open>Some r\<close> leaves the loop with \<open>r\<close>.\<close>

fun for_each :: "('a \<Rightarrow> ('s, unit) state) \<Rightarrow> 'a list \<Rightarrow> ('s, unit) state" where
  "for_each body [] = State_Monad.return ()"
| "for_each body (x # xs) = do { _ \<leftarrow> body x; for_each body xs }"

fun for_return :: "('a \<Rightarrow> ('s, 'r option) state) \<Rightarrow> 'a list \<Rightarrow> ('s, 'r option) state" where
  "for_return body [] = State_Monad.return None"
| "for_return body (x # xs) = do {
     r \<leftarrow> body x;
     case r of Some v \<Rightarrow> State_Monad.return (Some v) | None \<Rightarrow> for_return body xs
   }"

lemma keeps_for_each [keeps_intros]: "(\<And>x. keeps f (body x)) \<Longrightarrow> keeps f (for_each body xs)"
  by (induction xs) (auto intro!: keeps_intros)

lemma keeps_for_return [keeps_intros]:
  "(\<And>x. keeps f (body x)) \<Longrightarrow> keeps f (for_return body xs)"
  by (induction xs) (auto intro!: keeps_intros)

lemma wp_for_each:
  assumes "I s" and "\<And>x t. x \<in> set xs \<Longrightarrow> I t \<Longrightarrow> wp (body x) (\<lambda>_. I) t"
  shows "wp (for_each body xs) (\<lambda>_. I) s"
  using assms
proof (induction xs arbitrary: s)
  case Nil
  then show ?case by (simp add: wp_simps)
next
  case (Cons x xs)
  have "wp (body x) (\<lambda>_. I) s" using Cons.prems by simp
  then have "wp (body x) (\<lambda>_. wp (for_each body xs) (\<lambda>_. I)) s"
    by (rule wp_mono) (use Cons in simp)
  then show ?case by (simp add: wp_simps)
qed


section \<open>Tables\<close>

definition update_rows :: "('r \<Rightarrow> bool) \<Rightarrow> ('r \<Rightarrow> 'r) \<Rightarrow> 'r list \<Rightarrow> 'r list" where
  "update_rows p f t = map (\<lambda>r. if p r then f r else r) t"

definition delete_rows :: "('r \<Rightarrow> bool) \<Rightarrow> 'r list \<Rightarrow> 'r list" where
  "delete_rows p t = filter (\<lambda>r. \<not> p r) t"

definition find_row :: "('r \<Rightarrow> bool) \<Rightarrow> 'r list \<Rightarrow> 'r option" where
  "find_row p t = find p t"

lemma update_rows_simps [table_simps, simp]:
  "update_rows p f [] = []"
  "update_rows p f (r # t) = (if p r then f r else r) # update_rows p f t"
  "update_rows p f (t @ u) = update_rows p f t @ update_rows p f u"
  by (simp_all add: update_rows_def)

lemma delete_rows_simps [table_simps, simp]:
  "delete_rows p [] = []"
  "delete_rows p (r # t) = (if p r then delete_rows p t else r # delete_rows p t)"
  "delete_rows p (t @ u) = delete_rows p t @ delete_rows p u"
  by (simp_all add: delete_rows_def)

lemma find_row_simps [table_simps, simp]:
  "find_row p [] = None"
  "find_row p (r # t) = (if p r then Some r else find_row p t)"
  by (simp_all add: find_row_def)

lemma find_row_append [table_simps]:
  "find_row p (t @ u) = (case find_row p t of None \<Rightarrow> find_row p u | Some r \<Rightarrow> Some r)"
  by (induction t) auto

lemma find_row_Some: "find_row p t = Some r \<Longrightarrow> r \<in> set t \<and> p r"
  by (induction t) (auto split: if_splits)

lemma find_row_None: "find_row p t = None \<longleftrightarrow> (\<forall>r \<in> set t. \<not> p r)"
  by (induction t) auto

lemma find_row_delete [table_simps]:
  "(\<And>r. r \<in> set t \<Longrightarrow> p r \<Longrightarrow> q r) \<Longrightarrow> find_row p (delete_rows q t) = None"
  by (induction t) auto

lemma find_row_delete_other [table_simps]:
  "(\<And>r. r \<in> set t \<Longrightarrow> p r \<Longrightarrow> \<not> q r) \<Longrightarrow> find_row p (delete_rows q t) = find_row p t"
  by (induction t) auto

lemma find_row_update:
  assumes "\<And>r. r \<in> set t \<Longrightarrow> p (if q r then f r else r) = p r"
  shows "find_row p (update_rows q f t) = map_option (\<lambda>r. if q r then f r else r) (find_row p t)"
  using assms by (induction t) auto

lemma length_update_rows [table_simps, simp]: "length (update_rows p f t) = length t"
  by (simp add: update_rows_def)

lemma set_update_rows [table_simps]:
  "set (update_rows p f t) = (\<lambda>r. if p r then f r else r) ` set t"
  by (simp add: update_rows_def)

lemma set_delete_rows [table_simps, simp]: "set (delete_rows p t) = {r \<in> set t. \<not> p r}"
  by (simp add: delete_rows_def)

lemma update_rows_id: "(\<And>r. r \<in> set t \<Longrightarrow> \<not> p r) \<Longrightarrow> update_rows p f t = t"
  by (induction t) auto

lemma map_update_rows [table_simps]:
  "(\<And>r. r \<in> set t \<Longrightarrow> g (f r) = g r) \<Longrightarrow> map g (update_rows p f t) = map g t"
  by (induction t) auto

lemma update_rows_comp:
  "(\<And>r. q (if p r then f r else r) = q r) \<Longrightarrow>
   update_rows q g (update_rows p f t) =
   map (\<lambda>r. if q r then g (if p r then f r else r) else if p r then f r else r) t"
  by (induction t) auto


section \<open>Lists\<close>

lemma map_of_filter_in: "P k \<Longrightarrow> map_of (filter (\<lambda>(k, v). P k) xs) k = map_of xs k"
  by (induction xs) auto

lemma map_of_filter_out: "\<not> P k \<Longrightarrow> map_of (filter (\<lambda>(k, v). P k) xs) k = None"
  by (induction xs) auto

lemma distinct_map_filter: "distinct (map f xs) \<Longrightarrow> distinct (map f (filter p xs))"
  by (induction xs) auto

text \<open>The loop every normaliser of the code runs: drop an element already seen.\<close>

fun dedup :: "'a list \<Rightarrow> 'a list \<Rightarrow> 'a list" where
  "dedup seen [] = []"
| "dedup seen (x # xs) = (if x \<in> set seen then dedup seen xs else x # dedup (x # seen) xs)"

lemma set_dedup: "set (dedup seen xs) = set xs - set seen"
  by (induction seen xs rule: dedup.induct) auto

lemma distinct_dedup: "distinct (dedup seen xs)"
  by (induction seen xs rule: dedup.induct) (auto simp: set_dedup)

lemma dedup_id: "distinct xs \<Longrightarrow> set xs \<inter> set seen = {} \<Longrightarrow> dedup seen xs = xs"
  by (induction seen xs rule: dedup.induct) auto


section \<open>Keyed stores\<close>

text \<open>The interface of everything that is looked up by key and written by upsert: the objects
  of the cluster, the system configuration, the environment of a project. \<open>put_all\<close> is the
  loop that writes a list of pairs one after the other, as the code does.\<close>

fun put_all :: "('k \<Rightarrow> 'v \<Rightarrow> 's \<Rightarrow> 's) \<Rightarrow> ('k \<times> 'v) list \<Rightarrow> 's \<Rightarrow> 's" where
  "put_all put [] s = s"
| "put_all put ((k, v) # kvs) s = put_all put kvs (put k v s)"

locale kv_store =
  fixes get :: "'s \<Rightarrow> 'k \<Rightarrow> 'v option"
    and put :: "'k \<Rightarrow> 'v \<Rightarrow> 's \<Rightarrow> 's"
    and del :: "'k \<Rightarrow> 's \<Rightarrow> 's"
  assumes get_put: "get (put k v s) k' = (if k' = k then Some v else get s k')"
    and get_del: "get (del k s) k' = (if k' = k then None else get s k')"
begin

lemma get_put_all: "get (put_all put kvs s) k = (case map_of (rev kvs) k of Some v \<Rightarrow> Some v | None \<Rightarrow> get s k)"
proof (induction kvs arbitrary: s)
  case (Cons kv kvs)
  then show ?case
    by (cases kv) (simp add: get_put map_add_Some_iff split: option.split)
qed simp

lemma put_put: "get (put k v (put k u s)) = get (put k v s)"
  by (rule ext) (simp add: get_put)

lemma put_comm: "k \<noteq> l \<Longrightarrow> get (put k v (put l u s)) = get (put l u (put k v s))"
  by (rule ext) (simp add: get_put)

lemma del_put: "get (del k (put k v s)) = get (del k s)"
  by (rule ext) (simp add: get_put get_del)

lemma put_all_overwrites: "k \<in> fst ` set kvs \<Longrightarrow> get (put_all put kvs s) k = map_of (rev kvs) k"
  by (auto simp: get_put_all split: option.split dest!: map_of_eq_None_iff [THEN iffD1])

lemma put_all_keeps: "k \<notin> fst ` set kvs \<Longrightarrow> get (put_all put kvs s) k = get s k"
proof -
  assume "k \<notin> fst ` set kvs"
  then have "map_of (rev kvs) k = None" by (simp add: map_of_eq_None_iff)
  then show ?thesis by (simp add: get_put_all)
qed

end

end
