(* ===== verification/Go_Strings.thy ===== *)
theory Go_Strings
  imports Prelude "HOL-Library.List_Lexorder" "HOL-Library.Char_ord"
begin

text \<open>
  The part of Go's \<open>strings\<close> and \<open>strconv\<close> packages the control plane uses. A Go string
  is a sequence of bytes and so is an Isabelle \<open>string\<close>, so lengths and indices agree.
  The functions that Go defines on Unicode classes (\<open>TrimSpace\<close>, \<open>Fields\<close>, \<open>ToLower\<close>,
  \<open>EqualFold\<close>) are modelled on ASCII: a byte of 128 or more is neither white space nor a
  letter here. Everything below is executable.
\<close>

definition byte :: "char \<Rightarrow> nat" where
  "byte c = of_char c"

lemma byte_lt [simp]: "byte c < 256"
proof -
  have "byte c \<in> range (of_char :: char \<Rightarrow> nat)" by (simp add: byte_def)
  then show ?thesis by (simp add: range_nat_of_char)
qed

lemma byte_char_of [simp]: "n < 256 \<Longrightarrow> byte (char_of n) = n"
  by (simp add: byte_def)

lemma byte_eq_iff: "byte c = byte d \<longleftrightarrow> c = d"
  by (simp add: byte_def)

definition is_space :: "char \<Rightarrow> bool" where
  "is_space c = (c \<in> {CHR '' '', CHR 0x09, CHR 0x0A, CHR 0x0B, CHR 0x0C, CHR 0x0D})"

definition is_digit :: "char \<Rightarrow> bool" where
  "is_digit c = (48 \<le> byte c \<and> byte c \<le> 57)"

definition is_lower :: "char \<Rightarrow> bool" where
  "is_lower c = (97 \<le> byte c \<and> byte c \<le> 122)"

definition is_upper :: "char \<Rightarrow> bool" where
  "is_upper c = (65 \<le> byte c \<and> byte c \<le> 90)"

definition is_alnum :: "char \<Rightarrow> bool" where
  "is_alnum c = (is_lower c \<or> is_digit c)"

definition lower_char :: "char \<Rightarrow> char" where
  "lower_char c = (if is_upper c then char_of (byte c + 32) else c)"

definition ToLower :: "string \<Rightarrow> string" where
  "ToLower s = map lower_char s"

definition TrimLeftSpace :: "string \<Rightarrow> string" where
  "TrimLeftSpace s = dropWhile is_space s"

definition TrimSpace :: "string \<Rightarrow> string" where
  "TrimSpace s = rev (dropWhile is_space (rev (dropWhile is_space s)))"

text \<open>\<open>strings.TrimRight(s, "c")\<close> and \<open>strings.Trim(s, "c")\<close> for one cut-off byte.\<close>

definition TrimRight :: "char \<Rightarrow> string \<Rightarrow> string" where
  "TrimRight c s = rev (dropWhile (\<lambda>x. x = c) (rev s))"

definition Trim :: "char \<Rightarrow> string \<Rightarrow> string" where
  "Trim c s = TrimRight c (dropWhile (\<lambda>x. x = c) s)"

definition HasPrefix :: "string \<Rightarrow> string \<Rightarrow> bool" where
  "HasPrefix s p = (take (length p) s = p)"

definition HasSuffix :: "string \<Rightarrow> string \<Rightarrow> bool" where
  "HasSuffix s p = HasPrefix (rev s) (rev p)"

definition TrimPrefix :: "string \<Rightarrow> string \<Rightarrow> string" where
  "TrimPrefix s p = (if HasPrefix s p then drop (length p) s else s)"

definition TrimSuffix :: "string \<Rightarrow> string \<Rightarrow> string" where
  "TrimSuffix s p = (if HasSuffix s p then take (length s - length p) s else s)"

text \<open>\<open>strings.Index\<close>: the position of the first occurrence, \<open>None\<close> for Go's -1.\<close>

fun Index :: "string \<Rightarrow> string \<Rightarrow> nat option" where
  "Index [] sub = (if sub = [] then Some 0 else None)"
| "Index (c # s) sub =
     (if HasPrefix (c # s) sub then Some 0 else map_option Suc (Index s sub))"

definition Contains :: "string \<Rightarrow> string \<Rightarrow> bool" where
  "Contains s sub = (Index s sub \<noteq> None)"

definition ContainsAny :: "string \<Rightarrow> string \<Rightarrow> bool" where
  "ContainsAny s cs = (\<exists>c \<in> set s. c \<in> set cs)"

fun IndexByte :: "string \<Rightarrow> char \<Rightarrow> nat option" where
  "IndexByte [] b = None"
| "IndexByte (c # s) b = (if c = b then Some 0 else map_option Suc (IndexByte s b))"

definition LastIndexByte :: "string \<Rightarrow> char \<Rightarrow> nat option" where
  "LastIndexByte s b = map_option (\<lambda>i. length s - 1 - i) (IndexByte (rev s) b)"

definition ReplaceByte :: "char \<Rightarrow> char \<Rightarrow> string \<Rightarrow> string" where
  "ReplaceByte a b s = map (\<lambda>c. if c = a then b else c) s"

fun Join :: "string list \<Rightarrow> string \<Rightarrow> string" where
  "Join [] sep = []"
| "Join [x] sep = x"
| "Join (x # y # xs) sep = x @ sep @ Join (y # xs) sep"

text \<open>\<open>strings.Split(s, "c")\<close> for a one-byte separator.\<close>

fun SplitByte :: "char \<Rightarrow> string \<Rightarrow> string list" where
  "SplitByte b [] = [[]]"
| "SplitByte b (c # s) =
     (if c = b then [] # SplitByte b s
      else case SplitByte b s of [] \<Rightarrow> [[c]] | w # ws \<Rightarrow> (c # w) # ws)"

text \<open>\<open>strings.Fields\<close>: the maximal runs of non-space bytes.\<close>

definition Fields :: "string \<Rightarrow> string list" where
  "Fields s = filter (\<lambda>w. w \<noteq> []) (SplitByte (CHR '' '') (map (\<lambda>c. if is_space c then CHR '' '' else c) s))"

text \<open>The lines \<open>bufio.Scanner\<close> yields: split at newlines, a final empty piece is not a
  line, one trailing carriage return is dropped. Lines longer than the scanner's 64 KiB
  buffer, on which Go's scanner stops, are outside the model.\<close>

definition drop_cr :: "string \<Rightarrow> string" where
  "drop_cr s = (if s \<noteq> [] \<and> last s = CHR 0x0D then butlast s else s)"

definition scan_lines :: "string \<Rightarrow> string list" where
  "scan_lines s =
     (let ps = SplitByte (CHR 0x0A) s
      in map drop_cr (if last ps = [] then butlast ps else ps))"

definition EqualFold :: "string \<Rightarrow> string \<Rightarrow> bool" where
  "EqualFold s t = (ToLower s = ToLower t)"


section \<open>Numbers as text\<close>

definition digit_char :: "nat \<Rightarrow> char" where
  "digit_char d = char_of (48 + d)"

fun nat_str :: "nat \<Rightarrow> string" where
  "nat_str n = (if n < 10 then [digit_char n] else nat_str (n div 10) @ [digit_char (n mod 10)])"

declare nat_str.simps [simp del]

definition Itoa :: "int \<Rightarrow> string" where
  "Itoa i = (if i < 0 then CHR ''-'' # nat_str (nat (- i)) else nat_str (nat i))"

definition digits_val :: "string \<Rightarrow> nat" where
  "digits_val s = foldl (\<lambda>a c. 10 * a + (byte c - 48)) 0 s"

text \<open>\<open>strconv.Atoi\<close> on a 64-bit platform: an optional sign, at least one digit, and a
  value an \<open>int64\<close> holds; \<open>None\<close> is Go's error.\<close>

definition Atoi :: "string \<Rightarrow> int option" where
  "Atoi s =
     (let neg = (s \<noteq> [] \<and> hd s = CHR ''-'');
          ds = (if s \<noteq> [] \<and> hd s \<in> {CHR ''-'', CHR ''+''} then tl s else s);
          v = (if neg then - int (digits_val ds) else int (digits_val ds))
      in if ds \<noteq> [] \<and> list_all is_digit ds \<and> - (2 ^ 63) \<le> v \<and> v < 2 ^ 63
         then Some v else None)"


section \<open>Laws\<close>

lemma ToLower_append [simp]: "ToLower (s @ t) = ToLower s @ ToLower t"
  by (simp add: ToLower_def)

lemma ToLower_Nil_iff [simp]: "ToLower s = [] \<longleftrightarrow> s = []"
  by (simp add: ToLower_def)

lemma length_ToLower [simp]: "length (ToLower s) = length s"
  by (simp add: ToLower_def)

lemma lower_char_not_upper: "\<not> is_upper (lower_char c)"
  by (auto simp: lower_char_def is_upper_def)

lemma lower_char_idem [simp]: "lower_char (lower_char c) = lower_char c"
  using lower_char_not_upper [of c] by (simp add: lower_char_def)

lemma ToLower_idem [simp]: "ToLower (ToLower s) = ToLower s"
  by (simp add: ToLower_def)

lemma lower_char_alnum: "is_alnum c \<Longrightarrow> lower_char c = c"
  by (auto simp: lower_char_def is_alnum_def is_lower_def is_digit_def is_upper_def)

lemma ToLower_id: "(\<And>c. c \<in> set s \<Longrightarrow> \<not> is_upper c) \<Longrightarrow> ToLower s = s"
  by (simp add: ToLower_def lower_char_def map_idI)

lemma set_ToLower_not_upper: "c \<in> set (ToLower s) \<Longrightarrow> \<not> is_upper c"
  by (auto simp: ToLower_def lower_char_not_upper)

lemma HasPrefix_iff: "HasPrefix s p \<longleftrightarrow> (\<exists>r. s = p @ r)"
  by (metis HasPrefix_def append_eq_conv_conj append_take_drop_id)

lemma HasPrefix_append [simp]: "HasPrefix (p @ s) p"
  by (simp add: HasPrefix_def)

lemma HasPrefix_Nil [simp]: "HasPrefix s []"
  by (simp add: HasPrefix_def)

lemma HasPrefix_Cons [simp]: "HasPrefix (c # s) (d # p) \<longleftrightarrow> c = d \<and> HasPrefix s p"
  by (auto simp: HasPrefix_def)

lemma HasPrefix_Nil_Cons [simp]: "\<not> HasPrefix [] (d # p)"
  by (simp add: HasPrefix_def)

lemma HasSuffix_iff: "HasSuffix s p \<longleftrightarrow> (\<exists>r. s = r @ p)"
  unfolding HasSuffix_def HasPrefix_iff by (metis rev_append rev_rev_ident)

lemma TrimSuffix_append [simp]: "TrimSuffix (s @ p) p = s"
  using HasSuffix_iff [of "s @ p" p] by (simp add: TrimSuffix_def)

lemma TrimPrefix_append [simp]: "TrimPrefix (p @ s) p = s"
  by (simp add: TrimPrefix_def)

lemma set_dropWhile_subset: "set (dropWhile P s) \<subseteq> set s"
  by (meson set_dropWhileD subsetI)

lemma set_TrimSpace: "set (TrimSpace s) \<subseteq> set s"
  by (auto simp: TrimSpace_def dest!: set_dropWhileD)

lemma dropWhile_hd: "dropWhile P s = [] \<or> \<not> P (hd (dropWhile P s))"
  using hd_dropWhile by blast

lemma dropWhile_id: "s = [] \<or> \<not> P (hd s) \<Longrightarrow> dropWhile P s = s"
  by (cases s) auto

lemma TrimSpace_id:
  assumes "\<And>c. c \<in> set s \<Longrightarrow> \<not> is_space c"
  shows "TrimSpace s = s"
proof -
  have "dropWhile is_space s = s" by (rule dropWhile_id) (use assms in \<open>cases s; auto\<close>)
  moreover have "dropWhile is_space (rev s) = rev s"
    by (rule dropWhile_id) (use assms in \<open>cases s rule: rev_cases; auto\<close>)
  ultimately show ?thesis by (simp add: TrimSpace_def)
qed

lemma TrimSpace_idem [simp]: "TrimSpace (TrimSpace s) = TrimSpace s"
proof -
  define u where "u = dropWhile is_space s"
  define v where "v = rev (dropWhile is_space (rev u))"
  have u: "u = [] \<or> \<not> is_space (hd u)" unfolding u_def by (rule dropWhile_hd)
  obtain w where w: "u = v @ w"
    by (metis v_def rev_append rev_rev_ident takeWhile_dropWhile_id)
  have v1: "v = [] \<or> \<not> is_space (hd v)" using u w by (cases v) auto
  have v2: "rev v = [] \<or> \<not> is_space (hd (rev v))" by (simp only: v_def rev_rev_ident dropWhile_hd)
  from v1 have "dropWhile is_space v = v" by (rule dropWhile_id)
  moreover from v2 have "dropWhile is_space (rev v) = rev v" by (rule dropWhile_id)
  ultimately have "TrimSpace v = v" by (simp add: TrimSpace_def)
  then show ?thesis by (simp add: TrimSpace_def u_def v_def)
qed

lemma is_space_lower [simp]: "is_space (lower_char c) = is_space c"
proof (cases "is_upper c")
  case True
  then have "\<not> is_space c" by (auto simp: is_space_def is_upper_def byte_def)
  moreover have "byte (lower_char c) \<ge> 97"
    using True by (simp add: lower_char_def is_upper_def)
  then have "\<not> is_space (lower_char c)" by (auto simp: is_space_def byte_def)
  ultimately show ?thesis by simp
qed (simp add: lower_char_def)

lemma TrimSpace_ToLower: "TrimSpace (ToLower s) = ToLower (TrimSpace s)"
proof -
  have d: "dropWhile is_space (map lower_char u) = map lower_char (dropWhile is_space u)" for u
    by (simp add: dropWhile_map comp_def)
  show ?thesis by (simp add: TrimSpace_def ToLower_def d rev_map)
qed

lemma IndexByte_None: "IndexByte s b = None \<longleftrightarrow> b \<notin> set s"
  by (induction s) auto

lemma IndexByte_Some: "IndexByte s b = Some i \<Longrightarrow> i < length s \<and> s ! i = b \<and> b \<notin> set (take i s)"
  by (induction s arbitrary: i) (auto split: if_splits)

lemma IndexByte_append: "b \<notin> set s \<Longrightarrow> IndexByte (s @ b # t) b = Some (length s)"
  by (induction s) auto

lemma LastIndexByte_None: "LastIndexByte s b = None \<longleftrightarrow> b \<notin> set s"
  by (simp add: LastIndexByte_def IndexByte_None)

lemma LastIndexByte_append: "b \<notin> set t \<Longrightarrow> LastIndexByte (s @ b # t) b = Some (length s)"
  by (simp add: LastIndexByte_def IndexByte_append)

lemma Contains_single [simp]: "Contains s [c] \<longleftrightarrow> c \<in> set s"
  by (induction s) (auto simp: Contains_def)

lemma Contains_iff: "Contains s sub \<longleftrightarrow> (\<exists>u v. s = u @ sub @ v)"
proof (induction s)
  case Nil
  then show ?case by (auto simp: Contains_def)
next
  case (Cons c s)
  have "Contains (c # s) sub \<longleftrightarrow> HasPrefix (c # s) sub \<or> Contains s sub"
    by (simp add: Contains_def)
  also have "\<dots> \<longleftrightarrow> (\<exists>u v. c # s = u @ sub @ v)"
    unfolding Cons.IH HasPrefix_iff
    by (metis append_Cons append_Nil list.sel(3) neq_Nil_conv tl_append2)
  finally show ?case .
qed

lemma SplitByte_ne [simp]: "SplitByte b s \<noteq> []"
  by (induction s) (auto split: list.splits)

lemma SplitByte_no_sep: "w \<in> set (SplitByte b s) \<Longrightarrow> b \<notin> set w"
  by (induction s arbitrary: w) (auto split: if_splits list.splits)

lemma SplitByte_subset: "w \<in> set (SplitByte b s) \<Longrightarrow> set w \<subseteq> set s"
proof (induction s arbitrary: w)
  case (Cons c s)
  then show ?case
    by (cases "SplitByte b s") (auto split: if_splits, blast+)
qed simp

lemma SplitByte_single: "b \<notin> set s \<Longrightarrow> SplitByte b s = [s]"
  by (induction s) auto

lemma SplitByte_append_sep: "b \<notin> set s \<Longrightarrow> SplitByte b (s @ b # t) = s # SplitByte b t"
  by (induction s) auto

lemma Join_SplitByte [simp]: "Join (SplitByte b s) [b] = s"
proof (induction s)
  case (Cons c s)
  show ?case
  proof (cases "SplitByte b s")
    case Nil
    then show ?thesis by simp
  next
    case (Cons w ws)
    then show ?thesis using Cons.IH by (cases ws) auto
  qed
qed simp

lemma Fields_no_space:
  assumes "w \<in> set (Fields s)" and "c \<in> set w"
  shows "\<not> is_space c"
proof
  assume sp: "is_space c"
  let ?m = "map (\<lambda>c. if is_space c then CHR '' '' else c) s"
  from assms have w: "w \<in> set (SplitByte (CHR '' '') ?m)" by (simp add: Fields_def)
  from SplitByte_subset [OF w] assms(2) have "c \<in> set ?m" by blast
  with sp have "c = CHR '' ''" by (auto split: if_splits)
  with SplitByte_no_sep [OF w] assms(2) show False by simp
qed

lemma Fields_ne: "w \<in> set (Fields s) \<Longrightarrow> w \<noteq> []"
  by (simp add: Fields_def)

lemma set_ReplaceByte: "a \<notin> set (ReplaceByte a b s)" if "a \<noteq> b"
  using that by (auto simp: ReplaceByte_def)

lemma ReplaceByte_inj:
  assumes "ReplaceByte a b s = ReplaceByte a b t" and "b \<notin> set s" and "b \<notin> set t"
  shows "s = t"
  using assms
proof (induction s arbitrary: t)
  case Nil
  then show ?case by (simp add: ReplaceByte_def)
next
  case (Cons c s)
  then obtain d t' where t: "t = d # t'" by (cases t) (auto simp: ReplaceByte_def)
  with Cons have "s = t'" by (auto simp: ReplaceByte_def)
  moreover have "c = d" using Cons.prems t by (auto simp: ReplaceByte_def split: if_splits)
  ultimately show ?case by (simp add: t)
qed

lemma digit_char_digit: "d < 10 \<Longrightarrow> is_digit (digit_char d) \<and> byte (digit_char d) - 48 = d"
  by (simp add: is_digit_def digit_char_def)

lemma nat_str_ne [simp]: "nat_str n \<noteq> []"
  by (subst nat_str.simps) simp

lemma nat_str_digits: "list_all is_digit (nat_str n)"
proof (induction n rule: nat_str.induct)
  case (1 n)
  then show ?case
    by (subst nat_str.simps) (simp add: digit_char_digit)
qed

lemma digits_val_append: "digits_val (s @ [c]) = 10 * digits_val s + (byte c - 48)"
  by (simp add: digits_val_def)

lemma digits_val_nat_str [simp]: "digits_val (nat_str n) = n"
proof (induction n rule: nat_str.induct)
  case (1 n)
  show ?case
  proof (cases "n < 10")
    case True
    then show ?thesis
      by (subst nat_str.simps) (simp add: digits_val_def digit_char_digit)
  next
    case False
    then have "digits_val (nat_str n) = 10 * (n div 10) + n mod 10"
      using 1 by (subst nat_str.simps) (simp add: digits_val_append digit_char_digit)
    then show ?thesis by simp
  qed
qed

lemma nat_str_inj: "nat_str m = nat_str n \<Longrightarrow> m = n"
  by (metis digits_val_nat_str)

lemma hd_nat_str_digit: "is_digit (hd (nat_str n))"
  using nat_str_digits [of n] by (cases "nat_str n") (auto dest: arg_cong)

lemma Atoi_nat_str: "int n < 2 ^ 63 \<Longrightarrow> Atoi (nat_str n) = Some (int n)"
proof -
  assume n: "int n < 2 ^ 63"
  have "hd (nat_str n) \<notin> {CHR ''-'', CHR ''+''}"
    using hd_nat_str_digit [of n] by (auto simp: is_digit_def byte_def)
  with n show ?thesis by (simp add: Atoi_def nat_str_digits)
qed

lemma Atoi_Itoa: "- (2 ^ 63) \<le> i \<Longrightarrow> i < 2 ^ 63 \<Longrightarrow> Atoi (Itoa i) = Some i"
  using Atoi_nat_str [of "nat i"] nat_str_digits [of "nat (- i)"]
  by (auto simp: Itoa_def) (simp add: Atoi_def)

lemma Atoi_range: "Atoi s = Some v \<Longrightarrow> - (2 ^ 63) \<le> v \<and> v < 2 ^ 63"
  by (auto simp: Atoi_def Let_def split: if_splits)

text \<open>Two strings that end in the same separator-free tail agree before it: the fact behind
  every injectivity proof about names built with a separator.\<close>

lemma sep_append_inj:
  assumes "s @ b # t = s' @ b # t'" and "b \<notin> set s" and "b \<notin> set s'"
  shows "s = s' \<and> t = t'"
  using assms
proof (induction s arbitrary: s')
  case Nil
  then show ?case by (cases s') auto
next
  case (Cons c s)
  then show ?case by (cases s') auto
qed

lemma sep_append_inj_right:
  assumes "s @ b # t = s' @ b # t'" and "b \<notin> set t" and "b \<notin> set t'"
  shows "s = s' \<and> t = t'"
proof -
  from assms(1) have "rev t @ b # rev s = rev t' @ b # rev s'"
    by (metis append.assoc append_Cons append_Nil rev.simps(2) rev_append)
  from sep_append_inj [OF this] assms show ?thesis by simp
qed

end
