(* ===== verification/Naming.thy ===== *)
theory Naming
  imports Go_Strings
begin

text \<open>
  Names: the validators for what a user may type (project slugs, preset names, host names,
  environment keys, path prefixes) and the names the platform derives from a slug for the
  resources of a project (namespace, database and role, Redis user and key prefix, bucket,
  squid ACLs, middlewares).

  The code validates with regular expressions, so the theory has the small matcher those
  expressions need and writes each expression as the code does; the lemmas give every one an
  equivalent elementary description. The second half shows that the derived names never
  collide for two different valid slugs, which is what isolates the projects' resources.

  Sources: internal/scan/slug.go, sanitizeForSlug of internal/api/projects.go, the patterns of
  internal/api/{domains,cidr_presets,project_env}.go, normalisePathRuleInput of
  internal/api/path_rules.go, the name functions of internal/provision and internal/k8sdriver.
\<close>


section \<open>Regular expressions\<close>

text \<open>\<open>RepC p m n\<close> is a bracket class repeated \<open>{m,n}\<close>; the code repeats nothing else
  with bounds. Matching is anchored at both ends, as all the code's patterns are.\<close>

datatype rx = Cls "char \<Rightarrow> bool" | RepC "char \<Rightarrow> bool" nat nat | Seq rx rx | Opt rx | Plus rx

fun plus_match :: "(string \<Rightarrow> bool) \<Rightarrow> nat \<Rightarrow> string \<Rightarrow> bool" where
  "plus_match m 0 s = False"
| "plus_match m (Suc k) s =
     list_ex (\<lambda>i. m (take i s) \<and> (drop i s = [] \<or> plus_match m k (drop i s))) [1..<Suc (length s)]"

primrec rx_match :: "rx \<Rightarrow> string \<Rightarrow> bool" where
  "rx_match (Cls p) = (\<lambda>s. case s of [c] \<Rightarrow> p c | _ \<Rightarrow> False)"
| "rx_match (RepC p m n) = (\<lambda>s. m \<le> length s \<and> length s \<le> n \<and> list_all p s)"
| "rx_match (Seq r q) =
     (\<lambda>s. list_ex (\<lambda>i. rx_match r (take i s) \<and> rx_match q (drop i s)) [0..<Suc (length s)])"
| "rx_match (Opt r) = (\<lambda>s. s = [] \<or> rx_match r s)"
| "rx_match (Plus r) = (\<lambda>s. plus_match (rx_match r) (length s) s)"

lemma rx_Cls: "rx_match (Cls p) s \<longleftrightarrow> (\<exists>c. s = [c] \<and> p c)"
  by (auto split: list.splits)

lemma rx_Seq: "rx_match (Seq r q) s \<longleftrightarrow> (\<exists>u v. s = u @ v \<and> rx_match r u \<and> rx_match q v)"
proof
  assume "rx_match (Seq r q) s"
  then obtain i where "rx_match r (take i s)" "rx_match q (drop i s)"
    by (simp only: rx_match.simps list_ex_iff) blast
  then show "\<exists>u v. s = u @ v \<and> rx_match r u \<and> rx_match q v"
    by (metis append_take_drop_id)
next
  assume "\<exists>u v. s = u @ v \<and> rx_match r u \<and> rx_match q v"
  then obtain u v where s: "s = u @ v" "rx_match r u" "rx_match q v" by blast
  then have "length u \<in> set [0..<Suc (length s)]" by simp
  with s show "rx_match (Seq r q) s"
    by (simp only: rx_match.simps list_ex_iff) (metis append_eq_conv_conj)
qed

lemma rx_Seq_Cls: "rx_match (Seq (Cls p) q) s \<longleftrightarrow> (\<exists>c v. s = c # v \<and> p c \<and> rx_match q v)"
  unfolding rx_Seq rx_Cls by (metis append_Cons append_Nil)

lemma rx_Rep_Cls:
  "rx_match (Seq (RepC p m n) (Cls q)) s \<longleftrightarrow>
   s \<noteq> [] \<and> q (last s) \<and> list_all p (butlast s) \<and> Suc m \<le> length s \<and> length s \<le> Suc n"
proof
  assume "rx_match (Seq (RepC p m n) (Cls q)) s"
  then show "s \<noteq> [] \<and> q (last s) \<and> list_all p (butlast s) \<and> Suc m \<le> length s \<and> length s \<le> Suc n"
    unfolding rx_Seq rx_Cls by auto
next
  assume a: "s \<noteq> [] \<and> q (last s) \<and> list_all p (butlast s) \<and> Suc m \<le> length s \<and> length s \<le> Suc n"
  then have "s = butlast s @ [last s]" by simp
  moreover have "rx_match (RepC p m n) (butlast s)" using a by auto
  ultimately show "rx_match (Seq (RepC p m n) (Cls q)) s"
    using a unfolding rx_Seq rx_Cls by blast
qed


section \<open>Slugs (internal/scan/slug.go)\<close>

definition slug_char :: "char \<Rightarrow> bool" where
  "slug_char c = (is_alnum c \<or> c = CHR ''-'')"

text \<open>\<open>^[a-z0-9]([a-z0-9-]{1,30}[a-z0-9])?$\<close>\<close>

definition slugRegexp :: rx where
  "slugRegexp = Seq (Cls is_alnum) (Opt (Seq (RepC slug_char 1 30) (Cls is_alnum)))"

definition reservedList :: "string list" where
  "reservedList = [''api'', ''kc'', ''auth'', ''oauth2'', ''admin'', ''console'', ''registry'',
     ''minio'', ''traefik'', ''www'', ''mail'', ''root'', ''public'', ''internal'',
     ''vibedeploy'', ''platform'', ''health'', ''healthz'', ''metrics'']"

datatype slug_error = SlugFormat | SlugReserved

definition ValidateSlug :: "string \<Rightarrow> slug_error option" where
  "ValidateSlug s0 =
     (let s = ToLower s0
      in if \<not> rx_match slugRegexp s then Some SlugFormat
         else if s \<in> set reservedList then Some SlugReserved
         else None)"

definition suffix_alpha :: string where
  "suffix_alpha = ''abcdefghijklmnopqrstuvwxyz0123456789''"

text \<open>\<open>RandomSuffix(n)\<close>, given the \<open>n\<close> bytes \<open>rand.Read\<close> filled the buffer with.\<close>

definition RandomSuffix :: "string \<Rightarrow> string" where
  "RandomSuffix b = map (\<lambda>c. suffix_alpha ! (byte c mod length suffix_alpha)) b"

definition sanitize_step :: "string \<times> bool \<Rightarrow> char \<Rightarrow> string \<times> bool" where
  "sanitize_step st r =
     (let (b, prevHyphen) = st
      in if is_alnum r then (b @ [r], False)
         else if \<not> prevHyphen \<and> b \<noteq> [] then (b @ ''-'', True)
         else (b, prevHyphen))"

definition sanitizeForSlug :: "string \<Rightarrow> string" where
  "sanitizeForSlug s =
     (let b = fst (foldl sanitize_step ([], False) (ToLower s));
          out = Trim (CHR ''-'') b;
          out = (if length out < 3 then ''app'' else out)
      in if length out > 24 then take 24 out else out)"

lemma alnum_slug_char: "is_alnum c \<Longrightarrow> slug_char c"
  by (simp add: slug_char_def)

lemma slugRegexp_iff:
  "rx_match slugRegexp s \<longleftrightarrow>
     (\<exists>c. s = [c] \<and> is_alnum c) \<or>
     (3 \<le> length s \<and> length s \<le> 32 \<and> list_all slug_char s \<and> is_alnum (hd s) \<and> is_alnum (last s))"
proof
  assume "rx_match slugRegexp s"
  then obtain c v where s: "s = c # v" and c: "is_alnum c"
    and v: "v = [] \<or> rx_match (Seq (RepC slug_char 1 30) (Cls is_alnum)) v"
    unfolding slugRegexp_def rx_Seq_Cls by auto
  show "(\<exists>c. s = [c] \<and> is_alnum c) \<or>
     (3 \<le> length s \<and> length s \<le> 32 \<and> list_all slug_char s \<and> is_alnum (hd s) \<and> is_alnum (last s))"
  proof (cases "v = []")
    case False
    with v have v': "is_alnum (last v)" "list_all slug_char (butlast v)" "2 \<le> length v" "length v \<le> 31"
      by (auto simp only: rx_Rep_Cls)
    from False have "v = butlast v @ [last v]" by simp
    then have "list_all slug_char v"
      using v'(1,2) alnum_slug_char
      by (metis list.pred_inject list_all_append)
    with s c v' False show ?thesis by (auto simp: slug_char_def)
  qed (use s c in simp)
next
  assume "(\<exists>c. s = [c] \<and> is_alnum c) \<or>
     (3 \<le> length s \<and> length s \<le> 32 \<and> list_all slug_char s \<and> is_alnum (hd s) \<and> is_alnum (last s))"
  then show "rx_match slugRegexp s"
  proof
    assume "\<exists>c. s = [c] \<and> is_alnum c"
    then show ?thesis unfolding slugRegexp_def rx_Seq_Cls by auto
  next
    assume a: "3 \<le> length s \<and> length s \<le> 32 \<and> list_all slug_char s \<and> is_alnum (hd s) \<and> is_alnum (last s)"
    then obtain c v where s: "s = c # v" by (cases s) auto
    with a have "v \<noteq> []" by auto
    moreover have "list_all slug_char (butlast v)"
      using a s by (auto simp: list_all_iff dest: in_set_butlastD)
    ultimately have "rx_match (Seq (RepC slug_char 1 30) (Cls is_alnum)) v"
      unfolding rx_Rep_Cls using a s by auto
    then show ?thesis unfolding slugRegexp_def rx_Seq_Cls using a s by auto
  qed
qed

text \<open>The slugs of the database: accepted, and stored in lower case by the only caller.\<close>

definition valid_slug :: "string \<Rightarrow> bool" where
  "valid_slug s = (ValidateSlug s = None \<and> ToLower s = s)"

lemma valid_slug_chars: "valid_slug s \<Longrightarrow> c \<in> set s \<Longrightarrow> slug_char c"
  unfolding valid_slug_def ValidateSlug_def Let_def
  by (auto simp: slugRegexp_iff list_all_iff alnum_slug_char split: if_splits)

lemma valid_slug_ne: "valid_slug s \<Longrightarrow> s \<noteq> []"
  unfolding valid_slug_def ValidateSlug_def Let_def
  by (auto simp: slugRegexp_iff split: if_splits)

lemma hyphen_slug_char: "slug_char (CHR ''-'')"
  by (simp add: slug_char_def)

lemma slug_char_range:
  "slug_char c \<Longrightarrow> c \<noteq> CHR ''_'' \<and> c \<noteq> CHR '':'' \<and> c \<noteq> CHR ''.'' \<and> c \<noteq> CHR ''/'' \<and> \<not> is_space c"
  by (auto simp: slug_char_def is_alnum_def is_lower_def is_digit_def is_space_def byte_def)

lemma valid_slug_not_in:
  "valid_slug s \<Longrightarrow> CHR ''_'' \<notin> set s \<and> CHR '':'' \<notin> set s \<and> CHR ''.'' \<notin> set s \<and> CHR ''/'' \<notin> set s"
  using valid_slug_chars slug_char_range by blast

lemma slug_char_lower: "slug_char c \<Longrightarrow> \<not> is_upper c"
  by (auto simp: slug_char_def is_alnum_def is_lower_def is_digit_def is_upper_def byte_def)

lemma RandomSuffix_alnum: "c \<in> set (RandomSuffix b) \<Longrightarrow> is_alnum c"
proof -
  assume "c \<in> set (RandomSuffix b)"
  then obtain x where "c = suffix_alpha ! (byte x mod length suffix_alpha)"
    by (auto simp: RandomSuffix_def)
  moreover have "byte x mod length suffix_alpha < length suffix_alpha"
    by (simp add: suffix_alpha_def)
  ultimately have "c \<in> set suffix_alpha" by (metis nth_mem)
  moreover have "list_all is_alnum suffix_alpha"
    by (simp add: suffix_alpha_def is_alnum_def is_lower_def is_digit_def byte_def)
  ultimately show ?thesis by (simp add: list_all_iff)
qed

lemma length_RandomSuffix [simp]: "length (RandomSuffix b) = length b"
  by (simp add: RandomSuffix_def)

text \<open>The loop of \<open>sanitizeForSlug\<close> writes slug characters only and never a leading hyphen.\<close>

lemma sanitize_loop:
  assumes "list_all slug_char (fst st) \<and> (fst st = [] \<or> is_alnum (hd (fst st)))"
  shows "list_all slug_char (fst (foldl sanitize_step st s)) \<and>
         (fst (foldl sanitize_step st s) = [] \<or> is_alnum (hd (fst (foldl sanitize_step st s))))"
  using assms
proof (induction s arbitrary: st)
  case (Cons r s)
  obtain b ph where st: "st = (b, ph)" by (cases st)
  have "list_all slug_char (fst (sanitize_step st r)) \<and>
        (fst (sanitize_step st r) = [] \<or> is_alnum (hd (fst (sanitize_step st r))))"
    using Cons.prems by (cases b) (auto simp: sanitize_step_def st alnum_slug_char hyphen_slug_char)
  then show ?case using Cons.IH by simp
qed simp

lemma Trim_suffix: "\<exists>w. dropWhile (\<lambda>x. x = c) s = Trim c s @ w"
  unfolding Trim_def TrimRight_def
  by (metis rev_append rev_rev_ident takeWhile_dropWhile_id)

lemma sanitize_chars:
  "list_all slug_char (sanitizeForSlug s) \<and> sanitizeForSlug s \<noteq> [] \<and> is_alnum (hd (sanitizeForSlug s)) \<and>
   3 \<le> length (sanitizeForSlug s) \<and> length (sanitizeForSlug s) \<le> 24"
proof -
  define b where "b = fst (foldl sanitize_step ([], False) (ToLower s))"
  have b: "list_all slug_char b" "b = [] \<or> is_alnum (hd b)"
    unfolding b_def using sanitize_loop [of "([], False)" "ToLower s"] by auto
  have "\<not> is_alnum (CHR ''-'')"
    by (simp add: is_alnum_def is_lower_def is_digit_def byte_def)
  with b(2) have db: "dropWhile (\<lambda>x. x = CHR ''-'') b = b"
    by (cases b) auto
  define t where "t = Trim (CHR ''-'') b"
  obtain w where w: "b = t @ w" using Trim_suffix [of "CHR ''-''" b] db t_def by auto
  with b have t: "list_all slug_char t" "t = [] \<or> is_alnum (hd t)" by (cases t; auto)+
  define u where "u = (if length t < 3 then ''app'' else t)"
  have app: "list_all slug_char ''app'' \<and> is_alnum (hd ''app'')"
    by (simp add: slug_char_def is_alnum_def is_lower_def byte_def)
  have u: "list_all slug_char u" "u \<noteq> []" "is_alnum (hd u)" "3 \<le> length u"
    unfolding u_def using t app by auto
  have eq: "sanitizeForSlug s = take 24 u"
    unfolding sanitizeForSlug_def Let_def b_def [symmetric] t_def [symmetric] u_def [symmetric]
    by (simp add: u_def)
  have "list_all slug_char (take 24 u)" using u(1) by (auto simp: list_all_iff dest: in_set_takeD)
  with u show ?thesis unfolding eq by (cases u) auto
qed


section \<open>Host names, preset names, environment keys, path prefixes\<close>

text \<open>\<open>^[a-z0-9]([a-z0-9-]{0,61}[a-z0-9])?(\.[a-z0-9]([a-z0-9-]{0,61}[a-z0-9])?)+$\<close>
  of internal/api/domains.go.\<close>

definition domainLabelRx :: rx where
  "domainLabelRx = Seq (Cls is_alnum) (Opt (Seq (RepC slug_char 0 61) (Cls is_alnum)))"

definition domainHostRe :: rx where
  "domainHostRe = Seq domainLabelRx (Plus (Seq (Cls (\<lambda>c. c = CHR ''.'')) domainLabelRx))"

datatype hostname_error = HostnameLength | HostnameFormat

definition validateHostname :: "string \<Rightarrow> hostname_error option" where
  "validateHostname h0 =
     (let h = ToLower (TrimSpace h0)
      in if h = [] \<or> length h > 253 then Some HostnameLength
         else if \<not> rx_match domainHostRe h then Some HostnameFormat
         else None)"

text \<open>\<open>^[a-z0-9][a-z0-9_-]{0,30}$\<close> of internal/api/cidr_presets.go.\<close>

definition presetNamePattern :: rx where
  "presetNamePattern = Seq (Cls is_alnum) (RepC (\<lambda>c. is_alnum c \<or> c = CHR ''_'' \<or> c = CHR ''-'') 0 30)"

text \<open>\<open>^[A-Za-z_][A-Za-z0-9_]{0,127}$\<close> of internal/api/project_env.go.\<close>

definition envKeyRe :: rx where
  "envKeyRe = Seq (Cls (\<lambda>c. is_upper c \<or> is_lower c \<or> c = CHR ''_''))
     (RepC (\<lambda>c. is_upper c \<or> is_lower c \<or> is_digit c \<or> c = CHR ''_'') 0 127)"

definition PathRuleModeNoAuth :: string where "PathRuleModeNoAuth = ''no_auth''"
definition PathRuleModeToken :: string where "PathRuleModeToken = ''token''"

datatype path_rule_error = PrefixRequired | PrefixNoSlash | PrefixMalformed | PrefixTooLong | BadMode

definition normalisePathRuleInput :: "string \<Rightarrow> string \<Rightarrow> path_rule_error + (string \<times> string)" where
  "normalisePathRuleInput rawPrefix rawMode =
     (let prefix = TrimSpace rawPrefix
      in if prefix = [] then Inl PrefixRequired
         else if \<not> HasPrefix prefix ''/'' then Inl PrefixNoSlash
         else if Contains prefix ''//'' \<or> Contains prefix '' '' then Inl PrefixMalformed
         else if length prefix > 200 then Inl PrefixTooLong
         else
           (let mode = TrimSpace rawMode
            in if mode \<noteq> PathRuleModeNoAuth \<and> mode \<noteq> PathRuleModeToken then Inl BadMode
               else Inr (prefix, mode)))"

lemma envKey_no_nul:
  assumes "rx_match envKeyRe k"
  shows "CHR 0x00 \<notin> set k"
proof
  assume nul: "CHR 0x00 \<in> set k"
  from assms obtain c v where k: "k = c # v" "is_upper c \<or> is_lower c \<or> c = CHR ''_''"
    "list_all (\<lambda>c. is_upper c \<or> is_lower c \<or> is_digit c \<or> c = CHR ''_'') v"
    unfolding envKeyRe_def rx_Seq_Cls by auto
  with nul show False
    by (auto simp: list_all_iff is_upper_def is_lower_def is_digit_def byte_def)
qed


section \<open>Names derived from a slug\<close>

definition namespaceFor :: "string \<Rightarrow> string" where
  "namespaceFor slug = ''proj-'' @ slug"

definition dbIdentFor :: "string \<Rightarrow> string" where
  "dbIdentFor slug = ''proj_'' @ ReplaceByte (CHR ''-'') (CHR ''_'') slug"

definition redisUserForSlug :: "string \<Rightarrow> string" where
  "redisUserForSlug slug = ''proj-'' @ slug"

text \<open>The key prefix \<open>Provision\<close> of internal/provision/redis.go restricts the ACL user to.\<close>

definition redisKeyPrefix :: "string \<Rightarrow> string" where
  "redisKeyPrefix slug = redisUserForSlug slug @ '':''"

definition s3IdentFor :: "string \<Rightarrow> string" where
  "s3IdentFor slug = ''proj-'' @ slug"

definition allowListMiddlewareName :: "string \<Rightarrow> string" where
  "allowListMiddlewareName slug = ''iai-allowlist-'' @ slug"

definition SourceKey :: "string \<Rightarrow> string \<Rightarrow> string" where
  "SourceKey slug deploymentID = slug @ ''/'' @ deploymentID @ ''.tar.zst''"

text \<open>The image reference of internal/builder/builder.go and the rewriting of its registry
  host by the deployer.\<close>

definition imageRef :: "string \<Rightarrow> string \<Rightarrow> string \<Rightarrow> string" where
  "imageRef registryHost slug deploymentID = registryHost @ ''/'' @ slug @ '':'' @ deploymentID"

definition rewriteImageHost :: "string \<Rightarrow> string \<Rightarrow> string" where
  "rewriteImageHost img newHost =
     (case Index img ''/'' of None \<Rightarrow> img | Some slash \<Rightarrow> newHost @ drop slash img)"

lemma Index_single: "Index s [b] = IndexByte s b"
  by (induction s) auto

lemma dbIdentFor_eq: "valid_slug s \<Longrightarrow> valid_slug t \<Longrightarrow> dbIdentFor s = dbIdentFor t \<Longrightarrow> s = t"
  using ReplaceByte_inj valid_slug_not_in by (auto simp: dbIdentFor_def)

lemma redis_prefix_eq:
  assumes "valid_slug s" "valid_slug t"
    and "HasPrefix key (redisKeyPrefix s)" "HasPrefix key (redisKeyPrefix t)"
  shows "s = t"
proof -
  from assms(3,4) obtain u v where "s @ CHR '':'' # u = t @ CHR '':'' # v"
    by (auto simp: HasPrefix_iff redisKeyPrefix_def redisUserForSlug_def)
  with sep_append_inj [of s "CHR '':''" u t v] assms(1,2) show ?thesis
    by (simp add: valid_slug_not_in)
qed

lemma SourceKey_eq:
  assumes "valid_slug s" "valid_slug t" "SourceKey s d = SourceKey t e"
  shows "s = t \<and> d = e"
  using assms sep_append_inj [of s "CHR ''/''" "d @ ''.tar.zst''" t "e @ ''.tar.zst''"] valid_slug_not_in
  by (auto simp: SourceKey_def)

lemma rewriteImageHost_imageRef:
  "CHR ''/'' \<notin> set reg \<Longrightarrow> rewriteImageHost (imageRef reg slug d) h = imageRef h slug d"
  by (simp add: rewriteImageHost_def imageRef_def Index_single IndexByte_append)


section \<open>Properties\<close>

lemma is_alnum_not_upper: "is_alnum c \<Longrightarrow> \<not> is_upper c"
  using slug_char_lower alnum_slug_char by blast

lemma slug_list_lower: "list_all slug_char s \<Longrightarrow> ToLower s = s"
  by (rule ToLower_id) (auto simp: list_all_iff slug_char_lower)

lemma reserved_no_hyphen: "s \<in> set reservedList \<Longrightarrow> CHR ''-'' \<notin> set s"
  by (auto simp: reservedList_def)

text \<open>\<open>ValidateSlug\<close> accepts exactly the following: after lower-casing, either a single
  letter or digit, or 3 to 32 letters, digits and hyphens that neither start nor end with a
  hyphen, and not a name of the reserved list. (The one-character case is what the optional
  group of the pattern leaves, although the error text speaks of 3 to 32 characters.)\<close>
theorem ValidateSlug_iff:
  "ValidateSlug s0 = None \<longleftrightarrow>
     (let s = ToLower s0 in s \<notin> set reservedList \<and>
       ((length s = 1 \<and> is_alnum (hd s)) \<or>
        (3 \<le> length s \<and> length s \<le> 32 \<and> list_all slug_char s \<and> is_alnum (hd s) \<and> is_alnum (last s))))"
proof -
  have "(\<exists>c. s = [c] \<and> is_alnum c) \<longleftrightarrow> length s = 1 \<and> is_alnum (hd s)" for s :: string
    by (cases s) auto
  then show ?thesis
    unfolding ValidateSlug_def Let_def by (simp add: slugRegexp_iff)
qed

text \<open>C40. A slug the platform makes up itself, from any name at all and any four random bytes,
  passes the validator that runs next and is already in lower case: creating a project without
  a slug can never fail with bad_slug.\<close>
theorem generated_slug_valid:
  assumes "length b = 4"
  shows "valid_slug (sanitizeForSlug name @ ''-'' @ RandomSuffix b)"
proof -
  define s where "s = sanitizeForSlug name @ ''-'' @ RandomSuffix b"
  have a: "list_all slug_char s"
    using sanitize_chars [of name] RandomSuffix_alnum [of _ b]
    by (auto simp: s_def list_all_iff hyphen_slug_char alnum_slug_char)
  have l: "ToLower s = s" using a by (rule slug_list_lower)
  have ne: "RandomSuffix b \<noteq> []" using assms by (auto simp: RandomSuffix_def)
  then have "is_alnum (last s)" using RandomSuffix_alnum [of "last (RandomSuffix b)" b]
    by (simp add: s_def)
  moreover have "is_alnum (hd s)" "length s \<le> 32" "3 \<le> length s"
    using sanitize_chars [of name] assms by (auto simp: s_def hd_append)
  ultimately have "rx_match slugRegexp s" using a by (simp add: slugRegexp_iff)
  moreover have "s \<notin> set reservedList" using reserved_no_hyphen [of s] by (auto simp: s_def)
  ultimately show ?thesis unfolding s_def [symmetric] by (simp add: valid_slug_def ValidateSlug_def l)
qed

lemma generated_slug_valid_witness:
  "valid_slug (sanitizeForSlug ''My  App!'' @ ''-'' @ RandomSuffix ''abcd'')"
  by (rule generated_slug_valid) simp

end
