(* ===== verification/Netaddr.thy ===== *)
theory Netaddr
  imports Go_Strings
begin

text \<open>
  The part of Go's \<open>net\<close> and \<open>net/netip\<close> packages the platform uses to decide what an
  address list means: \<open>ParseIP\<close>, \<open>ParseCIDR\<close>, \<open>IPNet.Contains\<close>, \<open>IP.To4\<close>, the address
  classes, \<open>SplitHostPort\<close> and \<open>JoinHostPort\<close>. On top of it the three CIDR functions of
  internal/api/project_actions.go that every handler taking an address list shares:
  \<open>hasWorldCIDR\<close>, \<open>normaliseCIDR\<close> and \<open>normaliseCIDRs\<close>.

  A parsed address keeps the family it was written in (\<open>A4\<close>, \<open>A6\<close>), as \<open>netip.Addr\<close> does;
  a \<open>net.IP\<close> is its 16-byte value as a number below \<open>2 ^ 128\<close>, where an IPv4 address is the
  IPv4-mapped one. Scoped addresses (with a \<open>%zone\<close>) are rejected by both parsers.
\<close>


section \<open>Parsing addresses\<close>

datatype addr = A4 nat | A6 nat

definition is_hex :: "char \<Rightarrow> bool" where
  "is_hex c = (is_digit c \<or> (97 \<le> byte c \<and> byte c \<le> 102) \<or> (65 \<le> byte c \<and> byte c \<le> 70))"

definition hex_val :: "char \<Rightarrow> nat" where
  "hex_val c = (if is_digit c then byte c - 48 else if 97 \<le> byte c then byte c - 87 else byte c - 55)"

definition bytes_val :: "nat list \<Rightarrow> nat" where
  "bytes_val bs = foldl (\<lambda>a b. 256 * a + b) 0 bs"

text \<open>\<open>parseIPv4Fields\<close>: four dot-separated decimal fields without leading zeros, each at
  most 255.\<close>

definition v4_field :: "string \<Rightarrow> nat option" where
  "v4_field f =
     (if f \<noteq> [] \<and> list_all is_digit f \<and> \<not> (length f > 1 \<and> hd f = CHR ''0'') \<and> digits_val f \<le> 255
      then Some (digits_val f) else None)"

definition parseIPv4Fields :: "string \<Rightarrow> nat list option" where
  "parseIPv4Fields s =
     (case map v4_field (SplitByte (CHR ''.'') s) of
        [Some a, Some b, Some c, Some d] \<Rightarrow> Some [a, b, c, d]
      | _ \<Rightarrow> None)"

text \<open>The loop of \<open>parseIPv6\<close>: one 16-bit group per turn, eight turns at most. \<open>ip\<close> is
  what has been written of the 16 bytes, \<open>e\<close> the position of the \<open>::\<close>.\<close>

fun v6_loop :: "nat \<Rightarrow> string \<Rightarrow> nat list \<Rightarrow> nat option \<Rightarrow> (nat list \<times> nat option \<times> string) option" where
  "v6_loop 0 s ip e = Some (ip, e, s)"
| "v6_loop (Suc k) s ip e =
     (let h = takeWhile is_hex s; off = length h; rest = drop off s;
          acc = foldl (\<lambda>a c. 16 * a + hex_val c) 0 h
      in if off > 4 \<or> off = 0 then None
         else if rest \<noteq> [] \<and> hd rest = CHR ''.'' then
           (if e = None \<and> length ip \<noteq> 12 then None
            else if length ip + 4 > 16 then None
            else case parseIPv4Fields s of None \<Rightarrow> None | Some fs \<Rightarrow> Some (ip @ fs, e, []))
         else
           (let ip' = ip @ [acc div 256, acc mod 256]
            in case rest of
                 [] \<Rightarrow> Some (ip', e, [])
               | c # r \<Rightarrow>
                   if c \<noteq> CHR '':'' \<or> r = [] then None
                   else if hd r = CHR '':'' then
                     (if e \<noteq> None then None
                      else if tl r = [] then Some (ip', Some (length ip'), [])
                      else v6_loop k (tl r) ip' (Some (length ip')))
                   else v6_loop k r ip' e))"

definition parseIPv6 :: "string \<Rightarrow> nat option" where
  "parseIPv6 s0 =
     (let ell = HasPrefix s0 ''::''; s = (if ell then drop 2 s0 else s0)
      in if ell \<and> s = [] then Some 0
         else case v6_loop 8 s [] (if ell then Some 0 else None) of
           None \<Rightarrow> None
         | Some (ip, e, rest) \<Rightarrow>
             if rest \<noteq> [] then None
             else if length ip < 16 then
               (case e of None \<Rightarrow> None
                | Some p \<Rightarrow> Some (bytes_val (take p ip @ replicate (16 - length ip) 0 @ drop p ip)))
             else if e \<noteq> None then None
             else Some (bytes_val ip))"

text \<open>\<open>netip.ParseAddr\<close>, for addresses without a zone: the first dot, colon or percent
  sign decides the family.\<close>

definition ParseAddr :: "string \<Rightarrow> addr option" where
  "ParseAddr s =
     (if CHR ''%'' \<in> set s then None
      else case find (\<lambda>c. c = CHR ''.'' \<or> c = CHR '':'') s of
        None \<Rightarrow> None
      | Some c \<Rightarrow>
          if c = CHR ''.'' then map_option (\<lambda>fs. A4 (bytes_val fs)) (parseIPv4Fields s)
          else map_option A6 (parseIPv6 s))"

text \<open>\<open>As16\<close>: an IPv4 address becomes the mapped one \<open>::ffff:a.b.c.d\<close>.\<close>

definition v4_base :: nat where
  "v4_base = 65535 * 2 ^ 32"

definition As16 :: "addr \<Rightarrow> nat" where
  "As16 a = (case a of A4 v \<Rightarrow> v4_base + v | A6 v \<Rightarrow> v)"

definition BitLen :: "addr \<Rightarrow> nat" where
  "BitLen a = (case a of A4 _ \<Rightarrow> 32 | A6 _ \<Rightarrow> 128)"

definition ParseIP :: "string \<Rightarrow> nat option" where
  "ParseIP s = map_option As16 (ParseAddr s)"

definition To4 :: "nat \<Rightarrow> nat option" where
  "To4 v = (if v div 2 ^ 32 = 65535 then Some (v mod 2 ^ 32) else None)"


section \<open>Networks\<close>

text \<open>\<open>net_bits\<close> is the length of the mask in bits (32 or 128), \<open>net_ones\<close> its leading ones,
  \<open>net_ip\<close> the masked address as a number of that width.\<close>

record ipnet =
  net_bits :: nat
  net_ones :: nat
  net_ip :: nat

definition mask_to :: "nat \<Rightarrow> nat \<Rightarrow> nat \<Rightarrow> nat" where
  "mask_to bits ones v = (v div 2 ^ (bits - ones)) * 2 ^ (bits - ones)"

text \<open>\<open>dtoi\<close>, used on the prefix length; 0xFFFFFF is its overflow bound.\<close>

definition dtoi :: "string \<Rightarrow> nat option" where
  "dtoi s = (if s \<noteq> [] \<and> list_all is_digit s \<and> digits_val s < 16777215
             then Some (digits_val s) else None)"

definition ParseCIDR :: "string \<Rightarrow> (nat \<times> ipnet) option" where
  "ParseCIDR s =
     (case IndexByte s (CHR ''/'') of
        None \<Rightarrow> None
      | Some i \<Rightarrow>
          (case ParseAddr (take i s) of
             None \<Rightarrow> None
           | Some a \<Rightarrow>
               (case dtoi (drop (Suc i) s) of
                  None \<Rightarrow> None
                | Some n \<Rightarrow>
                    if n > BitLen a then None
                    else Some (As16 a,
                      \<lparr>net_bits = BitLen a, net_ones = n,
                       net_ip = mask_to (BitLen a) n (case a of A4 v \<Rightarrow> v | A6 v \<Rightarrow> v)\<rparr>))))"

definition network_number :: "ipnet \<Rightarrow> nat \<times> nat \<times> nat" where
  "network_number n =
     (if net_bits n = 32 then (32, net_ones n, net_ip n)
      else case To4 (net_ip n) of
        Some x \<Rightarrow> (32, net_ones n - 96, x)
      | None \<Rightarrow> (128, net_ones n, net_ip n))"

definition ip_Contains :: "ipnet \<Rightarrow> nat \<Rightarrow> bool" where
  "ip_Contains n v =
     (let (nb, ones, nn) = network_number n;
          (ib, x) = (case To4 v of Some x \<Rightarrow> (32, x) | None \<Rightarrow> (128, v))
      in ib = nb \<and> nn div 2 ^ (nb - ones) = x div 2 ^ (nb - ones))"

definition IsLoopback :: "nat \<Rightarrow> bool" where
  "IsLoopback v = (case To4 v of Some x \<Rightarrow> x div 2 ^ 24 = 127 | None \<Rightarrow> v = 1)"

definition IsPrivate :: "nat \<Rightarrow> bool" where
  "IsPrivate v =
     (case To4 v of
        Some x \<Rightarrow> x div 2 ^ 24 = 10 \<or> x div 2 ^ 20 = 172 * 16 + 1 \<or> x div 2 ^ 16 = 192 * 256 + 168
      | None \<Rightarrow> v div 2 ^ 121 = 126)"

definition IsLinkLocalUnicast :: "nat \<Rightarrow> bool" where
  "IsLinkLocalUnicast v =
     (case To4 v of
        Some x \<Rightarrow> x div 2 ^ 16 = 169 * 256 + 254
      | None \<Rightarrow> v div 2 ^ 118 = 1018)"

text \<open>\<open>isPrivateOrLinkLocal\<close> of internal/k8sdriver/deployer.go.\<close>

definition isPrivateOrLinkLocal :: "nat \<Rightarrow> bool" where
  "isPrivateOrLinkLocal ip = (IsPrivate ip \<or> IsLinkLocalUnicast ip \<or> IsLoopback ip)"


section \<open>Host and port\<close>

definition SplitHostPort :: "string \<Rightarrow> (string \<times> string) option" where
  "SplitHostPort hp =
     (case LastIndexByte hp (CHR '':'') of
        None \<Rightarrow> None
      | Some i \<Rightarrow>
          if hd hp = CHR ''['' then
            (case IndexByte hp (CHR '']'') of
               None \<Rightarrow> None
             | Some e \<Rightarrow>
                 if e + 1 \<noteq> i then None
                 else if CHR ''['' \<in> set (tl hp) \<or> CHR '']'' \<in> set (drop (e + 1) hp) then None
                 else Some (take (e - 1) (tl hp), drop (i + 1) hp))
          else if CHR '':'' \<in> set (take i hp) then None
          else if CHR ''['' \<in> set hp \<or> CHR '']'' \<in> set hp then None
          else Some (take i hp, drop (i + 1) hp))"

definition JoinHostPort :: "string \<Rightarrow> string \<Rightarrow> string" where
  "JoinHostPort host port =
     (if CHR '':'' \<in> set host then ''['' @ host @ '']:'' @ port else host @ '':'' @ port)"


section \<open>Address lists (internal/api/project_actions.go)\<close>

definition hasWorldCIDR :: "string list \<Rightarrow> bool" where
  "hasWorldCIDR cidrs =
     list_ex (\<lambda>c. case ParseCIDR (TrimSpace c) of Some (_, n) \<Rightarrow> net_ones n = 0 | None \<Rightarrow> False) cidrs"

datatype cidr_error = CIDREmpty | CIDRInvalidIP string | CIDRInvalid string

definition normaliseCIDR :: "string \<Rightarrow> cidr_error + string" where
  "normaliseCIDR raw =
     (let c = TrimSpace raw
      in if c = [] then Inl CIDREmpty
         else if \<not> Contains c ''/'' then
           (case ParseIP c of
              None \<Rightarrow> Inl (CIDRInvalidIP raw)
            | Some ip \<Rightarrow> if To4 ip \<noteq> None then Inr (c @ ''/32'') else Inr (c @ ''/128''))
         else (case ParseCIDR c of None \<Rightarrow> Inl (CIDRInvalid raw) | Some _ \<Rightarrow> Inr c))"

text \<open>The loop of \<open>normaliseCIDRs\<close>: \<open>seen\<close> is its map, \<open>out\<close> the result so far.\<close>

fun normaliseCIDRs_loop :: "string list \<Rightarrow> string list \<Rightarrow> string list \<Rightarrow> cidr_error + string list" where
  "normaliseCIDRs_loop seen out [] = Inr out"
| "normaliseCIDRs_loop seen out (raw # raws) =
     (if TrimSpace raw = [] then normaliseCIDRs_loop seen out raws
      else case normaliseCIDR raw of
        Inl e \<Rightarrow> Inl e
      | Inr c \<Rightarrow>
          if c \<in> set seen then normaliseCIDRs_loop seen out raws
          else normaliseCIDRs_loop (c # seen) (out @ [c]) raws)"

definition normaliseCIDRs :: "string list \<Rightarrow> cidr_error + string list" where
  "normaliseCIDRs raws = normaliseCIDRs_loop [] [] raws"


section \<open>Laws of the parsers\<close>

lemma bytes_val_append: "bytes_val (bs @ [b]) = 256 * bytes_val bs + b"
  by (simp add: bytes_val_def)

lemma v4_field_le: "v4_field f = Some n \<Longrightarrow> n \<le> 255"
  by (auto simp: v4_field_def split: if_splits)

lemma parseIPv4Fields_Some:
  "parseIPv4Fields s = Some fs \<Longrightarrow> \<exists>a b c d. fs = [a, b, c, d] \<and> a \<le> 255 \<and> b \<le> 255 \<and> c \<le> 255 \<and> d \<le> 255"
  unfolding parseIPv4Fields_def
  by (auto split: list.splits option.splits simp: map_eq_Cons_conv dest: v4_field_le)

lemma ParseAddr_A4_bound: "ParseAddr s = Some (A4 v) \<Longrightarrow> v < 4294967296"
  unfolding ParseAddr_def
  by (auto split: if_splits option.splits simp: bytes_val_def dest!: parseIPv4Fields_Some)

lemma ParseAddr_no_space:
  assumes "ParseAddr s = Some a"
  shows "s \<noteq> []"
  using assms by (auto simp: ParseAddr_def split: if_splits)

lemma To4_v4_base: "v < 4294967296 \<Longrightarrow> To4 (v4_base + v) = Some v"
proof -
  assume "v < 4294967296"
  then have "(65535 * 4294967296 + v) div 4294967296 = 65535"
    "(65535 * 4294967296 + v) mod 4294967296 = v"
    by (simp_all only: mod_mult_self3 mod_less div_mult_self3)
  then show ?thesis by (simp add: To4_def v4_base_def)
qed

lemma To4_Some: "To4 u = Some x \<Longrightarrow> u = v4_base + x \<and> x < 4294967296"
proof -
  assume "To4 u = Some x"
  then have "u div 4294967296 = 65535" "u mod 4294967296 = x"
    by (simp_all add: To4_def split: if_splits)
  moreover have "u div 4294967296 * 4294967296 + u mod 4294967296 = u" by (rule div_mult_mod_eq)
  ultimately show ?thesis by (auto simp: v4_base_def)
qed

lemma dtoi_nat_str: "n < 16777215 \<Longrightarrow> dtoi (nat_str n) = Some n"
  by (simp add: dtoi_def nat_str_digits)

lemma nat_str_32: "nat_str 32 = ''32''" and nat_str_128: "nat_str 128 = ''128''"
  by (simp_all add: nat_str.simps digit_char_def char_of_def bit_0 bit_iff_odd)

lemma dtoi_32 [simp]: "dtoi ''32'' = Some 32" and dtoi_128 [simp]: "dtoi ''128'' = Some 128"
  using dtoi_nat_str [of 32] dtoi_nat_str [of 128] by (simp_all add: nat_str_32 nat_str_128)

lemma ParseCIDR_slash:
  assumes "CHR ''/'' \<notin> set c"
  shows "ParseCIDR (c @ CHR ''/'' # m) =
    (case ParseAddr c of None \<Rightarrow> None | Some a \<Rightarrow>
      (case dtoi m of None \<Rightarrow> None | Some n \<Rightarrow>
         if n > BitLen a then None
         else Some (As16 a, \<lparr>net_bits = BitLen a, net_ones = n,
                net_ip = mask_to (BitLen a) n (case a of A4 v \<Rightarrow> v | A6 v \<Rightarrow> v)\<rparr>)))"
proof -
  have d: "drop (Suc (length c)) (c @ CHR ''/'' # m) = m" by (induction c) simp_all
  show ?thesis using assms by (simp add: ParseCIDR_def IndexByte_append d cong: option.case_cong)
qed

text \<open>A bare address becomes a network whose prefix length is the full length of its family,
  except when an IPv4 address is written in the IPv4-mapped IPv6 form.\<close>

lemma normaliseCIDR_cases:
  assumes "normaliseCIDR raw = Inr c"
  shows "(CHR ''/'' \<in> set (TrimSpace raw) \<and> c = TrimSpace raw \<and> ParseCIDR c \<noteq> None) \<or>
         (\<exists>a. CHR ''/'' \<notin> set (TrimSpace raw) \<and> ParseAddr (TrimSpace raw) = Some a \<and>
            c = TrimSpace raw @ (if To4 (As16 a) \<noteq> None then ''/32'' else ''/128''))"
  using assms by (auto simp: normaliseCIDR_def Let_def ParseIP_def split: if_splits option.splits)

lemma A4_To4: "ParseAddr s = Some (A4 v) \<Longrightarrow> To4 (As16 (A4 v)) = Some v"
  by (simp add: As16_def To4_v4_base ParseAddr_A4_bound)

lemma normaliseCIDR_parses:
  assumes "normaliseCIDR raw = Inr c"
  shows "ParseCIDR c \<noteq> None"
  using normaliseCIDR_cases [OF assms]
proof
  assume "\<exists>a. CHR ''/'' \<notin> set (TrimSpace raw) \<and> ParseAddr (TrimSpace raw) = Some a \<and>
            c = TrimSpace raw @ (if To4 (As16 a) \<noteq> None then ''/32'' else ''/128'')"
  then obtain a where a: "CHR ''/'' \<notin> set (TrimSpace raw)" "ParseAddr (TrimSpace raw) = Some a"
    "c = TrimSpace raw @ (if To4 (As16 a) \<noteq> None then ''/32'' else ''/128'')" by blast
  show ?thesis
  proof (cases a)
    case (A4 v)
    with a A4_To4 have "To4 (As16 a) \<noteq> None" by simp
    with a(3) have c: "c = TrimSpace raw @ CHR ''/'' # ''32''" by simp
    show ?thesis unfolding c ParseCIDR_slash [OF a(1)] using a(2) A4 by (simp add: BitLen_def)
  next
    case (A6 v)
    obtain m where c: "c = TrimSpace raw @ CHR ''/'' # m" and m: "m = ''32'' \<or> m = ''128''"
      using a(3) by (cases "To4 (As16 a) = None") simp_all
    show ?thesis unfolding c ParseCIDR_slash [OF a(1)] using a(2) A6 m by (auto simp: BitLen_def)
  qed
qed blast

lemma TrimSpace_snoc:
  assumes "TrimSpace s = s" "s \<noteq> []" "\<not> is_space d"
  shows "TrimSpace (s @ t @ [d]) = s @ t @ [d]"
proof -
  have "\<not> is_space (hd s)"
  proof
    assume sp: "is_space (hd s)"
    have "length (TrimSpace s) \<le> length (dropWhile is_space s)"
      by (simp add: TrimSpace_def) (metis length_dropWhile_le length_rev)
    also have "\<dots> < length s" using sp assms(2) by (cases s) (auto simp: le_imp_less_Suc length_dropWhile_le)
    finally show False using assms(1) by simp
  qed
  then have 1: "dropWhile is_space (s @ t @ [d]) = s @ t @ [d]"
    using assms(2) by (cases s) auto
  show ?thesis unfolding TrimSpace_def 1 using assms(3) by simp
qed

lemma normaliseCIDR_trimmed:
  assumes "normaliseCIDR raw = Inr c"
  shows "TrimSpace c = c"
proof -
  have ne: "TrimSpace raw \<noteq> []" using assms by (auto simp: normaliseCIDR_def)
  have sp: "\<not> is_space (CHR ''2'')" "\<not> is_space (CHR ''8'')" by (simp_all add: is_space_def)
  show ?thesis
    using normaliseCIDR_cases [OF assms]
      TrimSpace_snoc [OF TrimSpace_idem ne sp(1), of "''/3''"]
      TrimSpace_snoc [OF TrimSpace_idem ne sp(2), of "''/12''"]
    by auto
qed

lemma normaliseCIDR_idem:
  assumes "normaliseCIDR raw = Inr c"
  shows "normaliseCIDR c = Inr c"
proof -
  have "CHR ''/'' \<in> set c" using normaliseCIDR_cases [OF assms] by auto
  moreover have "ParseCIDR c \<noteq> None" by (rule normaliseCIDR_parses [OF assms])
  ultimately show ?thesis by (auto simp: normaliseCIDR_def normaliseCIDR_trimmed [OF assms])
qed

lemma mask_full [simp]: "mask_to b b v = v"
  by (simp add: mask_to_def)

lemma host_net_exact:
  assumes "ParseAddr s = Some a" and "\<And>v. a = A6 v \<Longrightarrow> To4 v = None"
  shows "ip_Contains \<lparr>net_bits = BitLen a, net_ones = BitLen a,
           net_ip = (case a of A4 v \<Rightarrow> v | A6 v \<Rightarrow> v)\<rparr> u \<longleftrightarrow> u = As16 a"
proof (cases a)
  case (A4 v)
  with assms(1) have v: "v < 4294967296" by (simp add: ParseAddr_A4_bound)
  show ?thesis
    using A4 To4_Some [of u] To4_v4_base [OF v]
    by (auto simp: ip_Contains_def network_number_def BitLen_def As16_def split: option.splits)
next
  case (A6 v)
  with assms(2) have "To4 v = None" by simp
  with A6 show ?thesis
    by (auto simp: ip_Contains_def network_number_def BitLen_def As16_def split: option.splits)
qed

lemma normaliseCIDR_ne: "normaliseCIDR c = Inr d \<Longrightarrow> TrimSpace c \<noteq> []"
  by (auto simp: normaliseCIDR_def)

lemma normaliseCIDRs_loop_ok:
  assumes "normaliseCIDRs_loop seen out raws = Inr cs"
    and "set seen = set out" and "distinct out" and "\<forall>c \<in> set out. normaliseCIDR c = Inr c"
  shows "distinct cs \<and> (\<forall>c \<in> set cs. normaliseCIDR c = Inr c) \<and>
         set cs = set out \<union> {c. \<exists>raw \<in> set raws. TrimSpace raw \<noteq> [] \<and> normaliseCIDR raw = Inr c}"
  using assms
proof (induction raws arbitrary: seen out)
  case (Cons raw raws)
  show ?case
  proof (cases "TrimSpace raw = []")
    case True
    with Cons.prems have "normaliseCIDRs_loop seen out raws = Inr cs" by simp
    from Cons.IH [OF this Cons.prems(2-4)]
    have "distinct cs \<and> (\<forall>c \<in> set cs. normaliseCIDR c = Inr c) \<and> set cs = set out \<union>
        {c. \<exists>raw \<in> set raws. TrimSpace raw \<noteq> [] \<and> normaliseCIDR raw = Inr c}" .
    moreover have "{c. \<exists>raw \<in> set (raw # raws). TrimSpace raw \<noteq> [] \<and> normaliseCIDR raw = Inr c} =
        {c. \<exists>raw \<in> set raws. TrimSpace raw \<noteq> [] \<and> normaliseCIDR raw = Inr c}"
      using True by auto
    ultimately show ?thesis by metis
  next
    case ne: False
    with Cons.prems obtain c where c: "normaliseCIDR raw = Inr c" by (simp split: sum.splits)
    then have ic: "normaliseCIDR c = Inr c" by (rule normaliseCIDR_idem)
    have split: "{c. \<exists>raw \<in> set (raw # raws). TrimSpace raw \<noteq> [] \<and> normaliseCIDR raw = Inr c} =
        {c} \<union> {c. \<exists>raw \<in> set raws. TrimSpace raw \<noteq> [] \<and> normaliseCIDR raw = Inr c}"
      using ne c by (auto simp del: TrimSpace_idem)
    show ?thesis
    proof (cases "c \<in> set seen")
      case True
      with Cons.prems ne c have "normaliseCIDRs_loop seen out raws = Inr cs" by simp
      from Cons.IH [OF this Cons.prems(2-4)] True Cons.prems(2) show ?thesis
        unfolding split by blast
    next
      case False
      with Cons.prems(1) ne c have l: "normaliseCIDRs_loop (c # seen) (out @ [c]) raws = Inr cs" by simp
      have "set (c # seen) = set (out @ [c])" "distinct (out @ [c])"
        "\<forall>d \<in> set (out @ [c]). normaliseCIDR d = Inr d"
        using Cons.prems(2-4) False ic by auto
      note * = Cons.IH [OF l this]
      have u: "set (out @ [c]) \<union> S = set out \<union> ({c} \<union> S)" for S by auto
      show ?thesis unfolding split using * unfolding u .
    qed
  qed
qed simp

lemma normaliseCIDRs_ok:
  assumes "normaliseCIDRs raws = Inr cs"
  shows "distinct cs" and "c \<in> set cs \<Longrightarrow> normaliseCIDR c = Inr c"
    and "set cs = {c. \<exists>raw \<in> set raws. TrimSpace raw \<noteq> [] \<and> normaliseCIDR raw = Inr c}"
proof -
  have *: "distinct cs \<and> (\<forall>c \<in> set cs. normaliseCIDR c = Inr c) \<and> set cs = set [] \<union>
      {c. \<exists>raw \<in> set raws. TrimSpace raw \<noteq> [] \<and> normaliseCIDR raw = Inr c}"
    by (rule normaliseCIDRs_loop_ok [OF assms [unfolded normaliseCIDRs_def]]) simp_all
  show "distinct cs" using * by (rule conjunct1)
  show "normaliseCIDR c = Inr c" if "c \<in> set cs" using * that by blast
  show "set cs = {c. \<exists>raw \<in> set raws. TrimSpace raw \<noteq> [] \<and> normaliseCIDR raw = Inr c}"
    using * [THEN conjunct2, THEN conjunct2] unfolding list.set(1) Un_empty_left .
qed

lemma normaliseCIDRs_loop_fails:
  "(\<exists>e. normaliseCIDRs_loop seen out raws = Inl e) \<longleftrightarrow>
   (\<exists>raw \<in> set raws. TrimSpace raw \<noteq> [] \<and> (\<exists>e. normaliseCIDR raw = Inl e))"
proof (induction raws arbitrary: seen out)
  case (Cons raw raws)
  then show ?case by (cases "normaliseCIDR raw") simp_all
qed simp

lemma normaliseCIDRs_loop_id:
  "distinct cs \<Longrightarrow> set cs \<inter> set seen = {} \<Longrightarrow> \<forall>c \<in> set cs. normaliseCIDR c = Inr c \<Longrightarrow>
   normaliseCIDRs_loop seen out cs = Inr (out @ cs)"
proof (induction cs arbitrary: seen out)
  case (Cons c cs)
  then have c: "normaliseCIDR c = Inr c" by simp
  with Cons.IH [of "c # seen" "out @ [c]"] Cons.prems normaliseCIDR_ne [OF c] show ?case by simp
qed simp

lemma normaliseCIDRs_idem: "normaliseCIDRs raws = Inr cs \<Longrightarrow> normaliseCIDRs cs = Inr cs"
proof -
  assume a: "normaliseCIDRs raws = Inr cs"
  have "normaliseCIDRs_loop [] [] cs = Inr ([] @ cs)"
    by (rule normaliseCIDRs_loop_id) (use normaliseCIDRs_ok(1,2) [OF a] in simp_all)
  then show ?thesis by (simp add: normaliseCIDRs_def)
qed

lemma hasWorldCIDR_iff: "hasWorldCIDR cs \<longleftrightarrow> (\<exists>c \<in> set cs. hasWorldCIDR [c])"
  by (auto simp: hasWorldCIDR_def list_ex_iff)

lemma hasWorldCIDR_append [simp]: "hasWorldCIDR (cs @ ds) \<longleftrightarrow> hasWorldCIDR cs \<or> hasWorldCIDR ds"
  by (auto simp: hasWorldCIDR_def)

lemma hasWorldCIDR_Nil [simp]: "\<not> hasWorldCIDR []"
  by (simp add: hasWorldCIDR_def)

end
