(* ===== verification/Cluster.thy ===== *)
theory Cluster
  imports Naming Netaddr
begin

text \<open>
  The data the deployer (internal/k8sdriver) writes into the cluster: the Kubernetes and
  Traefik objects with the fields the code sets, and the parts of a pod's and a node's status
  the code reads. Labels and annotations that are the same constant for every object of a kind
  are left out; the ones code reads back (the path allow-list label) are kept.

  What a packet may do under a NetworkPolicy is part of the meaning of the object, so its
  semantics is here too: egress is allowed when some rule has a matching peer and a matching
  port, as the Kubernetes documentation of NetworkPolicy says.
\<close>


section \<open>NetworkPolicy\<close>

datatype protocol = TCP | UDP

text \<open>The three peers the code uses: an \<open>ipBlock\<close> with its exceptions, the kube-dns pods of
  kube-system, and an empty pod selector, which means the pods of the policy's namespace.\<close>

datatype np_peer = IPBlock string "string list" | KubeDNSPods | OwnNamespacePods

record np_rule =
  np_to :: np_peer
  np_ports :: "(protocol \<times> int) list"

text \<open>A destination: an address outside the pod network (as its 16-byte value), a kube-dns
  pod, a pod of the same namespace, or a pod of another namespace, which no peer of the code
  names except through its address.\<close>

datatype dest = Addr nat | DNSPod | OwnPod

definition in_cidr :: "string \<Rightarrow> nat \<Rightarrow> bool" where
  "in_cidr c v = (case ParseCIDR c of Some (_, n) \<Rightarrow> ip_Contains n v | None \<Rightarrow> False)"

definition peer_matches :: "np_peer \<Rightarrow> dest \<Rightarrow> bool" where
  "peer_matches p d =
     (case p of
        IPBlock c ex \<Rightarrow> (case d of Addr v \<Rightarrow> in_cidr c v \<and> \<not> list_ex (\<lambda>e. in_cidr e v) ex | _ \<Rightarrow> False)
      | KubeDNSPods \<Rightarrow> d = DNSPod
      | OwnNamespacePods \<Rightarrow> d = OwnPod)"

definition rule_allows :: "np_rule \<Rightarrow> dest \<Rightarrow> protocol \<Rightarrow> int \<Rightarrow> bool" where
  "rule_allows r d proto port =
     (peer_matches (np_to r) d \<and> (np_ports r = [] \<or> (proto, port) \<in> set (np_ports r)))"

definition egress_allowed :: "np_rule list \<Rightarrow> dest \<Rightarrow> protocol \<Rightarrow> int \<Rightarrow> bool" where
  "egress_allowed rs d proto port = list_ex (\<lambda>r. rule_allows r d proto port) rs"

lemma egress_allowed_append [simp]:
  "egress_allowed (rs @ qs) d proto port \<longleftrightarrow> egress_allowed rs d proto port \<or> egress_allowed qs d proto port"
  by (simp add: egress_allowed_def)

lemma egress_allowed_Nil [simp]: "\<not> egress_allowed [] d proto port"
  by (simp add: egress_allowed_def)

lemma egress_allowed_Cons [simp]:
  "egress_allowed (r # rs) d proto port \<longleftrightarrow> rule_allows r d proto port \<or> egress_allowed rs d proto port"
  by (simp add: egress_allowed_def)


section \<open>Workloads\<close>

type_synonym labels = "(string \<times> string) list"

text \<open>A TCP readiness probe: the host (empty for the pod's own address), the port, the initial
  delay, the period and the failure threshold (0 for the API server's default).\<close>

record probe =
  pb_host :: string
  pb_port :: int
  pb_delay :: int
  pb_period :: int
  pb_failures :: int

text \<open>A container. A port is the container's and the host's (0 when none is bound); the
  quantities of \<open>ct_requests\<close> and \<open>ct_limits\<close> are the texts given to \<open>MustParse\<close>; \<open>ct_secret_env\<close>
  says that the secret app-env is the container's environment; a mount is the volume's name,
  the path and the sub-path; \<open>ct_uid\<close> is the user and group it runs as.\<close>

record container =
  ct_name :: string
  ct_image :: string
  ct_ports :: "(int \<times> int) list"
  ct_env :: "(string \<times> string) list"
  ct_secret_env :: bool
  ct_command :: "string list"
  ct_args :: "string list"
  ct_mounts :: "(string \<times> string \<times> string) list"
  ct_requests :: "(string \<times> string) list"
  ct_limits :: "(string \<times> string) list"
  ct_probe :: "probe option"
  ct_uid :: "int option"

datatype volume = EmptyDir | FromConfigMap string

datatype strategy = RollingUpdate | Recreate

text \<open>A Deployment with its pod template. \<open>wl_avoid_cp\<close> is the required node affinity "no
  control-plane label"; \<open>wl_annotations\<close> are the template's; \<open>wl_host_network\<close> also stands for the
  DNS policy ClusterFirstWithHostNet, which is set with it.\<close>

record workload =
  wl_labels :: labels
  wl_selector :: labels
  wl_replicas :: int
  wl_strategy :: strategy
  wl_annotations :: labels
  wl_host_network :: bool
  wl_containers :: "container list"
  wl_init :: "container list"
  wl_avoid_cp :: bool
  wl_volumes :: "(string \<times> volume) list"

text \<open>A Service: the labels it selects, its port and the pods' port.\<close>

record service =
  sr_selector :: labels
  sr_port :: int
  sr_target :: int


section \<open>Ingress\<close>

record ingress =
  ing_hosts :: "string list"
  ing_middlewares :: "string list"
  ing_issuer :: "string option"
  ing_tls :: "(string list \<times> string) option"

text \<open>A route of the Traefik IngressRoute; its services are always the project's Service.\<close>

record route =
  rt_match :: string
  rt_priority :: int
  rt_middlewares :: "(string \<times> string) list"

record ingress_route =
  ir_routes :: "route list"
  ir_tls :: "string option"


section \<open>Objects\<close>

datatype kind = NamespaceK | SecretK | DeploymentK | ServiceK | IngressK | MiddlewareK
  | IngressRouteK | NetworkPolicyK | ConfigMapK

datatype kobj =
    KNamespace labels
  | KSecret "string \<Rightarrow> string option"
  | KDeployment workload
  | KService service
  | KIngress ingress
  | KMiddleware bool "string list"
  | KIngressRoute ingress_route
  | KNetworkPolicy "np_rule list"
  | KConfigMap string

type_synonym okey = "kind \<times> string \<times> string"

text \<open>The objects of the cluster are a list of key and object; the API server's operations
  are lookup, replace and delete on it.\<close>

type_synonym objects = "(okey \<times> kobj) list"

definition obj_get :: "okey \<Rightarrow> objects \<Rightarrow> kobj option" where
  "obj_get k os = map_of os k"

definition obj_put :: "okey \<Rightarrow> kobj \<Rightarrow> objects \<Rightarrow> objects" where
  "obj_put k v os = (k, v) # filter (\<lambda>(k', _). k' \<noteq> k) os"

definition obj_del :: "okey \<Rightarrow> objects \<Rightarrow> objects" where
  "obj_del k os = filter (\<lambda>(k', _). k' \<noteq> k) os"

text \<open>Deleting a namespace deletes everything in it.\<close>

definition obj_del_ns :: "string \<Rightarrow> objects \<Rightarrow> objects" where
  "obj_del_ns ns os =
     filter (\<lambda>((kd, n, m), _). \<not> (kd \<noteq> NamespaceK \<and> n = ns) \<and> \<not> (kd = NamespaceK \<and> m = ns)) os"

lemma obj_get_put [simp]: "obj_get k (obj_put k v os) = Some v"
  by (simp add: obj_get_def obj_put_def)

lemma obj_get_put_other [simp]: "k' \<noteq> k \<Longrightarrow> obj_get k' (obj_put k v os) = obj_get k' os"
  using map_of_filter_in [of "\<lambda>x. x \<noteq> k" k' os] by (simp add: obj_get_def obj_put_def)

lemma obj_get_del [simp]: "obj_get k (obj_del k os) = None"
  using map_of_filter_out [of "\<lambda>x. x \<noteq> k" k os] by (simp add: obj_get_def obj_del_def)

lemma obj_get_del_other [simp]: "k' \<noteq> k \<Longrightarrow> obj_get k' (obj_del k os) = obj_get k' os"
  using map_of_filter_in [of "\<lambda>x. x \<noteq> k" k' os] by (simp add: obj_get_def obj_del_def)


lemma obj_get_put_if: "obj_get k' (obj_put k v os) = (if k' = k then Some v else obj_get k' os)"
  by simp

lemma obj_get_del_if: "obj_get k' (obj_del k os) = (if k' = k then None else obj_get k' os)"
  by simp

interpretation objs: kv_store "\<lambda>os k. obj_get k os" obj_put obj_del
  by unfold_locales (simp_all add: obj_get_put_if obj_get_del_if)


section \<open>Status\<close>

datatype cstate =
    CWaiting string string
  | CRunning int
  | CTerminated string int string
  | CNoState

record cstatus =
  cs_ready :: bool
  cs_state :: cstate
  cs_restarts :: int
  cs_image :: string
  cs_last_exit :: "string option"

record pod =
  pod_name :: string
  pod_created :: int
  pod_phase :: string
  pod_node :: string
  pod_ip :: string
  pod_host_ip :: string
  pod_started :: "int option"
  pod_annotations :: labels
  pod_unschedulable :: "string option"
  pod_statuses :: "cstatus list"

record node =
  nd_control_plane :: bool
  nd_cordoned :: bool
  nd_ready :: bool

end
