(* ===== verification/World.thy ===== *)
theory World
  imports Cluster "HOL-Library.Word"
begin

text \<open>
  The state every part of the platform shares: the rows of the control-plane database
  (migrations/*.sql, internal/model/types.go), the objects of the cluster, the administrative
  state of the shared services, the clock and the sources of randomness.

  A database query, a call to the API server or to another service may fail for reasons
  outside the program. \<open>faults\<close> says which of the coming calls do: every call consumes one entry
  and fails, without effect, when it is \<open>True\<close>. Statements about all worlds are therefore
  statements about every pattern of failures.
\<close>


section \<open>Errors and fallible programs\<close>

datatype err = Fault | ErrNotFound | ErrUnique | ErrForeignKey | ErrCheck | ErrDomainTaken
  | ErrPathRuleTaken | ErrPresetIsSystem | ErrSystemEnv | ErrNoEgressProxyPort | ErrDecrypt string
  | ErrNoHostnames | ErrUnknownMode | ErrNoPods | ErrRevoked | ErrExpired | ErrOther string

type_synonym uuid = string


section \<open>Rows\<close>

datatype json = JNull | JBool bool | JNum int | JStr string | JArr "json list"
  | JObj "(string \<times> json) list"

record user =
  u_id :: uuid
  u_email :: string
  u_name :: string
  u_admin :: bool
  u_created :: int
  u_seen :: "int option"

datatype pstatus = PCreated | PRunning | PStopped | PError | PDeleting

datatype dstatus = Pending | Queued | Building | Pushing | Deploying | Running | Failed | Superseded

text \<open>The row of projects, \<open>p_deleted\<close> and the two egress columns included. Every selected
  project carries its API token prefix but never the hash, see \<open>GetProjectAPITokenHash\<close>.\<close>

record project =
  p_id :: uuid
  p_slug :: string
  p_name :: string
  p_owner :: uuid
  p_visibility :: string
  p_status :: pstatus
  p_manifest :: "json option"
  p_allow_cidrs :: "string list"
  p_preset :: "string option"
  p_tls :: bool
  p_token_hash :: "string option"
  p_token_prefix :: "string option"
  p_token_created :: "int option"
  p_created :: int
  p_pushed :: "int option"
  p_active :: "int option"
  p_deleted :: "int option"
  p_port :: "int option"
  p_mode :: string

record deployment =
  d_id :: uuid
  d_project :: uuid
  d_trigger_type :: string
  d_triggered_by :: string
  d_status :: dstatus
  d_source_key :: string
  d_image :: string
  d_manifest :: json
  d_failure :: string
  d_created :: int
  d_queued :: "int option"
  d_build_started :: "int option"
  d_build_done :: "int option"
  d_deployed :: "int option"

record event =
  e_id :: int
  e_deployment :: uuid
  e_phase :: string
  e_level :: string
  e_message :: string

record env_row =
  ev_project :: uuid
  ev_key :: string
  ev_ct :: string
  ev_system :: bool
  ev_updated :: int
  ev_by :: "uuid option"

record token_row =
  t_id :: uuid
  t_project :: "uuid option"
  t_name :: string
  t_hash :: string
  t_prefix :: string
  t_scopes :: "string list"
  t_allow_db :: bool
  t_creator :: "uuid option"
  t_expires :: int
  t_revoked :: "int option"
  t_used :: "int option"

record audit_row =
  a_type :: string
  a_actor :: string
  a_action :: string
  a_project :: "uuid option"
  a_meta :: json
  a_at :: int

record collab =
  co_project :: uuid
  co_user :: uuid
  co_role :: string
  co_by :: uuid

record domain_row =
  dm_id :: uuid
  dm_project :: uuid
  dm_host :: string
  dm_kind :: string
  dm_verified :: bool
  dm_created :: int

record config_row =
  s_key :: string
  s_value :: string
  s_updated :: int
  s_by :: "uuid option"

record preset =
  pr_name :: string
  pr_label :: string
  pr_desc :: string
  pr_cidrs :: "string list"
  pr_system :: bool
  pr_updated :: int
  pr_by :: "uuid option"
  pr_notes :: "(string \<times> string) list"

record path_rule =
  r_id :: uuid
  r_project :: uuid
  r_prefix :: string
  r_mode :: string
  r_cidrs :: "string list"
  r_updated :: int

record egress_rule =
  g_project :: uuid
  g_kind :: string
  g_value :: string
  g_port :: int
  g_note :: string
  g_by :: "uuid option"

record domain_stat =
  st_project :: uuid
  st_host :: string
  st_allowed :: int
  st_denied :: int
  st_first :: int
  st_last :: int

record access_row =
  al_id :: int
  al_ts :: int
  al_project :: "uuid option"
  al_slug :: string
  al_method :: string
  al_host :: string
  al_status :: string
  al_denied :: bool


section \<open>The world\<close>

text \<open>\<open>jwks_at\<close> and \<open>token_at\<close> are what the identity provider answers to a request for its
  keys (by URL) and for a token (by authorisation code): status and JSON body. Times are in
  milliseconds.\<close>

record database =
  users :: "user list"
  projects :: "project list"
  deployments :: "deployment list"
  events :: "event list"
  env_rows :: "env_row list"
  tokens :: "token_row list"
  audits :: "audit_row list"
  collabs :: "collab list"
  domains :: "domain_row list"
  configs :: "config_row list"
  presets :: "preset list"
  path_rules :: "path_rule list"
  egress_rules :: "egress_rule list"
  domain_stats :: "domain_stat list"
  access_log :: "access_row list"
  event_seq :: int
  log_seq :: int

text \<open>The settings of the identity provider (\<open>KCSettings\<close> of internal/config/runtime.go) and the
  JWT verifier (internal/auth/jwt.go) with its cache of RSA public keys by key id: modulus bytes
  and exponent.\<close>

record kc_settings =
  kc_issuer :: string
  kc_jwks_url :: string
  kc_audience :: string
  kc_auth_url :: string
  kc_token_url :: string
  kc_client_id :: string
  kc_client_secret :: string
  kc_redirect_url :: string
  kc_auth_host :: string
  kc_cookie_secret :: string
  kc_cookie_domain :: string
  kc_brand :: string

type_synonym rsa_key = "string \<times> 64 word"

record jwt_verifier =
  jv_issuer :: string
  jv_audience :: string
  jv_jwks_url :: string
  jv_keys :: "(string \<times> rsa_key) list"
  jv_fetched :: int

text \<open>The shared services user apps are provisioned on: roles (name, password), databases (name,
  owner), privileges (database, role) and the databases with open connections of Postgres, ACL
  users (name, accepted passwords, key pattern) of Redis, buckets, objects (by bucket and key),
  users, policies and policy attachments of MinIO.\<close>

record services =
  pg_roles :: "(string \<times> string) list"
  pg_dbs :: "(string \<times> string) list"
  pg_grants :: "(string \<times> string) list"
  pg_sessions :: "string list"
  redis_users :: "(string \<times> string list \<times> string) list"
  s3_buckets :: "string list"
  s3_objects :: "((string \<times> string) \<times> string) list"
  s3_users :: "(string \<times> string) list"
  s3_policies :: "(string \<times> string) list"
  s3_attached :: "(string \<times> string) list"

record world =
  now :: int
  faults :: "bool list"
  uuid_src :: "nat \<Rightarrow> uuid"
  uuid_next :: nat
  rand_src :: "nat \<Rightarrow> char"
  rand_next :: nat
  db :: database
  objs :: objects
  pods :: "string \<Rightarrow> pod list"
  nodes :: "node list"
  proxy_log :: "string \<Rightarrow> string"
  proxy_pods :: "pod list"
  svc :: services
  published :: "uuid list"
  rt_kc :: kc_settings
  jwt_v :: jwt_verifier
  jwks_at :: "string \<Rightarrow> int \<times> json option"
  token_at :: "string \<Rightarrow> int \<times> json option"

type_synonym 'a prog = "(world, 'a) state"
type_synonym 'a fallible = "(world, err + 'a) state"


section \<open>Calls that may fail\<close>

definition call :: "(world \<Rightarrow> (err + 'a) \<times> world) \<Rightarrow> 'a fallible" where
  "call f = State (\<lambda>w. case faults w of
       [] \<Rightarrow> f w
     | b # bs \<Rightarrow> if b then (Inl Fault, w\<lparr>faults := bs\<rparr>) else f (w\<lparr>faults := bs\<rparr>))"

text \<open>A statement that only reads, one that only writes, and one that may be refused by a
  constraint.\<close>

definition query :: "(database \<Rightarrow> 'a) \<Rightarrow> 'a fallible" where
  "query f = call (\<lambda>w. (Inr (f (db w)), w))"

definition exec :: "(int \<Rightarrow> database \<Rightarrow> database) \<Rightarrow> unit fallible" where
  "exec f = call (\<lambda>w. (Inr (), w\<lparr>db := f (now w) (db w)\<rparr>))"

definition statement :: "(int \<Rightarrow> database \<Rightarrow> (err + 'a) \<times> database) \<Rightarrow> 'a fallible" where
  "statement f = call (\<lambda>w. let (r, d) = f (now w) (db w) in (r, w\<lparr>db := d\<rparr>))"

text \<open>Go's \<open>if err != nil { return err }\<close>, and the same in a handler, which answers
  instead of returning the error.\<close>

definition attempt :: "'a fallible \<Rightarrow> ('a \<Rightarrow> 'b fallible) \<Rightarrow> 'b fallible" where
  "attempt m f = do { r \<leftarrow> m; case r of Inl e \<Rightarrow> State_Monad.return (Inl e) | Inr x \<Rightarrow> f x }"

definition orelse :: "'a fallible \<Rightarrow> (err \<Rightarrow> 'b prog) \<Rightarrow> ('a \<Rightarrow> 'b prog) \<Rightarrow> 'b prog" where
  "orelse m h f = do { r \<leftarrow> m; case r of Inl e \<Rightarrow> h e | Inr x \<Rightarrow> f x }"

abbreviation ok :: "'a \<Rightarrow> 'a fallible" where
  "ok x \<equiv> State_Monad.return (Inr x)"

abbreviation throw :: "err \<Rightarrow> 'a fallible" where
  "throw e \<equiv> State_Monad.return (Inl e)"

definition get_now :: "int prog" where
  "get_now = State (\<lambda>w. (now w, w))"

text \<open>\<open>gen_random_uuid()\<close> and \<open>crypto/rand\<close>.\<close>

definition fresh_uuid :: "world \<Rightarrow> uuid \<times> world" where
  "fresh_uuid w = (uuid_src w (uuid_next w), w\<lparr>uuid_next := Suc (uuid_next w)\<rparr>)"

definition rand_bytes :: "nat \<Rightarrow> string prog" where
  "rand_bytes n = State (\<lambda>w. (map (rand_src w) [rand_next w..<rand_next w + n], w\<lparr>rand_next := rand_next w + n\<rparr>))"

definition rand_Read :: "nat \<Rightarrow> string fallible" where
  "rand_Read n = call (\<lambda>w. let (b, w') = run_state (rand_bytes n) w in (Inr b, w'))"


section \<open>Reasoning about them\<close>

lemma wp_call [wp_simps]:
  "wp (call f) Q w =
     (case faults w of
        [] \<Rightarrow> Q (fst (f w)) (snd (f w))
      | b # bs \<Rightarrow> if b then Q (Inl Fault) (w\<lparr>faults := bs\<rparr>)
                 else Q (fst (f (w\<lparr>faults := bs\<rparr>))) (snd (f (w\<lparr>faults := bs\<rparr>))))"
  by (simp add: call_def wp_def split: list.split prod.split)

text \<open>The rule proofs use: a call either fails and leaves everything but \<open>faults\<close> alone, or
  runs in a world that differs in \<open>faults\<close> only.\<close>

lemma wp_callI:
  assumes "\<And>bs. Q (Inl Fault) (w\<lparr>faults := bs\<rparr>)"
    and "\<And>bs. Q (fst (f (w\<lparr>faults := bs\<rparr>))) (snd (f (w\<lparr>faults := bs\<rparr>)))"
  shows "wp (call f) Q w"
proof -
  have "w\<lparr>faults := faults w\<rparr> = w" by simp
  then have "Q (fst (f w)) (snd (f w))" using assms(2) [of "faults w"] by simp
  with assms show ?thesis by (auto simp: wp_call split: list.split)
qed

lemma wp_attempt [wp_simps]:
  "wp (attempt m f) Q w = wp m (\<lambda>r v. case r of Inl e \<Rightarrow> Q (Inl e) v | Inr x \<Rightarrow> wp (f x) Q v) w"
  unfolding attempt_def wp_bind by (rule arg_cong [where f = "\<lambda>P. wp m P w"]) (auto simp: wp_return fun_eq_iff split: sum.split)

lemma wp_orelse [wp_simps]:
  "wp (orelse m h f) Q w = wp m (\<lambda>r v. case r of Inl e \<Rightarrow> wp (h e) Q v | Inr x \<Rightarrow> wp (f x) Q v) w"
  unfolding orelse_def wp_bind by (rule arg_cong [where f = "\<lambda>P. wp m P w"]) (auto simp: fun_eq_iff split: sum.split)

lemma keeps_call:
  assumes "\<And>w bs. f (w\<lparr>faults := bs\<rparr>) = f w" and "\<And>w. f (snd (g w)) = f w"
  shows "keeps f (call g)"
  by (rule keepsI) (simp add: call_def assms split: list.split)

lemma keeps_query [keeps_intros]:
  "(\<And>w bs. f (w\<lparr>faults := bs\<rparr>) = f w) \<Longrightarrow> keeps f (query g)"
  unfolding query_def by (rule keeps_call) auto

lemma keeps_exec [keeps_intros]:
  "(\<And>w bs. f (w\<lparr>faults := bs\<rparr>) = f w) \<Longrightarrow> (\<And>w n. f (w\<lparr>db := g n (db w)\<rparr>) = f w) \<Longrightarrow> keeps f (exec g)"
  unfolding exec_def by (rule keeps_call) auto

lemma keeps_statement [keeps_intros]:
  "(\<And>w bs. f (w\<lparr>faults := bs\<rparr>) = f w) \<Longrightarrow> (\<And>w n. f (w\<lparr>db := snd (g n (db w))\<rparr>) = f w) \<Longrightarrow>
   keeps f (statement g)"
  unfolding statement_def by (rule keeps_call) (simp_all add: case_prod_beta)

lemma keeps_attempt [keeps_intros]: "keeps f m \<Longrightarrow> (\<And>x. keeps f (g x)) \<Longrightarrow> keeps f (attempt m g)"
  unfolding attempt_def by (intro keeps_intros)

lemma keeps_orelse [keeps_intros]:
  "keeps f m \<Longrightarrow> (\<And>e. keeps f (h e)) \<Longrightarrow> (\<And>x. keeps f (g x)) \<Longrightarrow> keeps f (orelse m h g)"
  unfolding orelse_def by (intro keeps_intros)

lemma keeps_get_now [keeps_intros]: "keeps f get_now"
  by (simp add: get_now_def keeps_def)

lemma wp_get_now [wp_simps]: "wp get_now Q w = Q (now w) w"
  by (simp add: get_now_def wp_def)

lemma keeps_rand_bytes: "(\<And>w n. f (w\<lparr>rand_next := n\<rparr>) = f w) \<Longrightarrow> keeps f (rand_bytes n)"
  by (simp add: rand_bytes_def keeps_def)

lemma keeps_rand_Read:
  "(\<And>w bs. f (w\<lparr>faults := bs\<rparr>) = f w) \<Longrightarrow> (\<And>w n. f (w\<lparr>rand_next := n\<rparr>) = f w) \<Longrightarrow> keeps f (rand_Read n)"
  unfolding rand_Read_def rand_bytes_def by (rule keeps_call) auto

lemma keeps_db [keeps_intros]:
  "keeps db (query g)" "keeps db get_now" "keeps db (rand_bytes n)" "keeps db (rand_Read n)"
  by (auto intro: keeps_query keeps_get_now keeps_rand_bytes keeps_rand_Read)

lemma keeps_objs [keeps_intros]:
  "keeps objs (query g)" "keeps objs (exec h)" "keeps objs (statement s)" "keeps objs (rand_bytes n)" "keeps objs (rand_Read n)"
  by (auto intro: keeps_query keeps_exec keeps_statement keeps_rand_bytes keeps_rand_Read)

lemma keeps_svc [keeps_intros]:
  "keeps svc (query g)" "keeps svc (exec h)" "keeps svc (statement s)" "keeps svc (rand_bytes n)" "keeps svc (rand_Read n)"
  by (auto intro: keeps_query keeps_exec keeps_statement keeps_rand_bytes keeps_rand_Read)

text \<open>A world in which nothing fails.\<close>

lemma run_call_ok [simp]: "faults w = [] \<Longrightarrow> run_state (call f) w = f w"
  by (simp add: call_def)

lemma run_query_ok [simp]: "faults w = [] \<Longrightarrow> run_state (query f) w = (Inr (f (db w)), w)"
  by (simp add: query_def)

lemma run_exec_ok [simp]: "faults w = [] \<Longrightarrow> run_state (exec f) w = (Inr (), w\<lparr>db := f (now w) (db w)\<rparr>)"
  by (simp add: exec_def)

definition empty_db :: database where
  "empty_db = \<lparr>users = [], projects = [], deployments = [], events = [], env_rows = [], tokens = [],
     audits = [], collabs = [], domains = [], configs = [], presets = [], path_rules = [],
     egress_rules = [], domain_stats = [], access_log = [], event_seq = 1, log_seq = 1\<rparr>"

definition empty_svc :: services where
  "empty_svc = \<lparr>pg_roles = [], pg_dbs = [], pg_grants = [], pg_sessions = [], redis_users = [],
     s3_buckets = [], s3_objects = [], s3_users = [],
     s3_policies = [], s3_attached = []\<rparr>"

definition empty_kc :: kc_settings where
  "empty_kc = \<lparr>kc_issuer = [], kc_jwks_url = [], kc_audience = [], kc_auth_url = [], kc_token_url = [],
     kc_client_id = [], kc_client_secret = [], kc_redirect_url = [], kc_auth_host = [], kc_cookie_secret = [],
     kc_cookie_domain = [], kc_brand = []\<rparr>"

definition empty_world :: world where
  "empty_world = \<lparr>now = 0, faults = [], uuid_src = nat_str, uuid_next = 0, rand_src = (\<lambda>n. CHR ''a''),
     rand_next = 0, db = empty_db, objs = [], pods = (\<lambda>_. []), nodes = [], proxy_log = (\<lambda>_. []),
     proxy_pods = [], svc = empty_svc, published = [], rt_kc = empty_kc,
     jwt_v = \<lparr>jv_issuer = [], jv_audience = [], jv_jwks_url = [], jv_keys = [], jv_fetched = 0\<rparr>,
     jwks_at = (\<lambda>_. (404, None)), token_at = (\<lambda>_. (404, None))\<rparr>"

end
