(* ===== verification/Store.thy ===== *)
theory Store
  imports World "HOL-Library.Product_Lexorder"
begin

text \<open>
  internal/store: the SQL statements of the control plane, one definition per method of
  \<open>Store\<close>, with the constraints of migrations/*.up.sql: primary keys, the UNIQUE indexes
  (projects.slug, users.email, domains.hostname, the path prefix of a project, the live egress
  ports, the hash of live deploy tokens), the foreign keys and the CHECKs of the egress rules.

  \<open>ORDER BY\<close> is a stable sort of the rows in insertion order; text compares byte by byte.
  project_env, whose values are encrypted, is in its own theory.
\<close>


section \<open>Statements\<close>

text \<open>\<open>QueryRow(...).Scan\<close> of a query that yields at most one row, with pgx.ErrNoRows turned
  into \<open>ErrNotFound\<close>.\<close>

definition query_row :: "(database \<Rightarrow> 'a option) \<Rightarrow> 'a fallible" where
  "query_row f = attempt (query f) (\<lambda>r. case r of None \<Rightarrow> throw ErrNotFound | Some x \<Rightarrow> ok x)"

text \<open>An INSERT whose id defaults to \<open>gen_random_uuid()\<close>.\<close>

definition insert_row :: "(uuid \<Rightarrow> int \<Rightarrow> database \<Rightarrow> (err + 'a) \<times> database) \<Rightarrow> 'a fallible" where
  "insert_row f = call (\<lambda>w.
     let (i, w') = fresh_uuid w; (r, d) = f i (now w') (db w') in (r, w'\<lparr>db := d\<rparr>))"

definition page :: "int \<Rightarrow> int \<Rightarrow> 'a list \<Rightarrow> 'a list" where
  "page limit offset xs = take (nat limit) (drop (nat offset) xs)"

lemma keeps_query_row [keeps_intros]:
  "(\<And>w bs. f (w\<lparr>faults := bs\<rparr>) = f w) \<Longrightarrow> keeps f (query_row g)"
  unfolding query_row_def by (intro keeps_intros) auto

lemma keeps_insert_row [keeps_intros]:
  "(\<And>w bs. f (w\<lparr>faults := bs\<rparr>) = f w) \<Longrightarrow> (\<And>w d n. f (w\<lparr>uuid_next := n, db := d\<rparr>) = f w) \<Longrightarrow>
   keeps f (insert_row g)"
  unfolding insert_row_def by (rule keeps_call) (simp_all add: fresh_uuid_def case_prod_beta)


section \<open>Users (internal/store/projects.go)\<close>

definition seen_user :: "int \<Rightarrow> string \<Rightarrow> user \<Rightarrow> user" where
  "seen_user t name u = u\<lparr>u_seen := Some t, u_name := (if name = [] then u_name u else name)\<rparr>"

definition UpsertUserByEmail :: "string \<Rightarrow> string \<Rightarrow> user fallible" where
  "UpsertUserByEmail email name = insert_row (\<lambda>i t d.
     case find_row (\<lambda>u. EqualFold (u_email u) email) (users d) of
       Some u \<Rightarrow>
         (Inr (seen_user t name u),
          d\<lparr>users := update_rows (\<lambda>r. EqualFold (u_email r) email) (seen_user t name) (users d)\<rparr>)
     | None \<Rightarrow>
         if \<exists>u \<in> set (users d). u_id u = i then (Inl ErrUnique, d)
         else
           (let u = \<lparr>u_id = i, u_email = email, u_name = name, u_admin = False, u_created = t,
                     u_seen = Some t\<rparr>
            in (Inr u, d\<lparr>users := users d @ [u]\<rparr>)))"


section \<open>Projects (internal/store/projects.go)\<close>

definition live :: "project \<Rightarrow> bool" where
  "live p = (p_deleted p = None)"

definition new_project :: "uuid \<Rightarrow> int \<Rightarrow> string \<Rightarrow> string \<Rightarrow> uuid \<Rightarrow> json option \<Rightarrow> project" where
  "new_project i t slug name owner m =
     \<lparr>p_id = i, p_slug = slug, p_name = name, p_owner = owner, p_visibility = ''org'',
      p_status = PCreated, p_manifest = m, p_allow_cidrs = [], p_preset = Some ''internal'',
      p_tls = True, p_token_hash = None, p_token_prefix = None,
      p_token_created = None, p_created = t, p_pushed = None,
      p_active = None, p_deleted = None, p_port = None, p_mode = ''off''\<rparr>"

definition CreateProject :: "string \<Rightarrow> string \<Rightarrow> uuid \<Rightarrow> json option \<Rightarrow> project fallible" where
  "CreateProject slug name owner m = insert_row (\<lambda>i t d.
     if \<exists>p \<in> set (projects d). p_id p = i \<or> p_slug p = slug then (Inl ErrUnique, d)
     else if \<forall>u \<in> set (users d). u_id u \<noteq> owner then (Inl ErrForeignKey, d)
     else if \<forall>pr \<in> set (presets d). pr_name pr \<noteq> ''internal'' then (Inl ErrForeignKey, d)
     else
       (let p = new_project i t slug name owner m
        in (Inr p, d\<lparr>projects := projects d @ [p]\<rparr>)))"

definition find_live_slug :: "string \<Rightarrow> database \<Rightarrow> project option" where
  "find_live_slug slug d = find_row (\<lambda>p. p_slug p = slug \<and> live p) (projects d)"

definition GetProjectBySlug :: "string \<Rightarrow> project fallible" where
  "GetProjectBySlug slug = query_row (find_live_slug slug)"

definition GetProjectByID :: "uuid \<Rightarrow> project fallible" where
  "GetProjectByID i = query_row (\<lambda>d. find_row (\<lambda>p. p_id p = i \<and> live p) (projects d))"

definition update_project :: "uuid \<Rightarrow> (int \<Rightarrow> project \<Rightarrow> project) \<Rightarrow> unit fallible" where
  "update_project i f = exec (\<lambda>t d. d\<lparr>projects := update_rows (\<lambda>p. p_id p = i) (f t) (projects d)\<rparr>)"

definition SetProjectAllowCIDRs :: "uuid \<Rightarrow> string list \<Rightarrow> unit fallible" where
  "SetProjectAllowCIDRs i cidrs = update_project i (\<lambda>_ p. p\<lparr>p_allow_cidrs := cidrs\<rparr>)"

definition SetProjectName :: "uuid \<Rightarrow> string \<Rightarrow> unit fallible" where
  "SetProjectName i name = update_project i (\<lambda>_ p. p\<lparr>p_name := name\<rparr>)"

definition SetProjectTLSEnabled :: "uuid \<Rightarrow> bool \<Rightarrow> unit fallible" where
  "SetProjectTLSEnabled i enabled = update_project i (\<lambda>_ p. p\<lparr>p_tls := enabled\<rparr>)"

definition SetProjectVisibility :: "uuid \<Rightarrow> string \<Rightarrow> unit fallible" where
  "SetProjectVisibility i v = update_project i (\<lambda>_ p. p\<lparr>p_visibility := v\<rparr>)"

definition SetProjectAPIToken :: "uuid \<Rightarrow> string option \<Rightarrow> string \<Rightarrow> unit fallible" where
  "SetProjectAPIToken i hash pfx =
     (case hash of
        None \<Rightarrow> update_project i (\<lambda>_ p. p\<lparr>p_token_hash := None, p_token_prefix := None, p_token_created := None\<rparr>)
      | Some h \<Rightarrow> update_project i
          (\<lambda>t p. p\<lparr>p_token_hash := Some h, p_token_prefix := Some pfx, p_token_created := Some t\<rparr>))"

definition GetProjectAPITokenHash :: "uuid \<Rightarrow> string option fallible" where
  "GetProjectAPITokenHash i =
     query_row (\<lambda>d. map_option p_token_hash (find_row (\<lambda>p. p_id p = i) (projects d)))"

definition SetProjectAccessPreset :: "uuid \<Rightarrow> string option \<Rightarrow> unit fallible" where
  "SetProjectAccessPreset i preset =
     (let v = (case preset of Some s \<Rightarrow> if s \<noteq> [] then Some s else None | None \<Rightarrow> None)
      in statement (\<lambda>_ d.
           if v \<noteq> None \<and> (\<exists>p \<in> set (projects d). p_id p = i) \<and>
              (\<forall>pr \<in> set (presets d). Some (pr_name pr) \<noteq> v)
           then (Inl ErrForeignKey, d)
           else (Inr (), d\<lparr>projects := update_rows (\<lambda>p. p_id p = i) (\<lambda>p. p\<lparr>p_preset := v\<rparr>) (projects d)\<rparr>)))"

definition is_member :: "uuid \<Rightarrow> database \<Rightarrow> project \<Rightarrow> bool" where
  "is_member u d p = (\<exists>c \<in> set (collabs d). co_project c = p_id p \<and> co_user c = u)"

definition ListProjectsForUser :: "uuid \<Rightarrow> project list fallible" where
  "ListProjectsForUser u = query (\<lambda>d.
     sort_key (\<lambda>p. - p_created p) (filter (\<lambda>p. live p \<and> (p_owner p = u \<or> is_member u d p)) (projects d)))"

definition AddCollaborator :: "uuid \<Rightarrow> uuid \<Rightarrow> uuid \<Rightarrow> string \<Rightarrow> unit fallible" where
  "AddCollaborator pid uid by role0 =
     (let role = (if role0 = [] then ''editor'' else role0); mine = (\<lambda>c. co_project c = pid \<and> co_user c = uid)
      in statement (\<lambda>_ d.
           if \<exists>c \<in> set (collabs d). mine c
           then (Inr (), d\<lparr>collabs := update_rows mine (\<lambda>c. c\<lparr>co_role := role\<rparr>) (collabs d)\<rparr>)
           else if (\<forall>p \<in> set (projects d). p_id p \<noteq> pid) \<or> (\<forall>u \<in> set (users d). u_id u \<noteq> uid) \<or>
                   (\<forall>u \<in> set (users d). u_id u \<noteq> by)
           then (Inl ErrForeignKey, d)
           else (Inr (), d\<lparr>collabs := collabs d @ [\<lparr>co_project = pid, co_user = uid, co_role = role, co_by = by\<rparr>]\<rparr>)))"

definition RemoveCollaborator :: "uuid \<Rightarrow> uuid \<Rightarrow> unit fallible" where
  "RemoveCollaborator pid uid =
     exec (\<lambda>_ d. d\<lparr>collabs := delete_rows (\<lambda>c. co_project c = pid \<and> co_user c = uid) (collabs d)\<rparr>)"

definition IsCollaborator :: "uuid \<Rightarrow> uuid \<Rightarrow> bool fallible" where
  "IsCollaborator pid uid =
     query (\<lambda>d. length (filter (\<lambda>c. co_project c = pid \<and> co_user c = uid) (collabs d)) > 0)"

definition UpdateProjectStatus :: "uuid \<Rightarrow> pstatus \<Rightarrow> unit fallible" where
  "UpdateProjectStatus i st = update_project i (\<lambda>t p. p\<lparr>p_status := st, p_active := Some t\<rparr>)"

definition SetProjectStatusOnly :: "uuid \<Rightarrow> pstatus \<Rightarrow> unit fallible" where
  "SetProjectStatusOnly i st = update_project i (\<lambda>_ p. p\<lparr>p_status := st\<rparr>)"

definition sweepable :: "project \<Rightarrow> bool" where
  "sweepable p = (live p \<and> p_status p \<in> {PRunning, PStopped, PError})"

definition ListProjectsForIngressSweep :: "project list fallible" where
  "ListProjectsForIngressSweep = query (\<lambda>d. filter sweepable (projects d))"

definition ListProjectsForHealthReconcile :: "(uuid \<times> string \<times> pstatus) list fallible" where
  "ListProjectsForHealthReconcile =
     query (\<lambda>d. map (\<lambda>p. (p_id p, p_slug p, p_status p)) (filter sweepable (projects d)))"

definition TouchProjectPushed :: "uuid \<Rightarrow> unit fallible" where
  "TouchProjectPushed i = update_project i (\<lambda>t p. p\<lparr>p_pushed := Some t\<rparr>)"

definition SoftDeleteProject :: "uuid \<Rightarrow> unit fallible" where
  "SoftDeleteProject i = statement (\<lambda>t d.
     if \<exists>p \<in> set (projects d). p_id p = i \<and> live p
     then (Inr (), d\<lparr>projects := update_rows (\<lambda>p. p_id p = i \<and> live p)
                      (\<lambda>p. p\<lparr>p_deleted := Some t, p_status := PDeleting\<rparr>) (projects d)\<rparr>)
     else (Inl ErrNotFound, d))"

definition SlugAvailable :: "string \<Rightarrow> bool fallible" where
  "SlugAvailable slug = query (\<lambda>d. length (filter (\<lambda>p. p_slug p = slug \<and> live p) (projects d)) = 0)"

text \<open>The audit writer drops its own errors.\<close>

definition WriteAudit :: "string \<Rightarrow> string \<Rightarrow> string \<Rightarrow> uuid option \<Rightarrow> json \<Rightarrow> unit prog" where
  "WriteAudit ty actor action pid meta = do {
     _ \<leftarrow> exec (\<lambda>t d. d\<lparr>audits := audits d @
            [\<lparr>a_type = ty, a_actor = actor, a_action = action, a_project = pid, a_meta = meta, a_at = t\<rparr>]\<rparr>);
     State_Monad.return ()
   }"


section \<open>Deployments (internal/store/deployments.go)\<close>

definition CreateDeployment :: "uuid \<Rightarrow> string \<Rightarrow> string \<Rightarrow> json \<Rightarrow> deployment fallible" where
  "CreateDeployment pid ty by m = insert_row (\<lambda>i t d.
     if \<exists>x \<in> set (deployments d). d_id x = i then (Inl ErrUnique, d)
     else if \<forall>p \<in> set (projects d). p_id p \<noteq> pid then (Inl ErrForeignKey, d)
     else
       (let x = \<lparr>d_id = i, d_project = pid, d_trigger_type = ty, d_triggered_by = by,
                 d_status = Pending, d_source_key = [], d_image = [], d_manifest = m, d_failure = [],
                 d_created = t, d_queued = None, d_build_started = None, d_build_done = None,
                 d_deployed = None\<rparr>
        in (Inr x, d\<lparr>deployments := deployments d @ [x]\<rparr>)))"

definition GetDeployment :: "uuid \<Rightarrow> deployment fallible" where
  "GetDeployment i = query_row (\<lambda>d. find_row (\<lambda>x. d_id x = i) (deployments d))"

definition ListDeployments :: "uuid \<Rightarrow> int \<Rightarrow> int \<Rightarrow> deployment list fallible" where
  "ListDeployments pid limit offset = query (\<lambda>d.
     page limit offset (sort_key (\<lambda>x. - d_created x) (filter (\<lambda>x. d_project x = pid) (deployments d))))"

definition update_deployments :: "(deployment \<Rightarrow> bool) \<Rightarrow> (int \<Rightarrow> deployment \<Rightarrow> deployment) \<Rightarrow> unit fallible" where
  "update_deployments q f = exec (\<lambda>t d. d\<lparr>deployments := update_rows q (f t) (deployments d)\<rparr>)"

definition MarkDeploymentQueued :: "uuid \<Rightarrow> string \<Rightarrow> unit fallible" where
  "MarkDeploymentQueued i key = update_deployments (\<lambda>x. d_id x = i)
     (\<lambda>t x. x\<lparr>d_status := Queued, d_source_key := key, d_queued := Some t\<rparr>)"

text \<open>The row the sub-select picks: the queued one with the least queued_at, NULLs last.\<close>

definition queue_key :: "deployment \<Rightarrow> nat \<times> int" where
  "queue_key x = (case d_queued x of Some t \<Rightarrow> (0, t) | None \<Rightarrow> (1, 0))"

definition next_queued :: "deployment list \<Rightarrow> deployment option" where
  "next_queued ds =
     (case sort_key queue_key (filter (\<lambda>x. d_status x = Queued) ds) of [] \<Rightarrow> None | x # _ \<Rightarrow> Some x)"

definition claim :: "int \<Rightarrow> deployment \<Rightarrow> deployment" where
  "claim t x = x\<lparr>d_status := Building, d_build_started := Some t\<rparr>"

definition ClaimNextQueued :: "deployment option fallible" where
  "ClaimNextQueued = statement (\<lambda>t d.
     case next_queued (deployments d) of
       None \<Rightarrow> (Inr None, d)
     | Some x \<Rightarrow> (Inr (Some (claim t x)),
         d\<lparr>deployments := update_rows (\<lambda>y. d_id y = d_id x) (claim t) (deployments d)\<rparr>))"

definition build_done_stamp :: "int \<Rightarrow> dstatus \<Rightarrow> deployment \<Rightarrow> int option" where
  "build_done_stamp t st x =
     (if st \<in> {Pushing, Deploying, Running, Failed} \<and> d_build_done x = None then Some t else d_build_done x)"

definition TryAdvanceDeploymentStatus :: "uuid \<Rightarrow> dstatus \<Rightarrow> dstatus \<Rightarrow> bool fallible" where
  "TryAdvanceDeploymentStatus i from_st to_st = statement (\<lambda>t d.
     (Inr (length (filter (\<lambda>x. d_id x = i \<and> d_status x = from_st) (deployments d)) = 1),
      d\<lparr>deployments := update_rows (\<lambda>x. d_id x = i \<and> d_status x = from_st)
           (\<lambda>x. x\<lparr>d_status := to_st, d_build_done := build_done_stamp t to_st x\<rparr>) (deployments d)\<rparr>))"

definition MarkDeploymentStatus :: "uuid \<Rightarrow> dstatus \<Rightarrow> string \<Rightarrow> unit fallible" where
  "MarkDeploymentStatus i st reason = update_deployments (\<lambda>x. d_id x = i)
     (\<lambda>t x. x\<lparr>d_status := st, d_failure := reason, d_build_done := build_done_stamp t st x,
        d_deployed := (if st = Running \<and> d_deployed x = None then Some t else d_deployed x)\<rparr>)"

definition SetDeploymentImage :: "uuid \<Rightarrow> string \<Rightarrow> unit fallible" where
  "SetDeploymentImage i img = update_deployments (\<lambda>x. d_id x = i) (\<lambda>_ x. x\<lparr>d_image := img\<rparr>)"

definition SupersedeOlderDeployments :: "uuid \<Rightarrow> uuid \<Rightarrow> unit fallible" where
  "SupersedeOlderDeployments pid keep = update_deployments
     (\<lambda>x. d_project x = pid \<and> d_id x \<noteq> keep \<and> d_status x \<in> {Queued, Building, Pushing, Deploying})
     (\<lambda>_ x. x\<lparr>d_status := Superseded\<rparr>)"

definition SupersedeRunningSiblings :: "uuid \<Rightarrow> uuid \<Rightarrow> unit fallible" where
  "SupersedeRunningSiblings pid keep = update_deployments
     (\<lambda>x. d_project x = pid \<and> d_id x \<noteq> keep \<and> d_status x = Running)
     (\<lambda>_ x. x\<lparr>d_status := Superseded\<rparr>)"

definition AppendEvent :: "uuid \<Rightarrow> string \<Rightarrow> string \<Rightarrow> string \<Rightarrow> int fallible" where
  "AppendEvent dep phase level msg = statement (\<lambda>_ d.
     let n = event_seq d; d' = d\<lparr>event_seq := n + 1\<rparr> in
     if \<forall>x \<in> set (deployments d). d_id x \<noteq> dep then (Inl ErrForeignKey, d')
     else (Inr n, d'\<lparr>events := events d @
            [\<lparr>e_id = n, e_deployment = dep, e_phase = phase, e_level = level, e_message = msg\<rparr>]\<rparr>))"

definition ListEvents :: "uuid \<Rightarrow> int \<Rightarrow> event list fallible" where
  "ListEvents dep after = query (\<lambda>d.
     sort_key e_id (filter (\<lambda>e. e_deployment e = dep \<and> e_id e > after) (events d)))"


section \<open>Custom domains (internal/store/domains.go)\<close>

definition AddDomain :: "uuid \<Rightarrow> string \<Rightarrow> domain_row fallible" where
  "AddDomain pid host0 = insert_row (\<lambda>i t d.
     let host = ToLower (TrimSpace host0) in
     if \<exists>x \<in> set (domains d). dm_host x = host \<or> dm_id x = i then (Inl ErrDomainTaken, d)
     else if \<forall>p \<in> set (projects d). p_id p \<noteq> pid then (Inl ErrForeignKey, d)
     else
       (let x = \<lparr>dm_id = i, dm_project = pid, dm_host = host, dm_kind = ''custom'', dm_verified = False,
                 dm_created = t\<rparr>
        in (Inr x, d\<lparr>domains := domains d @ [x]\<rparr>)))"

definition RemoveDomain :: "uuid \<Rightarrow> string \<Rightarrow> unit fallible" where
  "RemoveDomain pid host0 = statement (\<lambda>_ d.
     let q = (\<lambda>x. dm_project x = pid \<and> dm_host x = ToLower (TrimSpace host0)) in
     if \<exists>x \<in> set (domains d). q x then (Inr (), d\<lparr>domains := delete_rows q (domains d)\<rparr>)
     else (Inl ErrNotFound, d))"

definition ListDomains :: "uuid \<Rightarrow> domain_row list fallible" where
  "ListDomains pid = query (\<lambda>d. sort_key dm_created (filter (\<lambda>x. dm_project x = pid) (domains d)))"

definition LookupProjectIDByHostname :: "string \<Rightarrow> uuid fallible" where
  "LookupProjectIDByHostname host0 = query_row (\<lambda>d.
     map_option dm_project (find_row (\<lambda>x. dm_host x = ToLower (TrimSpace host0)) (domains d)))"


section \<open>Path rules (internal/store/path\_rules.go)\<close>

definition path_order :: "path_rule \<Rightarrow> int \<times> string" where
  "path_order r = (- int (length (r_prefix r)), r_prefix r)"

definition ListProjectPathRules :: "uuid \<Rightarrow> path_rule list fallible" where
  "ListProjectPathRules pid =
     query (\<lambda>d. sort_key path_order (filter (\<lambda>r. r_project r = pid) (path_rules d)))"

definition valid_mode :: "string \<Rightarrow> bool" where
  "valid_mode m = (m \<in> {PathRuleModeNoAuth, PathRuleModeToken})"

definition CreateProjectPathRule ::
  "uuid \<Rightarrow> string \<Rightarrow> string \<Rightarrow> string list \<Rightarrow> path_rule fallible" where
  "CreateProjectPathRule pid pfx mode cidrs = insert_row (\<lambda>i t d.
     if \<not> valid_mode mode then (Inl ErrCheck, d)
     else if \<exists>r \<in> set (path_rules d). r_id r = i \<or> r_project r = pid \<and> r_prefix r = pfx
     then (Inl ErrPathRuleTaken, d)
     else if \<forall>p \<in> set (projects d). p_id p \<noteq> pid then (Inl ErrForeignKey, d)
     else
       (let r = \<lparr>r_id = i, r_project = pid, r_prefix = pfx, r_mode = mode, r_cidrs = cidrs, r_updated = t\<rparr>
        in (Inr r, d\<lparr>path_rules := path_rules d @ [r]\<rparr>)))"

definition UpdateProjectPathRule ::
  "uuid \<Rightarrow> uuid \<Rightarrow> string \<Rightarrow> string \<Rightarrow> string list \<Rightarrow> path_rule fallible" where
  "UpdateProjectPathRule pid rid pfx mode cidrs = statement (\<lambda>t d.
     let q = (\<lambda>r. r_id r = rid \<and> r_project r = pid);
         f = (\<lambda>r. r\<lparr>r_prefix := pfx, r_mode := mode, r_cidrs := cidrs, r_updated := t\<rparr>)
     in case find_row q (path_rules d) of
       None \<Rightarrow> (Inl ErrNotFound, d)
     | Some r \<Rightarrow>
         if \<not> valid_mode mode then (Inl ErrCheck, d)
         else if \<exists>x \<in> set (path_rules d). r_id x \<noteq> rid \<and> r_project x = pid \<and> r_prefix x = pfx
         then (Inl ErrPathRuleTaken, d)
         else (Inr (f r), d\<lparr>path_rules := update_rows q f (path_rules d)\<rparr>))"

definition DeleteProjectPathRule :: "uuid \<Rightarrow> uuid \<Rightarrow> unit fallible" where
  "DeleteProjectPathRule pid rid =
     exec (\<lambda>_ d. d\<lparr>path_rules := delete_rows (\<lambda>r. r_id r = rid \<and> r_project r = pid) (path_rules d)\<rparr>)"


section \<open>Egress rules (internal/store/egress\_rules.go)\<close>

definition rule_order :: "egress_rule \<Rightarrow> string \<times> string \<times> int" where
  "rule_order r = (g_kind r, g_value r, g_port r)"

definition ListProjectEgressRules :: "uuid \<Rightarrow> egress_rule list fallible" where
  "ListProjectEgressRules pid =
     query (\<lambda>d. sort_key rule_order (filter (\<lambda>r. g_project r = pid) (egress_rules d)))"

record rule_input =
  in_kind :: string
  in_value :: string
  in_port :: int
  in_note :: string

text \<open>The constraint \<open>project_egress_rules_port_range\<close> as migration 0018 leaves it.\<close>

definition port_range_check :: "string \<Rightarrow> int \<Rightarrow> bool" where
  "port_range_check knd port =
     (knd = ''domain'' \<and> port \<in> {0, 80, 443} \<or> knd = ''endpoint'' \<and> 0 \<le> port \<and> port \<le> 65535)"

text \<open>\<open>INSERT ... ON CONFLICT (project_id, kind, value, port) DO NOTHING\<close>; \<open>None\<close> when the
  CHECK fails.\<close>

definition insert_egress_rule ::
  "uuid \<Rightarrow> string \<Rightarrow> string \<Rightarrow> int \<Rightarrow> string \<Rightarrow> uuid option \<Rightarrow> egress_rule list \<Rightarrow> egress_rule list option" where
  "insert_egress_rule pid knd v port note by rows =
     (if \<not> port_range_check knd port then None
      else if \<exists>r \<in> set rows. g_project r = pid \<and> g_kind r = knd \<and> g_value r = v \<and> g_port r = port
      then Some rows
      else Some (rows @ [\<lparr>g_project = pid, g_kind = knd, g_value = v, g_port = port, g_note = note, g_by = by\<rparr>]))"

text \<open>The transaction works on its own copy of the rows until \<open>Commit\<close>; every statement of it
  may fail, which rolls back.\<close>

definition tx_statement :: "unit fallible" where
  "tx_statement = call (\<lambda>w. (Inr (), w))"

fun insert_egress_rules ::
  "uuid \<Rightarrow> uuid option \<Rightarrow> rule_input list \<Rightarrow> egress_rule list \<Rightarrow> egress_rule list fallible" where
  "insert_egress_rules pid by [] rows = ok rows"
| "insert_egress_rules pid by (r # rs) rows =
     attempt tx_statement (\<lambda>_.
       case insert_egress_rule pid (in_kind r) (in_value r) (in_port r) (in_note r) by rows of
         None \<Rightarrow> throw ErrCheck
       | Some rows' \<Rightarrow> insert_egress_rules pid by rs rows')"

definition ReplaceProjectEgressRules :: "uuid \<Rightarrow> rule_input list \<Rightarrow> uuid option \<Rightarrow> unit fallible" where
  "ReplaceProjectEgressRules pid rules by =
     attempt tx_statement (\<lambda>_.
     attempt (query (\<lambda>d. delete_rows (\<lambda>r. g_project r = pid) (egress_rules d))) (\<lambda>rows.
     attempt (insert_egress_rules pid by rules rows) (\<lambda>rows'.
     exec (\<lambda>_ d. d\<lparr>egress_rules := rows'\<rparr>))))"

text \<open>Slugs are unique, so the GROUP BY of the overview has one project per group.\<close>

definition CountEgressRulesByProject :: "(string \<times> nat \<times> nat) list fallible" where
  "CountEgressRulesByProject = query (\<lambda>d.
     map (\<lambda>p. (p_slug p,
             length (filter (\<lambda>r. g_project r = p_id p \<and> g_kind r = ''domain'') (egress_rules d)),
             length (filter (\<lambda>r. g_project r = p_id p \<and> g_kind r = ''endpoint'') (egress_rules d))))
       (sort_key p_slug (filter live (projects d))))"


section \<open>Egress proxy ports and targets (internal/store/egress\_proxy.go)\<close>

definition EgressProxyPortMin :: int where "EgressProxyPortMin = 13128"
definition EgressProxyPortMax :: int where "EgressProxyPortMax = 13999"

definition taken_ports :: "database \<Rightarrow> int list" where
  "taken_ports d = List.map_filter p_port (filter live (projects d))"

definition free_port :: "database \<Rightarrow> int option" where
  "free_port d = find (\<lambda>q. q \<notin> set (taken_ports d)) [EgressProxyPortMin..EgressProxyPortMax]"

definition EnsureEgressProxyPort :: "uuid \<Rightarrow> int fallible" where
  "EnsureEgressProxyPort pid =
     attempt (query_row (\<lambda>d. map_option p_port (find_row (\<lambda>p. p_id p = pid \<and> live p) (projects d)))) (\<lambda>existing.
     case existing of
       Some q \<Rightarrow> ok q
     | None \<Rightarrow>
         attempt (statement (\<lambda>_ d.
           if \<exists>p \<in> set (projects d). p_id p = pid \<and> live p
           then (Inr (free_port d),
                 d\<lparr>projects := update_rows (\<lambda>p. p_id p = pid \<and> live p) (\<lambda>p. p\<lparr>p_port := free_port d\<rparr>) (projects d)\<rparr>)
           else (Inl (ErrOther ''no rows in result set''), d))) (\<lambda>allocated.
         case allocated of None \<Rightarrow> throw ErrNoEgressProxyPort | Some q \<Rightarrow> ok q))"

record proxy_target =
  pt_slug :: string
  pt_port :: int
  pt_mode :: string
  pt_domains :: "(string \<times> int) list"

definition proxy_target_of :: "database \<Rightarrow> project \<Rightarrow> proxy_target option" where
  "proxy_target_of d p =
     (case p_port p of
        None \<Rightarrow> None
      | Some q \<Rightarrow> Some \<lparr>pt_slug = p_slug p, pt_port = q, pt_mode = p_mode p,
          pt_domains = sort (map (\<lambda>r. (g_value r, g_port r))
            (filter (\<lambda>r. g_project r = p_id p \<and> g_kind r = ''domain'') (egress_rules d)))\<rparr>)"

definition ListEgressProxyTargets :: "proxy_target list fallible" where
  "ListEgressProxyTargets =
     query (\<lambda>d. List.map_filter (proxy_target_of d) (sort_key p_slug (filter live (projects d))))"

definition GetProjectEgressMode :: "uuid \<Rightarrow> (string \<times> int) fallible" where
  "GetProjectEgressMode pid =
     query_row (\<lambda>d. map_option (\<lambda>p. (p_mode p, case p_port p of None \<Rightarrow> 0 | Some q \<Rightarrow> q))
       (find_row (\<lambda>p. p_id p = pid \<and> live p) (projects d)))"

definition SetProjectEgressMode :: "uuid \<Rightarrow> string \<Rightarrow> unit fallible" where
  "SetProjectEgressMode pid mode = statement (\<lambda>_ d.
     if mode \<notin> {''off'', ''observe'', ''enforce''} \<and> (\<exists>p \<in> set (projects d). p_id p = pid) then (Inl ErrCheck, d)
     else (Inr (), d\<lparr>projects := update_rows (\<lambda>p. p_id p = pid) (\<lambda>p. p\<lparr>p_mode := mode\<rparr>) (projects d)\<rparr>))"

definition EgressModeCounts :: "(string \<Rightarrow> nat) fallible" where
  "EgressModeCounts = query (\<lambda>d m. length (filter (\<lambda>p. live p \<and> p_mode p = m) (projects d)))"

definition ProxyPortSlugs :: "(int \<Rightarrow> string option) fallible" where
  "ProxyPortSlugs = query (\<lambda>d. map_of (rev (List.map_filter
     (\<lambda>p. map_option (\<lambda>q. (q, p_slug p)) (p_port p)) (filter live (projects d)))))"


section \<open>CIDR presets (internal/store/cidr\_presets.go)\<close>

definition ListCIDRPresets :: "preset list fallible" where
  "ListCIDRPresets = query (\<lambda>d. sort_key (\<lambda>p. (\<not> pr_system p, pr_label p)) (presets d))"

definition find_preset :: "string \<Rightarrow> database \<Rightarrow> preset option" where
  "find_preset name d = find_row (\<lambda>p. pr_name p = name) (presets d)"

definition GetCIDRPreset :: "string \<Rightarrow> preset fallible" where
  "GetCIDRPreset name = query_row (find_preset name)"

definition UpsertCIDRPreset :: "preset \<Rightarrow> uuid option \<Rightarrow> unit fallible" where
  "UpsertCIDRPreset p by = exec (\<lambda>t d. d\<lparr>presets :=
     (if \<exists>x \<in> set (presets d). pr_name x = pr_name p
      then update_rows (\<lambda>x. pr_name x = pr_name p)
        (\<lambda>x. x\<lparr>pr_label := pr_label p, pr_desc := pr_desc p, pr_cidrs := pr_cidrs p, pr_notes := pr_notes p,
               pr_updated := t, pr_by := by\<rparr>) (presets d)
      else presets d @ [p\<lparr>pr_system := False, pr_updated := t, pr_by := by\<rparr>])\<rparr>)"

text \<open>Deleting a preset sets the reference of the projects that use it to NULL.\<close>

definition delete_preset :: "string \<Rightarrow> database \<Rightarrow> database" where
  "delete_preset name d =
     (if \<exists>x \<in> set (presets d). pr_name x = name
      then d\<lparr>presets := delete_rows (\<lambda>x. pr_name x = name) (presets d),
             projects := update_rows (\<lambda>p. p_preset p = Some name) (\<lambda>p. p\<lparr>p_preset := None\<rparr>) (projects d)\<rparr>
      else d)"

definition DeleteCIDRPreset :: "string \<Rightarrow> unit fallible" where
  "DeleteCIDRPreset name =
     attempt (query_row (\<lambda>d. map_option pr_system (find_preset name d))) (\<lambda>isSystem.
     if isSystem then throw ErrPresetIsSystem else exec (\<lambda>_. delete_preset name))"


section \<open>System configuration (internal/store/system\_config.go)\<close>

definition GetSystemConfig :: "(string \<Rightarrow> string option) fallible" where
  "GetSystemConfig = query (\<lambda>d. map_of (map (\<lambda>c. (s_key c, s_value c)) (configs d)))"

definition ListSystemConfig :: "config_row list fallible" where
  "ListSystemConfig = query (\<lambda>d. sort_key s_key (configs d))"

definition set_config :: "int \<Rightarrow> uuid option \<Rightarrow> string \<Rightarrow> string \<Rightarrow> config_row list \<Rightarrow> config_row list" where
  "set_config t by k v cs =
     (if v = [] then delete_rows (\<lambda>c. s_key c = k) cs
      else if \<exists>c \<in> set cs. s_key c = k
      then update_rows (\<lambda>c. s_key c = k) (\<lambda>c. c\<lparr>s_value := v, s_updated := t, s_by := by\<rparr>) cs
      else cs @ [\<lparr>s_key = k, s_value = v, s_updated = t, s_by = by\<rparr>])"

fun set_configs :: "uuid option \<Rightarrow> (string \<times> string) list \<Rightarrow> config_row list \<Rightarrow> config_row list fallible" where
  "set_configs by [] cs = ok cs"
| "set_configs by ((k, v) # kvs) cs =
     attempt tx_statement (\<lambda>_. do { t \<leftarrow> get_now; set_configs by kvs (set_config t by k v cs) })"

definition BulkSetSystemConfig :: "(string \<times> string) list \<Rightarrow> uuid option \<Rightarrow> unit fallible" where
  "BulkSetSystemConfig kvs by =
     attempt (query configs) (\<lambda>cs.
     attempt (set_configs by kvs cs) (\<lambda>cs'.
     exec (\<lambda>_ d. d\<lparr>configs := cs'\<rparr>)))"


section \<open>Deploy tokens (internal/store/tokens.go)\<close>

definition LookupTokenByHash :: "string \<Rightarrow> token_row fallible" where
  "LookupTokenByHash h = query_row (\<lambda>d. find_row (\<lambda>t. t_hash t = h) (tokens d))"

definition TouchTokenLastUsed :: "uuid \<Rightarrow> unit prog" where
  "TouchTokenLastUsed i = do {
     _ \<leftarrow> exec (\<lambda>t d. d\<lparr>tokens := update_rows (\<lambda>x. t_id x = i) (\<lambda>x. x\<lparr>t_used := Some t\<rparr>) (tokens d)\<rparr>);
     State_Monad.return ()
   }"

record token_input =
  ti_project :: "uuid option"
  ti_name :: string
  ti_hash :: string
  ti_prefix :: string
  ti_scopes :: "string list"
  ti_allow_db :: bool
  ti_expires :: int
  ti_creator :: "uuid option"

definition CreateDeployToken :: "token_input \<Rightarrow> token_row fallible" where
  "CreateDeployToken ti = insert_row (\<lambda>i t d.
     if \<exists>x \<in> set (tokens d). t_id x = i \<or> t_hash x = ti_hash ti \<and> t_revoked x = None then (Inl ErrUnique, d)
     else
       (let x = \<lparr>t_id = i, t_project = ti_project ti, t_name = ti_name ti, t_hash = ti_hash ti,
                 t_prefix = ti_prefix ti, t_scopes = ti_scopes ti, t_allow_db = ti_allow_db ti,
                 t_creator = ti_creator ti, t_expires = ti_expires ti, t_revoked = None, t_used = None\<rparr>
        in (Inr x, d\<lparr>tokens := tokens d @ [x]\<rparr>)))"

end
