(* ===== verification/Secrets.thy ===== *)
theory Secrets
  imports Store
begin

text \<open>
  Secrets: the key-encryption key of internal/auth/crypto.go and the encrypted environment of a
  project (internal/store/project\_env.go).

  AES-256-GCM, SHA-256, HMAC and base64 are parameters, the fields of \<open>crypto\<close>. What the code
  relies on is \<open>aead_ok\<close>: opening a sealed text under the same key, nonce and associated data
  gives the text back, and opening it under another key or other associated data fails (the
  integrity of GCM, taken as certain).
\<close>

record crypto =
  cr_seal :: "string \<Rightarrow> string \<Rightarrow> string \<Rightarrow> string \<Rightarrow> string"
  cr_open :: "string \<Rightarrow> string \<Rightarrow> string \<Rightarrow> string \<Rightarrow> string option"
  cr_sha256 :: "string \<Rightarrow> string"
  cr_hmac :: "string \<Rightarrow> string \<Rightarrow> string"
  cr_b64dec :: "string \<Rightarrow> string option"
  cr_b64url :: "string \<Rightarrow> string"
  cr_b64urldec :: "string \<Rightarrow> string option"

definition aead_ok :: "crypto \<Rightarrow> bool" where
  "aead_ok cr =
     ((\<forall>k n pt aad. cr_open cr k n (cr_seal cr k n pt aad) aad = Some pt) \<and>
      (\<forall>k n pt aad k' aad'. (k', aad') \<noteq> (k, aad) \<longrightarrow> cr_open cr k' n (cr_seal cr k n pt aad) aad' = None))"


section \<open>The KEK (internal/auth/crypto.go)\<close>

definition zero_bytes :: "nat \<Rightarrow> string" where
  "zero_bytes n = replicate n (CHR 0x00)"

definition LoadKEK :: "crypto \<Rightarrow> string \<Rightarrow> err + string" where
  "LoadKEK cr b64 =
     (case cr_b64dec cr b64 of
        None \<Rightarrow> Inl (ErrOther ''base64'')
      | Some key \<Rightarrow> Inr (if length key \<noteq> 32 then take 32 (key @ zero_bytes 32) else key))"

text \<open>The nonce size of GCM is 12 bytes.\<close>

definition Encrypt :: "crypto \<Rightarrow> string \<Rightarrow> string \<Rightarrow> string \<Rightarrow> string fallible" where
  "Encrypt cr kek pt aad = attempt (rand_Read 12) (\<lambda>nonce. ok (nonce @ cr_seal cr kek nonce pt aad))"

definition Decrypt :: "crypto \<Rightarrow> string \<Rightarrow> string \<Rightarrow> string \<Rightarrow> err + string" where
  "Decrypt cr kek ct aad =
     (if length ct < 12 then Inl (ErrOther ''ciphertext too short'')
      else case cr_open cr kek (take 12 ct) (drop 12 ct) aad of
        None \<Rightarrow> Inl (ErrOther ''cipher: message authentication failed'')
      | Some pt \<Rightarrow> Inr pt)"

definition nul :: char where "nul = CHR 0x00"

definition EnvAAD :: "uuid \<Rightarrow> string \<Rightarrow> string" where
  "EnvAAD pid key = ''project_env'' @ [nul] @ pid @ [nul] @ key"

definition Derive :: "crypto \<Rightarrow> string \<Rightarrow> string \<Rightarrow> string" where
  "Derive cr kek label = (if kek = [] then [] else cr_hmac cr label kek)"

lemma LoadKEK_length: "LoadKEK cr b = Inr k \<Longrightarrow> length k = 32"
  by (auto simp: LoadKEK_def zero_bytes_def split: option.splits if_splits)

lemma EnvAAD_inj:
  assumes "EnvAAD pid key = EnvAAD pid' key'" and "nul \<notin> set pid" and "nul \<notin> set pid'"
  shows "pid = pid' \<and> key = key'"
  using assms sep_append_inj [of pid nul key pid' key'] by (simp add: EnvAAD_def)

lemma Decrypt_seal:
  assumes "aead_ok cr" and "length nonce = 12"
  shows "Decrypt cr kek (nonce @ cr_seal cr kek nonce pt aad) aad = Inr pt"
  using assms by (simp add: Decrypt_def aead_ok_def)

lemma Decrypt_other:
  assumes "aead_ok cr" and "length nonce = 12" and "(kek', aad') \<noteq> (kek, aad)"
  shows "\<exists>e. Decrypt cr kek' (nonce @ cr_seal cr kek nonce pt aad) aad' = Inl e"
  using assms by (simp add: Decrypt_def aead_ok_def)


section \<open>project\_env (internal/store/project\_env.go)\<close>

definition env_at :: "uuid \<Rightarrow> string \<Rightarrow> env_row \<Rightarrow> bool" where
  "env_at pid key r = (ev_project r = pid \<and> ev_key r = key)"

definition get_env :: "uuid \<Rightarrow> env_row list \<Rightarrow> string \<Rightarrow> (string \<times> bool \<times> int \<times> uuid option) option" where
  "get_env pid rows key =
     map_option (\<lambda>r. (ev_ct r, ev_system r, ev_updated r, ev_by r)) (find_row (env_at pid key) rows)"

definition put_env ::
  "uuid \<Rightarrow> string \<Rightarrow> (string \<times> bool \<times> int \<times> uuid option) \<Rightarrow> env_row list \<Rightarrow> env_row list" where
  "put_env pid key v rows =
     (case v of (ct, sys, t, by) \<Rightarrow>
        if \<exists>r \<in> set rows. env_at pid key r
        then update_rows (env_at pid key)
               (\<lambda>r. r\<lparr>ev_ct := ct, ev_system := sys, ev_updated := t, ev_by := by\<rparr>) rows
        else rows @ [\<lparr>ev_project = pid, ev_key = key, ev_ct = ct, ev_system = sys, ev_updated = t, ev_by = by\<rparr>])"

definition del_env :: "uuid \<Rightarrow> string \<Rightarrow> env_row list \<Rightarrow> env_row list" where
  "del_env pid key rows = delete_rows (env_at pid key) rows"

definition SetProjectEnv ::
  "crypto \<Rightarrow> string \<Rightarrow> uuid \<Rightarrow> string \<Rightarrow> string \<Rightarrow> bool \<Rightarrow> uuid option \<Rightarrow> unit fallible" where
  "SetProjectEnv cr kek pid key val sys by =
     attempt (Encrypt cr kek val (EnvAAD pid key)) (\<lambda>ct.
     statement (\<lambda>t d.
       if \<forall>p \<in> set (projects d). p_id p \<noteq> pid then (Inl ErrForeignKey, d)
       else (Inr (), d\<lparr>env_rows := put_env pid key (ct, sys, t, by) (env_rows d)\<rparr>)))"

fun decrypt_rows ::
  "crypto \<Rightarrow> string \<Rightarrow> uuid \<Rightarrow> env_row list \<Rightarrow> (string \<Rightarrow> string option) \<Rightarrow> err + (string \<Rightarrow> string option)" where
  "decrypt_rows cr kek pid [] m = Inr m"
| "decrypt_rows cr kek pid (r # rs) m =
     (case Decrypt cr kek (ev_ct r) (EnvAAD pid (ev_key r)) of
        Inl _ \<Rightarrow> Inl (ErrDecrypt (ev_key r))
      | Inr pt \<Rightarrow> decrypt_rows cr kek pid rs (m(ev_key r \<mapsto> pt)))"

definition GetProjectEnv :: "crypto \<Rightarrow> string \<Rightarrow> uuid \<Rightarrow> (string \<Rightarrow> string option) fallible" where
  "GetProjectEnv cr kek pid =
     attempt (query (\<lambda>d. filter (\<lambda>r. ev_project r = pid) (env_rows d))) (\<lambda>rows.
     State_Monad.return (decrypt_rows cr kek pid rows (\<lambda>_. None)))"

record env_entry =
  en_key :: string
  en_updated :: int
  en_by :: "uuid option"
  en_system :: bool

definition ListProjectEnvKeys :: "uuid \<Rightarrow> env_entry list fallible" where
  "ListProjectEnvKeys pid = query (\<lambda>d.
     map (\<lambda>r. \<lparr>en_key = ev_key r, en_updated = ev_updated r, en_by = ev_by r, en_system = ev_system r\<rparr>)
       (sort_key ev_key (filter (\<lambda>r. ev_project r = pid) (env_rows d))))"

definition DeleteProjectEnv :: "uuid \<Rightarrow> string \<Rightarrow> unit fallible" where
  "DeleteProjectEnv pid key =
     attempt (query_row (\<lambda>d. map_option ev_system (find_row (env_at pid key) (env_rows d)))) (\<lambda>sys.
     if sys then throw ErrSystemEnv else exec (\<lambda>_ d. d\<lparr>env_rows := del_env pid key (env_rows d)\<rparr>))"

definition DeleteAllProjectEnv :: "uuid \<Rightarrow> unit fallible" where
  "DeleteAllProjectEnv pid =
     exec (\<lambda>_ d. d\<lparr>env_rows := delete_rows (\<lambda>r. ev_project r = pid) (env_rows d)\<rparr>)"


section \<open>The environment as a keyed store\<close>

lemma env_at_eq: "env_at pid key r \<Longrightarrow> env_at pid key' r = (key' = key)"
  by (auto simp: env_at_def)

lemma get_put_env: "get_env pid (put_env pid key v rows) key' = (if key' = key then Some v else get_env pid rows key')"
proof (cases v)
  case (fields ct sys t u)
  show ?thesis
  proof (cases "\<exists>r \<in> set rows. env_at pid key r")
    case True
    let ?f = "\<lambda>r. r\<lparr>ev_ct := ct, ev_system := sys, ev_updated := t, ev_by := u\<rparr>"
    have keep: "env_at pid k (if env_at pid key r then ?f r else r) = env_at pid k r" for k r
      by (simp add: env_at_def)
    have u: "find_row (env_at pid key') (update_rows (env_at pid key) ?f rows) =
        map_option (\<lambda>r. if env_at pid key r then ?f r else r) (find_row (env_at pid key') rows)"
      by (rule find_row_update) (simp add: keep)
    have g: "get_env pid (put_env pid key v rows) key' = map_option (\<lambda>r. (ev_ct r, ev_system r, ev_updated r, ev_by r))
        (map_option (\<lambda>r. if env_at pid key r then ?f r else r) (find_row (env_at pid key') rows))"
      using True by (simp add: get_env_def put_env_def fields u)
    show ?thesis
    proof (cases "key' = key")
      case True
      obtain r where "find_row (env_at pid key) rows = Some r"
        using \<open>\<exists>r \<in> set rows. env_at pid key r\<close> by (cases "find_row (env_at pid key) rows") (auto simp: find_row_None)
      with g True find_row_Some [OF this] show ?thesis by (simp add: fields)
    next
      case False
      then have "find_row (env_at pid key') rows = Some r \<Longrightarrow> \<not> env_at pid key r" for r
        by (auto dest!: find_row_Some simp: env_at_def)
      with g False show ?thesis by (cases "find_row (env_at pid key') rows") (simp_all add: get_env_def)
    qed
  next
    case False
    then have "find_row (env_at pid key) rows = None" by (auto simp: find_row_None)
    with False show ?thesis
      by (auto simp: get_env_def put_env_def fields find_row_append env_at_def split: option.splits)
  qed
qed

lemma get_del_env: "get_env pid (del_env pid key rows) key' = (if key' = key then None else get_env pid rows key')"
proof (cases "key' = key")
  case True
  then show ?thesis by (simp add: get_env_def del_env_def find_row_delete)
next
  case False
  then have "find_row (env_at pid key') (delete_rows (env_at pid key) rows) = find_row (env_at pid key') rows"
    by (intro find_row_delete_other) (auto simp: env_at_def)
  with False show ?thesis by (simp add: get_env_def del_env_def)
qed

interpretation project_env: kv_store "get_env pid" "put_env pid" "del_env pid" for pid
  by unfold_locales (simp_all add: get_put_env get_del_env)

text \<open>Other projects' rows are not touched.\<close>

lemma put_env_other: "pid' \<noteq> pid \<Longrightarrow> get_env pid' (put_env pid key v rows) key' = get_env pid' rows key'"
proof -
  assume ne: "pid' \<noteq> pid"
  obtain ct sys t u where v: "v = (ct, sys, t, u)" by (cases v)
  let ?f = "\<lambda>r. r\<lparr>ev_ct := ct, ev_system := sys, ev_updated := t, ev_by := u\<rparr>"
  have "find_row (env_at pid' key') (update_rows (env_at pid key) ?f rows) = find_row (env_at pid' key') rows"
    by (induction rows) (use ne in \<open>auto simp: env_at_def\<close>)
  then show ?thesis using ne
    by (auto simp: get_env_def put_env_def v find_row_append env_at_def split: option.splits)
qed

end
