(* ===== verification/Kube.thy ===== *)
theory Kube
  imports World
begin

text \<open>
  The API server as the deployer uses it: get, create, update, delete and list, each of which
  may fail; and the create-or-update that every write of internal/k8sdriver repeats (get, then
  create when the object is missing and update otherwise). A namespaced object can only be
  created in a namespace that exists.

  The configuration of the deployer (\<open>Deployer\<close> of deployer.go) is the record \<open>deployer\<close>. Two of
  its fields stand for library functions the model cannot read: \<open>dc_quantity_ok\<close> says which
  strings \<open>resource.MustParse\<close> accepts (it panics on the others), \<open>dc_sha256\<close> is SHA-256.
\<close>

definition k8s_get :: "okey \<Rightarrow> kobj fallible" where
  "k8s_get k = call (\<lambda>w. (case obj_get k (objs w) of None \<Rightarrow> Inl ErrNotFound | Some v \<Rightarrow> Inr v, w))"

definition has_namespace :: "okey \<Rightarrow> objects \<Rightarrow> bool" where
  "has_namespace k os = (case k of (kd, ns, _) \<Rightarrow> kd = NamespaceK \<or> obj_get (NamespaceK, [], ns) os \<noteq> None)"

definition k8s_create :: "okey \<Rightarrow> kobj \<Rightarrow> unit fallible" where
  "k8s_create k v = call (\<lambda>w.
     if \<not> has_namespace k (objs w) then (Inl ErrNotFound, w)
     else if obj_get k (objs w) \<noteq> None then (Inl (ErrOther ''already exists''), w)
     else (Inr (), w\<lparr>objs := obj_put k v (objs w)\<rparr>))"

definition k8s_update :: "okey \<Rightarrow> kobj \<Rightarrow> unit fallible" where
  "k8s_update k v = call (\<lambda>w.
     if obj_get k (objs w) = None then (Inl ErrNotFound, w)
     else (Inr (), w\<lparr>objs := obj_put k v (objs w)\<rparr>))"

definition k8s_delete :: "okey \<Rightarrow> unit fallible" where
  "k8s_delete k = call (\<lambda>w.
     if obj_get k (objs w) = None then (Inl ErrNotFound, w)
     else (Inr (), w\<lparr>objs := obj_del k (objs w)\<rparr>))"

definition k8s_list :: "(objects \<Rightarrow> 'a) \<Rightarrow> 'a fallible" where
  "k8s_list f = call (\<lambda>w. (Inr (f (objs w)), w))"

definition k8s_apply :: "okey \<Rightarrow> kobj \<Rightarrow> unit fallible" where
  "k8s_apply k v = do {
     r \<leftarrow> k8s_get k;
     case r of
       Inl e \<Rightarrow> if e = ErrNotFound then k8s_create k v else throw e
     | Inr _ \<Rightarrow> k8s_update k v
   }"

record deployer =
  dc_base :: string
  dc_class :: string
  dc_issuer :: string
  dc_registry :: string
  dc_endpoints :: "string list"
  dc_dns :: string
  dc_avoid_cp :: bool
  dc_quantity_ok :: "string \<Rightarrow> bool"
  dc_sha256 :: "string \<Rightarrow> string"

definition hex_digit :: "nat \<Rightarrow> char" where
  "hex_digit d = ''0123456789abcdef'' ! (d mod 16)"

definition hex_encode :: "string \<Rightarrow> string" where
  "hex_encode s = concat (map (\<lambda>c. [hex_digit (byte c div 16), hex_digit (byte c mod 16)]) s)"


section \<open>Reasoning\<close>

lemma keeps_k8s_read [keeps_intros]:
  "(\<And>w bs. f (w\<lparr>faults := bs\<rparr>) = f w) \<Longrightarrow> keeps f (k8s_get k)"
  "(\<And>w bs. f (w\<lparr>faults := bs\<rparr>) = f w) \<Longrightarrow> keeps f (k8s_list g)"
  unfolding k8s_get_def k8s_list_def by (rule keeps_call; simp)+

lemma keeps_k8s_write [keeps_intros]:
  assumes "\<And>w bs. f (w\<lparr>faults := bs\<rparr>) = f w" and "\<And>w x. f (w\<lparr>objs := x\<rparr>) = f w"
  shows "keeps f (k8s_create k v)" "keeps f (k8s_update k v)" "keeps f (k8s_delete k)" "keeps f (k8s_apply k v)"
proof -
  show 1: "keeps f (k8s_create k v)" unfolding k8s_create_def by (rule keeps_call) (simp_all add: assms)
  show 2: "keeps f (k8s_update k v)" unfolding k8s_update_def by (rule keeps_call) (simp_all add: assms)
  show "keeps f (k8s_delete k)" unfolding k8s_delete_def by (rule keeps_call) (simp_all add: assms)
  show "keeps f (k8s_apply k v)" unfolding k8s_apply_def
    by (intro keeps_intros 1 2) (simp_all add: assms)
qed

text \<open>What an upsert does to the objects: nothing when it fails, and otherwise it puts the
  object, in a namespace that exists.\<close>

lemma wp_k8s_apply:
  assumes "\<And>e bs. Q (Inl e) (w\<lparr>faults := bs\<rparr>)"
    and "\<And>bs. Q (Inr ()) (w\<lparr>faults := bs, objs := obj_put k v (objs w)\<rparr>)"
  shows "wp (k8s_apply k v) Q w"
proof -
  have c: "wp (k8s_create k v) Q (w\<lparr>faults := bs\<rparr>)" for bs
    unfolding k8s_create_def by (rule wp_callI) (simp_all add: assms)
  have u: "wp (k8s_update k v) Q (w\<lparr>faults := bs\<rparr>)" for bs
    unfolding k8s_update_def by (rule wp_callI) (simp_all add: assms)
  show ?thesis
    unfolding k8s_apply_def k8s_get_def wp_bind
    by (rule wp_callI) (simp_all add: wp_return assms c u split: option.split)
qed

lemma k8s_apply_cases:
  assumes "run_state (k8s_apply k v) w = (r, w')"
  shows "(\<exists>e. r = Inl e \<and> objs w' = objs w) \<or> (r = Inr () \<and> objs w' = obj_put k v (objs w))"
proof -
  have "wp (k8s_apply k v) (\<lambda>r w'. (\<exists>e. r = Inl e \<and> objs w' = objs w) \<or>
      (r = Inr () \<and> objs w' = obj_put k v (objs w))) w"
    by (rule wp_k8s_apply) simp_all
  from wp_runD [OF this assms] show ?thesis .
qed

end
