(* ===== verification/Egress_Policy.thy ===== *)
theory Egress_Policy
  imports Kube
begin

text \<open>
  \<open>ensureEgressPolicy\<close> of internal/k8sdriver/deployer.go: which NetworkPolicy a project gets
  from the platform's service endpoints, the registry address, the DNS address and the
  project's own endpoint rules. \<open>egress_rules_for\<close> is the computation, in the stages of the
  code (the map from CIDR to ports, the exceptions of the public catch-all, the rules);
  \<open>ensureEgressPolicy\<close> writes the object.

  The theorems say what the written policy lets a pod reach, in terms of the semantics of
  \<open>egress_allowed\<close>.
\<close>


section \<open>The map from CIDR to ports\<close>

record egress_allow =
  ea_cidr :: string
  ea_port :: int

type_synonym port_map = "(string \<times> int list) list"

fun addPort :: "string \<Rightarrow> int \<Rightarrow> port_map \<Rightarrow> port_map" where
  "addPort c q [] = [(c, [q])]"
| "addPort c q ((c', qs) # m) =
     (if c' = c then (c, if q \<in> set qs then qs else qs @ [q]) # m else (c', qs) # addPort c q m)"

definition ports_of :: "port_map \<Rightarrow> string \<Rightarrow> int list" where
  "ports_of m c = (case map_of m c of Some qs \<Rightarrow> qs | None \<Rightarrow> [])"

definition host_cidr :: "string \<Rightarrow> string" where
  "host_cidr host = host @ ''/32''"

definition add_endpoint :: "port_map \<Rightarrow> string \<Rightarrow> port_map" where
  "add_endpoint m ep =
     (case SplitHostPort (TrimSpace ep) of
        None \<Rightarrow> m
      | Some (host, portStr) \<Rightarrow>
          if ParseIP host = None then m
          else case Atoi portStr of
            None \<Rightarrow> m
          | Some q \<Rightarrow>
              if q < 1 \<or> q > 65535 then m
              else addPort (host_cidr host) q (addPort (host_cidr host) 443 (addPort (host_cidr host) 80 m)))"

definition add_registry :: "string \<Rightarrow> port_map \<Rightarrow> port_map" where
  "add_registry registry m =
     (case SplitHostPort (TrimSpace registry) of
        None \<Rightarrow> m
      | Some (host, _) \<Rightarrow>
          (case ParseIP host of
             None \<Rightarrow> m
           | Some ip \<Rightarrow>
               if \<not> IsLoopback ip \<and> map_of m (host_cidr host) = None
               then addPort (host_cidr host) 443 (addPort (host_cidr host) 80 m)
               else m))"

definition add_allow :: "port_map \<Rightarrow> egress_allow \<Rightarrow> port_map" where
  "add_allow m e =
     (if ea_port e < 0 \<or> ea_port e > 65535 then m
      else if ParseCIDR (ea_cidr e) = None then m
      else addPort (ea_cidr e) (ea_port e) m)"

definition allowed_map :: "deployer \<Rightarrow> egress_allow list \<Rightarrow> port_map" where
  "allowed_map dc extra =
     foldl add_allow (add_registry (dc_registry dc) (foldl add_endpoint [] (dc_endpoints dc))) extra"


section \<open>The rules\<close>

definition private_ranges :: "string list" where
  "private_ranges = [''10.0.0.0/8'', ''172.16.0.0/12'', ''192.168.0.0/16'', ''169.254.0.0/16'']"

definition except_ranges :: "string list \<Rightarrow> string list" where
  "except_ranges cidrs =
     sort (private_ranges @
       filter (\<lambda>c. case ParseCIDR c of Some (ip, _) \<Rightarrow> \<not> isPrivateOrLinkLocal ip | None \<Rightarrow> False) cidrs)"

definition catch_all :: "string list \<Rightarrow> np_rule" where
  "catch_all cidrs = \<lparr>np_to = IPBlock ''0.0.0.0/0'' (except_ranges cidrs), np_ports = []\<rparr>"

definition dns_ports :: "(protocol \<times> int) list" where
  "dns_ports = [(UDP, 53), (TCP, 53)]"

definition cidr_rule :: "port_map \<Rightarrow> string \<Rightarrow> np_rule" where
  "cidr_rule m c =
     \<lparr>np_to = IPBlock c [],
      np_ports = (if 0 \<in> set (ports_of m c) then [] else map (\<lambda>q. (TCP, q)) (sort (ports_of m c)))\<rparr>"

definition egress_rules_for :: "deployer \<Rightarrow> egress_allow list \<Rightarrow> bool \<Rightarrow> np_rule list option" where
  "egress_rules_for dc extra enforce =
     (if dc_endpoints dc = [] then None
      else
        (let m = allowed_map dc extra; cidrs = sort (map fst m)
         in if m = [] then None
            else Some
              ((if enforce then [] else [catch_all cidrs]) @
               [\<lparr>np_to = KubeDNSPods, np_ports = dns_ports\<rparr>, \<lparr>np_to = OwnNamespacePods, np_ports = []\<rparr>] @
               (if ParseIP (dc_dns dc) \<noteq> None
                then [\<lparr>np_to = IPBlock (host_cidr (dc_dns dc)) [], np_ports = dns_ports\<rparr>] else []) @
               map (cidr_rule m) cidrs)))"

definition policy_key :: "string \<Rightarrow> okey" where
  "policy_key slug = (NetworkPolicyK, namespaceFor slug, ''iai-egress'')"

definition ensureEgressPolicy :: "deployer \<Rightarrow> string \<Rightarrow> egress_allow list \<Rightarrow> bool \<Rightarrow> unit fallible" where
  "ensureEgressPolicy dc slug extra enforce =
     (case egress_rules_for dc extra enforce of
        None \<Rightarrow> ok ()
      | Some rules \<Rightarrow> k8s_apply (policy_key slug) (KNetworkPolicy rules))"

definition SyncEgressPolicy :: "deployer \<Rightarrow> string \<Rightarrow> egress_allow list \<Rightarrow> bool \<Rightarrow> unit fallible" where
  "SyncEgressPolicy dc slug allows enforce = ensureEgressPolicy dc slug allows enforce"


section \<open>What a project's pods may reach\<close>

text \<open>Without a policy in its namespace a pod may reach everything.\<close>

definition pod_egress :: "world \<Rightarrow> string \<Rightarrow> dest \<Rightarrow> protocol \<Rightarrow> int \<Rightarrow> bool" where
  "pod_egress w slug d proto port =
     (case obj_get (policy_key slug) (objs w) of
        Some (KNetworkPolicy rules) \<Rightarrow> egress_allowed rules d proto port
      | _ \<Rightarrow> True)"

text \<open>The specification of the grants: the destinations the configuration and the admin's
  rules name.\<close>

definition endpoint_grants :: "string \<Rightarrow> string \<Rightarrow> int \<Rightarrow> bool" where
  "endpoint_grants ep c q =
     (\<exists>host ps n. SplitHostPort (TrimSpace ep) = Some (host, ps) \<and> ParseIP host \<noteq> None \<and> Atoi ps = Some n \<and>
        1 \<le> n \<and> n \<le> 65535 \<and> c = host_cidr host \<and> q \<in> {80, 443, n})"

definition registry_grants :: "string \<Rightarrow> string \<Rightarrow> int \<Rightarrow> bool" where
  "registry_grants reg c q =
     (\<exists>host ps ip. SplitHostPort (TrimSpace reg) = Some (host, ps) \<and> ParseIP host = Some ip \<and>
        \<not> IsLoopback ip \<and> c = host_cidr host \<and> q \<in> {80, 443})"

definition rule_grants :: "egress_allow \<Rightarrow> string \<Rightarrow> int \<Rightarrow> bool" where
  "rule_grants e c q = (c = ea_cidr e \<and> q = ea_port e \<and> 0 \<le> q \<and> q \<le> 65535 \<and> ParseCIDR c \<noteq> None)"

definition granted :: "deployer \<Rightarrow> egress_allow list \<Rightarrow> string \<Rightarrow> int \<Rightarrow> bool" where
  "granted dc extra c q =
     ((\<exists>ep \<in> set (dc_endpoints dc). endpoint_grants ep c q) \<or> registry_grants (dc_registry dc) c q \<or>
      (\<exists>e \<in> set extra. rule_grants e c q))"

lemma ports_of_addPort: "q' \<in> set (ports_of (addPort c q m) c') \<longleftrightarrow> (c' = c \<and> q' = q) \<or> q' \<in> set (ports_of m c')"
  by (induction c q m rule: addPort.induct) (auto simp: ports_of_def split: option.splits if_splits)

lemma addPort_keys: "fst ` set (addPort c q m) = insert c (fst ` set m)"
  by (induction c q m rule: addPort.induct) auto

text \<open>\<open>in_map\<close>: the map has the port under the address range.\<close>

definition in_map :: "port_map \<Rightarrow> string \<Rightarrow> int \<Rightarrow> bool" where
  "in_map m c q = (q \<in> set (ports_of m c))"

lemma in_map_addPort [simp]: "in_map (addPort c q m) c' q' \<longleftrightarrow> (c' = c \<and> q' = q) \<or> in_map m c' q'"
  by (simp add: in_map_def ports_of_addPort)

lemma in_map_Nil [simp]: "\<not> in_map [] c q"
  by (simp add: in_map_def ports_of_def)

lemma in_map_endpoint: "in_map (add_endpoint m ep) c q \<longleftrightarrow> in_map m c q \<or> endpoint_grants ep c q"
proof (cases "SplitHostPort (TrimSpace ep)")
  case (Some hp)
  obtain host ps where hp: "SplitHostPort (TrimSpace ep) = Some (host, ps)"
    using Some by (cases hp) simp
  show ?thesis
  proof (cases "Atoi ps")
    case None
    then show ?thesis by (simp add: add_endpoint_def endpoint_grants_def hp)
  next
    case (Some n)
    then show ?thesis by (auto simp add: add_endpoint_def endpoint_grants_def hp)
  qed
qed (simp add: add_endpoint_def endpoint_grants_def)

lemma in_map_endpoints:
  "in_map (foldl add_endpoint m eps) c q \<longleftrightarrow> in_map m c q \<or> (\<exists>ep \<in> set eps. endpoint_grants ep c q)"
  by (induction eps arbitrary: m) (auto simp: in_map_endpoint)

lemma in_map_allow: "in_map (add_allow m e) c q \<longleftrightarrow> in_map m c q \<or> rule_grants e c q"
  by (auto simp: add_allow_def rule_grants_def)

lemma in_map_allows: "in_map (foldl add_allow m es) c q \<longleftrightarrow> in_map m c q \<or> (\<exists>e \<in> set es. rule_grants e c q)"
  by (induction es arbitrary: m) (auto simp: in_map_allow)

lemma in_map_key: "in_map m c q \<Longrightarrow> c \<in> set (map fst m)"
proof -
  assume "in_map m c q"
  then obtain qs where "map_of m c = Some qs" by (cases "map_of m c") (simp_all add: in_map_def ports_of_def)
  then have "(c, qs) \<in> set m" by (rule map_of_SomeD)
  then show ?thesis by force
qed

definition ports_ne :: "port_map \<Rightarrow> bool" where
  "ports_ne m = list_all (\<lambda>(c, qs). qs \<noteq> []) m"

lemma ports_nonempty: "c \<in> set (map fst m) \<Longrightarrow> ports_ne m \<Longrightarrow> ports_of m c \<noteq> []"
proof -
  assume c: "c \<in> set (map fst m)" and ne: "ports_ne m"
  from c obtain qs where qs: "map_of m c = Some qs" by (cases "map_of m c") (auto simp: map_of_eq_None_iff)
  then have "(c, qs) \<in> set m" by (rule map_of_SomeD)
  with ne qs show ?thesis by (auto simp: ports_of_def ports_ne_def list_all_iff)
qed

lemma ports_ne_Nil [simp]: "ports_ne []"
  by (simp add: ports_ne_def)

lemma addPort_ne [simp]: "ports_ne m \<Longrightarrow> ports_ne (addPort c q m)"
  unfolding ports_ne_def by (induction c q m rule: addPort.induct) simp_all

lemma add_endpoint_ne: "ports_ne m \<Longrightarrow> ports_ne (add_endpoint m ep)"
  by (simp add: add_endpoint_def split: option.split prod.split)

lemma add_registry_ne: "ports_ne m \<Longrightarrow> ports_ne (add_registry reg m)"
  by (simp add: add_registry_def split: option.split prod.split)

lemma foldl_ne: "ports_ne m \<Longrightarrow> (\<And>m x. ports_ne m \<Longrightarrow> ports_ne (f m x)) \<Longrightarrow> ports_ne (foldl f m xs)"
  by (induction xs arbitrary: m) simp_all

lemma allowed_map_ne: "ports_ne (allowed_map dc extra)"
  unfolding allowed_map_def
  by (intro foldl_ne add_registry_ne add_endpoint_ne) (simp_all add: add_allow_def)

text \<open>Every address range the endpoints contribute has ports 80 and 443, so the registry's
  guard (only when the range is not there yet) never withholds a port.\<close>

lemma endpoint_web: "endpoint_grants ep c q \<Longrightarrow> endpoint_grants ep c 80 \<and> endpoint_grants ep c 443"
  unfolding endpoint_grants_def by blast

lemma endpoints_key:
  assumes "c \<in> set (map fst (foldl add_endpoint [] eps))"
  shows "in_map (foldl add_endpoint [] eps) c 80 \<and> in_map (foldl add_endpoint [] eps) c 443"
proof -
  have "ports_ne (foldl add_endpoint [] eps)" by (intro foldl_ne add_endpoint_ne) simp_all
  from ports_nonempty [OF assms this] obtain q where "in_map (foldl add_endpoint [] eps) c q"
    by (cases "ports_of (foldl add_endpoint [] eps) c") (auto simp: in_map_def)
  then obtain ep where "ep \<in> set eps" "endpoint_grants ep c q" by (auto simp: in_map_endpoints)
  with endpoint_web show ?thesis by (auto simp: in_map_endpoints)
qed

lemma in_map_registry:
  "in_map (add_registry reg (foldl add_endpoint [] eps)) c q \<longleftrightarrow>
     in_map (foldl add_endpoint [] eps) c q \<or> registry_grants reg c q"
proof (cases "SplitHostPort (TrimSpace reg)")
  case (Some hp)
  obtain host ps where hp: "SplitHostPort (TrimSpace reg) = Some (host, ps)"
    using Some by (cases hp) simp
  let ?m = "foldl add_endpoint [] eps"
  have known: "in_map ?m (host_cidr host) 80 \<and> in_map ?m (host_cidr host) 443"
    if key: "map_of ?m (host_cidr host) \<noteq> None"
    using endpoints_key [of "host_cidr host" eps] key by (simp add: map_of_eq_None_iff)
  show ?thesis
  proof (cases "ParseIP host")
    case None
    then show ?thesis by (simp add: add_registry_def registry_grants_def hp)
  next
    case (Some ip)
    then show ?thesis using known
      by (cases "map_of ?m (host_cidr host)") (auto simp: add_registry_def registry_grants_def hp)
  qed
qed (simp add: add_registry_def registry_grants_def)

lemma in_map_allowed: "in_map (allowed_map dc extra) c q \<longleftrightarrow> granted dc extra c q"
  by (simp add: allowed_map_def granted_def in_map_allows in_map_registry in_map_endpoints)

lemma sort_Nil_iff: "sort xs = [] \<longleftrightarrow> xs = []" for xs :: "int list"
  by (metis set_empty set_sort)

text \<open>What the rule of one address range lets through.\<close>

lemma cidr_rule_allows:
  "rule_allows (cidr_rule m c) d proto port \<longleftrightarrow>
     (\<exists>v. d = Addr v \<and> in_cidr c v \<and> (in_map m c 0 \<or> proto = TCP \<and> in_map m c port \<or> ports_of m c = []))"
  by (cases d) (auto simp: rule_allows_def cidr_rule_def peer_matches_def in_map_def sort_Nil_iff)

lemma cidr_rules_allow:
  "egress_allowed (map (cidr_rule (allowed_map dc extra)) (sort (map fst (allowed_map dc extra)))) d proto port \<longleftrightarrow>
     (\<exists>v c. d = Addr v \<and> in_cidr c v \<and>
        (in_map (allowed_map dc extra) c 0 \<or> proto = TCP \<and> in_map (allowed_map dc extra) c port))"
  (is "egress_allowed (map (cidr_rule ?m) _) d proto port \<longleftrightarrow> ?R")
proof
  assume "egress_allowed (map (cidr_rule ?m) (sort (map fst ?m))) d proto port"
  then obtain c where c: "c \<in> set (map fst ?m)" "rule_allows (cidr_rule ?m c) d proto port"
    by (auto simp: egress_allowed_def list_ex_iff)
  with ports_nonempty [OF c(1) allowed_map_ne] show ?R by (auto simp: cidr_rule_allows)
next
  assume ?R
  then obtain v c where "d = Addr v" "in_cidr c v" "in_map ?m c 0 \<or> proto = TCP \<and> in_map ?m c port" by blast
  moreover from this(3) have "c \<in> set (map fst ?m)" by (auto dest: in_map_key)
  ultimately have "rule_allows (cidr_rule ?m c) d proto port" "c \<in> set (sort (map fst ?m))"
    by (auto simp: cidr_rule_allows)
  then show "egress_allowed (map (cidr_rule ?m) (sort (map fst ?m))) d proto port"
    unfolding egress_allowed_def list_ex_iff by (metis imageI list.set_map)
qed


lemma allowed_map_Nil: "allowed_map dc extra = [] \<longleftrightarrow> (\<forall>c q. \<not> granted dc extra c q)"
proof
  assume "allowed_map dc extra = []"
  then show "\<forall>c q. \<not> granted dc extra c q" by (simp flip: in_map_allowed)
next
  assume n: "\<forall>c q. \<not> granted dc extra c q"
  show "allowed_map dc extra = []"
  proof (cases "allowed_map dc extra")
    case (Cons kv m)
    then have "fst kv \<in> set (map fst (allowed_map dc extra))" by simp
    from ports_nonempty [OF this allowed_map_ne] obtain q where "in_map (allowed_map dc extra) (fst kv) q"
      by (cases "ports_of (allowed_map dc extra) (fst kv)") (auto simp: in_map_def)
    with n show ?thesis by (simp add: in_map_allowed)
  qed
qed

text \<open>The specification of the policy under enforce.\<close>

definition may_reach :: "deployer \<Rightarrow> egress_allow list \<Rightarrow> dest \<Rightarrow> protocol \<Rightarrow> int \<Rightarrow> bool" where
  "may_reach dc extra d proto port =
     (case d of
        DNSPod \<Rightarrow> port = 53
      | OwnPod \<Rightarrow> True
      | Addr v \<Rightarrow>
          (ParseIP (dc_dns dc) \<noteq> None \<and> in_cidr (host_cidr (dc_dns dc)) v \<and> port = 53) \<or>
          (\<exists>c. in_cidr c v \<and> (granted dc extra c 0 \<or> proto = TCP \<and> granted dc extra c port)))"

lemma dns_port_iff: "(proto, port) \<in> set dns_ports \<longleftrightarrow> port = 53"
  by (cases proto) (auto simp: dns_ports_def)

lemma enforce_rules_exact:
  assumes "egress_rules_for dc extra True = Some rules"
  shows "egress_allowed rules d proto port \<longleftrightarrow> may_reach dc extra d proto port"
proof -
  let ?m = "allowed_map dc extra"
  have ne: "dns_ports \<noteq> []" by (simp add: dns_ports_def)
  have r: "rules = [\<lparr>np_to = KubeDNSPods, np_ports = dns_ports\<rparr>, \<lparr>np_to = OwnNamespacePods, np_ports = []\<rparr>] @
      (if ParseIP (dc_dns dc) \<noteq> None then [\<lparr>np_to = IPBlock (host_cidr (dc_dns dc)) [], np_ports = dns_ports\<rparr>] else []) @
      map (cidr_rule ?m) (sort (map fst ?m))"
    using assms by (auto simp: egress_rules_for_def Let_def split: if_splits)
  have c: "egress_allowed (map (cidr_rule ?m) (sort (map fst ?m))) d proto port \<longleftrightarrow>
      (\<exists>v c. d = Addr v \<and> in_cidr c v \<and> (granted dc extra c 0 \<or> proto = TCP \<and> granted dc extra c port))" for d
    by (simp only: cidr_rules_allow in_map_allowed)
  show ?thesis
    unfolding r by (cases d) (auto simp add: c may_reach_def rule_allows_def peer_matches_def dns_port_iff ne)
qed

text \<open>C8. Under enforce, the NetworkPolicy written for a project lets its pods reach exactly: the
  DNS service on port 53, the pods of its own namespace, the platform's service endpoints and
  registry address on the ports the configuration grants there, and the address and port pairs
  of the admin's endpoint rules (any protocol and port when the rule's port is 0). In
  particular there is no way to the internet, to another project's pods or to another port of
  the platform host.\<close>
theorem ensureEgressPolicy_exact:
  assumes "run_state (ensureEgressPolicy dc slug extra True) w = (Inr (), w')"
    and "dc_endpoints dc \<noteq> []" and "granted dc extra c q"
  shows "pod_egress w' slug d proto port \<longleftrightarrow> may_reach dc extra d proto port"
proof -
  have "allowed_map dc extra \<noteq> []" using assms(3) by (auto simp: allowed_map_Nil)
  with assms(2) obtain rules where r: "egress_rules_for dc extra True = Some rules"
    by (auto simp: egress_rules_for_def Let_def)
  with assms(1) have "run_state (k8s_apply (policy_key slug) (KNetworkPolicy rules)) w = (Inr (), w')"
    by (simp add: ensureEgressPolicy_def)
  from k8s_apply_cases [OF this]
  have "obj_get (policy_key slug) (objs w') = Some (KNetworkPolicy rules)" by auto
  then show ?thesis by (simp add: pod_egress_def enforce_rules_exact [OF r])
qed

text \<open>Without any grant (no parsable endpoint, no registry address, no rule) no policy is
  written at all, even under enforce: the call succeeds and whatever the pods could reach
  before they still can, everything included when there was no policy.\<close>
theorem ensureEgressPolicy_no_grant:
  assumes "dc_endpoints dc = [] \<or> (\<forall>c q. \<not> granted dc extra c q)"
  shows "run_state (ensureEgressPolicy dc slug extra enforce) w = (Inr (), w)"
proof -
  have "egress_rules_for dc extra enforce = None"
    using assms by (auto simp: egress_rules_for_def Let_def allowed_map_Nil)
  then show ?thesis by (simp add: ensureEgressPolicy_def)
qed

end
