(* ===== verification/Ingress.thy ===== *)
theory Ingress
  imports Kube "HOL-Library.Multiset"
begin

text \<open>
  Inbound traffic (internal/k8sdriver/deployer.go): the Ingress of a project, its IP allow-list
  Middleware, the IngressRoute with the path overrides and the Middlewares of single path
  rules, and the platform's own allow-list.

  A Traefik router admits a request when the source is in the sourceRange of every allow-list
  Middleware of its chain; an empty or missing list would admit everybody.
\<close>


section \<open>The project allow-list\<close>

definition denyAllCIDR :: string where "denyAllCIDR = ''127.0.0.1/32''"

definition clean_cidrs :: "string list \<Rightarrow> string list" where
  "clean_cidrs cidrs = dedup [] (filter (\<lambda>c. c \<noteq> []) (map TrimSpace cidrs))"

definition source_range :: "string list \<Rightarrow> string list" where
  "source_range cidrs = (if clean_cidrs cidrs = [] then [denyAllCIDR] else clean_cidrs cidrs)"

definition allow_list_key :: "string \<Rightarrow> okey" where
  "allow_list_key slug = (MiddlewareK, namespaceFor slug, allowListMiddlewareName slug)"

definition syncIPAllowList :: "string \<Rightarrow> string list \<Rightarrow> string fallible" where
  "syncIPAllowList slug cidrs =
     attempt (k8s_apply (allow_list_key slug) (KMiddleware False (source_range cidrs)))
       (\<lambda>_. ok (allowListMiddlewareName slug))"


section \<open>The Ingress\<close>

definition tls_secret :: "string \<Rightarrow> string" where
  "tls_secret slug = ''iai-tls-'' @ slug"

definition mk_ingress :: "deployer \<Rightarrow> string \<Rightarrow> string list \<Rightarrow> string list \<Rightarrow> bool \<Rightarrow> ingress" where
  "mk_ingress dc slug hosts refs tls =
     \<lparr>ing_hosts = hosts, ing_middlewares = refs,
      ing_issuer = (if tls \<and> dc_issuer dc \<noteq> [] then Some (dc_issuer dc) else None),
      ing_tls = (if tls \<and> dc_issuer dc \<noteq> [] then Some (hosts, tls_secret slug) else None)\<rparr>"

definition ingress_key :: "string \<Rightarrow> okey" where
  "ingress_key slug = (IngressK, namespaceFor slug, ''app'')"

definition writeIngressWithMiddlewareChain ::
  "deployer \<Rightarrow> string \<Rightarrow> string list \<Rightarrow> string list \<Rightarrow> bool \<Rightarrow> unit fallible" where
  "writeIngressWithMiddlewareChain dc slug hosts refs tls =
     k8s_apply (ingress_key slug) (KIngress (mk_ingress dc slug hosts refs tls))"

definition crd_ref :: "string \<Rightarrow> string \<Rightarrow> string" where
  "crd_ref ns name = ns @ ''-'' @ name @ ''@kubernetescrd''"

definition writeIngress :: "deployer \<Rightarrow> string \<Rightarrow> string list \<Rightarrow> string \<Rightarrow> unit fallible" where
  "writeIngress dc slug hosts middlewareName =
     writeIngressWithMiddlewareChain dc slug hosts
       (if middlewareName \<noteq> [] then [crd_ref (namespaceFor slug) middlewareName] else []) False"


section \<open>Path overrides\<close>

record route_rule =
  rr_prefix :: string
  rr_mode :: string
  rr_cidrs :: "string list"

text \<open>The exchange sort of \<open>syncPathRuleIngressRoute\<close>: \<open>select_longest\<close> is one run of its
  inner loop, with the element at position i carried along.\<close>

fun select_longest :: "route_rule \<Rightarrow> route_rule list \<Rightarrow> route_rule \<times> route_rule list" where
  "select_longest c [] = (c, [])"
| "select_longest c (x # xs) =
     (if length (rr_prefix x) > length (rr_prefix c)
      then (let (m, ys) = select_longest x xs in (m, c # ys))
      else (let (m, ys) = select_longest c xs in (m, x # ys)))"

lemma select_longest_length: "length (snd (select_longest c xs)) = length xs"
  by (induction c xs rule: select_longest.induct) (auto split: prod.splits)

function order_rules :: "route_rule list \<Rightarrow> route_rule list" where
  "order_rules [] = []"
| "order_rules (c # xs) = (let (m, ys) = select_longest c xs in m # order_rules ys)"
  by pat_completeness auto
termination
proof (relation "measure length")
  fix c :: route_rule and xs x m ys
  assume "x = select_longest c xs" "(m, ys) = x"
  then have "length ys = length xs" using select_longest_length [of c xs] by (metis snd_conv)
  then show "(ys, c # xs) \<in> measure length" by simp
qed simp

definition host_match :: "string list \<Rightarrow> string" where
  "host_match hosts =
     (let hs = map (\<lambda>h. ''Host(`'' @ h @ ''`)'') hosts
      in if length hs > 1 then ''('' @ Join hs '' || '' @ '')'' else hd hs)"

definition rule_match :: "string list \<Rightarrow> string \<Rightarrow> string" where
  "rule_match hosts pfx = host_match hosts @ '' && PathPrefix(`'' @ pfx @ ''`)''"

definition pathAllowListName :: "deployer \<Rightarrow> string \<Rightarrow> string \<Rightarrow> string" where
  "pathAllowListName dc slug pfx =
     ''iai-allowlist-'' @ slug @ ''-p'' @ hex_encode (take 4 (dc_sha256 dc pfx))"

definition upsertAllowList :: "string \<Rightarrow> string \<Rightarrow> string list \<Rightarrow> unit fallible" where
  "upsertAllowList ns name cidrs = k8s_apply (MiddlewareK, ns, name) (KMiddleware True cidrs)"

definition labelled :: "string \<Rightarrow> objects \<Rightarrow> string list" where
  "labelled ns os =
     List.map_filter (\<lambda>(k, v). case (k, v) of
         ((MiddlewareK, n, name), KMiddleware True _) \<Rightarrow> if n = ns then Some name else None
       | _ \<Rightarrow> None) os"

fun delete_unkept :: "string \<Rightarrow> string list \<Rightarrow> string list \<Rightarrow> unit fallible" where
  "delete_unkept ns kept [] = ok ()"
| "delete_unkept ns kept (name # names) =
     (if name \<in> set kept then delete_unkept ns kept names
      else do {
        r \<leftarrow> k8s_delete (MiddlewareK, ns, name);
        case r of
          Inl e \<Rightarrow> if e = ErrNotFound then delete_unkept ns kept names else throw e
        | Inr _ \<Rightarrow> delete_unkept ns kept names
      })"

definition pruneRuleAllowLists :: "string \<Rightarrow> string list \<Rightarrow> unit fallible" where
  "pruneRuleAllowLists ns kept = do {
     r \<leftarrow> k8s_list (labelled ns);
     case r of
       Inl e \<Rightarrow> if e = ErrNotFound then ok () else throw e
     | Inr names \<Rightarrow> delete_unkept ns kept names
   }"

text \<open>The loop that builds the routes; \<open>i\<close> is the index of the rule.\<close>

fun build_routes ::
  "deployer \<Rightarrow> string \<Rightarrow> string list \<Rightarrow> (string \<times> string) list \<Rightarrow> nat \<Rightarrow> route_rule list \<Rightarrow>
   route list \<Rightarrow> string list \<Rightarrow> (route list \<times> string list) fallible" where
  "build_routes dc slug hosts base i [] routes wanted = ok (routes, wanted)"
| "build_routes dc slug hosts base i (rule # rules) routes wanted =
     (let ns = namespaceFor slug; mwName = pathAllowListName dc slug (rr_prefix rule);
          continue = (\<lambda>mws wanted'.
            if rr_mode rule = ''token'' \<or> rr_mode rule = ''no_auth'' then
              build_routes dc slug hosts base (Suc i) rules
                (routes @ [\<lparr>rt_match = rule_match hosts (rr_prefix rule), rt_priority = 100000 - int i,
                   rt_middlewares = mws @ (if rr_mode rule = ''token''
                     then [(''oauth2-proxy'', ''iai-api-token-verify'')] else [])\<rparr>]) wanted'
            else throw ErrUnknownMode)
      in if rr_cidrs rule \<noteq> []
         then attempt (upsertAllowList ns mwName (rr_cidrs rule))
                (\<lambda>_. continue [(ns, mwName)] (mwName # wanted))
         else continue base wanted)"

definition route_key :: "string \<Rightarrow> okey" where
  "route_key slug = (IngressRouteK, namespaceFor slug, ''app-overrides'')"

definition syncPathRuleIngressRoute ::
  "deployer \<Rightarrow> string \<Rightarrow> string list \<Rightarrow> route_rule list \<Rightarrow> bool \<Rightarrow> bool \<Rightarrow> unit fallible" where
  "syncPathRuleIngressRoute dc slug hosts rules tls allowListExists =
     (let ns = namespaceFor slug in
      if rules = [] \<or> hosts = [] then do {
        r \<leftarrow> k8s_delete (route_key slug);
        case r of
          Inl e \<Rightarrow> if e = ErrNotFound then pruneRuleAllowLists ns [] else throw e
        | Inr _ \<Rightarrow> pruneRuleAllowLists ns []
      }
      else
        attempt (build_routes dc slug hosts
                  (if allowListExists then [(ns, allowListMiddlewareName slug)] else []) 0
                  (order_rules rules) [] []) (\<lambda>(routes, wanted).
        attempt (pruneRuleAllowLists ns wanted) (\<lambda>_.
        k8s_apply (route_key slug) (KIngressRoute
          \<lparr>ir_routes = routes, ir_tls = (if tls then Some (tls_secret slug) else None)\<rparr>))))"


section \<open>Synchronising a project\<close>

record hosts_input =
  hi_slug :: string
  hi_hosts :: "string list"
  hi_cidrs :: "string list"
  hi_auth :: bool
  hi_tls :: bool
  hi_rules :: "route_rule list"

definition auth_chain :: "string list" where
  "auth_chain = [''oauth2-proxy-errors-redirect@kubernetescrd'', ''oauth2-proxy-forward-auth@kubernetescrd'']"

definition SyncIngressHostnames :: "deployer \<Rightarrow> hosts_input \<Rightarrow> unit fallible" where
  "SyncIngressHostnames dc hi =
     (if hi_hosts hi = [] then throw ErrNoHostnames
      else do {
        r \<leftarrow> syncIPAllowList (hi_slug hi) (hi_cidrs hi);
        let mwName = (case r of Inl _ \<Rightarrow> [] | Inr n \<Rightarrow> n);
            refs = (if mwName \<noteq> [] then [crd_ref (namespaceFor (hi_slug hi)) mwName] else []) @
                   (if hi_auth hi then auth_chain else []) in
        attempt (writeIngressWithMiddlewareChain dc (hi_slug hi) (hi_hosts hi) refs (hi_tls hi)) (\<lambda>_.
        syncPathRuleIngressRoute dc (hi_slug hi) (hi_hosts hi) (hi_rules hi) (hi_tls hi) (mwName \<noteq> []))
      })"

definition SyncPlatformAllowList :: "string list \<Rightarrow> unit fallible" where
  "SyncPlatformAllowList cidrs =
     (let clean = filter (\<lambda>c. c \<noteq> []) (map TrimSpace cidrs)
      in upsertAllowList ''kube-system'' ''iai-internal-allowlist'' (if clean = [] then [denyAllCIDR] else clean))"



section \<open>Lemmas\<close>

lemma set_clean_cidrs: "set (clean_cidrs cs) = {c. c \<noteq> [] \<and> (\<exists>x \<in> set cs. c = TrimSpace x)}"
  by (auto simp: clean_cidrs_def set_dedup)

lemma source_range_ne: "source_range cs \<noteq> []"
  by (simp add: source_range_def)

lemma source_range_member: "c \<in> set (source_range cs) \<Longrightarrow> c = denyAllCIDR \<or> (c \<noteq> [] \<and> (\<exists>x \<in> set cs. c = TrimSpace x))"
  by (auto simp: source_range_def set_clean_cidrs split: if_splits)

lemma denyAll_not_world: "\<not> hasWorldCIDR [denyAllCIDR]"
proof -
  have t: "TrimSpace ''127.0.0.1/32'' = ''127.0.0.1/32''" by code_simp
  have "ParseAddr ''127.0.0.1'' = Some (A4 2130706433)"
    by (simp add: ParseAddr_def parseIPv4Fields_def v4_field_def is_digit_def byte_def digits_val_def bytes_val_def)
  then have "ParseCIDR (''127.0.0.1'' @ CHR ''/'' # ''32'') \<noteq> None \<and>
      net_ones (snd (the (ParseCIDR (''127.0.0.1'' @ CHR ''/'' # ''32'')))) = 32"
    using ParseCIDR_slash [of "''127.0.0.1''" "''32''"] by (simp add: BitLen_def)
  then show ?thesis
    by (auto simp add: hasWorldCIDR_def denyAllCIDR_def t)
qed

text \<open>An allow-list without a world-open entry yields a source range without one.\<close>

lemma hasWorldCIDR_TrimSpace: "hasWorldCIDR [TrimSpace c] = hasWorldCIDR [c]"
  by (simp add: hasWorldCIDR_def)

lemma source_range_not_world:
  assumes "\<not> hasWorldCIDR cs"
  shows "\<not> hasWorldCIDR (source_range cs)"
proof
  assume "hasWorldCIDR (source_range cs)"
  then obtain c where c: "c \<in> set (source_range cs)" "hasWorldCIDR [c]"
    by (subst (asm) hasWorldCIDR_iff) blast
  with source_range_member [OF c(1)] denyAll_not_world obtain x where "x \<in> set cs" "c = TrimSpace x" by blast
  with c(2) have "hasWorldCIDR [x]" by (simp add: hasWorldCIDR_TrimSpace)
  with \<open>x \<in> set cs\<close> have "hasWorldCIDR cs" by (subst hasWorldCIDR_iff) blast
  with assms show False by simp
qed

text \<open>The exchange sort sorts by descending length and permutes.\<close>

lemma select_longest_props:
  "select_longest c xs = (m, ys) \<Longrightarrow>
     mset (m # ys) = mset (c # xs) \<and> (\<forall>y \<in> set ys. length (rr_prefix y) \<le> length (rr_prefix m)) \<and>
     length (rr_prefix c) \<le> length (rr_prefix m)"
proof (induction c xs arbitrary: m ys rule: select_longest.induct)
  case (2 c x xs)
  show ?case
  proof (cases "length (rr_prefix x) > length (rr_prefix c)")
    case True
    obtain ys' where s: "select_longest x xs = (m, ys')" and ys: "ys = c # ys'"
      using 2(3) True by (auto split: prod.splits)
    from 2(1) [OF True s] True show ?thesis by (auto simp: ys)
  next
    case False
    obtain ys' where s: "select_longest c xs = (m, ys')" and ys: "ys = x # ys'"
      using 2(3) False by (auto split: prod.splits)
    from 2(2) [OF False s] False show ?thesis by (auto simp: ys)
  qed
qed auto

lemma mset_order_rules: "mset (order_rules rs) = mset rs"
proof (induction rs rule: order_rules.induct)
  case (2 c xs)
  obtain m ys where s: "select_longest c xs = (m, ys)" by (cases "select_longest c xs")
  with 2 [OF s [symmetric] refl] select_longest_props [OF s] show ?case by simp
qed simp

lemma sorted_order_rules: "sorted_wrt (\<lambda>a b. length (rr_prefix b) \<le> length (rr_prefix a)) (order_rules rs)"
proof (induction rs rule: order_rules.induct)
  case (2 c xs)
  obtain m ys where s: "select_longest c xs = (m, ys)" by (cases "select_longest c xs")
  have "set (order_rules ys) = set ys" by (metis mset_order_rules set_mset_mset)
  with s 2 [OF s [symmetric] refl] select_longest_props [OF s] show ?case by simp
qed simp

text \<open>What a successful run of the loop has built: one route per rule, in order.\<close>

definition route_of :: "deployer \<Rightarrow> string \<Rightarrow> string list \<Rightarrow> (string \<times> string) list \<Rightarrow> nat \<Rightarrow> route_rule \<Rightarrow> route" where
  "route_of dc slug hosts base i rule =
     \<lparr>rt_match = rule_match hosts (rr_prefix rule), rt_priority = 100000 - int i,
      rt_middlewares =
        (if rr_cidrs rule \<noteq> [] then [(namespaceFor slug, pathAllowListName dc slug (rr_prefix rule))] else base) @
        (if rr_mode rule = ''token'' then [(''oauth2-proxy'', ''iai-api-token-verify'')] else [])\<rparr>"

lemma run_attempt:
  "run_state (attempt m f) w =
     (case run_state m w of (Inl e, w') \<Rightarrow> (Inl e, w') | (Inr x, w') \<Rightarrow> run_state (f x) w')"
  by (simp add: attempt_def split: prod.splits sum.splits)

lemma build_routes_ok:
  assumes "run_state (build_routes dc slug hosts base i rules routes wanted) w = (Inr (routes', wanted'), w')"
  shows "routes' = routes @ map (\<lambda>(j, r). route_of dc slug hosts base j r) (zip [i..<i + length rules] rules) \<and>
         (\<forall>r \<in> set rules. rr_mode r = ''token'' \<or> rr_mode r = ''no_auth'')"
  using assms
proof (induction rules arbitrary: i routes wanted w)
  case (Cons rule rules)
  have up: "[i..<i + length (rule # rules)] = i # [Suc i..<Suc i + length rules]"
    by (subst upt_conv_Cons) simp_all
  have mode: "rr_mode rule = ''token'' \<or> rr_mode rule = ''no_auth''"
    using Cons.prems by (auto simp: Let_def run_attempt split: if_splits prod.splits sum.splits)
  obtain wanted2 w2 where
    "run_state (build_routes dc slug hosts base (Suc i) rules
       (routes @ [route_of dc slug hosts base i rule]) wanted2) w2 = (Inr (routes', wanted'), w')"
    using Cons.prems mode
    by (auto simp: Let_def run_attempt route_of_def split: if_splits prod.splits sum.splits)
  from Cons.IH [OF this] mode show ?case unfolding up by simp
qed simp

end
