(* ===== verification/Deployer.thy ===== *)
theory Deployer
  imports Egress_Policy Ingress
begin

text \<open>
  The rest of internal/k8sdriver: the namespace, secret, Deployment, Service and initial
  Ingress \<open>Apply\<close> writes for a project, the scheduling constraint, the proxy environment, the
  reading of pod status, and the egress proxy's own objects.
\<close>


section \<open>Namespace and secret\<close>

definition namespace_key :: "string \<Rightarrow> okey" where
  "namespace_key ns = (NamespaceK, [], ns)"

text \<open>The labels of a project's namespace and those of its other objects.\<close>

definition project_labels :: "string \<Rightarrow> labels" where
  "project_labels slug = [(''vibedeploy.io/managed'', ''true''), (''vibedeploy.io/slug'', slug)]"

definition appLabels :: "string \<Rightarrow> labels" where
  "appLabels slug = [(''app'', slug), (''vibedeploy.io/slug'', slug), (''vibedeploy.io/managed'', ''true'')]"

definition EnsureNamespace :: "string \<Rightarrow> unit fallible" where
  "EnsureNamespace slug = do {
     r \<leftarrow> k8s_get (namespace_key (namespaceFor slug));
     case r of
       Inr _ \<Rightarrow> ok ()
     | Inl e \<Rightarrow> if e \<noteq> ErrNotFound then throw e
         else k8s_create (namespace_key (namespaceFor slug)) (KNamespace (project_labels slug))
   }"

definition ensureNamespaceNamed :: "string \<Rightarrow> unit fallible" where
  "ensureNamespaceNamed name = do {
     r \<leftarrow> k8s_get (namespace_key name);
     case r of
       Inr _ \<Rightarrow> ok ()
     | Inl e \<Rightarrow> if e \<noteq> ErrNotFound then throw e else k8s_create (namespace_key name) (KNamespace [(''vibedeploy.io/managed'', ''true'')])
   }"

record apply_input =
  ai_slug :: string
  ai_image :: string
  ai_port :: int
  ai_env :: "string \<Rightarrow> string option"
  ai_cpu :: string
  ai_mem :: string
  ai_sqlite :: bool
  ai_allows :: "egress_allow list"
  ai_enforce :: bool
  ai_proxy :: string

definition secret_key :: "string \<Rightarrow> okey" where
  "secret_key slug = (SecretK, namespaceFor slug, ''app-env'')"

definition applySecret :: "string \<Rightarrow> (string \<Rightarrow> string option) \<Rightarrow> unit fallible" where
  "applySecret slug env = k8s_apply (secret_key slug) (KSecret env)"

definition UpdateAppEnvSecret :: "string \<Rightarrow> (string \<Rightarrow> string option) \<Rightarrow> unit fallible" where
  "UpdateAppEnvSecret slug env = applySecret slug env"


section \<open>Scheduling\<close>

definition hasSchedulableAgentNode :: "bool fallible" where
  "hasSchedulableAgentNode = call (\<lambda>w.
     (Inr (list_ex (\<lambda>n. \<not> nd_cordoned n \<and> nd_ready n) (filter (\<lambda>n. \<not> nd_control_plane n) (nodes w))), w))"

text \<open>The result says whether the affinity "not on a control-plane node" is required.\<close>

definition schedulingConstraints :: "deployer \<Rightarrow> bool fallible" where
  "schedulingConstraints dc =
     (if \<not> dc_avoid_cp dc then ok False
      else attempt hasSchedulableAgentNode (\<lambda>agents. ok agents))"


section \<open>Proxy environment\<close>

definition proxyEnvNames :: "string list" where
  "proxyEnvNames = [''HTTPS_PROXY'', ''HTTP_PROXY'', ''https_proxy'', ''http_proxy'', ''NO_PROXY'', ''no_proxy'']"

definition noProxy :: "deployer \<Rightarrow> string" where
  "noProxy dc = ''localhost,127.0.0.1,.svc,.cluster.local,10.0.0.0/8,172.16.0.0/12,192.168.0.0/16,.'' @ dc_base dc"

definition withProxyEnv :: "(string \<times> string) list \<Rightarrow> string \<Rightarrow> string \<Rightarrow> (string \<times> string) list" where
  "withProxyEnv env proxyURL no_proxy =
     (let out = filter (\<lambda>(n, _). n \<notin> set proxyEnvNames) env
      in if proxyURL = [] then out
         else out @ [(''HTTPS_PROXY'', proxyURL), (''HTTP_PROXY'', proxyURL), (''https_proxy'', proxyURL),
                     (''http_proxy'', proxyURL), (''NO_PROXY'', no_proxy), (''no_proxy'', no_proxy)])"


section \<open>Deployment, Service, Ingress\<close>

definition sqliteVolumeName :: string where "sqliteVolumeName = ''sqlite-data''"
definition sqliteMountPath :: string where "sqliteMountPath = ''/data''"
definition sqliteDefaultDB :: string where "sqliteDefaultDB = ''/data/app.db''"
definition sqliteS3ObjectKey :: string where "sqliteS3ObjectKey = ''app.db''"
definition litestreamImage :: string where "litestreamImage = ''litestream/litestream:0.3.13''"

text \<open>The shell script of a Litestream container: it writes the configuration from the S3
  variables and runs the given command.\<close>

definition litestreamScript :: "string \<Rightarrow> string" where
  "litestreamScript subcommand = Join
     [''set -eu'',
      ''SCHEME=http'',
      ''[ \"${S3_USE_SSL:-false}\" = \"true\" ] && SCHEME=https'',
      ''cat > /tmp/lc.yml <<EOF'',
      ''dbs:'',
      ''  - path: '' @ sqliteDefaultDB,
      ''    replicas:'',
      ''      - type: s3'',
      ''        bucket: ${S3_BUCKET}'',
      ''        path: '' @ sqliteS3ObjectKey,
      ''        endpoint: ${SCHEME}://${S3_ENDPOINT}'',
      ''        access-key-id: ${S3_ACCESS_KEY_ID}'',
      ''        secret-access-key: ${S3_SECRET_ACCESS_KEY}'',
      ''        force-path-style: true'',
      ''EOF'',
      ''exec '' @ subcommand] [CHR 0x0A]"

definition app_env :: "deployer \<Rightarrow> apply_input \<Rightarrow> (string \<times> string) list" where
  "app_env dc ai =
     withProxyEnv
       [(''PORT'', Itoa (ai_port ai)), (''VIBEDEPLOY_PROJECT'', ai_slug ai),
        (''VIBEDEPLOY_URL'', ''https://'' @ ai_slug ai @ ''.'' @ dc_base dc)]
       (ai_proxy ai) (noProxy dc) @
     (if ai_sqlite ai then [(''SQLITE_PATH'', sqliteDefaultDB)] else [])"

definition or_default :: "string \<Rightarrow> string \<Rightarrow> string" where
  "or_default s d = (if s = [] then d else s)"

definition sqlite_mount :: "string \<times> string \<times> string" where
  "sqlite_mount = (sqliteVolumeName, sqliteMountPath, [])"

definition app_container :: "deployer \<Rightarrow> apply_input \<Rightarrow> container" where
  "app_container dc ai =
     \<lparr>ct_name = ''app'',
      ct_image = (if dc_registry dc \<noteq> [] then rewriteImageHost (ai_image ai) (dc_registry dc) else ai_image ai),
      ct_ports = [(ai_port ai, 0)], ct_env = app_env dc ai, ct_secret_env = True, ct_command = [], ct_args = [],
      ct_mounts = (if ai_sqlite ai then [sqlite_mount] else []),
      ct_requests = [(''cpu'', ''100m''), (''memory'', ''200Mi'')],
      ct_limits = [(''cpu'', or_default (ai_cpu ai) ''1''), (''memory'', or_default (ai_mem ai) ''2Gi'')],
      ct_probe = Some \<lparr>pb_host = [], pb_port = ai_port ai, pb_delay = 2, pb_period = 3, pb_failures = 20\<rparr>,
      ct_uid = None\<rparr>"

text \<open>The init container that restores the database and the sidecar that replicates it.\<close>

definition litestream_container :: "string \<Rightarrow> string \<Rightarrow> container" where
  "litestream_container name cmd =
     \<lparr>ct_name = name, ct_image = litestreamImage, ct_ports = [], ct_env = [], ct_secret_env = True,
      ct_command = [''/bin/sh'', ''-c''], ct_args = [litestreamScript cmd], ct_mounts = [sqlite_mount],
      ct_requests = [], ct_limits = [], ct_probe = None, ct_uid = None\<rparr>"

definition restore_container :: container where
  "restore_container = litestream_container ''litestream-restore''
     (''litestream restore -if-replica-exists -config /tmp/lc.yml '' @ sqliteDefaultDB)"

definition replicate_container :: container where
  "replicate_container = litestream_container ''litestream'' ''litestream replicate -config /tmp/lc.yml''
     \<lparr>ct_requests := [(''cpu'', ''20m''), (''memory'', ''32Mi'')],
      ct_limits := [(''cpu'', ''200m''), (''memory'', ''128Mi'')]\<rparr>"

definition mk_workload :: "deployer \<Rightarrow> apply_input \<Rightarrow> bool \<Rightarrow> workload" where
  "mk_workload dc ai avoid =
     \<lparr>wl_labels = appLabels (ai_slug ai), wl_selector = appLabels (ai_slug ai), wl_replicas = 1,
      wl_strategy = RollingUpdate, wl_annotations = [], wl_host_network = False,
      wl_containers = app_container dc ai # (if ai_sqlite ai then [replicate_container] else []),
      wl_init = (if ai_sqlite ai then [restore_container] else []),
      wl_avoid_cp = avoid,
      wl_volumes = (if ai_sqlite ai then [(sqliteVolumeName, EmptyDir)] else [])\<rparr>"

definition deployment_key :: "string \<Rightarrow> okey" where
  "deployment_key slug = (DeploymentK, namespaceFor slug, ''app'')"

text \<open>\<open>resource.MustParse\<close> panics on a malformed quantity; \<open>ErrOther ''panic''\<close> stands for the
  panic, which unwinds the goroutine instead of being returned.\<close>

definition panic :: err where "panic = ErrOther ''panic''"

definition applyDeployment :: "deployer \<Rightarrow> apply_input \<Rightarrow> unit fallible" where
  "applyDeployment dc ai =
     (if \<not> dc_quantity_ok dc (or_default (ai_cpu ai) ''1'') \<or> \<not> dc_quantity_ok dc (or_default (ai_mem ai) ''2Gi'')
      then throw panic
      else attempt (schedulingConstraints dc) (\<lambda>avoid.
             k8s_apply (deployment_key (ai_slug ai)) (KDeployment (mk_workload dc ai avoid))))"

definition applyService :: "apply_input \<Rightarrow> unit fallible" where
  "applyService ai = k8s_apply (ServiceK, namespaceFor (ai_slug ai), ''app'') (KService
     \<lparr>sr_selector = appLabels (ai_slug ai), sr_port = 80, sr_target = ai_port ai\<rparr>)"

definition default_host :: "deployer \<Rightarrow> string \<Rightarrow> string" where
  "default_host dc slug = slug @ ''.'' @ dc_base dc"

definition applyIngress :: "deployer \<Rightarrow> apply_input \<Rightarrow> unit fallible" where
  "applyIngress dc ai = writeIngress dc (ai_slug ai) [default_host dc (ai_slug ai)] []"

definition Apply :: "deployer \<Rightarrow> apply_input \<Rightarrow> unit fallible" where
  "Apply dc ai =
     attempt (EnsureNamespace (ai_slug ai)) (\<lambda>_.
     attempt (ensureEgressPolicy dc (ai_slug ai) (ai_allows ai) (ai_enforce ai)) (\<lambda>_.
     attempt (applySecret (ai_slug ai) (ai_env ai)) (\<lambda>_.
     attempt (applyDeployment dc ai) (\<lambda>_.
     attempt (applyService ai) (\<lambda>_.
     applyIngress dc ai)))))"

definition DeleteProject :: "string \<Rightarrow> unit fallible" where
  "DeleteProject slug = call (\<lambda>w. (Inr (), w\<lparr>objs := obj_del_ns (namespaceFor slug) (objs w)\<rparr>))"

text \<open>\<open>SetProxyEnv\<close> rewrites the environment of the running Deployment's app container.\<close>

definition set_proxy :: "deployer \<Rightarrow> string \<Rightarrow> kobj \<Rightarrow> kobj" where
  "set_proxy dc proxyURL v =
     (case v of
        KDeployment wl \<Rightarrow> KDeployment (wl\<lparr>wl_containers := map (\<lambda>c.
          if ct_name c = ''app'' then c\<lparr>ct_env := withProxyEnv (ct_env c) proxyURL (noProxy dc)\<rparr> else c)
          (wl_containers wl)\<rparr>)
      | _ \<Rightarrow> v)"

definition SetProxyEnv :: "deployer \<Rightarrow> string \<Rightarrow> string \<Rightarrow> unit fallible" where
  "SetProxyEnv dc slug proxyURL = do {
     r \<leftarrow> k8s_get (deployment_key slug);
     case r of
       Inl e \<Rightarrow> if e = ErrNotFound then ok () else throw e
     | Inr v \<Rightarrow> k8s_update (deployment_key slug) (set_proxy dc proxyURL v)
   }"


section \<open>Pod status\<close>

text \<open>The newest pod, the first one among equals.\<close>

definition newest_pod :: "pod \<Rightarrow> pod list \<Rightarrow> pod" where
  "newest_pod p ps = foldl (\<lambda>q x. if pod_created x > pod_created q then x else q) p ps"

definition list_pods :: "string \<Rightarrow> pod list fallible" where
  "list_pods slug = call (\<lambda>w. (Inr (pods w slug), w))"

definition IsDeploymentReady :: "string \<Rightarrow> bool fallible" where
  "IsDeploymentReady slug =
     attempt (k8s_get (deployment_key slug)) (\<lambda>_.
     call (\<lambda>w. (Inr (list_ex (\<lambda>p. case pod_statuses p of [] \<Rightarrow> False | c # _ \<Rightarrow> cs_ready c) (pods w slug)), w)))"

definition em_dash :: string where
  "em_dash = [CHR '' '', CHR 0xE2, CHR 0x80, CHR 0x94, CHR '' '']"

text \<open>The result: the summary line, whether the container is ready, and the terminal reason
  (empty when polling can still help).\<close>

definition waiting_summary :: "string \<Rightarrow> string \<Rightarrow> string \<Rightarrow> string \<times> bool \<times> string" where
  "waiting_summary reason msg0 img =
     (let msg = TrimSpace msg0;
          line = ''waiting: '' @ reason @ (if msg \<noteq> [] then em_dash @ msg else []);
          detail = (\<lambda>d. if msg = [] then d else msg)
      in if reason \<in> {''ImagePullBackOff'', ''ErrImagePull'', ''InvalidImageName'', ''InvalidImageReference''}
         then (line, False, ''image pull failed: '' @ detail (''k8s could not pull '' @ img))
         else if reason \<in> {''CreateContainerConfigError'', ''CreateContainerError''}
         then (line, False, ''container config error: '' @ detail reason)
         else if reason = ''CrashLoopBackOff''
         then (line, False, ''crash loop: '' @ detail ''container is restart-looping; check `kubectl logs`'')
         else (line, False, []))"

definition container_summary :: "string \<Rightarrow> cstatus \<Rightarrow> string \<times> bool \<times> string" where
  "container_summary phase c =
     (if cs_ready c then (''container ready'', True, [])
      else case cs_state c of
        CWaiting reason msg \<Rightarrow> waiting_summary reason msg (cs_image c)
      | CRunning _ \<Rightarrow>
          if cs_restarts c \<ge> 3
          then (''running but restarted '' @ Itoa (cs_restarts c) @ '' times'', False,
                ''container has restarted '' @ Itoa (cs_restarts c) @ '' times'' @ em_dash @
                ''likely failing its readiness probe or crashing post-start'')
          else (''container running, waiting for readiness probe'', False, [])
      | CTerminated reason code msg \<Rightarrow>
          (''terminated: '' @ reason @ '' (exit '' @ Itoa code @ '')'', False,
           ''container exited ('' @ reason @ '', code '' @ Itoa code @ ''): '' @ TrimSpace msg)
      | CNoState \<Rightarrow> (''pod '' @ phase, False, []))"

definition pods_summary :: "pod list \<Rightarrow> string \<times> bool \<times> string" where
  "pods_summary ps =
     (case ps of
        [] \<Rightarrow> (''pod not scheduled yet'', False, [])
      | p # qs \<Rightarrow>
          (let q = newest_pod p qs in
           case pod_unschedulable q of
             Some msg \<Rightarrow> (''unschedulable: '' @ msg, False, ''pod cannot be scheduled: '' @ msg)
           | None \<Rightarrow>
               (case pod_statuses q of
                  [] \<Rightarrow> (''pod '' @ pod_phase q @ '' (no container status yet)'', False, [])
                | c # _ \<Rightarrow> container_summary (pod_phase q) c)))"

definition PodSummary :: "string \<Rightarrow> (string \<times> bool \<times> string) fallible" where
  "PodSummary slug = attempt (list_pods slug) (\<lambda>ps. ok (pods_summary ps))"

record placement =
  pl_node :: string
  pl_pod :: string
  pl_phase :: string
  pl_ready :: bool
  pl_pod_ip :: string
  pl_host_ip :: string
  pl_started :: "int option"

definition PodPlacement :: "string \<Rightarrow> placement option fallible" where
  "PodPlacement slug = attempt (list_pods slug) (\<lambda>ps. case ps of
     [] \<Rightarrow> ok None
   | p # qs \<Rightarrow>
       (let q = newest_pod p qs in
        ok (Some \<lparr>pl_node = pod_node q, pl_pod = pod_name q, pl_phase = pod_phase q,
                 pl_ready = (case pod_statuses q of [] \<Rightarrow> False | c # _ \<Rightarrow> cs_ready c),
                 pl_pod_ip = pod_ip q, pl_host_ip = pod_host_ip q, pl_started = pod_started q\<rparr>)))"


section \<open>The egress proxy's objects (internal/k8sdriver/egress\_proxy.go)\<close>

definition egressProxyNS :: string where "egressProxyNS = ''iai-egress''"
definition egressProxyName :: string where "egressProxyName = ''egress-proxy''"

definition config_key :: okey where "config_key = (ConfigMapK, egressProxyNS, egressProxyName)"
definition proxy_key :: okey where "proxy_key = (DeploymentK, egressProxyNS, egressProxyName)"

definition config_hash :: "deployer \<Rightarrow> string \<Rightarrow> string" where
  "config_hash dc conf = take 16 (hex_encode (dc_sha256 dc conf))"

definition egressProxyImage :: string where "egressProxyImage = ''ubuntu/squid:latest''"
definition squidUID :: int where "squidUID = 13"

definition proxy_container :: "int list \<Rightarrow> container" where
  "proxy_container ports =
     \<lparr>ct_name = ''squid'', ct_image = egressProxyImage, ct_ports = map (\<lambda>q. (q, q)) ports, ct_env = [],
      ct_secret_env = False, ct_command = [], ct_args = [''-N'', ''-f'', ''/etc/squid/squid.conf''],
      ct_mounts = [(''conf'', ''/etc/squid/squid.conf'', ''squid.conf'')],
      ct_requests = [(''cpu'', ''50m''), (''memory'', ''64Mi'')], ct_limits = [(''memory'', ''1Gi'')],
      ct_probe = Some \<lparr>pb_host = ''127.0.0.1'', pb_port = 3128, pb_delay = 3, pb_period = 10, pb_failures = 0\<rparr>,
      ct_uid = Some squidUID\<rparr>"

definition proxy_workload :: "string \<Rightarrow> int list \<Rightarrow> workload" where
  "proxy_workload hash ports =
     \<lparr>wl_labels = [(''app'', egressProxyName), (''vibedeploy.io/managed'', ''true'')],
      wl_selector = [(''app'', egressProxyName)], wl_replicas = 1, wl_strategy = Recreate,
      wl_annotations = [(''vibedeploy.io/config-hash'', hash)], wl_host_network = True,
      wl_containers = [proxy_container ports], wl_init = [], wl_avoid_cp = False,
      wl_volumes = [(''conf'', FromConfigMap egressProxyName)]\<rparr>"

definition EnsureEgressProxy :: "deployer \<Rightarrow> string \<Rightarrow> int list \<Rightarrow> unit fallible" where
  "EnsureEgressProxy dc conf ports =
     attempt (ensureNamespaceNamed egressProxyNS) (\<lambda>_.
     attempt (k8s_apply config_key (KConfigMap conf)) (\<lambda>_.
     k8s_apply proxy_key (KDeployment (proxy_workload (config_hash dc conf) ports))))"

text \<open>The last lines of the proxy's access log: \<open>proxy_log\<close> is the text the API server returns
  for a pod and the number of lines asked. The pod is the last one that runs, or the first.\<close>

definition log_pod :: "pod list \<Rightarrow> string" where
  "log_pod ps = foldl (\<lambda>name p. if pod_phase p = ''Running'' then pod_name p else name) (pod_name (hd ps)) ps"

definition ProxyLogs :: "int \<Rightarrow> string fallible" where
  "ProxyLogs n =
     attempt (call (\<lambda>w. (Inr (proxy_pods w), w))) (\<lambda>ps.
     if ps = [] then ok [] else call (\<lambda>w. (Inr (proxy_log w (log_pod ps)), w)))"

record proxy_status =
  ps_ready :: bool
  ps_phase :: string
  ps_reason :: string
  ps_restarts :: int
  ps_started :: "int option"
  ps_hash :: string
  ps_error :: string

text \<open>The loop over the containers of the newest pod: the readiness and restarts are the last
  container's, the other fields the last one's that has them.\<close>

definition status_step :: "proxy_status \<Rightarrow> cstatus \<Rightarrow> proxy_status" where
  "status_step st c =
     (let st1 = st\<lparr>ps_ready := cs_ready c, ps_restarts := cs_restarts c\<rparr>;
          st2 = (case cs_state c of CRunning t \<Rightarrow> st1\<lparr>ps_started := Some t\<rparr>
                 | CWaiting reason _ \<Rightarrow> st1\<lparr>ps_reason := reason\<rparr> | _ \<Rightarrow> st1)
      in case cs_last_exit c of Some r \<Rightarrow> if cs_ready c then st2 else st2\<lparr>ps_error := r\<rparr> | None \<Rightarrow> st2)"

definition not_installed :: proxy_status where
  "not_installed = \<lparr>ps_ready = False, ps_phase = ''NotInstalled'', ps_reason = [], ps_restarts = 0,
     ps_started = None, ps_hash = [], ps_error = []\<rparr>"

definition annotation :: "labels \<Rightarrow> string \<Rightarrow> string" where
  "annotation ls k = (case map_of ls k of Some v \<Rightarrow> v | None \<Rightarrow> [])"

definition ProxyStatus :: "proxy_status fallible" where
  "ProxyStatus = attempt (call (\<lambda>w. (Inr (proxy_pods w), w))) (\<lambda>ps. case ps of
     [] \<Rightarrow> ok not_installed
   | p # qs \<Rightarrow>
       (let q = newest_pod p qs in
        ok (foldl status_step (not_installed\<lparr>ps_phase := pod_phase q,
              ps_hash := annotation (pod_annotations q) ''vibedeploy.io/config-hash''\<rparr>) (pod_statuses q))))"

end
