(* ===== verification/Http.thy ===== *)
theory Http
  imports Secrets Deployer
begin

text \<open>
  What all API handlers share (internal/api/server.go, middleware.go, helpers.go, projects.go,
  admin.go): the configuration of the server, JSON request bodies, responses, the actor of a
  request and the three questions asked about it, the pager, and the middlewares that find
  actor and project before a handler runs.

  A body that is not JSON is \<open>None\<close>. Object keys match field names without regard to case, as
  in encoding/json; a value of the wrong type makes decoding fail; \<open>null\<close> leaves a field as it
  is. Messages of error responses are not modelled, their status and code are.
\<close>


section \<open>Server\<close>

text \<open>The JWT library: \<open>jl_parse\<close> reads a token without checking it, \<open>jl_verify\<close> checks its
  signature under an RSA public key.\<close>

record claims =
  cl_issuer :: string
  cl_audience :: "string list"
  cl_expires :: "int option"
  cl_not_before :: "int option"
  cl_email :: string
  cl_name :: string
  cl_given :: string
  cl_family :: string
  cl_preferred :: string

record jwt =
  jt_rsa :: bool
  jt_kid :: string
  jt_claims :: claims

record jwt_lib =
  jl_parse :: "string \<Rightarrow> jwt option"
  jl_verify :: "rsa_key \<Rightarrow> string \<Rightarrow> bool"

text \<open>\<open>sv_dep\<close> is \<open>None\<close> when the deployer is disabled. The provisioners are enabled when
  their addresses are configured.\<close>

record server =
  sv_base :: string
  sv_public :: string
  sv_max_domains :: int
  sv_pg_admin :: string
  sv_pg_host :: string
  sv_redis_admin :: string
  sv_redis_host :: string
  sv_s3_endpoint :: string
  sv_s3_key :: string
  sv_s3_secret :: string
  sv_s3_host :: string
  sv_s3_region :: string
  sv_s3_public_ssl :: bool
  sv_s3_public :: string
  sv_registry :: string
  sv_registry_k3d :: string
  sv_kek :: string
  sv_crypto :: crypto
  sv_jwt :: jwt_lib
  sv_env_kc :: kc_settings
  sv_dep :: "deployer option"


section \<open>Responses\<close>

text \<open>An event stream (internal/api/sse.go) is a list of frames.\<close>

datatype frame = EventFrame int string string string | EndFrame dstatus | PingFrame

datatype response =
    Error int string
  | Reply int json
  | Status int "(string \<times> string) list"
  | Text int string
  | Redirect string
  | EventStream "frame list"

text \<open>The request was answered as a success.\<close>

definition ok_response :: "response \<Rightarrow> bool" where
  "ok_response r =
     (case r of Error _ _ \<Rightarrow> False | Reply s _ \<Rightarrow> s < 400 | Status s _ \<Rightarrow> s < 400 | Text s _ \<Rightarrow> s < 400
      | Redirect _ \<Rightarrow> True | EventStream _ \<Rightarrow> True)"

abbreviation fail :: "int \<Rightarrow> string \<Rightarrow> response prog" where
  "fail st code \<equiv> State_Monad.return (Error st code)"

definition db_error :: "err \<Rightarrow> response prog" where
  "db_error e = fail 500 ''db''"

definition JStrs :: "string list \<Rightarrow> json" where
  "JStrs ss = JArr (map JStr ss)"

text \<open>\<open>omitempty\<close>: an empty value is left out.\<close>

definition opt_field :: "string \<Rightarrow> string option \<Rightarrow> (string \<times> json) list" where
  "opt_field name v = (case v of Some s \<Rightarrow> if s = [] then [] else [(name, JStr s)] | None \<Rightarrow> [])"

definition time_field :: "string \<Rightarrow> int option \<Rightarrow> (string \<times> json) list" where
  "time_field name t = (case t of Some x \<Rightarrow> [(name, JNum x)] | None \<Rightarrow> [])"

definition reply_ok :: "response prog" where
  "reply_ok = State_Monad.return (Reply 200 (JObj [(''ok'', JBool True)]))"

lemma keeps_db_error [keeps_intros]: "keeps f (db_error e)"
  by (simp add: db_error_def keeps_return)

lemma keeps_reply_ok [keeps_intros]: "keeps f reply_ok"
  by (simp add: reply_ok_def keeps_return)


section \<open>JSON bodies\<close>

text \<open>All values a struct field receives, in the order of the body.\<close>

definition field_values :: "string \<Rightarrow> (string \<times> json) list \<Rightarrow> json list" where
  "field_values name kvs = map snd (filter (\<lambda>(k, _). EqualFold k name) kvs)"

definition decode_struct :: "json option \<Rightarrow> (string \<times> json) list option" where
  "decode_struct body =
     (case body of
        Some (JObj kvs) \<Rightarrow> Some kvs
      | Some JNull \<Rightarrow> Some []
      | _ \<Rightarrow> None)"

fun dec_str :: "string \<Rightarrow> json list \<Rightarrow> string option" where
  "dec_str s [] = Some s"
| "dec_str s (JStr t # vs) = dec_str t vs"
| "dec_str s (JNull # vs) = dec_str s vs"
| "dec_str s (_ # vs) = None"

fun dec_bool :: "bool \<Rightarrow> json list \<Rightarrow> bool option" where
  "dec_bool b [] = Some b"
| "dec_bool b (JBool c # vs) = dec_bool c vs"
| "dec_bool b (JNull # vs) = dec_bool b vs"
| "dec_bool b (_ # vs) = None"

fun dec_bool_ptr :: "bool option \<Rightarrow> json list \<Rightarrow> bool option option" where
  "dec_bool_ptr b [] = Some b"
| "dec_bool_ptr b (JBool c # vs) = dec_bool_ptr (Some c) vs"
| "dec_bool_ptr b (JNull # vs) = dec_bool_ptr None vs"
| "dec_bool_ptr b (_ # vs) = None"

fun dec_int :: "int \<Rightarrow> json list \<Rightarrow> int option" where
  "dec_int i [] = Some i"
| "dec_int i (JNum n # vs) = dec_int n vs"
| "dec_int i (JNull # vs) = dec_int i vs"
| "dec_int i (_ # vs) = None"

fun dec_str_elems :: "json list \<Rightarrow> string list option" where
  "dec_str_elems [] = Some []"
| "dec_str_elems (JStr s # vs) = map_option (Cons s) (dec_str_elems vs)"
| "dec_str_elems (JNull # vs) = map_option (Cons []) (dec_str_elems vs)"
| "dec_str_elems (_ # vs) = None"

text \<open>A \<open>[]string\<close> field: \<open>None\<close> inside is the nil slice (absent or null).\<close>

fun dec_strs :: "string list option \<Rightarrow> json list \<Rightarrow> string list option option" where
  "dec_strs l [] = Some l"
| "dec_strs l (JArr js # vs) =
     (case dec_str_elems js of None \<Rightarrow> None | Some ss \<Rightarrow> dec_strs (Some ss) vs)"
| "dec_strs l (JNull # vs) = dec_strs None vs"
| "dec_strs l (_ # vs) = None"

definition raw_field :: "string \<Rightarrow> (string \<times> json) list \<Rightarrow> json option" where
  "raw_field name kvs = (case rev (field_values name kvs) of [] \<Rightarrow> None | j # _ \<Rightarrow> Some j)"

definition str_field :: "string \<Rightarrow> (string \<times> json) list \<Rightarrow> string option" where
  "str_field name kvs = dec_str [] (field_values name kvs)"

definition bool_field :: "string \<Rightarrow> (string \<times> json) list \<Rightarrow> bool option" where
  "bool_field name kvs = dec_bool False (field_values name kvs)"

definition int_field :: "string \<Rightarrow> (string \<times> json) list \<Rightarrow> int option" where
  "int_field name kvs = dec_int 0 (field_values name kvs)"

definition strs_field :: "string \<Rightarrow> (string \<times> json) list \<Rightarrow> string list option option" where
  "strs_field name kvs = dec_strs None (field_values name kvs)"

text \<open>A \<open>map[string]string\<close> field, as pairs in the order of the body.\<close>

fun dec_str_pairs :: "(string \<times> json) list \<Rightarrow> (string \<times> string) list option" where
  "dec_str_pairs [] = Some []"
| "dec_str_pairs ((k, JStr s) # kvs) = map_option (Cons (k, s)) (dec_str_pairs kvs)"
| "dec_str_pairs ((k, JNull) # kvs) = map_option (Cons (k, [])) (dec_str_pairs kvs)"
| "dec_str_pairs (_ # kvs) = None"

fun dec_map :: "(string \<times> string) list \<Rightarrow> json list \<Rightarrow> (string \<times> string) list option" where
  "dec_map m [] = Some m"
| "dec_map m (JObj kvs # vs) = (case dec_str_pairs kvs of None \<Rightarrow> None | Some ps \<Rightarrow> dec_map (m @ ps) vs)"
| "dec_map m (JNull # vs) = dec_map [] vs"
| "dec_map m (_ # vs) = None"

definition map_field :: "string \<Rightarrow> (string \<times> json) list \<Rightarrow> (string \<times> string) list option" where
  "map_field name kvs = dec_map [] (field_values name kvs)"


section \<open>The actor\<close>

datatype actor_kind = ActorUser | ActorToken | ActorNone

record actor =
  ac_kind :: actor_kind
  ac_user :: uuid
  ac_email :: string
  ac_name :: string
  ac_admin :: bool
  ac_token :: uuid
  ac_scopes :: "string list"
  ac_project :: "uuid option"
  ac_creator :: "uuid option"

definition nil_uuid :: uuid where
  "nil_uuid = ''00000000-0000-0000-0000-000000000000''"

definition no_actor :: actor where
  "no_actor = \<lparr>ac_kind = ActorNone, ac_user = nil_uuid, ac_email = [], ac_name = [], ac_admin = False,
     ac_token = nil_uuid, ac_scopes = [], ac_project = None, ac_creator = None\<rparr>"

definition kind_str :: "actor \<Rightarrow> string" where
  "kind_str a = (case ac_kind a of ActorUser \<Rightarrow> ''user'' | ActorToken \<Rightarrow> ''token'' | ActorNone \<Rightarrow> [])"

definition identityString :: "actor \<Rightarrow> string" where
  "identityString a = (if ac_kind a = ActorUser then ac_user a else ac_token a)"

definition actorUserIDPtr :: "actor \<Rightarrow> uuid option" where
  "actorUserIDPtr a = (if ac_kind a = ActorUser then Some (ac_user a) else None)"

definition isAdminActor :: "actor \<Rightarrow> bool" where
  "isAdminActor a =
     ((ac_kind a = ActorUser \<and> ac_admin a) \<or>
      (ac_kind a = ActorToken \<and> list_ex (\<lambda>s. s = ''admin'' \<or> s = ''*'') (ac_scopes a)))"

definition canManageProject :: "actor \<Rightarrow> project \<Rightarrow> bool" where
  "canManageProject a p =
     (case ac_kind a of
        ActorToken \<Rightarrow> ac_project a = None
      | ActorUser \<Rightarrow> ac_admin a \<or> p_owner p = ac_user a
      | ActorNone \<Rightarrow> False)"

definition canAccessProject :: "actor \<Rightarrow> project \<Rightarrow> bool prog" where
  "canAccessProject a p =
     (case ac_kind a of
        ActorToken \<Rightarrow> State_Monad.return (ac_project a = None \<or> ac_project a = Some (p_id p))
      | ActorUser \<Rightarrow>
          if ac_admin a \<or> p_owner p = ac_user a then State_Monad.return True
          else do {
            r \<leftarrow> IsCollaborator (p_id p) (ac_user a);
            State_Monad.return (case r of Inl _ \<Rightarrow> False | Inr b \<Rightarrow> b)
          }
      | ActorNone \<Rightarrow> State_Monad.return False)"

definition audit :: "actor \<Rightarrow> string \<Rightarrow> uuid option \<Rightarrow> json \<Rightarrow> unit prog" where
  "audit a action pid meta = WriteAudit (kind_str a) (identityString a) action pid meta"

definition projectURL :: "server \<Rightarrow> string \<Rightarrow> string" where
  "projectURL sv slug = ''https://'' @ slug @ ''.'' @ sv_base sv"

text \<open>The loading middleware of \<open>/projects/{slug}\<close>: the handler runs only for a live project
  the actor has access to.\<close>

definition requireProjectAccess ::
  "actor \<Rightarrow> string \<Rightarrow> (project \<Rightarrow> response prog) \<Rightarrow> response prog" where
  "requireProjectAccess a slug handler = do {
     r \<leftarrow> GetProjectBySlug slug;
     case r of
       Inl e \<Rightarrow> if e = ErrNotFound then fail 404 ''not_found'' else fail 500 ''db''
     | Inr p \<Rightarrow> do {
         allowed \<leftarrow> canAccessProject a p;
         if \<not> allowed then fail 403 ''forbidden'' else handler p
       }
   }"


section \<open>Paging\<close>

text \<open>\<open>parsePager\<close> on the values of the two query parameters (empty when absent).\<close>

definition parsePager :: "string \<Rightarrow> string \<Rightarrow> int \<Rightarrow> int \<Rightarrow> int \<times> int" where
  "parsePager lim off dflt maxl =
     ((if lim = [] then dflt
       else case Atoi lim of None \<Rightarrow> dflt | Some n \<Rightarrow> if n > 0 \<and> n \<le> maxl then n else dflt),
      (if off = [] then 0 else case Atoi off of None \<Rightarrow> 0 | Some n \<Rightarrow> if n \<ge> 0 then n else 0))"

lemma parsePager_bounds:
  assumes "parsePager lim off dflt maxl = (l, o')" and "0 < dflt" "dflt \<le> maxl"
  shows "0 < l \<and> l \<le> maxl \<and> 0 \<le> o' \<and> o' < 2 ^ 63"
  using assms Atoi_range [of off]
  by (auto simp: parsePager_def split: option.splits if_splits)


section \<open>Frame rules of the shared programs\<close>

lemma keeps_WriteAudit [keeps_intros]:
  "(\<And>w bs. f (w\<lparr>faults := bs\<rparr>) = f w) \<Longrightarrow> (\<And>w a. f (w\<lparr>db := (db w)\<lparr>audits := a\<rparr>\<rparr>) = f w) \<Longrightarrow>
   keeps f (WriteAudit ty ac act pid meta)"
  unfolding WriteAudit_def by (intro keeps_intros) auto

lemma keeps_audit [keeps_intros]:
  "(\<And>w bs. f (w\<lparr>faults := bs\<rparr>) = f w) \<Longrightarrow> (\<And>w a. f (w\<lparr>db := (db w)\<lparr>audits := a\<rparr>\<rparr>) = f w) \<Longrightarrow>
   keeps f (audit ac act pid meta)"
  unfolding audit_def by (rule keeps_WriteAudit)

lemma keeps_IsCollaborator [keeps_intros]:
  "(\<And>w bs. f (w\<lparr>faults := bs\<rparr>) = f w) \<Longrightarrow> keeps f (IsCollaborator p u)"
  unfolding IsCollaborator_def by (intro keeps_intros) auto

lemma keeps_canAccessProject [keeps_intros]:
  "(\<And>w bs. f (w\<lparr>faults := bs\<rparr>) = f w) \<Longrightarrow> keeps f (canAccessProject a p)"
  unfolding canAccessProject_def by (cases "ac_kind a") (auto intro!: keeps_intros)

end
