(* ===== verification/Access.thy ===== *)
theory Access
  imports Http
begin

text \<open>
  Who may reach a project's app: internal/api/project\_actions.go (the effective allow-list, the
  ingress synchronisation, the access, name, TLS and visibility handlers),
  internal/api/cidr\_presets.go and internal/api/path\_rules.go.
\<close>


section \<open>The effective allow-list\<close>

definition preset_cidrs :: "string \<Rightarrow> string list prog" where
  "preset_cidrs name = do {
     r \<leftarrow> GetCIDRPreset name;
     State_Monad.return (case r of Inl _ \<Rightarrow> [] | Inr pr \<Rightarrow> pr_cidrs pr)
   }"

definition effectiveAllowCIDRs :: "project \<Rightarrow> string list prog" where
  "effectiveAllowCIDRs p = do {
     base \<leftarrow> (case p_preset p of
                Some name \<Rightarrow> if name \<noteq> [] \<and> name \<noteq> ''public'' then preset_cidrs name else State_Monad.return []
              | None \<Rightarrow> State_Monad.return []);
     if base = [] \<or> hasWorldCIDR base then do {
       r \<leftarrow> GetCIDRPreset ''internal'';
       State_Monad.return (case r of
           Inl _ \<Rightarrow> []
         | Inr pr \<Rightarrow> if \<not> hasWorldCIDR (pr_cidrs pr) then pr_cidrs pr else [])
     } else State_Monad.return base
   }"


section \<open>Synchronising the ingress\<close>

definition extra_sources :: "string list \<Rightarrow> string list \<Rightarrow> string list" where
  "extra_sources allow cidrs =
     (if cidrs = [] then [] else allow @ filter (\<lambda>c. \<not> hasWorldCIDR [c]) cidrs)"

definition route_rule_of :: "string list \<Rightarrow> path_rule \<Rightarrow> route_rule" where
  "route_rule_of allow r =
     \<lparr>rr_prefix = r_prefix r, rr_mode = r_mode r, rr_cidrs = extra_sources allow (r_cidrs r)\<rparr>"

definition syncIngressForProject :: "server \<Rightarrow> project \<Rightarrow> unit fallible" where
  "syncIngressForProject sv p =
     (case sv_dep sv of
        None \<Rightarrow> ok ()
      | Some dc \<Rightarrow> do {
          others \<leftarrow> ListDomains (p_id p);
          allow \<leftarrow> effectiveAllowCIDRs p;
          rules \<leftarrow> ListProjectPathRules (p_id p);
          SyncIngressHostnames dc
            \<lparr>hi_slug = p_slug p,
             hi_hosts = (p_slug p @ ''.'' @ sv_base sv) # (case others of Inl _ \<Rightarrow> [] | Inr ds \<Rightarrow> map dm_host ds),
             hi_cidrs = allow, hi_auth = True, hi_tls = p_tls p,
             hi_rules = (case rules of Inl _ \<Rightarrow> [] | Inr rs \<Rightarrow> map (route_rule_of allow) rs)\<rparr>
        })"

text \<open>A loop that goes on after an error and remembers the first one.\<close>

fun first_error :: "('a \<Rightarrow> unit fallible) \<Rightarrow> err option \<Rightarrow> 'a list \<Rightarrow> unit fallible" where
  "first_error f e [] = (case e of None \<Rightarrow> ok () | Some x \<Rightarrow> throw x)"
| "first_error f e (x # xs) = do {
     r \<leftarrow> f x;
     first_error f (case e of Some y \<Rightarrow> Some y | None \<Rightarrow> (case r of Inl y \<Rightarrow> Some y | Inr _ \<Rightarrow> None)) xs
   }"

definition resync_project :: "server \<Rightarrow> uuid \<Rightarrow> unit fallible" where
  "resync_project sv i = do {
     r \<leftarrow> GetProjectByID i;
     case r of Inl _ \<Rightarrow> ok () | Inr p \<Rightarrow> syncIngressForProject sv p
   }"

definition resyncProjectsUsingPreset :: "server \<Rightarrow> string \<Rightarrow> unit fallible" where
  "resyncProjectsUsingPreset sv name =
     attempt (query (\<lambda>d. map p_id (filter (\<lambda>p. live p \<and> p_preset p = Some name) (projects d)))) (\<lambda>ids.
     first_error (resync_project sv) None ids)"

definition syncPlatformAllowList :: "server \<Rightarrow> unit fallible" where
  "syncPlatformAllowList sv =
     (case sv_dep sv of
        None \<Rightarrow> ok ()
      | Some dc \<Rightarrow> do {
          r \<leftarrow> GetCIDRPreset ''internal'';
          SyncPlatformAllowList (case r of
              Inl _ \<Rightarrow> []
            | Inr pr \<Rightarrow> if \<not> hasWorldCIDR (pr_cidrs pr) then pr_cidrs pr else [])
        })"

definition sweep_one :: "server \<Rightarrow> project \<Rightarrow> unit prog" where
  "sweep_one sv p = do { _ \<leftarrow> syncIngressForProject sv p; State_Monad.return () }"

definition SweepIngressesAtStartup :: "server \<Rightarrow> unit prog" where
  "SweepIngressesAtStartup sv =
     (if sv_dep sv = None then State_Monad.return ()
      else do {
        r \<leftarrow> ListProjectsForIngressSweep;
        case r of Inl _ \<Rightarrow> State_Monad.return () | Inr ps \<Rightarrow> for_each (sweep_one sv) ps
      })"


section \<open>Project settings\<close>

definition accessPolicySelfService :: bool where "accessPolicySelfService = False"

text \<open>The part of \<open>handlePatchProjectAccess\<close> after the checks. \<open>preset_sent\<close> and \<open>cidrs_sent\<close>
  are the two presence tests on the raw body; the keys are matched exactly here, since the code
  looks them up in a Go map.\<close>

definition raw_preset :: "json option \<Rightarrow> string option" where
  "raw_preset j = (case j of Some (JStr s) \<Rightarrow> if s \<noteq> [] then Some s else None | _ \<Rightarrow> None)"

definition raw_cidrs :: "json option \<Rightarrow> string list" where
  "raw_cidrs j =
     (case j of Some (JArr xs) \<Rightarrow> List.map_filter (\<lambda>x. case x of JStr s \<Rightarrow> Some s | _ \<Rightarrow> None) xs | _ \<Rightarrow> [])"

definition json_opt_str :: "string option \<Rightarrow> json" where
  "json_opt_str s = (case s of None \<Rightarrow> JNull | Some t \<Rightarrow> JStr t)"

definition access_finish ::
  "server \<Rightarrow> actor \<Rightarrow> project \<Rightarrow> bool \<Rightarrow> bool \<Rightarrow> response prog" where
  "access_finish sv a p preset_sent cidrs_sent =
     orelse (syncIngressForProject sv p) (\<lambda>_. fail 500 ''ingress_sync'') (\<lambda>_. do {
       _ \<leftarrow> audit a ''project.access.update'' (Some (p_id p))
            (JObj ((if preset_sent then [(''preset'', json_opt_str (p_preset p))] else []) @
                   (if cidrs_sent then [(''allow_cidrs'', JStrs (p_allow_cidrs p))] else [])));
       State_Monad.return (Reply 200 (JObj [(''ok'', JBool True), (''preset'', json_opt_str (p_preset p)),
         (''allow_cidrs'', JStrs (p_allow_cidrs p))]))
     })"

definition access_cidrs ::
  "server \<Rightarrow> actor \<Rightarrow> project \<Rightarrow> bool \<Rightarrow> json option \<Rightarrow> response prog" where
  "access_cidrs sv a p preset_sent j =
     (case j of
        None \<Rightarrow> access_finish sv a p preset_sent False
      | Some _ \<Rightarrow>
          (case normaliseCIDRs (raw_cidrs j) of
             Inl _ \<Rightarrow> fail 400 ''bad_cidr''
           | Inr cleaned \<Rightarrow>
               orelse (SetProjectAllowCIDRs (p_id p) cleaned) db_error
                 (\<lambda>_. access_finish sv a (p\<lparr>p_allow_cidrs := cleaned\<rparr>) preset_sent True)))"

definition set_preset_then :: "project \<Rightarrow> string option \<Rightarrow> (project \<Rightarrow> response prog) \<Rightarrow> response prog" where
  "set_preset_then p v k =
     orelse (SetProjectAccessPreset (p_id p) v) db_error (\<lambda>_. k (p\<lparr>p_preset := v\<rparr>))"

definition handlePatchProjectAccess :: "server \<Rightarrow> actor \<Rightarrow> json option \<Rightarrow> project \<Rightarrow> response prog" where
  "handlePatchProjectAccess sv a body p =
     (if \<not> accessPolicySelfService \<and> \<not> isAdminActor a then fail 403 ''access_policy_frozen''
      else if \<not> canManageProject a p then fail 403 ''not_authorised''
      else case decode_struct body of
        None \<Rightarrow> fail 400 ''bad_json''
      | Some kvs \<Rightarrow>
          (let preset = map_of (rev kvs) ''preset''; cidrs = map_of (rev kvs) ''allow_cidrs''
           in if preset \<noteq> None then
                (case raw_preset preset of
                   Some name \<Rightarrow>
                     orelse (GetCIDRPreset name)
                       (\<lambda>e. if e = ErrNotFound then fail 400 ''no_such_preset'' else fail 500 ''db'')
                       (\<lambda>_. set_preset_then p (Some name) (\<lambda>p'. access_cidrs sv a p' True cidrs))
                 | None \<Rightarrow> set_preset_then p None (\<lambda>p'. access_cidrs sv a p' True cidrs))
              else if cidrs \<noteq> None then set_preset_then p None (\<lambda>p'. access_cidrs sv a p' False cidrs)
              else access_cidrs sv a p False cidrs))"

definition handlePatchProjectName :: "actor \<Rightarrow> json option \<Rightarrow> project \<Rightarrow> response prog" where
  "handlePatchProjectName a body p =
     (if \<not> canManageProject a p then fail 403 ''not_authorised''
      else case decode_struct body of
        None \<Rightarrow> fail 400 ''bad_json''
      | Some kvs \<Rightarrow>
          (case str_field ''name'' kvs of
             None \<Rightarrow> fail 400 ''bad_json''
           | Some raw \<Rightarrow>
               (let name = TrimSpace raw in
                if name = [] then fail 400 ''empty_name''
                else if length name > 120 then fail 400 ''name_too_long''
                else orelse (SetProjectName (p_id p) name) db_error (\<lambda>_. do {
                  _ \<leftarrow> audit a ''project.name.update'' (Some (p_id p))
                       (JObj [(''old'', JStr (p_name p)), (''new'', JStr name)]);
                  State_Monad.return (Reply 200 (JObj [(''ok'', JBool True), (''name'', JStr name)]))
                }))))"

definition handlePatchProjectTLS :: "server \<Rightarrow> actor \<Rightarrow> json option \<Rightarrow> project \<Rightarrow> response prog" where
  "handlePatchProjectTLS sv a body p =
     (if \<not> canManageProject a p then fail 403 ''not_authorised''
      else case decode_struct body of
        None \<Rightarrow> fail 400 ''bad_json''
      | Some kvs \<Rightarrow>
          (case bool_field ''enabled'' kvs of
             None \<Rightarrow> fail 400 ''bad_json''
           | Some enabled \<Rightarrow>
               orelse (SetProjectTLSEnabled (p_id p) enabled) db_error (\<lambda>_.
               orelse (syncIngressForProject sv (p\<lparr>p_tls := enabled\<rparr>)) (\<lambda>_. fail 500 ''ingress_sync'') (\<lambda>_. do {
                 _ \<leftarrow> audit a ''project.tls.update'' (Some (p_id p)) (JObj [(''enabled'', JBool enabled)]);
                 State_Monad.return (Reply 200 (JObj [(''ok'', JBool True), (''tls_enabled'', JBool enabled)]))
               }))))"

definition handlePatchProjectVisibility :: "server \<Rightarrow> actor \<Rightarrow> json option \<Rightarrow> project \<Rightarrow> response prog" where
  "handlePatchProjectVisibility sv a body p =
     (if \<not> accessPolicySelfService then fail 403 ''access_policy_frozen''
      else if \<not> canManageProject a p then fail 403 ''not_authorised''
      else case decode_struct body of
        None \<Rightarrow> fail 400 ''bad_json''
      | Some kvs \<Rightarrow>
          (case str_field ''visibility'' kvs of
             None \<Rightarrow> fail 400 ''bad_json''
           | Some v \<Rightarrow>
               if v = ''public'' then fail 400 ''visibility_public_withdrawn''
               else if v \<noteq> ''org'' \<and> v \<noteq> ''restricted'' then fail 400 ''bad_visibility''
               else
                 orelse (SetProjectVisibility (p_id p) v) db_error (\<lambda>_.
                 orelse (syncIngressForProject sv (p\<lparr>p_visibility := v\<rparr>)) (\<lambda>_. fail 500 ''ingress_sync'') (\<lambda>_. do {
                   _ \<leftarrow> audit a ''project.visibility.update'' (Some (p_id p))
                        (JObj [(''old'', JStr (p_visibility p)), (''new'', JStr v)]);
                   State_Monad.return (Reply 200 (JObj [(''ok'', JBool True), (''visibility'', JStr v)]))
                 }))))"

end
