(* ===== verification/Path_Rules.thy ===== *)
theory Path_Rules
  imports Access
begin

text \<open>
  The admin's CIDR presets (internal/api/cidr\_presets.go) and the path-prefix overrides
  (internal/api/path\_rules.go).
\<close>


section \<open>CIDR presets\<close>

definition JPreset :: "preset \<Rightarrow> json" where
  "JPreset p = JObj [(''name'', JStr (pr_name p)), (''label'', JStr (pr_label p)),
     (''description'', JStr (pr_desc p)), (''cidrs'', JStrs (pr_cidrs p)), (''is_system'', JBool (pr_system p))]"

definition handleListCIDRPresets :: "actor \<Rightarrow> response prog" where
  "handleListCIDRPresets a =
     (if \<not> isAdminActor a then fail 403 ''not_admin''
      else orelse ListCIDRPresets db_error (\<lambda>ps.
        State_Monad.return (Reply 200 (JObj [(''presets'', JArr (map JPreset ps))]))))"

text \<open>Notes survive for the ranges of the preset only, under the normalised range.\<close>

fun keep_notes :: "string list \<Rightarrow> (string \<times> string) list \<Rightarrow> (string \<times> string) list" where
  "keep_notes kept [] = []"
| "keep_notes kept ((raw, note) # notes) =
     (case normaliseCIDR raw of
        Inl _ \<Rightarrow> keep_notes kept notes
      | Inr c \<Rightarrow>
          if c \<in> set kept \<and> TrimSpace note \<noteq> [] then (c, TrimSpace note) # keep_notes kept notes
          else keep_notes kept notes)"

definition preset_saved :: "server \<Rightarrow> actor \<Rightarrow> preset \<Rightarrow> response prog" where
  "preset_saved sv a p = do {
     r \<leftarrow> (if pr_name p = ''internal'' \<and> sv_dep sv \<noteq> None then syncPlatformAllowList sv else ok ());
     case r of
       Inl _ \<Rightarrow> State_Monad.return (Reply 200 (JObj [(''preset'', JPreset p), (''warn_resync'', JBool True)]))
     | Inr _ \<Rightarrow> do {
         r2 \<leftarrow> resyncProjectsUsingPreset sv (pr_name p);
         case r2 of
           Inl _ \<Rightarrow> State_Monad.return (Reply 200 (JObj [(''preset'', JPreset p), (''warn_resync'', JBool True)]))
         | Inr _ \<Rightarrow> do {
             _ \<leftarrow> audit a ''cidr_preset.update'' None
                  (JObj [(''name'', JStr (pr_name p)), (''cidrs'', JStrs (pr_cidrs p))]);
             State_Monad.return (Reply 200 (JObj [(''preset'', JPreset p)]))
           }
       }
   }"

definition handlePutCIDRPreset :: "server \<Rightarrow> actor \<Rightarrow> string \<Rightarrow> json option \<Rightarrow> response prog" where
  "handlePutCIDRPreset sv a rawName body =
     (if \<not> isAdminActor a then fail 403 ''not_admin''
      else
        (let name = TrimSpace rawName in
         if \<not> rx_match presetNamePattern name then fail 400 ''bad_name''
         else case decode_struct body of
           None \<Rightarrow> fail 400 ''bad_json''
         | Some kvs \<Rightarrow>
             (case (str_field ''label'' kvs, str_field ''description'' kvs, strs_field ''cidrs'' kvs,
                    map_field ''notes'' kvs) of
                (Some label, Some desc, Some cidrs, Some notes) \<Rightarrow>
                  if TrimSpace label = [] then fail 400 ''bad_label''
                  else (case normaliseCIDRs (case cidrs of None \<Rightarrow> [] | Some cs \<Rightarrow> cs) of
                    Inl _ \<Rightarrow> fail 400 ''bad_cidr''
                  | Inr cleaned \<Rightarrow>
                      (let p = \<lparr>pr_name = name, pr_label = TrimSpace label, pr_desc = TrimSpace desc,
                                pr_cidrs = cleaned, pr_system = False, pr_updated = 0, pr_by = None,
                                pr_notes = keep_notes cleaned notes\<rparr>
                       in orelse (UpsertCIDRPreset p (actorUserIDPtr a)) db_error (\<lambda>_. preset_saved sv a p)))
              | _ \<Rightarrow> fail 400 ''bad_json'')))"

definition handleDeleteCIDRPreset :: "server \<Rightarrow> actor \<Rightarrow> string \<Rightarrow> response prog" where
  "handleDeleteCIDRPreset sv a name =
     (if \<not> isAdminActor a then fail 403 ''not_admin''
      else orelse (DeleteCIDRPreset name)
        (\<lambda>e. if e = ErrNotFound then fail 404 ''not_found''
             else if e = ErrPresetIsSystem then fail 409 ''system_preset'' else fail 500 ''db'')
        (\<lambda>_. do {
          _ \<leftarrow> resyncProjectsUsingPreset sv name;
          _ \<leftarrow> audit a ''cidr_preset.delete'' None (JObj [(''name'', JStr name)]);
          reply_ok
        }))"


section \<open>Path rules\<close>

definition JRule :: "path_rule \<Rightarrow> json" where
  "JRule r = JObj [(''id'', JStr (r_id r)), (''project_id'', JStr (r_project r)),
     (''path_prefix'', JStr (r_prefix r)), (''mode'', JStr (r_mode r)), (''allow_cidrs'', JStrs (r_cidrs r))]"

definition handleListPathRules :: "project \<Rightarrow> response prog" where
  "handleListPathRules p =
     orelse (ListProjectPathRules (p_id p)) db_error (\<lambda>rs.
       State_Monad.return (Reply 200 (JObj [(''rules'', JArr (map JRule rs))])))"

text \<open>\<open>checkPathRuleCIDRs\<close> answers itself when it refuses: \<open>Inl\<close> is its response.\<close>

definition checkPathRuleCIDRs :: "actor \<Rightarrow> string \<Rightarrow> string list \<Rightarrow> response + string list" where
  "checkPathRuleCIDRs a mode raw =
     (case normaliseCIDRs raw of
        Inl _ \<Rightarrow> Inl (Error 400 ''bad_cidr'')
      | Inr cidrs \<Rightarrow>
          if cidrs = [] then Inr []
          else if \<not> isAdminActor a then Inl (Error 403 ''admin_only'')
          else if hasWorldCIDR cidrs then Inl (Error 400 ''bad_cidr'')
          else if mode \<noteq> PathRuleModeToken then Inl (Error 400 ''token_required'')
          else Inr cidrs)"

text \<open>What follows a saved rule; \<open>ids\<close> starts the entry of the audit trail.\<close>

definition rule_saved ::
  "server \<Rightarrow> actor \<Rightarrow> project \<Rightarrow> string \<Rightarrow> int \<Rightarrow> (string \<times> json) list \<Rightarrow> path_rule \<Rightarrow> response prog" where
  "rule_saved sv a p action st ids r =
     orelse (syncIngressForProject sv p) (\<lambda>_. fail 500 ''ingress_sync'') (\<lambda>_. do {
       _ \<leftarrow> audit a action (Some (p_id p)) (JObj (ids @ [(''prefix'', JStr (r_prefix r)),
              (''mode'', JStr (r_mode r)), (''allow_cidrs'', JStrs (r_cidrs r))]));
       State_Monad.return (Reply st (JObj [(''rule'', JRule r)]))
     })"

definition nil_slice :: "string list option \<Rightarrow> string list" where
  "nil_slice l = (case l of None \<Rightarrow> [] | Some xs \<Rightarrow> xs)"

definition handleCreatePathRule :: "server \<Rightarrow> actor \<Rightarrow> json option \<Rightarrow> project \<Rightarrow> response prog" where
  "handleCreatePathRule sv a body p =
     (if \<not> canManageProject a p then fail 403 ''not_authorised''
      else case decode_struct body of
        None \<Rightarrow> fail 400 ''bad_json''
      | Some kvs \<Rightarrow>
          (case (str_field ''path_prefix'' kvs, str_field ''mode'' kvs, strs_field ''allow_cidrs'' kvs) of
             (Some pfx0, Some mode0, Some cidrs0) \<Rightarrow>
               (case normalisePathRuleInput pfx0 mode0 of
                  Inl _ \<Rightarrow> fail 400 ''bad_input''
                | Inr (pfx, mode) \<Rightarrow>
                    (case checkPathRuleCIDRs a mode (nil_slice cidrs0) of
                       Inl resp \<Rightarrow> State_Monad.return resp
                     | Inr cidrs \<Rightarrow>
                         orelse (CreateProjectPathRule (p_id p) pfx mode cidrs)
                           (\<lambda>e. if e = ErrPathRuleTaken then fail 409 ''duplicate_prefix'' else fail 500 ''db'')
                           (rule_saved sv a p ''project.path_rule.create'' 201 [])))
           | _ \<Rightarrow> fail 400 ''bad_json''))"

text \<open>The ranges a rule carries already; a failing query counts as none.\<close>

definition existing_cidrs :: "uuid \<Rightarrow> uuid \<Rightarrow> string list prog" where
  "existing_cidrs pid rid = do {
     r \<leftarrow> ListProjectPathRules pid;
     State_Monad.return (case r of
         Inl _ \<Rightarrow> []
       | Inr rs \<Rightarrow> (case rev (filter (\<lambda>x. r_id x = rid) rs) of [] \<Rightarrow> [] | x # _ \<Rightarrow> r_cidrs x))
   }"

text \<open>\<open>rid\<close> is the parsed id of the path parameter, \<open>None\<close> when it is not a UUID.\<close>

definition handleUpdatePathRule ::
  "server \<Rightarrow> actor \<Rightarrow> uuid option \<Rightarrow> json option \<Rightarrow> project \<Rightarrow> response prog" where
  "handleUpdatePathRule sv a rid body p =
     (if \<not> canManageProject a p then fail 403 ''not_authorised''
      else case rid of
        None \<Rightarrow> fail 400 ''bad_id''
      | Some rid \<Rightarrow>
     (case decode_struct body of
        None \<Rightarrow> fail 400 ''bad_json''
      | Some kvs \<Rightarrow>
          (case (str_field ''path_prefix'' kvs, str_field ''mode'' kvs, strs_field ''allow_cidrs'' kvs) of
             (Some pfx0, Some mode0, Some cidrs0) \<Rightarrow>
               (case normalisePathRuleInput pfx0 mode0 of
                  Inl _ \<Rightarrow> fail 400 ''bad_input''
                | Inr (pfx, mode) \<Rightarrow> do {
                    existing \<leftarrow> existing_cidrs (p_id p) rid;
                    if existing \<noteq> [] \<and> \<not> isAdminActor a then fail 403 ''admin_only''
                    else case checkPathRuleCIDRs a mode (case cidrs0 of None \<Rightarrow> existing | Some cs \<Rightarrow> cs) of
                      Inl resp \<Rightarrow> State_Monad.return resp
                    | Inr cidrs \<Rightarrow>
                        orelse (UpdateProjectPathRule (p_id p) rid pfx mode cidrs)
                          (\<lambda>e. if e = ErrNotFound then fail 404 ''not_found''
                               else if e = ErrPathRuleTaken then fail 409 ''duplicate_prefix''
                               else fail 500 ''db'')
                          (rule_saved sv a p ''project.path_rule.update'' 200 [(''id'', JStr rid)])
                  })
           | _ \<Rightarrow> fail 400 ''bad_json'')))"

definition handleDeletePathRule :: "server \<Rightarrow> actor \<Rightarrow> uuid option \<Rightarrow> project \<Rightarrow> response prog" where
  "handleDeletePathRule sv a rid p =
     (if \<not> canManageProject a p then fail 403 ''not_authorised''
      else case rid of
        None \<Rightarrow> fail 400 ''bad_id''
      | Some rid \<Rightarrow>
          orelse (DeleteProjectPathRule (p_id p) rid) db_error (\<lambda>_.
          orelse (syncIngressForProject sv p) (\<lambda>_. fail 500 ''ingress_sync'') (\<lambda>_. do {
            _ \<leftarrow> audit a ''project.path_rule.delete'' (Some (p_id p)) (JObj [(''id'', JStr rid)]);
            reply_ok
          })))"

end
