(* ===== verification/Egress.thy ===== *)
theory Egress
  imports Http
begin

text \<open>
  The outbound side of the API (internal/api/egress\_rules.go, egress\_mode.go): validating and
  storing a project's egress rules, deriving the deployer's input from them, the egress mode,
  the collector that folds the proxy's access log into the database, and the startup sweep.
  The configuration of the proxy itself is in \<open>Squid\<close>, which this theory's programs get as
  the parameter \<open>render\<close>.

  Times are in milliseconds.
\<close>


section \<open>Validating a rule\<close>

definition egressForbiddenPorts :: "int list" where
  "egressForbiddenPorts = [5001, 5432, 8080, 5173]"

definition EgressKindDomain :: string where "EgressKindDomain = ''domain''"
definition EgressKindEndpoint :: string where "EgressKindEndpoint = ''endpoint''"

datatype rule_error = DomainPort | DomainEmpty | DomainSyntax | DomainWildcard | DomainIsAddress
  | DomainNoDot | DomainLabel | EndpointPort | EndpointAddress | AnyPortOnPlatform nat
  | ForbiddenOnPlatform int nat | BadKind

definition label_char :: "char \<Rightarrow> bool" where
  "label_char c = (is_lower c \<or> is_digit c \<or> c = CHR ''-'')"

definition label_ok :: "string \<Rightarrow> bool" where
  "label_ok l = (l \<noteq> [] \<and> list_all label_char l \<and> \<not> HasPrefix l ''-'' \<and> \<not> HasSuffix l ''-'')"

definition normaliseEgressDomain :: "string \<Rightarrow> rule_error + string" where
  "normaliseEgressDomain v =
     (let bare = TrimPrefix v ''.''
      in if v = [] then Inl DomainEmpty
         else if ContainsAny v ''/:? '' then Inl DomainSyntax
         else if Contains v ''*'' then Inl DomainWildcard
         else if ParseIP bare \<noteq> None then Inl DomainIsAddress
         else if \<not> Contains bare ''.'' then Inl DomainNoDot
         else if \<not> list_all label_ok (SplitByte (CHR ''.'') bare) then Inl DomainLabel
         else Inr v)"

text \<open>The first protected address a range contains.\<close>

definition covered_ip :: "nat list \<Rightarrow> string \<Rightarrow> nat option" where
  "covered_ip protected c =
     (case ParseCIDR c of None \<Rightarrow> None | Some (_, n) \<Rightarrow> find (ip_Contains n) protected)"

definition endpoint_rule :: "nat list \<Rightarrow> string \<Rightarrow> int \<Rightarrow> rule_error + rule_input" where
  "endpoint_rule protected c port =
     (case (if port = 0 then covered_ip protected c else None) of
        Some ip \<Rightarrow> Inl (AnyPortOnPlatform ip)
      | None \<Rightarrow>
          (case (if port \<in> set egressForbiddenPorts then covered_ip protected c else None) of
             Some ip \<Rightarrow> Inl (ForbiddenOnPlatform port ip)
           | None \<Rightarrow> Inr \<lparr>in_kind = EgressKindEndpoint, in_value = c, in_port = port, in_note = []\<rparr>))"

definition normaliseEgressRule :: "string \<Rightarrow> string \<Rightarrow> int \<Rightarrow> nat list \<Rightarrow> rule_error + rule_input" where
  "normaliseEgressRule knd val port0 protected =
     (let v = ToLower (TrimSpace val)
      in if knd = EgressKindDomain then
           (let port = (if port0 = 0 then 443 else if port0 = -1 then 0 else port0)
            in if port \<notin> {0, 80, 443} then Inl DomainPort
               else case normaliseEgressDomain v of
                 Inl e \<Rightarrow> Inl e
               | Inr d \<Rightarrow> Inr \<lparr>in_kind = knd, in_value = d, in_port = port, in_note = []\<rparr>)
         else if knd = EgressKindEndpoint then
           (let port = (if port0 = -1 then 0 else port0)
            in if port < 0 \<or> port > 65535 then Inl EndpointPort
               else case normaliseCIDR v of
                 Inl _ \<Rightarrow> Inl EndpointAddress
               | Inr c \<Rightarrow> endpoint_rule protected c port)
         else Inl BadKind)"


section \<open>From configuration and rules to the deployer's input\<close>

text \<open>The part of an address before its port, when it has one.\<close>

definition host_part :: "string \<Rightarrow> string" where
  "host_part hp = (case SplitHostPort hp of Some (h, _) \<Rightarrow> h | None \<Rightarrow> hp)"

definition platform_addresses :: "server \<Rightarrow> string list" where
  "platform_addresses sv =
     [sv_pg_host sv, sv_redis_host sv, sv_s3_host sv, sv_registry sv, sv_registry_k3d sv, sv_s3_public sv]"

definition protected_ip :: "string \<Rightarrow> nat option" where
  "protected_ip raw =
     (let hp = TrimSpace raw
      in if hp = [] then None
         else case ParseIP (host_part hp) of
           None \<Rightarrow> None
         | Some ip \<Rightarrow> if IsLoopback ip then None else Some ip)"

definition platformProtectedIPs :: "server \<Rightarrow> nat list" where
  "platformProtectedIPs sv = dedup [] (List.map_filter protected_ip (platform_addresses sv))"

definition proxyHost :: "server \<Rightarrow> string" where
  "proxyHost sv = host_part (TrimSpace (sv_pg_host sv))"

definition endpoint_allows :: "egress_rule list \<Rightarrow> egress_allow list" where
  "endpoint_allows rs =
     map (\<lambda>r. \<lparr>ea_cidr = g_value r, ea_port = g_port r\<rparr>) (filter (\<lambda>r. g_kind r = EgressKindEndpoint) rs)"

definition egressAllowsForProject :: "uuid \<Rightarrow> egress_allow list fallible" where
  "egressAllowsForProject pid = attempt (ListProjectEgressRules pid) (\<lambda>rs. ok (endpoint_allows rs))"

text \<open>The result: the allowed endpoints, whether the catch-all is dropped, the proxy URL. Go
  returns a value with the error, so the error is a component here and the caller's business.\<close>

definition egressConfigForProject ::
  "server \<Rightarrow> uuid \<Rightarrow> (egress_allow list \<times> bool \<times> string \<times> err option) prog" where
  "egressConfigForProject sv pid = do {
     r \<leftarrow> egressAllowsForProject pid;
     case r of
       Inl e \<Rightarrow> State_Monad.return ([], False, [], Some e)
     | Inr allows \<Rightarrow> do {
         m \<leftarrow> GetProjectEgressMode pid;
         State_Monad.return
           (case m of
              Inl e \<Rightarrow> (allows, False, [], Some e)
            | Inr (mode, port) \<Rightarrow>
                (let host = proxyHost sv
                 in if mode = ''off'' \<or> port = 0 \<or> ParseIP host = None then (allows, True, [], None)
                    else (allows @ [\<lparr>ea_cidr = host_cidr host, ea_port = port\<rparr>], True,
                          ''http://'' @ JoinHostPort host (Itoa port), None)))
       }
   }"

definition syncEgressForProject :: "server \<Rightarrow> project \<Rightarrow> unit fallible" where
  "syncEgressForProject sv p =
     (case sv_dep sv of
        None \<Rightarrow> ok ()
      | Some dc \<Rightarrow> do {
          cfg \<leftarrow> egressConfigForProject sv (p_id p);
          case cfg of (allows, enforce, _, e) \<Rightarrow>
            (case e of Some x \<Rightarrow> throw x | None \<Rightarrow> SyncEgressPolicy dc (p_slug p) allows enforce)
        })"

definition syncEgressProxy :: "(proxy_target list \<Rightarrow> string) \<Rightarrow> server \<Rightarrow> unit fallible" where
  "syncEgressProxy render sv =
     (case sv_dep sv of
        None \<Rightarrow> ok ()
      | Some dc \<Rightarrow>
          attempt ListEgressProxyTargets (\<lambda>ts. EnsureEgressProxy dc (render ts) (map pt_port ts)))"

definition SweepEgressProxyAtStartup :: "(proxy_target list \<Rightarrow> string) \<Rightarrow> server \<Rightarrow> unit prog" where
  "SweepEgressProxyAtStartup render sv = do { _ \<leftarrow> syncEgressProxy render sv; State_Monad.return () }"


section \<open>The rule handlers\<close>

definition JEgressRule :: "egress_rule \<Rightarrow> json" where
  "JEgressRule r = JObj [(''kind'', JStr (g_kind r)), (''value'', JStr (g_value r)), (''port'', JNum (g_port r)),
     (''note'', JStr (g_note r))]"

definition handleListProjectEgress :: "actor \<Rightarrow> project \<Rightarrow> response prog" where
  "handleListProjectEgress a p =
     orelse (ListProjectEgressRules (p_id p)) db_error (\<lambda>rs.
       State_Monad.return (Reply 200 (JObj [(''rules'', JArr (map JEgressRule rs)), (''can_edit'', JBool (isAdminActor a))])))"

text \<open>The \<open>rules\<close> field of the body: kind, value, port and note of each element.\<close>

fun dec_rules :: "json list \<Rightarrow> (string \<times> string \<times> int \<times> string) list option" where
  "dec_rules [] = Some []"
| "dec_rules (j # js) =
     (case decode_struct (Some j) of
        None \<Rightarrow> None
      | Some kvs \<Rightarrow>
          (case (str_field ''kind'' kvs, str_field ''value'' kvs, int_field ''port'' kvs, str_field ''note'' kvs,
                 dec_rules js) of
             (Some k, Some v, Some q, Some n, Some rs) \<Rightarrow> Some ((k, v, q, n) # rs)
           | _ \<Rightarrow> None))"

definition rules_field :: "(string \<times> json) list \<Rightarrow> (string \<times> string \<times> int \<times> string) list option" where
  "rules_field kvs =
     (case raw_field ''rules'' kvs of
        None \<Rightarrow> Some [] | Some JNull \<Rightarrow> Some [] | Some (JArr js) \<Rightarrow> dec_rules js | _ \<Rightarrow> None)"

definition rule_key :: "rule_input \<Rightarrow> string" where
  "rule_key r = in_kind r @ ''|'' @ in_value r @ ''|'' @ Itoa (in_port r)"

fun normalise_rules ::
  "nat list \<Rightarrow> string list \<Rightarrow> (string \<times> string \<times> int \<times> string) list \<Rightarrow> rule_error + rule_input list" where
  "normalise_rules prot seen [] = Inr []"
| "normalise_rules prot seen ((k, v, q, n) # ins) =
     (case normaliseEgressRule k v q prot of
        Inl e \<Rightarrow> Inl e
      | Inr r \<Rightarrow>
          if rule_key r \<in> set seen then normalise_rules prot seen ins
          else map_sum id (Cons (r\<lparr>in_note := TrimSpace n\<rparr>)) (normalise_rules prot (rule_key r # seen) ins))"

definition editor_id :: "actor \<Rightarrow> uuid option" where
  "editor_id a = (if ac_kind a = ActorUser \<and> ac_user a \<noteq> nil_uuid then Some (ac_user a) else None)"

definition handlePutProjectEgress ::
  "(proxy_target list \<Rightarrow> string) \<Rightarrow> server \<Rightarrow> actor \<Rightarrow> json option \<Rightarrow> project \<Rightarrow> response prog" where
  "handlePutProjectEgress render sv a body p =
     (if \<not> isAdminActor a then fail 403 ''not_admin''
      else case Option.bind (decode_struct body) rules_field of
        None \<Rightarrow> fail 400 ''bad_json''
      | Some ins \<Rightarrow>
          (case normalise_rules (platformProtectedIPs sv) [] ins of
             Inl _ \<Rightarrow> fail 400 ''bad_rule''
           | Inr out \<Rightarrow>
               orelse (ReplaceProjectEgressRules (p_id p) out (editor_id a)) db_error (\<lambda>_.
               orelse (syncEgressForProject sv p)
                 (\<lambda>_. do {
                   _ \<leftarrow> audit a ''project.egress.sync_failed'' (Some (p_id p)) (JObj []);
                   fail 500 ''egress_sync''
                 })
                 (\<lambda>_. do {
                   r1 \<leftarrow> EnsureEgressProxyPort (p_id p);
                   _ \<leftarrow> (case r1 of
                           Inl _ \<Rightarrow> audit a ''project.egress.port_alloc_failed'' (Some (p_id p)) (JObj [])
                         | Inr _ \<Rightarrow> State_Monad.return ());
                   r2 \<leftarrow> syncEgressProxy render sv;
                   _ \<leftarrow> (case r2 of
                           Inl _ \<Rightarrow> audit a ''project.egress.proxy_sync_failed'' (Some (p_id p)) (JObj [])
                         | Inr _ \<Rightarrow> State_Monad.return ());
                   _ \<leftarrow> audit a ''project.egress.update'' (Some (p_id p)) (JObj [(''rules'', JNum (int (length out)))]);
                   State_Monad.return (Reply 200 (JObj [(''ok'', JBool True), (''rules'', JNum (int (length out)))]))
                 }))))"

text \<open>This handler has no admin check of its own.\<close>

definition handleAdminEgressOverview :: "actor \<Rightarrow> response prog" where
  "handleAdminEgressOverview a =
     orelse CountEgressRulesByProject db_error (\<lambda>cs.
       State_Monad.return (Reply 200 (JObj [(''projects'', JArr (map (\<lambda>(slug, dn, en).
         JObj [(''slug'', JStr slug), (''domains'', JNum (int dn)), (''endpoints'', JNum (int en))]) cs))])))"


section \<open>The egress mode\<close>

definition egressModes :: "string list" where
  "egressModes = [''off'', ''observe'', ''enforce'']"

text \<open>Policy, then the environment of the pods; what both the handler and the sweep run.\<close>

definition push_egress :: "server \<Rightarrow> deployer \<Rightarrow> uuid \<Rightarrow> string \<Rightarrow> unit fallible" where
  "push_egress sv dc pid slug = do {
     cfg \<leftarrow> egressConfigForProject sv pid;
     case cfg of (allows, enforce, url, e) \<Rightarrow>
       (case e of
          Some x \<Rightarrow> throw x
        | None \<Rightarrow> attempt (SyncEgressPolicy dc slug allows enforce) (\<lambda>_. SetProxyEnv dc slug url))
   }"

definition handlePatchEgressMode ::
  "(proxy_target list \<Rightarrow> string) \<Rightarrow> server \<Rightarrow> actor \<Rightarrow> json option \<Rightarrow> project \<Rightarrow> response prog" where
  "handlePatchEgressMode render sv a body p =
     (if \<not> isAdminActor a then fail 403 ''not_admin''
      else case Option.bind (decode_struct body) (str_field ''mode'') of
        None \<Rightarrow> fail 400 ''bad_mode''
      | Some mode \<Rightarrow>
          if mode \<notin> set egressModes then fail 400 ''bad_mode''
          else
            orelse (if mode \<noteq> ''off'' then attempt (EnsureEgressProxyPort (p_id p)) (\<lambda>_. ok ()) else ok ())
              (\<lambda>_. fail 500 ''port_alloc'') (\<lambda>_.
            orelse (SetProjectEgressMode (p_id p) mode) db_error (\<lambda>_.
            orelse (syncEgressProxy render sv) (\<lambda>_. fail 500 ''proxy_sync'') (\<lambda>_.
            orelse (case sv_dep sv of None \<Rightarrow> ok () | Some dc \<Rightarrow> push_egress sv dc (p_id p) (p_slug p))
              (\<lambda>_. fail 500 ''egress_sync'') (\<lambda>_. do {
              _ \<leftarrow> audit a ''project.egress.mode'' (Some (p_id p)) (JObj [(''mode'', JStr mode)]);
              State_Monad.return (Reply 200 (JObj [(''mode'', JStr mode)]))
            })))))"

definition handleGetEgressMode :: "actor \<Rightarrow> project \<Rightarrow> response prog" where
  "handleGetEgressMode a p =
     orelse (GetProjectEgressMode (p_id p)) db_error (\<lambda>(mode, port).
       State_Monad.return (Reply 200 (JObj [(''mode'', JStr mode), (''port'', JNum port), (''can_edit'', JBool (isAdminActor a))])))"

fun ensure_ports :: "(uuid \<times> string) list \<Rightarrow> unit prog" where
  "ensure_ports [] = State_Monad.return ()"
| "ensure_ports ((i, _) # ps) = do { _ \<leftarrow> EnsureEgressProxyPort i; ensure_ports ps }"

fun push_all :: "server \<Rightarrow> deployer \<Rightarrow> (uuid \<times> string) list \<Rightarrow> unit prog" where
  "push_all sv dc [] = State_Monad.return ()"
| "push_all sv dc ((i, slug) # ps) = do { _ \<leftarrow> push_egress sv dc i slug; push_all sv dc ps }"

definition SweepEgressModesAtStartup :: "(proxy_target list \<Rightarrow> string) \<Rightarrow> server \<Rightarrow> unit prog" where
  "SweepEgressModesAtStartup render sv =
     (case sv_dep sv of
        None \<Rightarrow> State_Monad.return ()
      | Some dc \<Rightarrow>
          orelse (query (\<lambda>d. map (\<lambda>p. (p_id p, p_slug p))
                   (sort_key p_slug (filter (\<lambda>p. live p \<and> p_mode p \<noteq> ''off'') (projects d)))))
            (\<lambda>_. State_Monad.return ()) (\<lambda>ps. do {
              _ \<leftarrow> ensure_ports ps;
              orelse (syncEgressProxy render sv) (\<lambda>_. State_Monad.return ()) (\<lambda>_. push_all sv dc ps)
            }))"

end
