(* ===== verification/Egress_Log.thy ===== *)
theory Egress_Log
  imports Egress
begin

text \<open>
  What the platform learns from the egress proxy's access log (internal/api/egress\_mode.go):
  the parser of a log line, the collector that counts requests per host and, for projects in
  observe mode, adds every host that was reached to the allow-list, and the admin's reports.

  Times are in milliseconds; the log's time stamps have the form \<open>seconds.milliseconds\<close>. The
  loops over Go maps run in the order of first appearance here.
\<close>


section \<open>The log\<close>

record proxy_line =
  pl_ts :: int
  pl_port :: int
  pl_method :: string
  pl_dport :: int
  pl_status :: string
  pl_host :: string

text \<open>Decimal seconds, cut to milliseconds: the log writes \<open>%ts.%03tu\<close>. Anything else reads as
  zero, as a failing \<open>ParseFloat\<close> does; exponents, signs and hexadecimal are not modelled.\<close>

definition parse_ts :: "string \<Rightarrow> int" where
  "parse_ts s =
     (case SplitByte (CHR ''.'') s of
        [a] \<Rightarrow> if a \<noteq> [] \<and> list_all is_digit a then int (digits_val a) * 1000 else 0
      | [a, b] \<Rightarrow> if a @ b \<noteq> [] \<and> list_all is_digit (a @ b)
                  then int (digits_val a) * 1000 + int (digits_val (take 3 (b @ ''000''))) else 0
      | _ \<Rightarrow> 0)"

definition cut_scheme :: "string \<Rightarrow> string" where
  "cut_scheme url = (case Index url ''://'' of None \<Rightarrow> url | Some i \<Rightarrow> drop (i + 3) url)"

definition cut_path :: "string \<Rightarrow> string" where
  "cut_path host = (case IndexByte host (CHR ''/'') of None \<Rightarrow> host | Some i \<Rightarrow> take i host)"

text \<open>Host and destination port of a URL or of a CONNECT's \<open>host:port\<close>.\<close>

definition url_dest :: "string \<Rightarrow> string \<times> int" where
  "url_dest url =
     (let dflt = (if HasPrefix url ''http://'' then 80 else 443);
          h = cut_path (cut_scheme url)
      in case LastIndexByte h (CHR '':'') of
           None \<Rightarrow> (h, dflt)
         | Some i \<Rightarrow> (take i h, (case Atoi (drop (i + 1) h) of Some q \<Rightarrow> q | None \<Rightarrow> dflt)))"

definition parse_line :: "string \<Rightarrow> proxy_line option" where
  "parse_line l =
     (case Fields l of
        t # port # st # method # url # _ \<Rightarrow>
          (case Atoi port of
             None \<Rightarrow> None
           | Some q \<Rightarrow>
               if q = 3128 then None
               else Some \<lparr>pl_ts = parse_ts t, pl_port = q, pl_method = method, pl_dport = snd (url_dest url),
                          pl_status = st, pl_host = fst (url_dest url)\<rparr>)
      | _ \<Rightarrow> None)"

definition parseProxyLog :: "string \<Rightarrow> proxy_line list" where
  "parseProxyLog raw = List.map_filter parse_line (scan_lines raw)"

definition is_denied :: "proxy_line \<Rightarrow> bool" where
  "is_denied l = Contains (pl_status l) ''DENIED''"


section \<open>The collector\<close>

record agg =
  ag_allowed :: int
  ag_denied :: int
  ag_first :: int
  ag_last :: int
  ag_dport :: int

type_synonym agg_map = "((string \<times> string) \<times> agg) list"

definition count_line :: "proxy_line \<Rightarrow> agg \<Rightarrow> agg" where
  "count_line l g =
     (if is_denied l then g\<lparr>ag_denied := ag_denied g + 1, ag_last := pl_ts l\<rparr>
      else g\<lparr>ag_allowed := ag_allowed g + 1, ag_last := pl_ts l\<rparr>)"

definition new_agg :: "proxy_line \<Rightarrow> agg" where
  "new_agg l = \<lparr>ag_allowed = 0, ag_denied = 0, ag_first = pl_ts l, ag_last = 0, ag_dport = pl_dport l\<rparr>"

fun count_in :: "string \<times> string \<Rightarrow> proxy_line \<Rightarrow> agg_map \<Rightarrow> agg_map" where
  "count_in k l [] = [(k, count_line l (new_agg l))]"
| "count_in k l ((k', g) # m) = (if k' = k then (k', count_line l g) # m else (k', g) # count_in k l m)"

text \<open>The lines that count: newer than the cursor, with a host, from a known listener.\<close>

definition counted :: "(int \<Rightarrow> string option) \<Rightarrow> int \<Rightarrow> proxy_line \<Rightarrow> bool" where
  "counted ports cursor l = (pl_ts l > cursor \<and> pl_host l \<noteq> [] \<and> ports (pl_port l) \<noteq> None)"

definition line_key :: "(int \<Rightarrow> string option) \<Rightarrow> proxy_line \<Rightarrow> string \<times> string" where
  "line_key ports l = (the (ports (pl_port l)), pl_host l)"

fun aggregate :: "(int \<Rightarrow> string option) \<Rightarrow> proxy_line list \<Rightarrow> agg_map \<Rightarrow> agg_map" where
  "aggregate ports [] m = m"
| "aggregate ports (l # ls) m = aggregate ports ls (count_in (line_key ports l) l m)"

definition add_stat :: "string \<times> string \<Rightarrow> agg \<Rightarrow> database \<Rightarrow> database" where
  "add_stat k g d =
     (case find_live_slug (fst k) d of
        None \<Rightarrow> d
      | Some p \<Rightarrow>
          (let mine = (\<lambda>s. st_project s = p_id p \<and> st_host s = snd k)
           in d\<lparr>domain_stats :=
                (if \<exists>s \<in> set (domain_stats d). mine s
                 then update_rows mine (\<lambda>s. s\<lparr>st_allowed := st_allowed s + ag_allowed g,
                        st_denied := st_denied s + ag_denied g, st_last := max (st_last s) (ag_last g)\<rparr>) (domain_stats d)
                 else domain_stats d @ [\<lparr>st_project = p_id p, st_host = snd k, st_allowed = ag_allowed g,
                        st_denied = ag_denied g, st_first = ag_first g, st_last = ag_last g\<rparr>])\<rparr>))"

fun write_stats :: "agg_map \<Rightarrow> unit fallible" where
  "write_stats [] = ok ()"
| "write_stats ((k, g) # m) = attempt (exec (\<lambda>_. add_stat k g)) (\<lambda>_. write_stats m)"

definition log_entry :: "(int \<Rightarrow> string option) \<Rightarrow> database \<Rightarrow> int \<Rightarrow> proxy_line \<Rightarrow> access_row" where
  "log_entry ports d i l =
     (let slug = the (ports (pl_port l))
      in \<lparr>al_id = i, al_ts = pl_ts l, al_project = map_option p_id (find_live_slug slug d), al_slug = slug,
          al_method = pl_method l, al_host = pl_host l, al_status = pl_status l, al_denied = is_denied l\<rparr>)"

definition add_log :: "(int \<Rightarrow> string option) \<Rightarrow> proxy_line list \<Rightarrow> database \<Rightarrow> database" where
  "add_log ports ls d =
     d\<lparr>access_log := access_log d @ map (\<lambda>(i, l). log_entry ports d (log_seq d + int i) l) (enumerate 0 ls),
       log_seq := log_seq d + int (length ls)\<rparr>"

definition auto_note :: string where
  "auto_note = map char_of [0xE8, 0xA7, 0x82, 0xE5, 0xAF, 0x9F, 0xE6, 0xA8, 0xA1, 0xE5, 0xBC, 0x8F,
     0xE8, 0x87, 0xAA, 0xE5, 0x8A, 0xA8, 0xE5, 0x8A, 0xA0, 0xE5, 0x85, 0xA5 :: nat]"

definition learn_rule :: "string \<Rightarrow> string \<Rightarrow> int \<Rightarrow> database \<Rightarrow> database" where
  "learn_rule slug host port d =
     (case find_row (\<lambda>p. p_slug p = slug \<and> live p \<and> p_mode p = ''observe'') (projects d) of
        None \<Rightarrow> d
      | Some p \<Rightarrow>
          (case insert_egress_rule (p_id p) EgressKindDomain host port auto_note None (egress_rules d) of
             None \<Rightarrow> d
           | Some rows \<Rightarrow> d\<lparr>egress_rules := rows\<rparr>))"

definition learned_port :: "agg \<Rightarrow> int" where
  "learned_port g = (if ag_dport g \<in> {80, 443} then ag_dport g else 0)"

fun learn :: "agg_map \<Rightarrow> unit prog" where
  "learn [] = State_Monad.return ()"
| "learn (((slug, host), g) # m) =
     (if ag_allowed g = 0 then learn m
      else do { _ \<leftarrow> exec (\<lambda>_. learn_rule slug host (learned_port g)); learn m })"

definition thirty_days :: int where "thirty_days = 2592000000"

definition prune_log :: "int \<Rightarrow> database \<Rightarrow> database" where
  "prune_log t d = d\<lparr>access_log := delete_rows (\<lambda>r. al_ts r < t - thirty_days) (access_log d)\<rparr>"

definition next_cursor :: "int \<Rightarrow> proxy_line list \<Rightarrow> int" where
  "next_cursor cursor ls = foldl (\<lambda>c l. max c (pl_ts l)) cursor ls"

text \<open>The result is the new cursor; an error leaves it where it was.\<close>

definition collectEgressLog :: "int \<Rightarrow> int fallible" where
  "collectEgressLog cursor =
     attempt (ProxyLogs 20000) (\<lambda>raw.
     attempt ProxyPortSlugs (\<lambda>ports.
     (let ls = filter (counted ports cursor) (parseProxyLog raw); m = aggregate ports ls []
      in attempt (write_stats m) (\<lambda>_.
         attempt (if ls \<noteq> [] then exec (\<lambda>_. add_log ports ls) else ok ()) (\<lambda>_. do {
           _ \<leftarrow> learn m;
           _ \<leftarrow> exec prune_log;
           ok (next_cursor cursor ls)
         })))))"

text \<open>The backfill at the start of the collector: one INSERT over all statistics of live
  projects in observe mode.\<close>

definition backfill_rule :: "database \<Rightarrow> egress_rule list \<Rightarrow> domain_stat \<Rightarrow> egress_rule list" where
  "backfill_rule d rows s =
     (if st_allowed s > 0 \<and> (\<exists>p \<in> set (projects d). p_id p = st_project s \<and> live p \<and> p_mode p = ''observe'')
      then (case insert_egress_rule (st_project s) EgressKindDomain (st_host s) 443 auto_note None rows of
              None \<Rightarrow> rows | Some rows' \<Rightarrow> rows')
      else rows)"

definition backfill :: "database \<Rightarrow> database" where
  "backfill d = d\<lparr>egress_rules := foldl (backfill_rule d) (egress_rules d) (domain_stats d)\<rparr>"

definition start_cursor :: "int prog" where
  "start_cursor = do {
     r \<leftarrow> query (\<lambda>d. if domain_stats d = [] then None else Some (Max (set (map st_last (domain_stats d)))));
     State_Monad.return (case r of Inr (Some t) \<Rightarrow> t | _ \<Rightarrow> 0)
   }"

text \<open>\<open>n\<close> turns of the collector's endless loop.\<close>

fun collector_turns :: "nat \<Rightarrow> int \<Rightarrow> int prog" where
  "collector_turns 0 cursor = State_Monad.return cursor"
| "collector_turns (Suc n) cursor = do {
     r \<leftarrow> collectEgressLog cursor;
     collector_turns n (case r of Inl _ \<Rightarrow> cursor | Inr c \<Rightarrow> c)
   }"

definition RunEgressLogCollector :: "server \<Rightarrow> nat \<Rightarrow> unit prog" where
  "RunEgressLogCollector sv n =
     (if sv_dep sv = None then State_Monad.return ()
      else do {
        cursor \<leftarrow> start_cursor;
        _ \<leftarrow> exec (\<lambda>_. backfill);
        _ \<leftarrow> collector_turns n cursor;
        State_Monad.return ()
      })"


section \<open>The reports\<close>

definition count_denied :: "proxy_line list \<Rightarrow> int \<times> int" where
  "count_denied ls = (int (length (filter (\<lambda>l. \<not> is_denied l) ls)), int (length (filter is_denied ls)))"

definition JModes :: "(string \<Rightarrow> nat) \<Rightarrow> json" where
  "JModes m = JObj (List.map_filter (\<lambda>k. if m k = 0 then None else Some (k, JNum (int (m k))))
     [''enforce'', ''observe'', ''off''])"

definition JProxyStatus :: "proxy_status \<Rightarrow> json" where
  "JProxyStatus st = JObj ([(''ready'', JBool (ps_ready st)), (''phase'', JStr (ps_phase st)),
     (''restarts'', JNum (ps_restarts st))] @ opt_field ''reason'' (Some (ps_reason st)) @
     time_field ''started_at'' (ps_started st) @ opt_field ''config_hash'' (Some (ps_hash st)) @
     opt_field ''last_error'' (Some (ps_error st)))"

definition handleEgressProxyStatus :: "server \<Rightarrow> actor \<Rightarrow> response prog" where
  "handleEgressProxyStatus sv a =
     (if \<not> isAdminActor a then fail 403 ''not_admin''
      else do {
        counts \<leftarrow> EgressModeCounts;
        t \<leftarrow> get_now;
        let modes = (case counts of Inl _ \<Rightarrow> JNull | Inr m \<Rightarrow> JModes m) in
        if sv_dep sv = None
        then State_Monad.return (Reply 200 (JObj [(''modes'', modes), (''checked_at'', JNum t),
          (''proxy'', JObj [(''phase'', JStr ''NoCluster'')])]))
        else do {
          st \<leftarrow> ProxyStatus;
          raw \<leftarrow> ProxyLogs 5000;
          let (al, dn) = (case raw of Inl _ \<Rightarrow> (0, 0) | Inr s \<Rightarrow> count_denied (parseProxyLog s)) in
          State_Monad.return (Reply 200 (JObj [(''modes'', modes), (''checked_at'', JNum t),
            (''proxy'', (case st of Inl _ \<Rightarrow> JObj [(''phase'', JStr ''Unknown'')] | Inr s \<Rightarrow> JProxyStatus s)),
            (''recent'', JObj [(''allowed'', JNum al), (''denied'', JNum dn)])]))
        }
      })"

definition handleEgressReport :: "actor \<Rightarrow> project \<Rightarrow> response prog" where
  "handleEgressReport a p =
     (if \<not> isAdminActor a then fail 403 ''not_admin''
      else orelse (query (\<lambda>d. take 500 (sort_key (\<lambda>s. (- (st_allowed s + st_denied s), st_host s))
               (filter (\<lambda>s. st_project s = p_id p) (domain_stats d))))) db_error (\<lambda>ss.
        State_Monad.return (Reply 200 (JObj [(''domains'', JArr (map (\<lambda>s.
          JObj [(''host'', JStr (st_host s)), (''allowed'', JNum (st_allowed s)), (''denied'', JNum (st_denied s)),
                (''first_seen'', JNum (st_first s)), (''last_seen'', JNum (st_last s))]) ss))]))))"

text \<open>\<open>ILIKE\<close>, on bytes.\<close>

fun like :: "string \<Rightarrow> string \<Rightarrow> bool" where
  "like [] s = (s = [])"
| "like (c # p) s =
     (if c = CHR ''%'' then like p s \<or> (case s of [] \<Rightarrow> False | _ # s' \<Rightarrow> like (c # p) s')
      else if c = CHR 0x5C \<and> p \<noteq> [] then
        (case s of [] \<Rightarrow> False | d # s' \<Rightarrow> d = hd p \<and> like (tl p) s')
      else (case s of [] \<Rightarrow> False | d # s' \<Rightarrow> (c = CHR ''_'' \<or> c = d) \<and> like p s'))"

definition ILike :: "string \<Rightarrow> string \<Rightarrow> bool" where
  "ILike pat s = like (ToLower pat) (ToLower s)"

definition log_filter :: "string \<Rightarrow> string \<Rightarrow> string \<Rightarrow> access_row \<Rightarrow> bool" where
  "log_filter proj q status r =
     ((TrimSpace proj = [] \<or> al_slug r = TrimSpace proj) \<and>
      (TrimSpace q = [] \<or> ILike (''%'' @ TrimSpace q @ ''%'') (al_host r)) \<and>
      (status = ''denied'' \<longrightarrow> al_denied r) \<and> (status = ''allowed'' \<longrightarrow> \<not> al_denied r))"

definition JAccess :: "access_row \<Rightarrow> json" where
  "JAccess r = JObj [(''id'', JNum (al_id r)), (''ts'', JNum (al_ts r)), (''slug'', JStr (al_slug r)),
     (''method'', JStr (al_method r)), (''host'', JStr (al_host r)), (''status'', JStr (al_status r)),
     (''denied'', JBool (al_denied r))]"

definition handleEgressLogs :: "actor \<Rightarrow> string \<Rightarrow> string \<Rightarrow> string \<Rightarrow> string \<Rightarrow> string \<Rightarrow> response prog" where
  "handleEgressLogs a proj q status lim off =
     (if \<not> isAdminActor a then fail 403 ''not_admin''
      else
        (let (limit, offset) = parsePager lim off 50 500 in
         orelse (query (\<lambda>d. length (filter (log_filter proj q status) (access_log d)))) db_error (\<lambda>total.
         orelse (query (\<lambda>d. page limit offset (sort_key (\<lambda>r. (- al_ts r, - al_id r))
                   (filter (log_filter proj q status) (access_log d))))) db_error (\<lambda>rs.
           State_Monad.return (Reply 200 (JObj [(''entries'', JArr (map JAccess rs)), (''total'', JNum (int total)),
             (''limit'', JNum limit), (''offset'', JNum offset)]))))))"

end
