(* ===== verification/Squid.thy ===== *)
theory Squid
  imports Egress
begin

text \<open>
  The egress proxy's configuration (\<open>renderSquidConf\<close> of internal/api/egress\_proxy.go) and
  what it means to squid.

  \<open>renderSquidConf\<close> is the text, without its comments: a list of lines, each written from its
  words (one word may not contain a space, which the theorems ask of the names and domains that
  are interpolated). \<open>squid_parse\<close> reads a text the way squid does, \<open>squid_allows\<close>
  evaluates the access rules: the first matching \<open>http_access\<close> line decides, a line matches
  when all its ACLs do, and when no line matches the opposite of the last line's action applies.
\<close>


section \<open>The text\<close>

definition sp :: char where "sp = CHR '' ''"
definition nl :: char where "nl = CHR 0x0A"

definition line_text :: "string list \<Rightarrow> string" where
  "line_text ws = Join ws [sp] @ [nl]"

definition text_of :: "string list list \<Rightarrow> string" where
  "text_of ls = concat (map line_text ls)"

definition proxy_acl :: "string \<Rightarrow> string" where
  "proxy_acl slug = ''proj_'' @ ReplaceByte (CHR ''-'') (CHR ''_'') slug"

text \<open>Domains of one class, sorted: the https list takes every port but 0 and 80.\<close>

definition https_domains :: "proxy_target \<Rightarrow> string list" where
  "https_domains t = sort (map fst (filter (\<lambda>(_, q). q \<noteq> 0 \<and> q \<noteq> 80) (pt_domains t)))"

definition http_domains :: "proxy_target \<Rightarrow> string list" where
  "http_domains t = sort (map fst (filter (\<lambda>(_, q). q = 80) (pt_domains t)))"

definition any_domains :: "proxy_target \<Rightarrow> string list" where
  "any_domains t = sort (map fst (filter (\<lambda>(_, q). q = 0) (pt_domains t)))"

definition acl_line :: "string \<Rightarrow> string \<Rightarrow> string list \<Rightarrow> string list" where
  "acl_line name type args = ''acl'' # name # type # args"

definition access_line :: "bool \<Rightarrow> string list \<Rightarrow> string list" where
  "access_line b acls = ''http_access'' # (if b then ''allow'' else ''deny'') # acls"

text \<open>The block of one project.\<close>

definition target_lines :: "proxy_target \<Rightarrow> string list list" where
  "target_lines t =
     (let name = proxy_acl (pt_slug t); port = name @ ''_port'' in
      [[''http_port'', Itoa (pt_port t), ''name='' @ pt_slug t], acl_line port ''myportname'' [pt_slug t]] @
      (if pt_mode t = ''observe'' then [access_line True [port]]
       else if pt_domains t = [] then []
       else
         (if https_domains t \<noteq> []
          then [acl_line (name @ ''_https'') ''dstdomain'' (https_domains t),
                access_line True [port, ''CONNECT'', name @ ''_https'', ''SSL_ports''],
                access_line True [port, name @ ''_https'']] else []) @
         (if http_domains t \<noteq> []
          then [acl_line (name @ ''_http'') ''dstdomain'' (http_domains t),
                access_line True [port, name @ ''_http'']] else [])))"

text \<open>The any-port exceptions, which go where the placeholder of the prologue is.\<close>

definition anyport_lines :: "proxy_target \<Rightarrow> string list list" where
  "anyport_lines t =
     (let name = proxy_acl (pt_slug t) in
      if pt_mode t \<noteq> ''enforce'' \<or> any_domains t = [] then []
      else [acl_line (name @ ''_anyport'') ''myportname'' [pt_slug t],
            acl_line (name @ ''_any'') ''dstdomain'' (any_domains t),
            access_line True [name @ ''_anyport'', name @ ''_any'']])"

definition prologue :: "string list list" where
  "prologue =
     [[''cache'', ''deny'', ''all''], [''cache_store_log'', ''none''], [''cache_log'', ''stdio:/dev/stdout''],
      [''pid_filename'', ''none''], [''logfile_rotate'', ''0''],
      [''logformat'', ''iai'', ''%ts.%03tu'', ''%>lp'', ''%Ss/%03>Hs'', ''%rm'', ''%ru''],
      [''access_log'', ''stdio:/dev/stdout'', ''iai''],
      [''via'', ''off''], [''forwarded_for'', ''delete''], [''httpd_suppress_version_string'', ''on''],
      [''dns_nameservers'', ''10.43.0.10''],
      acl_line ''SSL_ports'' ''port'' [''443''], acl_line ''Safe_ports'' ''port'' [''80''],
      acl_line ''Safe_ports'' ''port'' [''443''], acl_line ''CONNECT'' ''method'' [''CONNECT'']]"

definition guards :: "string list list" where
  "guards =
     [access_line False [''CONNECT'', ''!SSL_ports''], access_line False [''!Safe_ports''],
      acl_line ''localhost_src'' ''src'' [''127.0.0.1/32''],
      access_line True [''localhost_src'', ''manager''],
      [''http_port'', ''127.0.0.1:3128'', ''name=probe''], access_line False [''manager'']]"

definition squid_lines :: "proxy_target list \<Rightarrow> string list list" where
  "squid_lines ts =
     prologue @ concat (map anyport_lines ts) @ guards @ concat (map target_lines ts) @ [access_line False [''all'']]"

definition renderSquidConf :: "proxy_target list \<Rightarrow> string" where
  "renderSquidConf ts = text_of (squid_lines ts)"


section \<open>What squid reads\<close>

datatype directive =
    Acl string string "string list"
  | Access bool "string list"
  | Other

definition read_directive :: "string list \<Rightarrow> directive" where
  "read_directive ws =
     (case ws of
        w # x # y # args \<Rightarrow>
          if w = ''acl'' then Acl x y args
          else if w = ''http_access'' then Access (x = ''allow'') (y # args) else Other
      | _ \<Rightarrow> Other)"

definition squid_parse :: "string \<Rightarrow> directive list" where
  "squid_parse s = map (\<lambda>l. read_directive (Fields l)) (scan_lines s)"

text \<open>A request to the proxy: the name of the listener it came in by, the host and port it
  wants, whether it is a CONNECT, whether it comes from the proxy's own host, and whether it is
  for squid's cache manager.\<close>

record request =
  rq_listener :: string
  rq_host :: string
  rq_port :: int
  rq_connect :: bool
  rq_local :: bool
  rq_manager :: bool

text \<open>dstdomain: a value with a leading dot matches the domain and all its subdomains.\<close>

definition dstdomain :: "string \<Rightarrow> string \<Rightarrow> bool" where
  "dstdomain v host =
     (if HasPrefix v ''.'' then ToLower host = ToLower (tl v) \<or> HasSuffix (ToLower host) (ToLower v)
      else ToLower host = ToLower v)"

definition acl_value :: "request \<Rightarrow> string \<Rightarrow> string \<Rightarrow> bool" where
  "acl_value rq type v =
     (if type = ''port'' then Atoi v = Some (rq_port rq)
      else if type = ''method'' then v = ''CONNECT'' \<and> rq_connect rq
      else if type = ''src'' then v = ''127.0.0.1/32'' \<and> rq_local rq
      else if type = ''myportname'' then v = rq_listener rq
      else if type = ''dstdomain'' then dstdomain v (rq_host rq)
      else False)"

text \<open>A named ACL matches when one of its values does; the values of several lines with one
  name add up. \<open>all\<close> and \<open>manager\<close> are predefined.\<close>

definition acl_matches :: "directive list \<Rightarrow> request \<Rightarrow> string \<Rightarrow> bool" where
  "acl_matches ds rq name =
     (if name = ''all'' then True
      else if name = ''manager'' then rq_manager rq
      else list_ex (\<lambda>d. case d of Acl n type vs \<Rightarrow> n = name \<and> list_ex (acl_value rq type) vs | _ \<Rightarrow> False) ds)"

definition acl_term :: "directive list \<Rightarrow> request \<Rightarrow> string \<Rightarrow> bool" where
  "acl_term ds rq w =
     (if HasPrefix w ''!'' then \<not> acl_matches ds rq (tl w) else acl_matches ds rq w)"

fun decide :: "directive list \<Rightarrow> request \<Rightarrow> bool \<Rightarrow> directive list \<Rightarrow> bool" where
  "decide ds rq dflt [] = dflt"
| "decide ds rq dflt (Access b ws # rest) =
     (if list_all (acl_term ds rq) ws then b else decide ds rq (\<not> b) rest)"
| "decide ds rq dflt (_ # rest) = decide ds rq dflt rest"

definition squid_allows :: "string \<Rightarrow> request \<Rightarrow> bool" where
  "squid_allows conf rq = decide (squid_parse conf) rq False (squid_parse conf)"


section \<open>Reading back what was written\<close>

definition plain_word :: "string \<Rightarrow> bool" where
  "plain_word w = (w \<noteq> [] \<and> list_all (\<lambda>c. \<not> is_space c) w)"

lemma sp_space: "is_space sp" "is_space nl"
  by (simp_all add: is_space_def sp_def nl_def byte_def)

lemma plain_map_id: "list_all (\<lambda>c. \<not> is_space c) w \<Longrightarrow> map (\<lambda>c. if is_space c then CHR '' '' else c) w = w"
  by (induction w) auto

lemma plain_no_sp: "list_all (\<lambda>c. \<not> is_space c) w \<Longrightarrow> CHR '' '' \<notin> set w"
  using sp_space by (auto simp: list_all_iff sp_def)

lemma Fields_single: "plain_word w \<Longrightarrow> Fields w = [w]"
  unfolding plain_word_def Fields_def using plain_map_id plain_no_sp SplitByte_single by fastforce

lemma Fields_Cons: "plain_word w \<Longrightarrow> Fields (w @ sp # s) = w # Fields s"
proof -
  assume w: "plain_word w"
  let ?f = "\<lambda>c. if is_space c then CHR '' '' else c"
  have "map ?f (w @ sp # s) = w @ CHR '' '' # map ?f s"
    using w sp_space by (simp add: plain_word_def plain_map_id)
  then show ?thesis
    using w plain_no_sp by (simp add: Fields_def plain_word_def SplitByte_append_sep)
qed

lemma Fields_Join: "list_all plain_word ws \<Longrightarrow> Fields (Join ws [sp]) = ws"
proof (induction ws)
  case Nil
  show ?case by (simp add: Fields_def)
next
  case (Cons w ws)
  then show ?case by (cases ws) (simp_all add: Fields_single Fields_Cons)
qed

lemma set_Join: "set (Join ws s) \<subseteq> \<Union> (set ` set ws) \<union> set s"
proof (induction ws)
  case (Cons w ws)
  then show ?case by (cases ws) auto
qed simp

lemma Join_no_nl: "list_all plain_word ws \<Longrightarrow> nl \<notin> set (Join ws [sp])"
proof -
  assume ws: "list_all plain_word ws"
  have "\<not> is_space c" if "c \<in> set w" "w \<in> set ws" for c w
    using ws that by (auto simp: list_all_iff plain_word_def)
  with sp_space(2) have "nl \<notin> \<Union> (set ` set ws)" by blast
  moreover have "nl \<noteq> sp" by (simp add: nl_def sp_def)
  ultimately show ?thesis using set_Join [of ws "[sp]"] by auto
qed

lemma Join_last: "list_all plain_word ws \<Longrightarrow> Join ws [sp] = [] \<or> last (Join ws [sp]) \<noteq> CHR 0x0D"
proof (induction ws)
  case (Cons w ws)
  have cr: "is_space (CHR 0x0D)" by (simp add: is_space_def byte_def)
  have nsp: "\<not> is_space c" if "c \<in> set w" for c
    using Cons.prems that by (auto simp: plain_word_def list_all_iff)
  have w: "w \<noteq> []" "last w \<noteq> CHR 0x0D"
    using Cons.prems cr nsp [of "last w"] by (auto simp: plain_word_def)
  show ?case
  proof (cases ws)
    case (Cons v vs)
    have "Join ws [sp] \<noteq> []" using Cons.prems Cons by (cases vs) (simp_all add: plain_word_def)
    then show ?thesis using Cons.IH Cons.prems w Cons by simp
  qed (use w in simp)
qed simp

lemma SplitByte_text:
  assumes "list_all (list_all plain_word) ls"
  shows "SplitByte nl (text_of ls) = map (\<lambda>ws. Join ws [sp]) ls @ [[]]"
  using assms
proof (induction ls)
  case Nil
  show ?case by (simp add: text_of_def)
next
  case (Cons ws ls)
  then have "SplitByte nl (Join ws [sp] @ nl # text_of ls) = Join ws [sp] # SplitByte nl (text_of ls)"
    by (intro SplitByte_append_sep Join_no_nl) simp
  with Cons show ?case by (simp add: text_of_def line_text_def)
qed

lemma parse_text:
  assumes "list_all (list_all plain_word) ls"
  shows "squid_parse (text_of ls) = map read_directive ls"
proof -
  have "drop_cr (Join ws [sp]) = Join ws [sp]" "Fields (Join ws [sp]) = ws" if "ws \<in> set ls" for ws
  proof -
    have "list_all plain_word ws" using assms that by (simp add: list_all_iff)
    then show "drop_cr (Join ws [sp]) = Join ws [sp]" "Fields (Join ws [sp]) = ws"
      using Join_last Fields_Join by (auto simp: drop_cr_def)
  qed
  then show ?thesis
    using SplitByte_text [OF assms] by (simp add: squid_parse_def scan_lines_def nl_def Let_def)
qed


section \<open>What the configuration allows\<close>

text \<open>A web request: port 80 or 443, and a CONNECT only to 443.\<close>

definition web :: "request \<Rightarrow> bool" where
  "web rq = (rq_port rq \<in> {80, 443} \<and> (rq_connect rq \<longrightarrow> rq_port rq = 443))"

definition lists_domain :: "(int \<Rightarrow> bool) \<Rightarrow> proxy_target \<Rightarrow> string \<Rightarrow> bool" where
  "lists_domain Q t host = (\<exists>v q. (v, q) \<in> set (pt_domains t) \<and> Q q \<and> dstdomain v host)"

text \<open>The specification: what one project may do at its own listener.\<close>

definition proxy_permits :: "proxy_target \<Rightarrow> request \<Rightarrow> bool" where
  "proxy_permits t rq =
     (if pt_mode t = ''observe'' then web rq
      else web rq \<and> lists_domain (\<lambda>q. q \<noteq> 0) t (rq_host rq) \<or>
           pt_mode t = ''enforce'' \<and> lists_domain (\<lambda>q. q = 0) t (rq_host rq))"

definition target_ok :: "proxy_target \<Rightarrow> bool" where
  "target_ok t =
     (plain_word (pt_slug t) \<and> CHR ''_'' \<notin> set (pt_slug t) \<and> list_all (\<lambda>(v, _). plain_word v) (pt_domains t))"

text \<open>The first matching access line.\<close>

fun hit :: "directive list \<Rightarrow> request \<Rightarrow> directive list \<Rightarrow> bool option" where
  "hit ds rq [] = None"
| "hit ds rq (Access b ws # rest) = (if list_all (acl_term ds rq) ws then Some b else hit ds rq rest)"
| "hit ds rq (_ # rest) = hit ds rq rest"

lemma decide_hit: "hit ds rq xs = Some b \<Longrightarrow> decide ds rq dflt xs = b"
  by (induction ds rq dflt xs rule: decide.induct) (auto split: if_splits)

lemma hit_append: "hit ds rq (xs @ ys) = (case hit ds rq xs of None \<Rightarrow> hit ds rq ys | Some b \<Rightarrow> Some b)"
  by (induction ds rq xs rule: hit.induct) auto

definition only_allows :: "directive list \<Rightarrow> bool" where
  "only_allows xs = (\<forall>b ws. Access b ws \<in> set xs \<longrightarrow> b)"

lemma only_allows_simps [simp]:
  "only_allows []"
  "only_allows (Access b ws # xs) \<longleftrightarrow> b \<and> only_allows xs"
  "only_allows (Acl n ty vs # xs) \<longleftrightarrow> only_allows xs"
  "only_allows (Other # xs) \<longleftrightarrow> only_allows xs"
  "only_allows (xs @ ys) \<longleftrightarrow> only_allows xs \<and> only_allows ys"
  by (auto simp: only_allows_def)

lemma only_allows_concat: "(\<And>x. x \<in> set xs \<Longrightarrow> only_allows (f x)) \<Longrightarrow> only_allows (concat (map f xs))"
  by (induction xs) simp_all

lemma hit_allows:
  "only_allows xs \<Longrightarrow>
   hit ds rq xs = (if \<exists>ws. Access True ws \<in> set xs \<and> list_all (acl_term ds rq) ws then Some True else None)"
proof (induction xs)
  case (Cons x xs)
  then show ?case by (cases x) auto
qed simp

text \<open>The ACL lines of the configuration.\<close>

definition base_acls :: "directive list" where
  "base_acls = [Acl ''SSL_ports'' ''port'' [''443''], Acl ''Safe_ports'' ''port'' [''80''],
     Acl ''Safe_ports'' ''port'' [''443''], Acl ''CONNECT'' ''method'' [''CONNECT''],
     Acl ''localhost_src'' ''src'' [''127.0.0.1/32'']]"

definition any_acls :: "proxy_target \<Rightarrow> directive list" where
  "any_acls t = (if pt_mode t \<noteq> ''enforce'' \<or> any_domains t = [] then []
     else [Acl (proxy_acl (pt_slug t) @ ''_anyport'') ''myportname'' [pt_slug t],
           Acl (proxy_acl (pt_slug t) @ ''_any'') ''dstdomain'' (any_domains t)])"

definition block_acls :: "proxy_target \<Rightarrow> directive list" where
  "block_acls t = Acl (proxy_acl (pt_slug t) @ ''_port'') ''myportname'' [pt_slug t] #
     (if pt_mode t = ''observe'' then []
      else (if https_domains t \<noteq> [] then [Acl (proxy_acl (pt_slug t) @ ''_https'') ''dstdomain'' (https_domains t)] else []) @
           (if http_domains t \<noteq> [] then [Acl (proxy_acl (pt_slug t) @ ''_http'') ''dstdomain'' (http_domains t)] else []))"

definition is_acl :: "directive \<Rightarrow> bool" where
  "is_acl d = (case d of Acl _ _ _ \<Rightarrow> True | _ \<Rightarrow> False)"

lemma is_acl_simps [simp]: "is_acl (Acl n ty vs)" "\<not> is_acl (Access b ws)" "\<not> is_acl Other"
  by (simp_all add: is_acl_def)

lemma read_lines [simp]:
  "args \<noteq> [] \<Longrightarrow> read_directive (acl_line n ty args) = Acl n ty args"
  "ws \<noteq> [] \<Longrightarrow> read_directive (access_line b ws) = Access b ws"
  by (auto simp: read_directive_def acl_line_def access_line_def neq_Nil_conv)

lemma no_domains: "pt_domains t = [] \<Longrightarrow> https_domains t = [] \<and> http_domains t = [] \<and> any_domains t = []"
  by (simp add: https_domains_def http_domains_def any_domains_def)

lemma any_block_acls: "filter is_acl (map read_directive (anyport_lines t)) = any_acls t"
  by (simp add: anyport_lines_def any_acls_def Let_def)

lemma target_block_acls: "filter is_acl (map read_directive (target_lines t)) = block_acls t"
proof -
  have "read_directive [''http_port'', x, y] = Other" for x y by (simp add: read_directive_def)
  then show ?thesis using no_domains [of t] by (simp add: target_lines_def block_acls_def Let_def)
qed

lemma prologue_acls: "filter is_acl (map read_directive prologue) = take 4 base_acls"
  by (simp add: prologue_def base_acls_def read_directive_def acl_line_def)

lemma guards_acls: "filter is_acl (map read_directive guards) = drop 4 base_acls"
  by (simp add: guards_def base_acls_def read_directive_def acl_line_def access_line_def)

lemma filter_concat_map: "filter P (map f (concat (map g xs))) = concat (map (\<lambda>x. filter P (map f (g x))) xs)"
  by (induction xs) simp_all

lemma squid_acls:
  "set (filter is_acl (map read_directive (squid_lines ts))) =
     set base_acls \<union> (\<Union>t \<in> set ts. set (any_acls t) \<union> set (block_acls t))"
  by (simp only: squid_lines_def map_append filter_append set_append filter_concat_map any_block_acls
        target_block_acls prologue_acls guards_acls) (auto simp: base_acls_def)

text \<open>Names: the ACL of one project and purpose is no other's.\<close>

lemma proxy_name_inj:
  assumes "proxy_acl s @ CHR ''_'' # k = proxy_acl s' @ CHR ''_'' # k'"
    and "CHR ''_'' \<notin> set k" "CHR ''_'' \<notin> set k'" "CHR ''_'' \<notin> set s" "CHR ''_'' \<notin> set s'"
  shows "s = s' \<and> k = k'"
proof -
  have "proxy_acl s = proxy_acl s' \<and> k = k'" using assms by (intro sep_append_inj_right) simp_all
  then show ?thesis using ReplaceByte_inj assms by (auto simp: proxy_acl_def)
qed

lemma not_base: "Acl (proxy_acl s @ r) ty vs \<notin> set base_acls"
  by (simp add: base_acls_def proxy_acl_def)

lemma project_acl:
  assumes "Acl (proxy_acl s @ CHR ''_'' # k) ty vs \<in> set (any_acls t) \<union> set (block_acls t)"
    and "CHR ''_'' \<notin> set k" "CHR ''_'' \<notin> set s" "target_ok t"
  shows "pt_slug t = s \<and> k \<in> {''anyport'', ''any'', ''port'', ''https'', ''http''}"
proof -
  have inj: "pt_slug t = s \<and> k = k'" if "proxy_acl s @ CHR ''_'' # k = proxy_acl (pt_slug t) @ CHR ''_'' # k'" "CHR ''_'' \<notin> set k'" for k'
    using proxy_name_inj [OF that(1)] that(2) assms by (auto simp: target_ok_def)
  show ?thesis
    using assms(1) inj [of "''anyport''"] inj [of "''any''"] inj [of "''port''"] inj [of "''https''"] inj [of "''http''"]
    by (auto simp: any_acls_def block_acls_def split: if_splits)
qed

lemma same_name: "proxy_acl s @ CHR ''_'' # k = proxy_acl s @ CHR ''_'' # k' \<longleftrightarrow> k = k'"
  by simp

text \<open>A configuration to evaluate: well-formed targets with distinct slugs.\<close>

definition targets_ok :: "proxy_target list \<Rightarrow> bool" where
  "targets_ok ts = (list_all target_ok ts \<and> distinct (map pt_slug ts))"

abbreviation conf :: "proxy_target list \<Rightarrow> directive list" where
  "conf ts \<equiv> map read_directive (squid_lines ts)"

lemma acl_matches_iff:
  "name \<noteq> ''all'' \<Longrightarrow> name \<noteq> ''manager'' \<Longrightarrow>
   acl_matches ds rq name \<longleftrightarrow> (\<exists>ty vs. Acl name ty vs \<in> set (filter is_acl ds) \<and> list_ex (acl_value rq ty) vs)"
proof -
  assume n: "name \<noteq> ''all''" "name \<noteq> ''manager''"
  let ?P = "\<lambda>d. case d of Acl n type vs \<Rightarrow> n = name \<and> list_ex (acl_value rq type) vs | _ \<Rightarrow> False"
  have "list_ex ?P ds \<longleftrightarrow> (\<exists>ty vs. Acl name ty vs \<in> set (filter is_acl ds) \<and> list_ex (acl_value rq ty) vs)"
  proof (induction ds)
    case (Cons d ds)
    then show ?case by (cases d) (simp_all, blast)
  qed simp
  then show ?thesis using n by (simp add: acl_matches_def)
qed

lemma target_unique: "targets_ok ts \<Longrightarrow> t \<in> set ts \<Longrightarrow> u \<in> set ts \<Longrightarrow> pt_slug u = pt_slug t \<Longrightarrow> u = t"
  unfolding targets_ok_def by (metis distinct_map inj_onD)

lemma project_acl_matches:
  assumes "targets_ok ts" and "t \<in> set ts" and k: "CHR ''_'' \<notin> set k"
  shows "acl_matches (conf ts) rq (proxy_acl (pt_slug t) @ CHR ''_'' # k) \<longleftrightarrow>
    (\<exists>ty vs. Acl (proxy_acl (pt_slug t) @ CHR ''_'' # k) ty vs \<in> set (any_acls t) \<union> set (block_acls t) \<and>
       list_ex (acl_value rq ty) vs)"
proof -
  let ?n = "proxy_acl (pt_slug t) @ CHR ''_'' # k"
  have ok: "target_ok u" if "u \<in> set ts" for u using assms(1) that by (simp add: targets_ok_def list_all_iff)
  have "CHR ''_'' \<notin> set (pt_slug t)" using ok [OF assms(2)] by (simp add: target_ok_def)
  then have own: "u = t" if "Acl ?n ty vs \<in> set (any_acls u) \<union> set (block_acls u)" "u \<in> set ts" for u ty vs
    using project_acl [OF that(1) k _ ok [OF that(2)]] target_unique [OF assms(1,2) that(2)] by blast
  have "?n \<noteq> ''all''" "?n \<noteq> ''manager''" by (simp_all add: proxy_acl_def)
  then show ?thesis
    unfolding acl_matches_iff [OF \<open>?n \<noteq> ''all''\<close> \<open>?n \<noteq> ''manager''\<close>] squid_acls
    using own assms(2) not_base [of "pt_slug t"] by blast
qed

lemma own_acls:
  "Acl (proxy_acl s @ CHR ''_'' # ''port'') ty vs \<in> set (any_acls t) \<union> set (block_acls t) \<longleftrightarrow>
     ty = ''myportname'' \<and> vs = [s]"
  "Acl (proxy_acl s @ CHR ''_'' # ''https'') ty vs \<in> set (any_acls t) \<union> set (block_acls t) \<longleftrightarrow>
     pt_mode t \<noteq> ''observe'' \<and> https_domains t \<noteq> [] \<and> ty = ''dstdomain'' \<and> vs = https_domains t"
  "Acl (proxy_acl s @ CHR ''_'' # ''http'') ty vs \<in> set (any_acls t) \<union> set (block_acls t) \<longleftrightarrow>
     pt_mode t \<noteq> ''observe'' \<and> http_domains t \<noteq> [] \<and> ty = ''dstdomain'' \<and> vs = http_domains t"
  "Acl (proxy_acl s @ CHR ''_'' # ''anyport'') ty vs \<in> set (any_acls t) \<union> set (block_acls t) \<longleftrightarrow>
     pt_mode t = ''enforce'' \<and> any_domains t \<noteq> [] \<and> ty = ''myportname'' \<and> vs = [s]"
  "Acl (proxy_acl s @ CHR ''_'' # ''any'') ty vs \<in> set (any_acls t) \<union> set (block_acls t) \<longleftrightarrow>
     pt_mode t = ''enforce'' \<and> any_domains t \<noteq> [] \<and> ty = ''dstdomain'' \<and> vs = any_domains t"
  if "pt_slug t = s"
  using that by (auto simp: any_acls_def block_acls_def)

lemma value_simps [simp]:
  "acl_value rq ''myportname'' v \<longleftrightarrow> v = rq_listener rq"
  "acl_value rq ''dstdomain'' = (\<lambda>v. dstdomain v (rq_host rq))"
  by (simp_all add: acl_value_def fun_eq_iff)

lemma lists_domain_lists:
  "list_ex (\<lambda>v. dstdomain v h) (https_domains t) \<longleftrightarrow> lists_domain (\<lambda>q. q \<noteq> 0 \<and> q \<noteq> 80) t h"
  "list_ex (\<lambda>v. dstdomain v h) (http_domains t) \<longleftrightarrow> lists_domain (\<lambda>q. q = 80) t h"
  "list_ex (\<lambda>v. dstdomain v h) (any_domains t) \<longleftrightarrow> lists_domain (\<lambda>q. q = 0) t h"
  by (auto simp: https_domains_def http_domains_def any_domains_def lists_domain_def list_ex_iff)

lemma listed_ne:
  "lists_domain (\<lambda>q. q \<noteq> 0 \<and> q \<noteq> 80) t h \<Longrightarrow> https_domains t \<noteq> []"
  "lists_domain (\<lambda>q. q = 80) t h \<Longrightarrow> http_domains t \<noteq> []"
  "lists_domain (\<lambda>q. q = 0) t h \<Longrightarrow> any_domains t \<noteq> []"
  by (simp_all flip: lists_domain_lists add: list_ex_iff) auto

lemma project_terms:
  assumes "targets_ok ts" and "t \<in> set ts"
  shows "acl_term (conf ts) rq (proxy_acl (pt_slug t) @ ''_port'') \<longleftrightarrow> pt_slug t = rq_listener rq"
    and "acl_term (conf ts) rq (proxy_acl (pt_slug t) @ ''_https'') \<longleftrightarrow>
      pt_mode t \<noteq> ''observe'' \<and> lists_domain (\<lambda>q. q \<noteq> 0 \<and> q \<noteq> 80) t (rq_host rq)"
    and "acl_term (conf ts) rq (proxy_acl (pt_slug t) @ ''_http'') \<longleftrightarrow>
      pt_mode t \<noteq> ''observe'' \<and> lists_domain (\<lambda>q. q = 80) t (rq_host rq)"
    and "acl_term (conf ts) rq (proxy_acl (pt_slug t) @ ''_anyport'') \<longleftrightarrow>
      pt_mode t = ''enforce'' \<and> any_domains t \<noteq> [] \<and> pt_slug t = rq_listener rq"
    and "acl_term (conf ts) rq (proxy_acl (pt_slug t) @ ''_any'') \<longleftrightarrow>
      pt_mode t = ''enforce'' \<and> lists_domain (\<lambda>q. q = 0) t (rq_host rq)"
proof -
  have "\<not> HasPrefix (proxy_acl s @ r) ''!''" for s r by (simp add: proxy_acl_def)
  then have T: "acl_term (conf ts) rq (proxy_acl (pt_slug t) @ CHR ''_'' # k) \<longleftrightarrow>
      (\<exists>ty vs. Acl (proxy_acl (pt_slug t) @ CHR ''_'' # k) ty vs \<in> set (any_acls t) \<union> set (block_acls t) \<and>
         list_ex (acl_value rq ty) vs)" if "CHR ''_'' \<notin> set k" for k
    using project_acl_matches [OF assms that] by (simp add: acl_term_def)
  show "acl_term (conf ts) rq (proxy_acl (pt_slug t) @ ''_port'') \<longleftrightarrow> pt_slug t = rq_listener rq"
    using T [of "''port''"] by (simp only: own_acls [OF refl]) simp
  show "acl_term (conf ts) rq (proxy_acl (pt_slug t) @ ''_https'') \<longleftrightarrow>
      pt_mode t \<noteq> ''observe'' \<and> lists_domain (\<lambda>q. q \<noteq> 0 \<and> q \<noteq> 80) t (rq_host rq)"
    using T [of "''https''"] listed_ne(1) [of t "rq_host rq"] by (simp only: own_acls [OF refl]) (auto simp: lists_domain_lists)
  show "acl_term (conf ts) rq (proxy_acl (pt_slug t) @ ''_http'') \<longleftrightarrow>
      pt_mode t \<noteq> ''observe'' \<and> lists_domain (\<lambda>q. q = 80) t (rq_host rq)"
    using T [of "''http''"] listed_ne(2) [of t "rq_host rq"] by (simp only: own_acls [OF refl]) (auto simp: lists_domain_lists)
  show "acl_term (conf ts) rq (proxy_acl (pt_slug t) @ ''_anyport'') \<longleftrightarrow>
      pt_mode t = ''enforce'' \<and> any_domains t \<noteq> [] \<and> pt_slug t = rq_listener rq"
    using T [of "''anyport''"] by (simp only: own_acls [OF refl]) auto
  show "acl_term (conf ts) rq (proxy_acl (pt_slug t) @ ''_any'') \<longleftrightarrow>
      pt_mode t = ''enforce'' \<and> lists_domain (\<lambda>q. q = 0) t (rq_host rq)"
    using T [of "''any''"] listed_ne(3) [of t "rq_host rq"] by (simp only: own_acls [OF refl]) (auto simp: lists_domain_lists)
qed

text \<open>The ACLs of the prologue.\<close>

lemma base_matches:
  assumes "name \<in> {''SSL_ports'', ''Safe_ports'', ''CONNECT'', ''localhost_src''}"
  shows "acl_matches (conf ts) rq name \<longleftrightarrow> acl_matches base_acls rq name"
proof -
  have b: "filter is_acl base_acls = base_acls" by (simp add: base_acls_def)
  have n: "name \<noteq> ''all''" "name \<noteq> ''manager''" "\<And>s r. proxy_acl s @ r \<noteq> name" using assms by (auto simp: proxy_acl_def)
  then have "Acl name ty vs \<notin> set (any_acls t) \<union> set (block_acls t)" for t ty vs
    by (auto simp: any_acls_def block_acls_def split: if_splits)
  then show ?thesis unfolding acl_matches_iff [OF n(1,2)] squid_acls b by blast
qed

lemma base_terms:
  "acl_term (conf ts) rq ''CONNECT'' \<longleftrightarrow> rq_connect rq"
  "acl_term (conf ts) rq ''SSL_ports'' \<longleftrightarrow> rq_port rq = 443"
  "acl_term (conf ts) rq ''!SSL_ports'' \<longleftrightarrow> rq_port rq \<noteq> 443"
  "acl_term (conf ts) rq ''!Safe_ports'' \<longleftrightarrow> rq_port rq \<notin> {80, 443}"
  "acl_term (conf ts) rq ''manager'' \<longleftrightarrow> rq_manager rq"
  "acl_term (conf ts) rq ''all''"
proof -
  have a: "Atoi ''443'' = Some 443" "Atoi ''80'' = Some 80" by code_simp+
  have b: "acl_matches base_acls rq ''CONNECT'' \<longleftrightarrow> rq_connect rq"
    "acl_matches base_acls rq ''SSL_ports'' \<longleftrightarrow> rq_port rq = 443"
    "acl_matches base_acls rq ''Safe_ports'' \<longleftrightarrow> rq_port rq \<in> {80, 443}"
    by (auto simp add: acl_matches_def base_acls_def acl_value_def a)
  show "acl_term (conf ts) rq ''manager'' \<longleftrightarrow> rq_manager rq" "acl_term (conf ts) rq ''all''"
    by (simp_all add: acl_term_def acl_matches_def)
  show "acl_term (conf ts) rq ''CONNECT'' \<longleftrightarrow> rq_connect rq" "acl_term (conf ts) rq ''SSL_ports'' \<longleftrightarrow> rq_port rq = 443"
    "acl_term (conf ts) rq ''!SSL_ports'' \<longleftrightarrow> rq_port rq \<noteq> 443" "acl_term (conf ts) rq ''!Safe_ports'' \<longleftrightarrow> rq_port rq \<notin> {80, 443}"
    by (simp_all add: acl_term_def base_matches b)
qed

text \<open>The four parts of the access list.\<close>

lemma prologue_hit: "hit ds rq (map read_directive prologue) = None"
  by (simp add: prologue_def read_directive_def acl_line_def)

lemma guards_hit:
  "\<not> rq_manager rq \<Longrightarrow> hit (conf ts) rq (map read_directive guards) = (if web rq then None else Some False)"
  by (auto simp add: guards_def base_terms web_def read_directive_def acl_line_def access_line_def)

lemma any_hit:
  assumes "targets_ok ts"
  shows "hit (conf ts) rq (map read_directive (concat (map anyport_lines ts))) =
    (if \<exists>t \<in> set ts. pt_slug t = rq_listener rq \<and> pt_mode t = ''enforce'' \<and> lists_domain (\<lambda>q. q = 0) t (rq_host rq)
     then Some True else None)"
proof -
  have "only_allows (concat (map (\<lambda>t. map read_directive (anyport_lines t)) ts))"
    by (rule only_allows_concat) (simp add: anyport_lines_def Let_def)
  moreover have "(\<exists>ws. Access True ws \<in> set (map read_directive (anyport_lines t)) \<and> list_all (acl_term (conf ts) rq) ws) \<longleftrightarrow>
      pt_slug t = rq_listener rq \<and> pt_mode t = ''enforce'' \<and> lists_domain (\<lambda>q. q = 0) t (rq_host rq)" if "t \<in> set ts" for t
    using project_terms [OF assms that, of rq] listed_ne(3) [of t "rq_host rq"]
    by (auto simp: anyport_lines_def Let_def)
  ultimately show ?thesis
    by (subst hit_allows) (auto simp: map_concat o_def)
qed

definition block_permits :: "proxy_target \<Rightarrow> request \<Rightarrow> bool" where
  "block_permits t rq = (if pt_mode t = ''observe'' then True else lists_domain (\<lambda>q. q \<noteq> 0) t (rq_host rq))"

lemma lists_split:
  "lists_domain (\<lambda>q. q \<noteq> 0) t h \<longleftrightarrow> lists_domain (\<lambda>q. q \<noteq> 0 \<and> q \<noteq> 80) t h \<or> lists_domain (\<lambda>q. q = 80) t h"
proof -
  have "q \<noteq> 0 \<longleftrightarrow> (q \<noteq> 0 \<and> q \<noteq> 80) \<or> q = 80" for q :: int by auto
  then show ?thesis unfolding lists_domain_def by blast
qed

lemma target_access:
  "Access True ws \<in> set (map read_directive (target_lines t)) \<longleftrightarrow>
     (let n = proxy_acl (pt_slug t) in
      if pt_mode t = ''observe'' then ws = [n @ ''_port'']
      else https_domains t \<noteq> [] \<and>
             (ws = [n @ ''_port'', ''CONNECT'', n @ ''_https'', ''SSL_ports''] \<or> ws = [n @ ''_port'', n @ ''_https'']) \<or>
           http_domains t \<noteq> [] \<and> ws = [n @ ''_port'', n @ ''_http''])"
proof -
  have other: "read_directive [''http_port'', x, y] = Other" for x y by (simp add: read_directive_def)
  show ?thesis
    using no_domains [of t]
    by (cases "pt_mode t = ''observe''"; cases "pt_domains t = []"; cases "https_domains t = []"; cases "http_domains t = []")
      (auto simp: target_lines_def Let_def other)
qed

lemma block_access:
  assumes "targets_ok ts" and "t \<in> set ts"
  shows "(\<exists>ws. Access True ws \<in> set (map read_directive (target_lines t)) \<and> list_all (acl_term (conf ts) rq) ws) \<longleftrightarrow>
    pt_slug t = rq_listener rq \<and> block_permits t rq"
proof (cases "pt_mode t = ''observe''")
  case True
  then show ?thesis
    unfolding target_access Let_def by (simp add: project_terms(1) [OF assms] block_permits_def)
next
  case False
  let ?L = "\<lambda>ws. list_all (acl_term (conf ts) rq) ws" and ?n = "proxy_acl (pt_slug t)"
  have "?L [?n @ ''_port'', ?n @ ''_https''] \<longleftrightarrow> pt_slug t = rq_listener rq \<and> lists_domain (\<lambda>q. q \<noteq> 0 \<and> q \<noteq> 80) t (rq_host rq)"
    "?L [?n @ ''_port'', ?n @ ''_http''] \<longleftrightarrow> pt_slug t = rq_listener rq \<and> lists_domain (\<lambda>q. q = 80) t (rq_host rq)"
    using False by (simp_all only: list.pred_inject project_terms [OF assms]) simp_all
  moreover have "?L [?n @ ''_port'', ''CONNECT'', ?n @ ''_https'', ''SSL_ports''] \<Longrightarrow> ?L [?n @ ''_port'', ?n @ ''_https'']"
    by simp
  ultimately show ?thesis
    using listed_ne(1,2) [of t "rq_host rq"]
    unfolding target_access Let_def block_permits_def lists_split if_not_P [OF False] by blast
qed

lemma block_hit:
  assumes "targets_ok ts"
  shows "hit (conf ts) rq (map read_directive (concat (map target_lines ts))) =
    (if \<exists>t \<in> set ts. pt_slug t = rq_listener rq \<and> block_permits t rq then Some True else None)"
proof -
  have other: "read_directive [''http_port'', x, y] = Other" for x y by (simp add: read_directive_def)
  have "only_allows (concat (map (\<lambda>t. map read_directive (target_lines t)) ts))"
    by (rule only_allows_concat) (simp add: target_lines_def Let_def other)
  then show ?thesis
    using block_access [OF assms, of _ rq] by (subst hit_allows) (auto simp: map_concat o_def)
qed

lemma permits_iff:
  "proxy_permits t rq \<longleftrightarrow>
     pt_mode t = ''enforce'' \<and> lists_domain (\<lambda>q. q = 0) t (rq_host rq) \<or> web rq \<and> block_permits t rq"
  by (auto simp: proxy_permits_def block_permits_def)

lemma conf_decides:
  assumes "targets_ok ts" and "\<not> rq_manager rq"
  shows "decide (conf ts) rq dflt (conf ts) \<longleftrightarrow> (\<exists>t \<in> set ts. pt_slug t = rq_listener rq \<and> proxy_permits t rq)"
proof -
  define ds where "ds = conf ts"
  have last: "hit ds rq (map read_directive [access_line False [''all'']]) = Some False"
    by (simp add: ds_def base_terms)
  have parts: "ds = map read_directive prologue @ map read_directive (concat (map anyport_lines ts)) @
      map read_directive guards @ map read_directive (concat (map target_lines ts)) @
      map read_directive [access_line False [''all'']]"
    by (simp only: ds_def squid_lines_def map_append)
  have "hit ds rq ds = Some (\<exists>t \<in> set ts. pt_slug t = rq_listener rq \<and> proxy_permits t rq)"
    unfolding arg_cong [OF parts, of "hit ds rq"] hit_append last prologue_hit
      guards_hit [OF assms(2), of ts, folded ds_def] any_hit [OF assms(1), of rq, folded ds_def]
      block_hit [OF assms(1), of rq, folded ds_def]
    using permits_iff [of _ rq] by auto
  then show ?thesis unfolding ds_def by (rule decide_hit)
qed

text \<open>Every line is written from plain words, so squid reads back what was meant.\<close>

lemma plain_append: "plain_word w \<Longrightarrow> list_all (\<lambda>c. \<not> is_space c) v \<Longrightarrow> plain_word (w @ v) \<and> plain_word (v @ w)"
  by (simp add: plain_word_def)

lemma not_space_const [simp]: "\<not> is_space (CHR ''_'')"
  by (simp add: is_space_def byte_def)

lemma plain_acl_name:
  assumes "plain_word slug"
  shows "plain_word (proxy_acl slug @ k) \<longleftrightarrow> list_all (\<lambda>c. \<not> is_space c) k"
    and "plain_word (''name='' @ slug)"
proof -
  have "list_all (\<lambda>c. \<not> is_space c) (ReplaceByte (CHR ''-'') (CHR ''_'') slug)"
    using assms by (auto simp: plain_word_def ReplaceByte_def list_all_iff)
  then show "plain_word (proxy_acl slug @ k) \<longleftrightarrow> list_all (\<lambda>c. \<not> is_space c) k"
    by (simp add: proxy_acl_def plain_word_def is_space_def byte_def)
  show "plain_word (''name='' @ slug)"
    using assms by (simp add: plain_word_def is_space_def byte_def)
qed

lemma plain_nat: "list_all (\<lambda>c. \<not> is_space c) (nat_str n)"
proof -
  have "\<not> is_space c" if "is_digit c" for c using that by (auto simp: is_digit_def is_space_def byte_def)
  then show ?thesis using nat_str_digits [of n] by (auto simp: list_all_iff)
qed

lemma plain_Itoa: "plain_word (Itoa i)"
  using plain_nat by (auto simp: Itoa_def plain_word_def is_space_def byte_def)

lemma plain_domains:
  assumes "target_ok t"
  shows "list_all plain_word (https_domains t)" "list_all plain_word (http_domains t)" "list_all plain_word (any_domains t)"
  using assms by (auto simp: target_ok_def https_domains_def http_domains_def any_domains_def list_all_iff)

lemmas plain_chars = plain_word_def is_space_def byte_def

lemma plain_keywords:
  "plain_word ''http_port''" "plain_word ''acl''" "plain_word ''http_access''" "plain_word ''allow''" "plain_word ''deny''"
  "plain_word ''myportname''" "plain_word ''dstdomain''" "plain_word ''CONNECT''" "plain_word ''SSL_ports''"
  "plain_word ''all''"
  by (simp_all add: plain_chars)

lemma plain_acl_line: "plain_word n \<Longrightarrow> plain_word ty \<Longrightarrow> list_all plain_word vs \<Longrightarrow> list_all plain_word (acl_line n ty vs)"
  by (simp add: acl_line_def plain_keywords)

lemma plain_access_line: "list_all plain_word ws \<Longrightarrow> list_all plain_word (access_line b ws)"
  by (simp add: access_line_def plain_keywords)

lemma plain_target:
  assumes "target_ok t"
  shows "list_all (list_all plain_word) (target_lines t)" and "list_all (list_all plain_word) (anyport_lines t)"
proof -
  have s: "plain_word (pt_slug t)" using assms by (simp add: target_ok_def)
  note facts = s plain_acl_name [OF s] plain_acl_name(2) [OF s, simplified] is_space_def byte_def plain_keywords plain_domains [OF assms] plain_Itoa
  show "list_all (list_all plain_word) (target_lines t)" "list_all (list_all plain_word) (anyport_lines t)"
    by (simp_all add: target_lines_def anyport_lines_def Let_def plain_acl_line plain_access_line facts)
qed

lemma plain_fixed: "list_all (list_all plain_word) prologue" "list_all (list_all plain_word) guards"
  by (simp_all add: prologue_def guards_def acl_line_def access_line_def plain_chars)

lemma plain_lines: "list_all target_ok ts \<Longrightarrow> list_all (list_all plain_word) (squid_lines ts)"
proof -
  assume ok: "list_all target_ok ts"
  have "list_all (list_all plain_word) (concat (map f ts))" if "\<And>t. target_ok t \<Longrightarrow> list_all (list_all plain_word) (f t)" for f
    using ok that by (induction ts) auto
  then show ?thesis
    using plain_fixed plain_target by (simp add: squid_lines_def plain_access_line plain_keywords)
qed


section \<open>Properties\<close>

text \<open>C7. The proxy's configuration isolates the projects: squid, reading the generated text,
  admits a request at a listener exactly when the listener belongs to a project and that
  project's own entry permits it. In observe mode that is any web request (port 80 or 443,
  CONNECT only to 443); otherwise a web request to one of the project's domains, and under
  enforce also any request to one of its any-port domains. No other project's list and no
  default plays a part, and a project without domains gets nothing.\<close>
theorem squid_isolation:
  assumes "targets_ok ts" and "\<not> rq_manager rq"
  shows "squid_allows (renderSquidConf ts) rq \<longleftrightarrow>
    (\<exists>t \<in> set ts. pt_slug t = rq_listener rq \<and> proxy_permits t rq)"
proof -
  have "list_all target_ok ts" using assms(1) by (simp add: targets_ok_def)
  then have "squid_parse (renderSquidConf ts) = conf ts"
    unfolding renderSquidConf_def by (intro parse_text plain_lines)
  then show ?thesis using conf_decides [OF assms] by (simp add: squid_allows_def)
qed

definition demo_targets :: "proxy_target list" where
  "demo_targets =
     [\<lparr>pt_slug = ''a-b'', pt_port = 13128, pt_mode = ''enforce'', pt_domains = [(''.x.io'', 443)]\<rparr>,
      \<lparr>pt_slug = ''c'', pt_port = 13129, pt_mode = ''enforce'', pt_domains = [(''y.io'', 0)]\<rparr>]"

definition demo_request :: "string \<Rightarrow> string \<Rightarrow> int \<Rightarrow> request" where
  "demo_request l h q = \<lparr>rq_listener = l, rq_host = h, rq_port = q, rq_connect = True, rq_local = False, rq_manager = False\<rparr>"

lemma demo_targets_ok: "targets_ok demo_targets"
  by (simp add: targets_ok_def demo_targets_def target_ok_def plain_chars)

lemma squid_isolation_witness:
  "squid_allows (renderSquidConf demo_targets) (demo_request ''a-b'' ''api.x.io'' 443) \<and>
   \<not> squid_allows (renderSquidConf demo_targets) (demo_request ''c'' ''api.x.io'' 443) \<and>
   \<not> squid_allows (renderSquidConf demo_targets) (demo_request ''a-b'' ''api.x.io'' 22)"
proof -
  have n: "\<not> rq_manager (demo_request l h q)" for l h q by (simp add: demo_request_def)
  have "dstdomain ''.x.io'' ''api.x.io''" "\<not> dstdomain ''y.io'' ''api.x.io''"
    by (simp_all add: dstdomain_def HasSuffix_def ToLower_def lower_char_def is_upper_def byte_def)
  then show ?thesis
    unfolding squid_isolation [OF demo_targets_ok n]
    by (simp add: demo_targets_def demo_request_def proxy_permits_def web_def lists_domain_def)
qed

text \<open>The port of a domain rule does not restrict the request: a project outside observe
  mode whose only rule names a domain on port 80 may open a CONNECT tunnel to that domain on
  port 443, because the rule's access line does not look at port or method.\<close>
theorem domain_rule_port_ignored:
  assumes "targets_ok ts" and "t \<in> set ts" and "pt_mode t \<noteq> ''observe''" and "pt_domains t = [(v, 80)]"
    and "dstdomain v host"
  shows "squid_allows (renderSquidConf ts)
    \<lparr>rq_listener = pt_slug t, rq_host = host, rq_port = 443, rq_connect = True, rq_local = False, rq_manager = False\<rparr>"
proof -
  have "proxy_permits t \<lparr>rq_listener = pt_slug t, rq_host = host, rq_port = 443, rq_connect = True,
      rq_local = False, rq_manager = False\<rparr>"
    using assms(3-5) by (simp add: proxy_permits_def web_def lists_domain_def)
  moreover have "list_all target_ok ts" using assms(1) by (simp add: targets_ok_def)
  then have "squid_parse (renderSquidConf ts) = conf ts"
    unfolding renderSquidConf_def by (intro parse_text plain_lines)
  ultimately show ?thesis
    using conf_decides [OF assms(1), of "\<lparr>rq_listener = pt_slug t, rq_host = host, rq_port = 443, rq_connect = True,
      rq_local = False, rq_manager = False\<rparr>" False] assms(2)
    by (auto simp: squid_allows_def)
qed

lemma domain_rule_port_ignored_witness:
  "squid_allows (renderSquidConf [\<lparr>pt_slug = ''a'', pt_port = 13128, pt_mode = ''enforce'', pt_domains = [(''y.io'', 80)]\<rparr>])
     (demo_request ''a'' ''y.io'' 443)"
proof -
  let ?t = "\<lparr>pt_slug = ''a'', pt_port = 13128, pt_mode = ''enforce'', pt_domains = [(''y.io'', 80)]\<rparr>"
  have "targets_ok [?t]" by (simp add: targets_ok_def target_ok_def plain_chars)
  from domain_rule_port_ignored [OF this, of ?t "''y.io''" "''y.io''"]
  show ?thesis by (simp add: demo_request_def dstdomain_def)
qed

end
