(* ===== verification/Provision.thy ===== *)
theory Provision
  imports Http
begin

text \<open>
  The provisioners of internal/provision: one Postgres role and database, one Redis ACL user
  and one MinIO bucket, user and policy per project, on the services of \<open>svc\<close>. Every request
  to a service is a call that may fail.

  What the services do is their documented behaviour. Two points matter: Redis' \<open>ACL SETUSER\<close>
  with \<open>>password\<close> adds the password to those the user has (only \<open>resetpass\<close> and \<open><password\<close>
  remove one), and Postgres refuses to drop a database with open connections and a role that owns
  a database or has privileges on one.
\<close>


section \<open>Service calls\<close>

definition svc_call :: "(services \<Rightarrow> (err + 'a) \<times> services) \<Rightarrow> 'a fallible" where
  "svc_call f = call (\<lambda>w. let (r, v) = f (svc w) in (r, w\<lparr>svc := v\<rparr>))"

definition ping :: "unit fallible" where
  "ping = svc_call (\<lambda>v. (Inr (), v))"

fun assoc_put :: "'k \<Rightarrow> 'v \<Rightarrow> ('k \<times> 'v) list \<Rightarrow> ('k \<times> 'v) list" where
  "assoc_put k v [] = [(k, v)]"
| "assoc_put k v ((k', v') # xs) = (if k' = k then (k, v) # xs else (k', v') # assoc_put k v xs)"

definition assoc_del :: "'k \<Rightarrow> ('k \<times> 'v) list \<Rightarrow> ('k \<times> 'v) list" where
  "assoc_del k xs = filter (\<lambda>(k', _). k' \<noteq> k) xs"

lemma map_of_assoc_put: "map_of (assoc_put k v xs) k' = (if k' = k then Some v else map_of xs k')"
  by (induction k v xs rule: assoc_put.induct) auto

lemma map_of_assoc_del: "map_of (assoc_del k xs) k' = (if k' = k then None else map_of xs k')"
  using map_of_filter_in [of "\<lambda>x. x \<noteq> k" k' xs] map_of_filter_out [of "\<lambda>x. x \<noteq> k" k xs]
  by (simp add: assoc_del_def)

interpretation assoc: kv_store map_of assoc_put assoc_del
  by unfold_locales (simp_all add: map_of_assoc_put map_of_assoc_del)

definition randomPassword :: "crypto \<Rightarrow> string fallible" where
  "randomPassword cr = attempt (rand_Read 24) (\<lambda>b. ok (cr_b64url cr b))"

text \<open>\<open>firstErr\<close>: an error is kept unless an earlier one is there.\<close>

definition keep_first :: "err option \<Rightarrow> err option \<Rightarrow> err option" where
  "keep_first e e' = (case e of None \<Rightarrow> e' | Some x \<Rightarrow> Some x)"

definition err_of :: "err + 'a \<Rightarrow> err option" where
  "err_of r = (case r of Inl e \<Rightarrow> Some e | Inr _ \<Rightarrow> None)"

definition result_of :: "err option \<Rightarrow> unit fallible" where
  "result_of e = (case e of None \<Rightarrow> ok () | Some x \<Rightarrow> throw x)"


section \<open>Postgres\<close>

definition pg_Enabled :: "server \<Rightarrow> bool" where
  "pg_Enabled sv = (sv_pg_admin sv \<noteq> [] \<and> sv_pg_host sv \<noteq> [])"

definition quoteSQLString :: "string \<Rightarrow> string" where
  "quoteSQLString s =
     CHR 0x27 # concat (map (\<lambda>c. if c = CHR 0x27 then [CHR 0x27, CHR 0x27] else [c]) s) @ [CHR 0x27]"

definition pg_set_role :: "string \<Rightarrow> string \<Rightarrow> unit fallible" where
  "pg_set_role user pw = svc_call (\<lambda>v. (Inr (), v\<lparr>pg_roles := assoc_put user pw (pg_roles v)\<rparr>))"

definition pg_set_owner :: "string \<Rightarrow> string \<Rightarrow> unit fallible" where
  "pg_set_owner dbname user = svc_call (\<lambda>v.
     if map_of (pg_roles v) user = None then (Inl (ErrOther ''role does not exist''), v)
     else (Inr (), v\<lparr>pg_dbs := assoc_put dbname user (pg_dbs v)\<rparr>))"

definition pg_grant :: "string \<Rightarrow> string \<Rightarrow> unit fallible" where
  "pg_grant dbname user = svc_call (\<lambda>v.
     if map_of (pg_dbs v) dbname = None then (Inl (ErrOther ''database does not exist''), v)
     else if map_of (pg_roles v) user = None then (Inl (ErrOther ''role does not exist''), v)
     else (Inr (), v\<lparr>pg_grants := List.insert (dbname, user) (pg_grants v)\<rparr>))"

definition pg_url :: "server \<Rightarrow> string \<Rightarrow> string \<Rightarrow> string" where
  "pg_url sv slug pw =
     ''postgres://'' @ dbIdentFor slug @ '':'' @ pw @ ''@'' @ sv_pg_host sv @ ''/'' @ dbIdentFor slug @ ''?sslmode=disable''"

text \<open>Creating and altering a role leave the same state; so do creating a database and
  changing its owner.\<close>

definition pg_Provision :: "server \<Rightarrow> string \<Rightarrow> string fallible" where
  "pg_Provision sv slug =
     (if \<not> pg_Enabled sv then throw (ErrOther ''postgres provisioner not enabled'')
      else attempt ping (\<lambda>_.
        attempt (randomPassword (sv_crypto sv)) (\<lambda>pw.
        attempt (svc_call (\<lambda>v. (Inr (map_of (pg_roles v) (dbIdentFor slug) \<noteq> None), v))) (\<lambda>role_exists.
        attempt (pg_set_role (dbIdentFor slug) pw) (\<lambda>_.
        attempt (svc_call (\<lambda>v. (Inr (map_of (pg_dbs v) (dbIdentFor slug) \<noteq> None), v))) (\<lambda>db_exists.
        attempt (pg_set_owner (dbIdentFor slug) (dbIdentFor slug)) (\<lambda>_.
        attempt (pg_grant (dbIdentFor slug) (dbIdentFor slug)) (\<lambda>_. ok (pg_url sv slug pw)))))))))"

definition pg_terminate :: "string \<Rightarrow> unit fallible" where
  "pg_terminate dbname = svc_call (\<lambda>v. (Inr (), v\<lparr>pg_sessions := filter (\<lambda>d. d \<noteq> dbname) (pg_sessions v)\<rparr>))"

definition pg_drop_db :: "string \<Rightarrow> unit fallible" where
  "pg_drop_db dbname = svc_call (\<lambda>v.
     if dbname \<in> set (pg_sessions v) then (Inl (ErrOther ''database is being accessed by other users''), v)
     else (Inr (), v\<lparr>pg_dbs := assoc_del dbname (pg_dbs v), pg_grants := filter (\<lambda>g. fst g \<noteq> dbname) (pg_grants v)\<rparr>))"

definition pg_drop_role :: "string \<Rightarrow> unit fallible" where
  "pg_drop_role user = svc_call (\<lambda>v.
     if (\<exists>(_, owner) \<in> set (pg_dbs v). owner = user) \<or> (\<exists>(_, grantee) \<in> set (pg_grants v). grantee = user) then (Inl (ErrOther ''role owns objects''), v)
     else (Inr (), v\<lparr>pg_roles := assoc_del user (pg_roles v)\<rparr>))"

definition pg_Deprovision :: "server \<Rightarrow> string \<Rightarrow> unit fallible" where
  "pg_Deprovision sv slug =
     (if \<not> pg_Enabled sv then ok ()
      else attempt ping (\<lambda>_. do {
        _ \<leftarrow> pg_terminate (dbIdentFor slug);
        r1 \<leftarrow> pg_drop_db (dbIdentFor slug);
        r2 \<leftarrow> pg_drop_role (dbIdentFor slug);
        result_of (keep_first (err_of r1) (err_of r2))
      }))"


section \<open>Redis\<close>

definition redis_Enabled :: "server \<Rightarrow> bool" where
  "redis_Enabled sv = (sv_redis_admin sv \<noteq> [] \<and> sv_redis_host sv \<noteq> [])"

definition acl_setuser :: "string \<Rightarrow> string \<Rightarrow> string \<Rightarrow> unit fallible" where
  "acl_setuser user pw pattern = svc_call (\<lambda>v.
     let old = (case map_of (redis_users v) user of None \<Rightarrow> [] | Some (pws, _) \<Rightarrow> pws);
         pws = (if pw \<in> set old then old else old @ [pw])
     in (Inr (), v\<lparr>redis_users := assoc_put user (pws, pattern) (redis_users v)\<rparr>))"

definition acl_deluser :: "string \<Rightarrow> unit fallible" where
  "acl_deluser user = svc_call (\<lambda>v. (Inr (), v\<lparr>redis_users := assoc_del user (redis_users v)\<rparr>))"

record redis_creds =
  rc_url :: string
  rc_prefix :: string

definition redis_Provision :: "server \<Rightarrow> string \<Rightarrow> redis_creds fallible" where
  "redis_Provision sv slug =
     (if \<not> redis_Enabled sv then throw (ErrOther ''redis provisioner not enabled'')
      else attempt (randomPassword (sv_crypto sv)) (\<lambda>pw.
        attempt (acl_setuser (redisUserForSlug slug) pw (redisKeyPrefix slug @ ''*'')) (\<lambda>_. do {
          _ \<leftarrow> ping;
          ok \<lparr>rc_url = ''redis://'' @ redisUserForSlug slug @ '':'' @ pw @ ''@'' @ sv_redis_host sv @ ''/0'',
             rc_prefix = redisKeyPrefix slug\<rparr>
        })))"

definition redis_Deprovision :: "server \<Rightarrow> string \<Rightarrow> unit fallible" where
  "redis_Deprovision sv slug =
     (if \<not> redis_Enabled sv then ok ()
      else attempt (acl_deluser (redisUserForSlug slug)) (\<lambda>_. do { _ \<leftarrow> ping; ok () }))"


section \<open>MinIO\<close>

definition s3_Enabled :: "server \<Rightarrow> bool" where
  "s3_Enabled sv = (sv_s3_endpoint sv \<noteq> [] \<and> sv_s3_key sv \<noteq> [] \<and> sv_s3_secret sv \<noteq> [] \<and> sv_s3_host sv \<noteq> [])"

definition make_bucket :: "string \<Rightarrow> unit fallible" where
  "make_bucket b = svc_call (\<lambda>v.
     if b \<in> set (s3_buckets v) then (Inl (ErrOther ''BucketAlreadyOwnedByYou''), v)
     else (Inr (), v\<lparr>s3_buckets := s3_buckets v @ [b]\<rparr>))"

definition bucket_exists :: "string \<Rightarrow> bool fallible" where
  "bucket_exists b = svc_call (\<lambda>v. (Inr (b \<in> set (s3_buckets v)), v))"

text \<open>The policy document of a bucket. (That it is JSON, which the code checks, is so for every name
  without quotes and backslashes, and slugs have none.)\<close>

definition policy_resources :: "string \<Rightarrow> string list" where
  "policy_resources b = [''arn:aws:s3:::'' @ b, ''arn:aws:s3:::'' @ b @ ''/*'']"

definition quoted :: "string \<Rightarrow> string" where
  "quoted s = CHR 0x22 # s @ [CHR 0x22]"

definition newline :: "nat \<Rightarrow> string" where
  "newline n = CHR 0x0A # replicate n (CHR 0x09)"

definition bucket_policy :: "string \<Rightarrow> string" where
  "bucket_policy b = concat
     [''{'', newline 2, quoted ''Version'', '': '', quoted ''2012-10-17'', '','', newline 2, quoted ''Statement'', '': ['',
      newline 3, ''{'', newline 4, quoted ''Effect'', '': '', quoted ''Allow'', '','', newline 4, quoted ''Action'', '': ['',
      quoted ''s3:*'', ''],'', newline 4, quoted ''Resource'', '': ['', newline 5, quoted (policy_resources b ! 0), '','',
      newline 5, quoted (policy_resources b ! 1), newline 4, '']'', newline 3, ''}'', newline 2, '']'', newline 1, ''}'']"

definition add_policy :: "string \<Rightarrow> string \<Rightarrow> unit fallible" where
  "add_policy name doc = svc_call (\<lambda>v. (Inr (), v\<lparr>s3_policies := assoc_put name doc (s3_policies v)\<rparr>))"

definition add_user :: "string \<Rightarrow> string \<Rightarrow> unit fallible" where
  "add_user user secret = svc_call (\<lambda>v. (Inr (), v\<lparr>s3_users := assoc_put user secret (s3_users v)\<rparr>))"

definition already_attached :: err where
  "already_attached = ErrOther ''policy already attached''"

definition attach_policy :: "string \<Rightarrow> string \<Rightarrow> unit fallible" where
  "attach_policy user name = svc_call (\<lambda>v.
     if (user, name) \<in> set (s3_attached v) then (Inl already_attached, v)
     else (Inr (), v\<lparr>s3_attached := s3_attached v @ [(user, name)]\<rparr>))"

definition detach_policy :: "string \<Rightarrow> string \<Rightarrow> unit fallible" where
  "detach_policy user name = svc_call (\<lambda>v.
     if (user, name) \<notin> set (s3_attached v) then (Inl ErrNotFound, v)
     else (Inr (), v\<lparr>s3_attached := filter (\<lambda>x. x \<noteq> (user, name)) (s3_attached v)\<rparr>))"

definition remove_user :: "string \<Rightarrow> unit fallible" where
  "remove_user user = svc_call (\<lambda>v.
     if map_of (s3_users v) user = None then (Inl ErrNotFound, v)
     else (Inr (), v\<lparr>s3_users := assoc_del user (s3_users v)\<rparr>))"

definition remove_policy :: "string \<Rightarrow> unit fallible" where
  "remove_policy name = svc_call (\<lambda>v.
     if map_of (s3_policies v) name = None then (Inl ErrNotFound, v)
     else (Inr (), v\<lparr>s3_policies := assoc_del name (s3_policies v)\<rparr>))"

record s3_creds =
  sc_endpoint :: string
  sc_region :: string
  sc_key :: string
  sc_secret :: string
  sc_bucket :: string
  sc_ssl :: bool

definition policyName :: "string \<Rightarrow> string" where
  "policyName slug = s3IdentFor slug @ ''-policy''"

text \<open>An error of \<open>MakeBucket\<close> is tolerated when the bucket is there, one of
  \<open>AttachPolicy\<close> when it says the policy is attached already.\<close>

definition ensure_bucket :: "string \<Rightarrow> unit fallible" where
  "ensure_bucket b = do {
     r \<leftarrow> make_bucket b;
     case r of
       Inr _ \<Rightarrow> ok ()
     | Inl e \<Rightarrow> do {
         x \<leftarrow> bucket_exists b;
         case x of Inr True \<Rightarrow> ok () | _ \<Rightarrow> throw e
       }
   }"

definition ensure_attached :: "string \<Rightarrow> string \<Rightarrow> unit fallible" where
  "ensure_attached user name = do {
     r \<leftarrow> attach_policy user name;
     case r of Inr _ \<Rightarrow> ok () | Inl e \<Rightarrow> if e = already_attached then ok () else throw e
   }"

definition s3_Provision :: "server \<Rightarrow> string \<Rightarrow> s3_creds fallible" where
  "s3_Provision sv slug =
     (if \<not> s3_Enabled sv then throw (ErrOther ''s3 provisioner not enabled'')
      else attempt (ensure_bucket (s3IdentFor slug)) (\<lambda>_.
        attempt (add_policy (policyName slug) (bucket_policy (s3IdentFor slug))) (\<lambda>_.
        attempt (randomPassword (sv_crypto sv)) (\<lambda>secret.
        attempt (add_user (s3IdentFor slug) secret) (\<lambda>_.
        attempt (ensure_attached (s3IdentFor slug) (policyName slug)) (\<lambda>_.
        ok \<lparr>sc_endpoint = sv_s3_host sv, sc_region = sv_s3_region sv, sc_key = s3IdentFor slug,
           sc_secret = secret, sc_bucket = s3IdentFor slug, sc_ssl = sv_s3_public_ssl sv\<rparr>))))))"

definition tolerate_missing :: "err option \<Rightarrow> err option" where
  "tolerate_missing e = (if e = Some ErrNotFound then None else e)"

definition s3_Deprovision :: "server \<Rightarrow> string \<Rightarrow> unit fallible" where
  "s3_Deprovision sv slug =
     (if \<not> s3_Enabled sv then ok ()
      else do {
        r1 \<leftarrow> detach_policy (s3IdentFor slug) (policyName slug);
        r2 \<leftarrow> remove_user (s3IdentFor slug);
        r3 \<leftarrow> remove_policy (policyName slug);
        result_of (keep_first (tolerate_missing (err_of r1))
          (keep_first (tolerate_missing (err_of r2)) (tolerate_missing (err_of r3))))
      })"


section \<open>Lemmas\<close>

lemma keeps_svc_call [keeps_intros]:
  "(\<And>w bs. f (w\<lparr>faults := bs\<rparr>) = f w) \<Longrightarrow> (\<And>w v. f (w\<lparr>svc := v\<rparr>) = f w) \<Longrightarrow> keeps f (svc_call g)"
  unfolding svc_call_def by (rule keeps_call) (simp_all add: case_prod_beta Let_def)

text \<open>Reading a quoted string literal back: two quotes are one, a single one ends it.\<close>

fun sql_literal :: "string \<Rightarrow> (string \<times> string) option" where
  "sql_literal [] = None"
| "sql_literal (c # s) =
     (if c \<noteq> CHR 0x27 then map_option (\<lambda>(v, r). (c # v, r)) (sql_literal s)
      else (case s of
              d # s' \<Rightarrow> if d = CHR 0x27 then map_option (\<lambda>(v, r). (CHR 0x27 # v, r)) (sql_literal s')
                        else Some ([], s)
            | [] \<Rightarrow> Some ([], [])))"

lemma sql_literal_quote:
  assumes "rest = [] \<or> hd rest \<noteq> CHR 0x27"
  shows "sql_literal (tl (quoteSQLString s) @ rest) = Some (s, rest)"
proof (induction s)
  case Nil
  then show ?case using assms by (cases rest) (simp_all add: quoteSQLString_def)
next
  case (Cons c s)
  then show ?case by (simp add: quoteSQLString_def)
qed

end
