(* ===== verification/Projects.thy ===== *)
theory Projects
  imports Access Provision
begin

text \<open>
  The project handlers of the API: creating, listing, reading and deleting projects
  (internal/api/projects.go, project\_actions.go), their collaborators, custom domains and
  environment (collaborators.go, domains.go, project\_env.go), and the URL the platform is
  reached by (baseurl.go). Manifests (internal/model/types.go) are decoded here too.
\<close>


section \<open>Manifests\<close>

record manifest =
  mf_name :: string
  mf_port :: int
  mf_build :: string
  mf_start :: string
  mf_language :: string
  mf_postgres :: bool
  mf_redis :: bool
  mf_s3 :: bool
  mf_sqlite :: bool
  mf_env :: "(string \<times> string) list"
  mf_cpu :: string
  mf_memory :: string

definition empty_manifest :: manifest where
  "empty_manifest = \<lparr>mf_name = [], mf_port = 0, mf_build = [], mf_start = [], mf_language = [],
     mf_postgres = False, mf_redis = False, mf_s3 = False, mf_sqlite = False, mf_env = [], mf_cpu = [],
     mf_memory = []\<rparr>"

text \<open>\<open>json.Unmarshal\<close> goes on after a value of the wrong type: the field keeps its value and
  the call returns an error in the end. The \<open>bool\<close> says that it will.\<close>

fun decode_values :: "('a \<Rightarrow> json \<Rightarrow> 'a option) \<Rightarrow> 'a \<Rightarrow> json list \<Rightarrow> 'a \<times> bool" where
  "decode_values f x [] = (x, False)"
| "decode_values f x (j # js) =
     (if j = JNull then decode_values f x js
      else case f x j of
        Some y \<Rightarrow> decode_values f y js
      | None \<Rightarrow> (fst (decode_values f x js), True))"

definition a_str :: "string \<Rightarrow> json \<Rightarrow> string option" where
  "a_str _ j = (case j of JStr s \<Rightarrow> Some s | _ \<Rightarrow> None)"

definition a_bool :: "bool \<Rightarrow> json \<Rightarrow> bool option" where
  "a_bool _ j = (case j of JBool b \<Rightarrow> Some b | _ \<Rightarrow> None)"

definition an_int :: "int \<Rightarrow> json \<Rightarrow> int option" where
  "an_int _ j = (case j of JNum i \<Rightarrow> Some i | _ \<Rightarrow> None)"

definition str_of :: "(string \<times> json) list \<Rightarrow> string \<Rightarrow> string \<times> bool" where
  "str_of kvs name = decode_values a_str [] (field_values name kvs)"

definition bool_of :: "(string \<times> json) list \<Rightarrow> string \<Rightarrow> bool \<times> bool" where
  "bool_of kvs name = decode_values a_bool False (field_values name kvs)"

text \<open>A nested struct: its pairs and whether the value has the wrong type. Several objects
  under one name are decoded one after the other into the same struct.\<close>

fun sub_pairs :: "json list \<Rightarrow> (string \<times> json) list \<times> bool" where
  "sub_pairs [] = ([], False)"
| "sub_pairs (JObj kvs # js) = (kvs @ fst (sub_pairs js), snd (sub_pairs js))"
| "sub_pairs (JNull # js) = sub_pairs js"
| "sub_pairs (_ # js) = (fst (sub_pairs js), True)"

text \<open>A \<open>map[string]string\<close>: an element of the wrong type is set to the empty string.\<close>

definition env_pairs :: "(string \<times> json) list \<Rightarrow> (string \<times> string) list" where
  "env_pairs kvs = map (\<lambda>(k, j). (k, case j of JStr s \<Rightarrow> s | _ \<Rightarrow> [])) kvs"

definition env_bad :: "(string \<times> json) list \<Rightarrow> bool" where
  "env_bad kvs = list_ex (\<lambda>(_, j). case j of JStr _ \<Rightarrow> False | JNull \<Rightarrow> False | _ \<Rightarrow> True) kvs"

definition decode_manifest :: "json \<Rightarrow> manifest \<times> bool" where
  "decode_manifest j =
     (case j of
        JObj kvs \<Rightarrow>
          (let (needs, e1) = sub_pairs (field_values ''needs'' kvs);
               (res, e2) = sub_pairs (field_values ''resources'' kvs);
               (env, e3) = sub_pairs (field_values ''env'' kvs);
               (port, e4) = decode_values an_int 0 (field_values ''port'' kvs);
               strs = map (str_of kvs) [''name'', ''build'', ''start'', ''language''];
               rstrs = map (str_of res) [''cpu'', ''memory''];
               flags = map (bool_of needs) [''postgres'', ''redis'', ''s3'', ''sqlite'']
           in (\<lparr>mf_name = fst (strs ! 0), mf_port = port, mf_build = fst (strs ! 1), mf_start = fst (strs ! 2),
                mf_language = fst (strs ! 3), mf_postgres = fst (flags ! 0), mf_redis = fst (flags ! 1),
                mf_s3 = fst (flags ! 2), mf_sqlite = fst (flags ! 3), mf_env = env_pairs env,
                mf_cpu = fst (rstrs ! 0), mf_memory = fst (rstrs ! 1)\<rparr>,
               e1 \<or> e2 \<or> e3 \<or> e4 \<or> list_ex snd strs \<or> list_ex snd rstrs \<or> list_ex snd flags \<or> env_bad env))
      | JNull \<Rightarrow> (empty_manifest, False)
      | _ \<Rightarrow> (empty_manifest, True))"

definition manifest_env :: "manifest \<Rightarrow> string \<Rightarrow> string option" where
  "manifest_env m = map_of (rev (mf_env m))"


section \<open>Responses\<close>

definition status_str :: "pstatus \<Rightarrow> string" where
  "status_str s = (case s of PCreated \<Rightarrow> ''created'' | PRunning \<Rightarrow> ''running'' | PStopped \<Rightarrow> ''stopped''
     | PError \<Rightarrow> ''error'' | PDeleting \<Rightarrow> ''deleting'')"

definition json_time :: "int option \<Rightarrow> json" where
  "json_time t = (case t of None \<Rightarrow> JNull | Some x \<Rightarrow> JNum x)"

text \<open>The JSON of a project; the hash of its API token is not part of it.\<close>

definition JProject :: "server \<Rightarrow> project \<Rightarrow> json" where
  "JProject sv p = JObj
     ([(''id'', JStr (p_id p)), (''slug'', JStr (p_slug p)), (''name'', JStr (p_name p)), (''owner_id'', JStr (p_owner p)),
       (''visibility'', JStr (p_visibility p)), (''status'', JStr (status_str (p_status p)))] @
      (case p_manifest p of None \<Rightarrow> [] | Some m \<Rightarrow> [(''manifest'', m)]) @
      [(''allow_cidrs'', JStrs (p_allow_cidrs p))] @
      (case p_preset p of None \<Rightarrow> [] | Some n \<Rightarrow> [(''access_preset'', JStr n)]) @
      [(''tls_enabled'', JBool (p_tls p))] @
      opt_field ''api_token_prefix'' (p_token_prefix p) @ time_field ''api_token_created_at'' (p_token_created p) @
      [(''created_at'', JNum (p_created p))] @ time_field ''last_pushed_at'' (p_pushed p) @
      time_field ''last_active_at'' (p_active p) @ [(''url'', JStr (projectURL sv (p_slug p)))])"


section \<open>Creating and listing\<close>

definition platform_email :: string where "platform_email = ''platform@vibedeploy.local''"

definition actorUserID :: "actor \<Rightarrow> uuid fallible" where
  "actorUserID a =
     (if ac_kind a = ActorUser then ok (ac_user a)
      else case ac_creator a of
        Some i \<Rightarrow> ok i
      | None \<Rightarrow> attempt (UpsertUserByEmail platform_email ''platform'') (\<lambda>u. ok (u_id u)))"

text \<open>\<open>RandomSuffix(4)\<close> reads four bytes; \<open>crypto/rand\<close> does not fail.\<close>

definition choose_slug :: "string \<Rightarrow> string \<Rightarrow> string \<Rightarrow> string prog" where
  "choose_slug req_slug req_name manifest_name =
     (let slug = ToLower (TrimSpace req_slug) in
      if slug \<noteq> [] then State_Monad.return slug
      else
        (let b1 = ToLower req_name; b2 = (if b1 = [] then manifest_name else b1);
             base = (if b2 = [] then ''app'' else b2)
         in do {
           bytes \<leftarrow> rand_bytes 4;
           State_Monad.return (sanitizeForSlug base @ ''-'' @ RandomSuffix bytes)
         }))"

definition insert_project ::
  "server \<Rightarrow> actor \<Rightarrow> string \<Rightarrow> string \<Rightarrow> json option \<Rightarrow> response prog" where
  "insert_project sv a slug name m =
     (if ValidateSlug slug \<noteq> None then fail 400 ''bad_slug''
      else
        orelse (SlugAvailable slug) db_error (\<lambda>free.
        if \<not> free then fail 409 ''slug_taken''
        else
          orelse (actorUserID a) (\<lambda>_. fail 500 ''owner'') (\<lambda>owner.
          orelse (CreateProject slug (if name = [] then slug else name) owner m) db_error (\<lambda>p. do {
            _ \<leftarrow> audit a ''project.create'' (Some (p_id p)) JNull;
            State_Monad.return (Reply 201 (JObj [(''project'', JProject sv p)]))
          }))))"

definition handleCreateProject :: "server \<Rightarrow> actor \<Rightarrow> json option \<Rightarrow> response prog" where
  "handleCreateProject sv a body =
     (if ac_kind a = ActorToken \<and> ac_project a \<noteq> None then fail 403 ''scope''
      else case decode_struct body of
        None \<Rightarrow> fail 400 ''bad_json''
      | Some kvs \<Rightarrow>
          (case (str_field ''slug'' kvs, str_field ''name'' kvs) of
             (Some rslug, Some rname) \<Rightarrow>
               (let raw = raw_field ''manifest'' kvs;
                    (m, bad) = (case raw of None \<Rightarrow> (empty_manifest, False) | Some j \<Rightarrow> decode_manifest j)
                in if bad then fail 400 ''bad_manifest''
                   else do {
                     slug \<leftarrow> choose_slug rslug rname (mf_name m);
                     insert_project sv a slug (if rname = [] then mf_name m else rname) raw
                   })
           | _ \<Rightarrow> fail 400 ''bad_json''))"

definition handleListProjects :: "server \<Rightarrow> actor \<Rightarrow> string \<Rightarrow> string \<Rightarrow> response prog" where
  "handleListProjects sv a lim off =
     orelse (actorUserID a) (\<lambda>_. fail 500 ''owner'') (\<lambda>uid.
     orelse (ListProjectsForUser uid) db_error (\<lambda>ps.
       (let total = int (length ps); (limit, offset0) = parsePager lim off 10 200;
            offset = min offset0 total; end_at = min (offset0 + limit) total;
            page_ps = take (nat (end_at - offset)) (drop (nat offset) ps)
        in State_Monad.return (Reply 200 (JObj [(''projects'', JArr (map (JProject sv) page_ps)),
             (''total'', JNum total), (''limit'', JNum limit), (''offset'', JNum offset)])))))"

definition JPlacement :: "placement \<Rightarrow> json" where
  "JPlacement pl = JObj ([(''node'', JStr (pl_node pl)), (''pod'', JStr (pl_pod pl)),
     (''phase'', JStr (pl_phase pl)), (''ready'', JBool (pl_ready pl))] @
     opt_field ''pod_ip'' (Some (pl_pod_ip pl)) @ opt_field ''host_ip'' (Some (pl_host_ip pl)) @ time_field ''started'' (pl_started pl))"

definition handleGetProject :: "server \<Rightarrow> project \<Rightarrow> response prog" where
  "handleGetProject sv p = do {
     pod \<leftarrow> (case sv_dep sv of
        None \<Rightarrow> State_Monad.return []
      | Some _ \<Rightarrow> do {
          r \<leftarrow> PodPlacement (p_slug p);
          State_Monad.return (case r of Inr (Some pl) \<Rightarrow> [(''pod'', JPlacement pl)] | _ \<Rightarrow> [])
        });
     State_Monad.return (Reply 200 (JObj ((''project'', JProject sv p) # pod)))
   }"

definition handleWhoami :: "actor \<Rightarrow> response prog" where
  "handleWhoami a =
     (case ac_kind a of
        ActorUser \<Rightarrow> State_Monad.return (Reply 200 (JObj [(''kind'', JStr ''user''), (''email'', JStr (ac_email a)),
          (''name'', JStr (ac_name a)), (''admin'', JBool (ac_admin a))]))
      | ActorToken \<Rightarrow> State_Monad.return (Reply 200 (JObj [(''kind'', JStr ''token''), (''token_id'', JStr (ac_token a)),
          (''scopes'', JStrs (ac_scopes a)), (''project_id'', json_opt_str (ac_project a))]))
      | ActorNone \<Rightarrow> fail 401 ''no_actor'')"


section \<open>Collaborators\<close>

definition handleListCollaborators :: "project \<Rightarrow> response prog" where
  "handleListCollaborators p =
     orelse (query (\<lambda>d. List.map_filter (\<lambda>c. map_option (\<lambda>u. (u, c)) (find_row (\<lambda>u. u_id u = co_user c) (users d)))
              (filter (\<lambda>c. co_project c = p_id p) (collabs d)))) db_error (\<lambda>rs.
       State_Monad.return (Reply 200 (JObj [(''collaborators'', JArr (map (\<lambda>(u, c).
         JObj [(''user_id'', JStr (u_id u)), (''email'', JStr (u_email u)), (''name'', JStr (u_name u)),
               (''role'', JStr (co_role c))]) rs))])))"

definition user_by_email :: "string \<Rightarrow> uuid fallible" where
  "user_by_email email = query_row (\<lambda>d. map_option u_id (find_row (\<lambda>u. EqualFold (u_email u) email) (users d)))"

definition handleAddCollaborator :: "actor \<Rightarrow> json option \<Rightarrow> project \<Rightarrow> response prog" where
  "handleAddCollaborator a body p =
     (if \<not> canManageProject a p then fail 403 ''forbidden''
      else case decode_struct body of
        None \<Rightarrow> fail 400 ''bad_json''
      | Some kvs \<Rightarrow>
          (case (str_field ''email'' kvs, str_field ''role'' kvs) of
             (Some raw, Some rrole) \<Rightarrow>
               (let email = ToLower (TrimSpace raw); role = (if rrole = [] then ''editor'' else rrole)
                in if email = [] \<or> \<not> Contains email ''@'' then fail 400 ''bad_email''
                   else orelse (user_by_email email) (\<lambda>_. fail 404 ''no_such_user'') (\<lambda>uid. do {
                     by \<leftarrow> actorUserID a;
                     orelse (AddCollaborator (p_id p) uid (case by of Inl _ \<Rightarrow> nil_uuid | Inr i \<Rightarrow> i) role) db_error (\<lambda>_. do {
                       _ \<leftarrow> audit a ''collaborator.add'' (Some (p_id p))
                              (JObj [(''email'', JStr email), (''role'', JStr role)]);
                       State_Monad.return (Reply 201 (JObj [(''ok'', JBool True)]))
                     })
                   }))
           | _ \<Rightarrow> fail 400 ''bad_json''))"

definition handleRemoveCollaborator :: "actor \<Rightarrow> string \<Rightarrow> project \<Rightarrow> response prog" where
  "handleRemoveCollaborator a raw p =
     (if \<not> canManageProject a p then fail 403 ''forbidden''
      else
        (let email = ToLower (TrimSpace raw) in
         if email = [] then fail 400 ''bad_email''
         else orelse (user_by_email email) (\<lambda>_. fail 404 ''no_such_user'') (\<lambda>uid.
              orelse (RemoveCollaborator (p_id p) uid)
                (\<lambda>e. if e = ErrNotFound then fail 404 ''not_found'' else fail 500 ''db'') (\<lambda>_. do {
                _ \<leftarrow> audit a ''collaborator.remove'' (Some (p_id p)) (JObj [(''email'', JStr email)]);
                reply_ok
              }))))"


section \<open>Custom domains\<close>

definition JDomain :: "domain_row \<Rightarrow> json" where
  "JDomain d = JObj [(''id'', JStr (dm_id d)), (''hostname'', JStr (dm_host d)), (''kind'', JStr (dm_kind d)),
     (''verified'', JBool (dm_verified d)), (''created_at'', JNum (dm_created d))]"

definition handleListDomains :: "server \<Rightarrow> project \<Rightarrow> response prog" where
  "handleListDomains sv p =
     orelse (ListDomains (p_id p)) db_error (\<lambda>ds.
       State_Monad.return (Reply 200 (JObj
         [(''default'', JObj [(''hostname'', JStr (p_slug p @ ''.'' @ sv_base sv)), (''kind'', JStr ''subdomain''),
            (''verified'', JBool True)]),
          (''custom'', JArr (map JDomain ds)), (''max_custom'', JNum (sv_max_domains sv))])))"

text \<open>The checks on a name under the platform's own domain.\<close>

definition own_domain_error :: "server \<Rightarrow> project \<Rightarrow> string \<Rightarrow> string option" where
  "own_domain_error sv p host =
     (let suffix = ''.'' @ sv_base sv in
      if HasSuffix host suffix then
        (let pfx = TrimSuffix host suffix
         in if pfx = p_slug p then Some ''reserved'' else if Contains pfx ''.'' then Some ''bad_hostname'' else None)
      else None)"

definition domain_cap_reached :: "server \<Rightarrow> project \<Rightarrow> bool fallible" where
  "domain_cap_reached sv p =
     (if sv_max_domains sv > 0
      then attempt (ListDomains (p_id p)) (\<lambda>ds. ok (int (length ds) \<ge> sv_max_domains sv))
      else ok False)"

definition handleAddDomain :: "server \<Rightarrow> actor \<Rightarrow> json option \<Rightarrow> project \<Rightarrow> response prog" where
  "handleAddDomain sv a body p =
     (case Option.bind (decode_struct body) (str_field ''hostname'') of
        None \<Rightarrow> fail 400 ''bad_json''
      | Some raw \<Rightarrow>
          (let host = ToLower (TrimSpace raw) in
           if validateHostname host \<noteq> None then fail 400 ''bad_hostname''
           else orelse (domain_cap_reached sv p) db_error (\<lambda>full.
             if full then fail 409 ''limit_reached''
             else case own_domain_error sv p host of
               Some code \<Rightarrow> fail 400 code
             | None \<Rightarrow>
                 orelse (AddDomain (p_id p) host)
                   (\<lambda>e. if e = ErrDomainTaken then fail 409 ''hostname_taken'' else fail 500 ''db'') (\<lambda>d. do {
                   r \<leftarrow> (if sv_dep sv \<noteq> None then syncIngressForProject sv p else ok ());
                   _ \<leftarrow> (case r of
                      Inl _ \<Rightarrow> WriteAudit ''system'' ''ingress-sync'' ''ingress.sync.failed'' (Some (p_id p)) (JObj [])
                    | Inr _ \<Rightarrow> State_Monad.return ());
                   _ \<leftarrow> audit a ''domain.add'' (Some (p_id p)) (JObj [(''hostname'', JStr host)]);
                   State_Monad.return (Reply 201 (JObj [(''domain'', JDomain d)]))
                 }))))"

text \<open>\<open>path\<close> is the path of the request, whose last segment is the host name.\<close>

definition last_segment :: "string \<Rightarrow> string" where
  "last_segment s = (case LastIndexByte s (CHR ''/'') of None \<Rightarrow> s | Some i \<Rightarrow> drop (i + 1) s)"

definition handleRemoveDomain :: "server \<Rightarrow> actor \<Rightarrow> string \<Rightarrow> project \<Rightarrow> response prog" where
  "handleRemoveDomain sv a path p =
     (let host = last_segment (ToLower (TrimSpace path)) in
      if validateHostname host \<noteq> None then fail 400 ''bad_hostname''
      else orelse (RemoveDomain (p_id p) host)
        (\<lambda>e. if e = ErrNotFound then fail 404 ''not_found'' else fail 500 ''db'') (\<lambda>_. do {
        _ \<leftarrow> (if sv_dep sv \<noteq> None then syncIngressForProject sv p else ok ());
        _ \<leftarrow> audit a ''domain.remove'' (Some (p_id p)) (JObj [(''hostname'', JStr host)]);
        reply_ok
      }))"


section \<open>Environment\<close>

text \<open>The platform's values win over the manifest's.\<close>

definition merge_env ::
  "(string \<Rightarrow> string option) \<Rightarrow> (string \<Rightarrow> string option) \<Rightarrow> string \<Rightarrow> string option" where
  "merge_env base over = base ++ over"

definition project_manifest :: "project \<Rightarrow> manifest" where
  "project_manifest p = (case p_manifest p of None \<Rightarrow> empty_manifest | Some j \<Rightarrow> fst (decode_manifest j))"

definition syncProjectEnvToCluster :: "server \<Rightarrow> project \<Rightarrow> unit fallible" where
  "syncProjectEnvToCluster sv p =
     (if sv_dep sv = None then ok ()
      else attempt (GetProjectEnv (sv_crypto sv) (sv_kek sv) (p_id p)) (\<lambda>db_env.
             UpdateAppEnvSecret (p_slug p) (merge_env (manifest_env (project_manifest p)) db_env)))"

definition JEnvEntry :: "env_entry \<Rightarrow> json" where
  "JEnvEntry e = JObj [(''key'', JStr (en_key e)), (''updated_at'', JNum (en_updated e)),
     (''updated_by'', json_opt_str (en_by e)), (''system'', JBool (en_system e))]"

definition handleListProjectEnv :: "actor \<Rightarrow> project \<Rightarrow> response prog" where
  "handleListProjectEnv a p =
     (if \<not> canManageProject a p then fail 403 ''not_authorised''
      else orelse (ListProjectEnvKeys (p_id p)) db_error (\<lambda>es.
        State_Monad.return (Reply 200 (JObj [(''env'', JArr (map JEnvEntry es))]))))"

definition handlePutProjectEnv :: "server \<Rightarrow> actor \<Rightarrow> json option \<Rightarrow> project \<Rightarrow> response prog" where
  "handlePutProjectEnv sv a body p =
     (if \<not> canManageProject a p then fail 403 ''not_authorised''
      else case decode_struct body of
        None \<Rightarrow> fail 400 ''bad_json''
      | Some kvs \<Rightarrow>
          (case (str_field ''key'' kvs, str_field ''value'' kvs) of
             (Some rkey, Some val) \<Rightarrow>
               (let key = TrimSpace rkey in
                if \<not> rx_match envKeyRe key then fail 400 ''bad_key''
                else orelse (ListProjectEnvKeys (p_id p)) db_error (\<lambda>es.
                  if list_ex (\<lambda>e. en_key e = key \<and> en_system e) es then fail 409 ''system_env''
                  else orelse (SetProjectEnv (sv_crypto sv) (sv_kek sv) (p_id p) key val False (actorUserIDPtr a)) db_error (\<lambda>_.
                    orelse (syncProjectEnvToCluster sv p)
                      (\<lambda>_. State_Monad.return (Reply 200 (JObj [(''ok'', JBool True), (''warn_resync'', JStr [])])))
                      (\<lambda>_. do {
                        _ \<leftarrow> audit a ''project.env.set'' (Some (p_id p)) (JObj [(''key'', JStr key)]);
                        reply_ok
                      }))))
           | _ \<Rightarrow> fail 400 ''bad_json''))"

definition handleDeleteProjectEnv :: "server \<Rightarrow> actor \<Rightarrow> string \<Rightarrow> project \<Rightarrow> response prog" where
  "handleDeleteProjectEnv sv a key p =
     (if \<not> canManageProject a p then fail 403 ''not_authorised''
      else if \<not> rx_match envKeyRe key then fail 400 ''bad_key''
      else orelse (DeleteProjectEnv (p_id p) key)
        (\<lambda>e. if e = ErrNotFound then fail 404 ''not_found''
             else if e = ErrSystemEnv then fail 409 ''system_env'' else fail 500 ''db'')
        (\<lambda>_. do {
          _ \<leftarrow> syncProjectEnvToCluster sv p;
          _ \<leftarrow> audit a ''project.env.delete'' (Some (p_id p)) (JObj [(''key'', JStr key)]);
          reply_ok
        }))"


section \<open>Deleting\<close>

text \<open>A cleanup step whose failure is only recorded.\<close>

definition best_effort :: "uuid \<Rightarrow> string \<Rightarrow> unit fallible \<Rightarrow> unit prog" where
  "best_effort pid action m = do {
     r \<leftarrow> m;
     case r of
       Inl _ \<Rightarrow> WriteAudit ''system'' ''delete-cleanup'' action (Some pid) (JObj [])
     | Inr _ \<Rightarrow> State_Monad.return ()
   }"

definition handleDeleteProject :: "server \<Rightarrow> actor \<Rightarrow> project \<Rightarrow> response prog" where
  "handleDeleteProject sv a p =
     (if \<not> canManageProject a p then fail 403 ''not_authorised''
      else do {
        _ \<leftarrow> (if sv_dep sv \<noteq> None then best_effort (p_id p) ''project.delete.k8s_failed'' (DeleteProject (p_slug p))
              else State_Monad.return ());
        _ \<leftarrow> (if pg_Enabled sv then best_effort (p_id p) ''project.delete.pg_failed'' (pg_Deprovision sv (p_slug p))
              else State_Monad.return ());
        _ \<leftarrow> (if redis_Enabled sv then best_effort (p_id p) ''project.delete.redis_failed'' (redis_Deprovision sv (p_slug p))
              else State_Monad.return ());
        _ \<leftarrow> (if s3_Enabled sv then best_effort (p_id p) ''project.delete.s3_failed'' (s3_Deprovision sv (p_slug p))
              else State_Monad.return ());
        _ \<leftarrow> DeleteAllProjectEnv (p_id p);
        orelse (SoftDeleteProject (p_id p)) db_error (\<lambda>_. do {
          _ \<leftarrow> audit a ''project.delete'' (Some (p_id p)) (JObj [(''slug'', JStr (p_slug p))]);
          reply_ok
        })
      })"


section \<open>The platform's own URL\<close>

definition firstHeader :: "string \<Rightarrow> string" where
  "firstHeader v = (case IndexByte v (CHR '','') of None \<Rightarrow> TrimSpace v | Some i \<Rightarrow> TrimSpace (take i v))"

text \<open>The two forwarding headers, the Host header and whether the connection is TLS.\<close>

definition externalBaseURL :: "server \<Rightarrow> string \<Rightarrow> string \<Rightarrow> string \<Rightarrow> bool \<Rightarrow> string" where
  "externalBaseURL sv fwd_host fwd_proto host tls =
     (if firstHeader fwd_host \<noteq> [] then
        (if firstHeader fwd_proto = [] then ''http'' else firstHeader fwd_proto) @ ''://'' @ firstHeader fwd_host
      else if host \<noteq> [] then (if tls then ''https'' else ''http'') @ ''://'' @ host
      else TrimRight (CHR ''/'') (sv_public sv))"

end
