(* ===== verification/Auth.thy ===== *)
theory Auth
  imports Http
begin

text \<open>
  Who a caller is: deploy tokens and API tokens (internal/auth/token.go,
  internal/api/middleware.go, api\_tokens.go), the JWTs of the identity provider
  (internal/auth/jwt.go), the forward-auth check of user apps (internal/api/forwardauth.go),
  and the tokens the control plane mints itself (cmd/control-plane/main.go).

  SHA-256, base64 and the JWT library are parameters of the server. A token counts as used in
  the background; here that happens before the handler runs.
\<close>


section \<open>Tokens (internal/auth/token.go)\<close>

definition TokenPrefix :: string where "TokenPrefix = ''vbd_''"
definition APITokenPrefix :: string where "APITokenPrefix = ''iai_api_''"

definition display_prefix :: "string \<Rightarrow> string" where
  "display_prefix tok = (if length tok > 16 then take 16 tok else tok)"

definition HashToken :: "crypto \<Rightarrow> string \<Rightarrow> string" where
  "HashToken cr tok = cr_sha256 cr tok"

text \<open>Plaintext, hash and display prefix.\<close>

definition minted :: "crypto \<Rightarrow> string \<Rightarrow> string \<times> string \<times> string" where
  "minted cr tok = (tok, HashToken cr tok, display_prefix tok)"

definition GenerateToken :: "crypto \<Rightarrow> string \<Rightarrow> (string \<times> string \<times> string) fallible" where
  "GenerateToken cr env =
     attempt (rand_Read 32) (\<lambda>b. ok (minted cr (TokenPrefix @ env @ ''_'' @ cr_b64url cr b)))"

definition GenerateAPIToken :: "crypto \<Rightarrow> (string \<times> string \<times> string) fallible" where
  "GenerateAPIToken cr = attempt (rand_Read 32) (\<lambda>b. ok (minted cr (APITokenPrefix @ cr_b64url cr b)))"

definition LooksLikeDeployToken :: "string \<Rightarrow> bool" where
  "LooksLikeDeployToken tok = HasPrefix tok TokenPrefix"

definition LooksLikeAPIToken :: "string \<Rightarrow> bool" where
  "LooksLikeAPIToken tok = HasPrefix tok APITokenPrefix"


section \<open>JWTs (internal/auth/jwt.go)\<close>

definition DisplayName :: "claims \<Rightarrow> string" where
  "DisplayName c =
     (let g = TrimSpace (cl_given c); f = TrimSpace (cl_family c)
      in if g \<noteq> [] \<and> f \<noteq> [] then g @ '' ('' @ f @ '')''
         else if cl_name c \<noteq> [] then cl_name c else cl_preferred c)"

definition NewJWTVerifier :: "string \<Rightarrow> string \<Rightarrow> string \<Rightarrow> jwt_verifier" where
  "NewJWTVerifier issuer audience jwks =
     \<lparr>jv_issuer = TrimRight (CHR ''/'') issuer, jv_audience = audience, jv_jwks_url = jwks, jv_keys = [],
      jv_fetched = 0\<rparr>"

definition jwt_Enabled :: "jwt_verifier \<Rightarrow> bool" where
  "jwt_Enabled v = (jv_issuer v \<noteq> [] \<and> jv_jwks_url v \<noteq> [])"

text \<open>The exponent is accumulated in a 64-bit integer.\<close>

definition exponent :: "string \<Rightarrow> 64 word" where
  "exponent bs = foldl (\<lambda>e b. or (push_bit 8 e) (of_nat (byte b))) 0 bs"

definition jwkToRSAPublic :: "crypto \<Rightarrow> string \<Rightarrow> string \<Rightarrow> rsa_key option" where
  "jwkToRSAPublic cr n e =
     (case (cr_b64urldec cr n, cr_b64urldec cr e) of
        (Some nb, Some eb) \<Rightarrow> Some (nb, exponent eb)
      | _ \<Rightarrow> None)"

text \<open>The keys of a JWKS document that can be used; a later key replaces an earlier one with
  the same id. A field of the wrong type spoils the whole document.\<close>

definition jwk_fields :: "json \<Rightarrow> (string \<times> string \<times> string \<times> string) option" where
  "jwk_fields j =
     (case decode_struct (Some j) of
        None \<Rightarrow> None
      | Some kvs \<Rightarrow>
          (case (str_field ''kty'' kvs, str_field ''kid'' kvs, str_field ''n'' kvs, str_field ''e'' kvs,
                 str_field ''use'' kvs, str_field ''alg'' kvs) of
             (Some kty, Some kid, Some n, Some e, Some _, Some _) \<Rightarrow> Some (kty, kid, n, e)
           | _ \<Rightarrow> None))"

definition usable_key :: "crypto \<Rightarrow> string \<times> string \<times> string \<times> string \<Rightarrow> (string \<times> rsa_key) option" where
  "usable_key cr j =
     (case j of (kty, kid, n, e) \<Rightarrow>
        if kty \<noteq> ''RSA'' then None else map_option (\<lambda>k. (kid, k)) (jwkToRSAPublic cr n e))"

definition jwks_keys :: "crypto \<Rightarrow> json option \<Rightarrow> (string \<times> rsa_key) list option" where
  "jwks_keys cr body =
     (case decode_struct body of
        None \<Rightarrow> None
      | Some kvs \<Rightarrow>
          (case raw_field ''keys'' kvs of
             Some (JArr js) \<Rightarrow>
               if list_ex (\<lambda>j. jwk_fields j = None) js then None
               else Some (rev (List.map_filter (usable_key cr) (List.map_filter jwk_fields js)))
           | Some JNull \<Rightarrow> Some []
           | None \<Rightarrow> Some []
           | _ \<Rightarrow> None))"

definition jwks_refresh :: "crypto \<Rightarrow> unit fallible" where
  "jwks_refresh cr = call (\<lambda>w.
     let (st, body) = jwks_at w (jv_jwks_url (jwt_v w)) in
     if st div 100 \<noteq> 2 then (Inl (ErrOther ''fetch JWKS''), w)
     else case jwks_keys cr body of
       None \<Rightarrow> (Inl (ErrOther ''parse JWKS''), w)
     | Some [] \<Rightarrow> (Inl (ErrOther ''no usable RSA keys in JWKS''), w)
     | Some ks \<Rightarrow> (Inr (), w\<lparr>jwt_v := (jwt_v w)\<lparr>jv_keys := ks, jv_fetched := now w\<rparr>\<rparr>))"

definition ten_minutes :: int where "ten_minutes = 600000"

definition cached_key :: "string \<Rightarrow> (rsa_key option \<times> bool) prog" where
  "cached_key kid = State (\<lambda>w.
     ((map_of (jv_keys (jwt_v w)) kid, now w - jv_fetched (jwt_v w) < ten_minutes), w))"

definition keyFor :: "crypto \<Rightarrow> string \<Rightarrow> rsa_key fallible" where
  "keyFor cr kid = do {
     c \<leftarrow> cached_key kid;
     case c of
       (Some k, True) \<Rightarrow> ok k
     | _ \<Rightarrow> attempt (jwks_refresh cr) (\<lambda>_. do {
         c' \<leftarrow> cached_key kid;
         case fst c' of Some k \<Rightarrow> ok k | None \<Rightarrow> throw (ErrOther ''kid not found in JWKS'')
       })
   }"

text \<open>What \<open>ParseWithClaims\<close> checks after the signature: the times, and that the issuer is
  the configured one.\<close>

definition claims_valid :: "jwt_verifier \<Rightarrow> int \<Rightarrow> claims \<Rightarrow> bool" where
  "claims_valid v t c =
     ((case cl_expires c of Some x \<Rightarrow> t < x | None \<Rightarrow> True) \<and>
      (case cl_not_before c of Some x \<Rightarrow> x \<le> t | None \<Rightarrow> True) \<and> cl_issuer c = jv_issuer v)"

fun audienceContains :: "string list \<Rightarrow> string \<Rightarrow> bool" where
  "audienceContains [] want = False"
| "audienceContains (a # as) want = (if a = want then True else audienceContains as want)"

definition get_verifier :: "jwt_verifier prog" where
  "get_verifier = State (\<lambda>w. (jwt_v w, w))"

definition jwt_Verify :: "server \<Rightarrow> string \<Rightarrow> claims fallible" where
  "jwt_Verify sv raw = do {
     v \<leftarrow> get_verifier;
     t \<leftarrow> get_now;
     if \<not> jwt_Enabled v then throw (ErrOther ''jwt verifier not configured'')
     else case jl_parse (sv_jwt sv) raw of
       None \<Rightarrow> throw (ErrOther ''malformed token'')
     | Some j \<Rightarrow>
         if \<not> jt_rsa j then throw (ErrOther ''unexpected signing method'')
         else attempt (keyFor (sv_crypto sv) (jt_kid j)) (\<lambda>k.
           if \<not> jl_verify (sv_jwt sv) k raw then throw (ErrOther ''signature is invalid'')
           else if \<not> claims_valid v t (jt_claims j) then throw (ErrOther ''invalid claims'')
           else if jv_audience v \<noteq> [] \<and> \<not> audienceContains (cl_audience (jt_claims j)) (jv_audience v)
           then throw (ErrOther ''audience'')
           else ok (jt_claims j))
   }"


section \<open>The authentication middleware (internal/api/middleware.go)\<close>

definition token_actor :: "token_row \<Rightarrow> actor" where
  "token_actor t = no_actor\<lparr>ac_kind := ActorToken, ac_token := t_id t, ac_scopes := t_scopes t,
     ac_project := t_project t, ac_creator := t_creator t\<rparr>"

definition verifyDeployToken :: "server \<Rightarrow> string \<Rightarrow> actor fallible" where
  "verifyDeployToken sv tok =
     attempt (LookupTokenByHash (HashToken (sv_crypto sv) tok)) (\<lambda>t. do {
       n \<leftarrow> get_now;
       if t_revoked t \<noteq> None then throw ErrRevoked
       else if n > t_expires t then throw ErrExpired
       else do { _ \<leftarrow> TouchTokenLastUsed (t_id t); ok (token_actor t) }
     })"

definition user_actor :: "user \<Rightarrow> actor" where
  "user_actor u = no_actor\<lparr>ac_kind := ActorUser, ac_user := u_id u, ac_email := u_email u, ac_name := u_name u,
     ac_admin := u_admin u\<rparr>"

definition AuthMiddleware :: "server \<Rightarrow> string \<Rightarrow> (actor \<Rightarrow> response prog) \<Rightarrow> response prog" where
  "AuthMiddleware sv header handler =
     (if \<not> HasPrefix header ''Bearer '' then fail 401 ''missing_bearer''
      else
        (let tok = TrimPrefix header ''Bearer '' in
         if LooksLikeDeployToken tok then
           orelse (verifyDeployToken sv tok) (\<lambda>_. fail 401 ''bad_token'') handler
         else do {
           v \<leftarrow> get_verifier;
           if \<not> jwt_Enabled v then fail 401 ''jwt_disabled''
           else orelse (jwt_Verify sv tok) (\<lambda>_. fail 401 ''bad_jwt'') (\<lambda>c.
                orelse (UpsertUserByEmail (cl_email c) (DisplayName c)) (\<lambda>_. fail 500 ''user_upsert'') (\<lambda>u.
                handler (user_actor u)))
         }))"


section \<open>Project API tokens (internal/api/api\_tokens.go)\<close>

definition handleRegenerateProjectAPIToken :: "server \<Rightarrow> actor \<Rightarrow> project \<Rightarrow> response prog" where
  "handleRegenerateProjectAPIToken sv a p =
     (if \<not> canManageProject a p then fail 403 ''not_authorised''
      else orelse (GenerateAPIToken (sv_crypto sv)) (\<lambda>_. fail 500 ''rng'') (\<lambda>(plain, hash, pfx).
        orelse (SetProjectAPIToken (p_id p) (Some hash) pfx) db_error (\<lambda>_. do {
          _ \<leftarrow> audit a ''project.api_token.regenerate'' (Some (p_id p)) (JObj [(''prefix'', JStr pfx)]);
          State_Monad.return (Reply 201 (JObj [(''token'', JStr plain), (''prefix'', JStr pfx)]))
        })))"

definition handleRevokeProjectAPIToken :: "actor \<Rightarrow> project \<Rightarrow> response prog" where
  "handleRevokeProjectAPIToken a p =
     (if \<not> canManageProject a p then fail 403 ''not_authorised''
      else orelse (SetProjectAPIToken (p_id p) None []) db_error (\<lambda>_. do {
        _ \<leftarrow> audit a ''project.api_token.revoke'' (Some (p_id p)) JNull;
        reply_ok
      }))"

definition lookup_custom_domain :: "string \<Rightarrow> project option prog" where
  "lookup_custom_domain host = do {
     r \<leftarrow> LookupProjectIDByHostname host;
     case r of
       Inl _ \<Rightarrow> State_Monad.return None
     | Inr pid \<Rightarrow> do {
         q \<leftarrow> GetProjectByID pid;
         State_Monad.return (case q of Inl _ \<Rightarrow> None | Inr p \<Rightarrow> Some p)
       }
   }"

definition lookupProjectByHostname :: "server \<Rightarrow> string \<Rightarrow> project option prog" where
  "lookupProjectByHostname sv host =
     (let base = ToLower (sv_base sv); suffix = ''.'' @ base in
      if base \<noteq> [] \<and> HasSuffix host suffix then do {
        r \<leftarrow> GetProjectBySlug (TrimSuffix host suffix);
        case r of
          Inr p \<Rightarrow> State_Monad.return (Some p)
        | Inl e \<Rightarrow> if e \<noteq> ErrNotFound then State_Monad.return None else lookup_custom_domain host
      }
      else lookup_custom_domain host)"

text \<open>The headers X-Forwarded-Host and Authorization, and the request's own host.\<close>

definition request_host :: "string \<Rightarrow> string \<Rightarrow> string" where
  "request_host fwd host =
     (let h = ToLower (TrimSpace (if fwd = [] then host else fwd))
      in case SplitHostPort h of Some (x, _) \<Rightarrow> x | None \<Rightarrow> h)"

definition check_api_token :: "server \<Rightarrow> project \<Rightarrow> string \<Rightarrow> response prog" where
  "check_api_token sv p auth =
     (if \<not> HasPrefix auth ''Bearer '' then fail 401 ''no_bearer''
      else
        (let tok = TrimSpace (drop 7 auth) in
         if tok = [] then fail 401 ''empty_token''
         else do {
           r \<leftarrow> GetProjectAPITokenHash (p_id p);
           case r of
             Inr (Some hash) \<Rightarrow>
               if hash \<noteq> HashToken (sv_crypto sv) tok then fail 401 ''bad_token''
               else State_Monad.return (Status 200 [])
           | _ \<Rightarrow> fail 401 ''no_token_set''
         }))"

definition handleInternalVerifyAPIToken :: "server \<Rightarrow> string \<Rightarrow> string \<Rightarrow> string \<Rightarrow> response prog" where
  "handleInternalVerifyAPIToken sv fwd host auth =
     (let h = request_host fwd host in
      if h = [] then fail 401 ''no_host''
      else do {
        r \<leftarrow> lookupProjectByHostname sv h;
        case r of None \<Rightarrow> fail 401 ''unknown_host'' | Some p \<Rightarrow> check_api_token sv p auth
      })"


section \<open>Forward-auth (internal/api/forwardauth.go)\<close>

definition strip_port :: "string \<Rightarrow> string" where
  "strip_port host =
     (case LastIndexByte host (CHR '':'') of
        None \<Rightarrow> host
      | Some i \<Rightarrow> if i > 0 \<and> \<not> Contains (drop i host) '']'' then take i host else host)"

definition auth_text :: "int \<Rightarrow> string \<Rightarrow> response prog" where
  "auth_text st msg = State_Monad.return (Text st msg)"

definition lookupOwnerEmail :: "uuid \<Rightarrow> string fallible" where
  "lookupOwnerEmail i = query_row (\<lambda>d. map_option u_email (find_row (\<lambda>u. u_id u = i) (users d)))"

text \<open>The decision for a project that was found.\<close>

definition auth_decision :: "project \<Rightarrow> string \<Rightarrow> string \<Rightarrow> response prog" where
  "auth_decision p email groups =
     (if p_visibility p = ''public'' then State_Monad.return (Status 200 [])
      else if p_visibility p = ''org'' then
        (if email = [] then auth_text 401 ''auth required''
         else State_Monad.return (Status 200 [(''X-Vibedeploy-User-Email'', email), (''X-Vibedeploy-User-Groups'', groups)]))
      else if p_visibility p = ''restricted'' then
        (if email = [] then auth_text 401 ''auth required''
         else do {
           r \<leftarrow> lookupOwnerEmail (p_owner p);
           case r of
             Inr owner \<Rightarrow> if EqualFold owner email then State_Monad.return (Status 200 []) else auth_text 403 ''not on ACL''
           | Inl _ \<Rightarrow> auth_text 403 ''not on ACL''
         })
      else auth_text 403 ''unknown visibility'')"

definition auth_custom_domain :: "string \<Rightarrow> string \<Rightarrow> string \<Rightarrow> response prog" where
  "auth_custom_domain host email groups =
     orelse (LookupProjectIDByHostname host)
       (\<lambda>e. if e = ErrNotFound then auth_text 403 ''unknown host'' else auth_text 500 ''db error'') (\<lambda>pid.
     orelse (query_row (\<lambda>d. map_option p_slug (find_row (\<lambda>p. p_id p = pid \<and> live p) (projects d))))
       (\<lambda>_. auth_text 403 ''unknown project'') (\<lambda>slug.
     orelse (GetProjectBySlug slug) (\<lambda>_. auth_text 403 ''unknown project'') (\<lambda>p.
     auth_decision p email groups)))"

definition handleAuthCheck :: "server \<Rightarrow> string \<Rightarrow> string \<Rightarrow> string \<Rightarrow> string \<Rightarrow> response prog" where
  "handleAuthCheck sv fwd own_host email groups =
     (let host = strip_port (ToLower (TrimSpace (if fwd = [] then own_host else fwd))); suffix = ''.'' @ sv_base sv in
      if HasSuffix host suffix then
        (let slug = TrimSuffix host suffix in
         if slug = [] then auth_text 403 ''unknown host''
         else do {
           r \<leftarrow> GetProjectBySlug slug;
           case r of
             Inr p \<Rightarrow> auth_decision p email groups
           | Inl _ \<Rightarrow> auth_custom_domain host email groups
         })
      else auth_custom_domain host email groups)"


section \<open>Tokens the platform mints (cmd/control-plane/main.go)\<close>

definition days :: "int \<Rightarrow> int" where "days n = n * 86400000"

definition mint_admin :: "string \<Rightarrow> int \<Rightarrow> string \<times> string \<times> string \<Rightarrow> string fallible" where
  "mint_admin name ttl tok = do {
     t \<leftarrow> get_now;
     attempt (CreateDeployToken \<lparr>ti_project = None, ti_name = name, ti_hash = fst (snd tok), ti_prefix = snd (snd tok),
       ti_scopes = [''admin''], ti_allow_db = True, ti_expires = t + ttl, ti_creator = None\<rparr>) (\<lambda>_. ok (fst tok))
   }"

text \<open>The result is the plaintext printed on the first boot, \<open>None\<close> later.\<close>

definition ensureBootstrapToken :: "crypto \<Rightarrow> string \<Rightarrow> string option fallible" where
  "ensureBootstrapToken cr preset =
     attempt (query (\<lambda>d. length (filter (\<lambda>t. t_project t = None) (tokens d)))) (\<lambda>n.
     if n > 0 then ok None
     else attempt (if preset = [] then GenerateToken cr ''live'' else ok (minted cr preset)) (\<lambda>tok.
       attempt (mint_admin ''bootstrap-dev'' (days 365) tok) (\<lambda>plain. ok (Some plain))))"

definition runSeedDevToken :: "crypto \<Rightarrow> string fallible" where
  "runSeedDevToken cr = attempt (GenerateToken cr ''live'') (mint_admin ''dev-cli'' (days 90))"

end
