(* ===== verification/Admin.thy ===== *)
theory Admin
  imports Projects Auth
begin

text \<open>
  Logging in through the identity provider (internal/api/oidc.go), the platform's runtime
  settings (internal/config/runtime.go, internal/api/admin\_settings.go) and the admin's views
  and user management (internal/api/admin.go).
\<close>


section \<open>The login state (internal/api/oidc.go)\<close>

text \<open>\<open>time.Now().UnixNano()\<close> and the big-endian encoding of its 64 bits.\<close>

definition unix_nano :: "int \<Rightarrow> 64 word" where
  "unix_nano t = word_of_int (t * 1000000)"

definition be64 :: "64 word \<Rightarrow> string" where
  "be64 x = map (\<lambda>i. char_of (unat x div 256 ^ (7 - i) mod 256)) [0..<8]"

definition be64_dec :: "string \<Rightarrow> 64 word" where
  "be64_dec s = of_nat (foldl (\<lambda>a c. 256 * a + byte c) 0 s)"

definition oidcStateTTL :: "64 word" where "oidcStateTTL = 600000000000"

definition oidcSigningKey :: "server \<Rightarrow> string" where
  "oidcSigningKey sv = Derive (sv_crypto sv) (sv_kek sv) ''vibedeploy-oidc-state-v1''"

definition state_mac :: "server \<Rightarrow> string \<Rightarrow> string" where
  "state_mac sv payload = cr_hmac (sv_crypto sv) payload (oidcSigningKey sv)"

definition signOIDCState :: "server \<Rightarrow> string \<Rightarrow> string fallible" where
  "signOIDCState sv nxt =
     attempt (rand_Read 16) (\<lambda>nonce. do {
       t \<leftarrow> get_now;
       let payload = nonce @ be64 (unix_nano t + oidcStateTTL) @ nxt in
       ok (cr_b64url (sv_crypto sv) (payload @ state_mac sv payload))
     })"

definition verifyOIDCState :: "server \<Rightarrow> int \<Rightarrow> string \<Rightarrow> err + string" where
  "verifyOIDCState sv t blob =
     (case cr_b64urldec (sv_crypto sv) blob of
        None \<Rightarrow> Inl (ErrOther ''state not base64'')
      | Some full \<Rightarrow>
          if length full < 16 + 8 + 32 then Inl (ErrOther ''state truncated'')
          else
            (let sig = drop (length full - 32) full; payload = take (length full - 32) full in
             if sig \<noteq> state_mac sv payload then Inl (ErrOther ''signature mismatch'')
             else if sint (unix_nano t) > sint (be64_dec (take 8 (drop 16 payload)))
             then Inl (ErrOther ''state expired'')
             else Inr (drop 24 payload)))"


section \<open>Login and callback\<close>

definition get_kc :: "kc_settings prog" where
  "get_kc = State (\<lambda>w. (rt_kc w, w))"

definition oidcEnabled :: "bool prog" where
  "oidcEnabled = do {
     kc \<leftarrow> get_kc;
     v \<leftarrow> get_verifier;
     State_Monad.return (kc_auth_url kc \<noteq> [] \<and> kc_token_url kc \<noteq> [] \<and> kc_client_id kc \<noteq> [] \<and>
       kc_client_secret kc \<noteq> [] \<and> kc_redirect_url kc \<noteq> [] \<and> jwt_Enabled v)
   }"

definition handleOIDCStatus :: "response prog" where
  "handleOIDCStatus = do {
     kc \<leftarrow> get_kc;
     enabled \<leftarrow> oidcEnabled;
     State_Monad.return (Reply 200 (JObj [(''enabled'', JBool enabled),
       (''brand'', JStr (if kc_brand kc = [] then ''SSO'' else kc_brand kc))]))
   }"

text \<open>\<open>url.QueryEscape\<close>.\<close>

definition upper_hex :: "nat \<Rightarrow> char" where
  "upper_hex d = ''0123456789ABCDEF'' ! (d mod 16)"

definition unreserved :: "char \<Rightarrow> bool" where
  "unreserved c = (is_lower c \<or> is_upper c \<or> is_digit c \<or> c \<in> {CHR ''-'', CHR ''_'', CHR ''.'', CHR ''~''})"

definition QueryEscape :: "string \<Rightarrow> string" where
  "QueryEscape s = concat (map (\<lambda>c.
     if unreserved c then [c]
     else if c = CHR '' '' then ''+''
     else [CHR ''%'', upper_hex (byte c div 16), upper_hex (byte c mod 16)]) s)"

definition local_path :: "string \<Rightarrow> string" where
  "local_path nxt = (if nxt = [] \<or> \<not> HasPrefix nxt ''/'' then ''/'' else nxt)"

text \<open>\<open>Values.Encode\<close> writes the parameters in the order of their names.\<close>

definition login_url :: "kc_settings \<Rightarrow> string \<Rightarrow> string" where
  "login_url kc st =
     kc_auth_url kc @ ''?'' @
     Join (map (\<lambda>(k, v). k @ ''='' @ QueryEscape v)
       [(''client_id'', kc_client_id kc), (''redirect_uri'', kc_redirect_url kc), (''response_type'', ''code''),
        (''scope'', ''openid email profile''), (''state'', st)]) ''&''"

definition handleOIDCLogin :: "server \<Rightarrow> string \<Rightarrow> response prog" where
  "handleOIDCLogin sv nxt = do {
     enabled \<leftarrow> oidcEnabled;
     if \<not> enabled then fail 503 ''oidc_disabled''
     else orelse (signOIDCState sv (local_path nxt)) (\<lambda>_. fail 500 ''state_sign'') (\<lambda>st. do {
       kc \<leftarrow> get_kc;
       State_Monad.return (Redirect (login_url kc st))
     })
   }"

text \<open>The POST to the token endpoint, whose answer to a code is \<open>token_at\<close>.\<close>

definition read_token_response :: "int \<Rightarrow> json option \<Rightarrow> err + string" where
  "read_token_response st body =
     (case decode_struct body of
        None \<Rightarrow> Inl (ErrOther ''decode token response'')
      | Some kvs \<Rightarrow>
          (case (str_field ''access_token'' kvs, str_field ''error'' kvs, str_field ''error_description'' kvs) of
             (Some tok, Some e, Some _) \<Rightarrow>
               if e \<noteq> [] then Inl (ErrOther e)
               else if st div 100 \<noteq> 2 then Inl (ErrOther ''token endpoint'')
               else if tok = [] then Inl (ErrOther ''no access_token in response'')
               else Inr tok
           | _ \<Rightarrow> Inl (ErrOther ''decode token response'')))"

definition exchangeOIDCCode :: "string \<Rightarrow> string fallible" where
  "exchangeOIDCCode code = call (\<lambda>w. (case token_at w code of (st, body) \<Rightarrow> read_token_response st body, w))"

text \<open>The date of a time, as year, month and day.\<close>

definition civil_date :: "int \<Rightarrow> int \<times> int \<times> int" where
  "civil_date t =
     (let z = t div 86400000 + 719468; era = z div 146097; doe = z - era * 146097;
          yoe = (doe - doe div 1460 + doe div 36524 - doe div 146096) div 365;
          doy = doe - (365 * yoe + yoe div 4 - yoe div 100);
          mp = (5 * doy + 2) div 153; d = doy - (153 * mp + 2) div 5 + 1;
          m = (if mp < 10 then mp + 3 else mp - 9); y = yoe + era * 400
      in (if m \<le> 2 then y + 1 else y, m, d))"

definition padded :: "nat \<Rightarrow> int \<Rightarrow> string" where
  "padded n i = replicate (n - length (Itoa i)) (CHR ''0'') @ Itoa i"

definition date_str :: "int \<Rightarrow> string" where
  "date_str t = (case civil_date t of (y, m, d) \<Rightarrow> padded 4 y @ ''-'' @ padded 2 m @ ''-'' @ padded 2 d)"

definition session_scopes :: "bool \<Rightarrow> string list" where
  "session_scopes admin = (if admin then [''admin''] else [''push'', ''logs:read'', ''env:read'', ''env:write''])"

text \<open>The end of the callback: the account, its session token, the way back to the UI.\<close>

definition oidc_session :: "server \<Rightarrow> string \<Rightarrow> string \<Rightarrow> string \<Rightarrow> response prog" where
  "oidc_session sv email name nxt =
     orelse (UpsertUserByEmail email name) (\<lambda>_. fail 500 ''upsert'') (\<lambda>u.
     orelse (GenerateToken (sv_crypto sv) ''live'') (\<lambda>_. fail 500 ''mint'') (\<lambda>(plain, hash, pfx). do {
       t \<leftarrow> get_now;
       orelse (CreateDeployToken \<lparr>ti_project = None, ti_name = ''oidc-session-'' @ date_str t, ti_hash = hash,
           ti_prefix = pfx, ti_scopes = session_scopes (u_admin u), ti_allow_db = u_admin u,
           ti_expires = t + days 90, ti_creator = Some (u_id u)\<rparr>) (\<lambda>_. fail 500 ''create_token'') (\<lambda>_. do {
         _ \<leftarrow> WriteAudit ''user'' (u_id u) ''auth.oidc-login'' None (JObj [(''email'', JStr email)]);
         State_Monad.return (Redirect (''/login?token='' @ QueryEscape plain @ ''&next='' @ QueryEscape (local_path nxt)))
       })
     }))"

definition handleOIDCCallback :: "server \<Rightarrow> string \<Rightarrow> string \<Rightarrow> string \<Rightarrow> response prog" where
  "handleOIDCCallback sv err_param code blob = do {
     enabled \<leftarrow> oidcEnabled;
     if \<not> enabled then fail 503 ''oidc_disabled''
     else if err_param \<noteq> [] then fail 400 ''oidc_error''
     else if code = [] \<or> blob = [] then fail 400 ''bad_request''
     else do {
       t \<leftarrow> get_now;
       case verifyOIDCState sv t blob of
         Inl _ \<Rightarrow> fail 400 ''bad_state''
       | Inr nxt \<Rightarrow>
           orelse (exchangeOIDCCode code) (\<lambda>_. fail 502 ''exchange'') (\<lambda>access.
           orelse (jwt_Verify sv access) (\<lambda>_. fail 401 ''bad_access_token'') (\<lambda>c.
             (let email = ToLower (TrimSpace (cl_email c))
              in if email = [] then fail 400 ''no_email'' else oidc_session sv email (DisplayName c) nxt)))
     }
   }"


section \<open>Runtime settings (internal/config/runtime.go)\<close>

definition applied :: "(string \<Rightarrow> string option) \<Rightarrow> string \<Rightarrow> string \<Rightarrow> string" where
  "applied kv key dflt = (case kv key of Some v \<Rightarrow> if v \<noteq> [] then v else dflt | None \<Rightarrow> dflt)"

definition overlay :: "(string \<Rightarrow> string option) \<Rightarrow> kc_settings \<Rightarrow> kc_settings" where
  "overlay kv e =
     \<lparr>kc_issuer = TrimRight (CHR ''/'') (applied kv ''kc.issuer'' (kc_issuer e)),
      kc_jwks_url = applied kv ''kc.jwks_url'' (kc_jwks_url e),
      kc_audience = applied kv ''kc.audience'' (kc_audience e),
      kc_auth_url = applied kv ''kc.authorization_url'' (kc_auth_url e),
      kc_token_url = applied kv ''kc.token_url'' (kc_token_url e),
      kc_client_id = applied kv ''kc.client_id'' (kc_client_id e),
      kc_client_secret = applied kv ''kc.client_secret'' (kc_client_secret e),
      kc_redirect_url = applied kv ''kc.redirect_url'' (kc_redirect_url e),
      kc_auth_host = applied kv ''auth.host'' (kc_auth_host e),
      kc_cookie_secret = applied kv ''auth.cookie_secret'' (kc_cookie_secret e),
      kc_cookie_domain = applied kv ''auth.cookie_domain'' (kc_cookie_domain e),
      kc_brand = applied kv ''auth.brand_name'' (kc_brand e)\<rparr>"

definition set_kc :: "kc_settings \<Rightarrow> unit prog" where
  "set_kc kc = State_Monad.update (\<lambda>w. w\<lparr>rt_kc := kc\<rparr>)"

definition Reload :: "server \<Rightarrow> unit fallible" where
  "Reload sv = attempt GetSystemConfig (\<lambda>kv. do { _ \<leftarrow> set_kc (overlay kv (sv_env_kc sv)); ok () })"

definition RebuildJWTVerifier :: "unit prog" where
  "RebuildJWTVerifier =
     State_Monad.update (\<lambda>w. w\<lparr>jwt_v := NewJWTVerifier (kc_issuer (rt_kc w)) (kc_audience (rt_kc w)) (kc_jwks_url (rt_kc w))\<rparr>)"


section \<open>The settings page (internal/api/admin\_settings.go)\<close>

definition redact :: "string \<Rightarrow> string" where
  "redact v = (if v = [] then [] else ''********'')"

definition JKC :: "kc_settings \<Rightarrow> json" where
  "JKC kc = JObj [(''issuer'', JStr (kc_issuer kc)), (''jwks_url'', JStr (kc_jwks_url kc)),
     (''audience'', JStr (kc_audience kc)), (''authorization_url'', JStr (kc_auth_url kc)),
     (''token_url'', JStr (kc_token_url kc)), (''client_id'', JStr (kc_client_id kc)),
     (''client_secret'', JStr (redact (kc_client_secret kc))), (''redirect_url'', JStr (kc_redirect_url kc)),
     (''auth_host'', JStr (kc_auth_host kc)), (''cookie_secret'', JStr (redact (kc_cookie_secret kc))),
     (''cookie_domain'', JStr (kc_cookie_domain kc)), (''brand_name'', JStr (kc_brand kc))]"

definition handleAdminGetSettings :: "actor \<Rightarrow> response prog" where
  "handleAdminGetSettings a =
     (if \<not> isAdminActor a then fail 403 ''not_admin''
      else do {
        kc \<leftarrow> get_kc;
        orelse ListSystemConfig db_error (\<lambda>es.
          State_Monad.return (Reply 200 (JObj [(''kc'', JKC kc),
            (''meta'', JObj (map (\<lambda>c. (s_key c, JObj [(''has_override'', JBool True), (''updated_at'', JNum (s_updated c))])) es))])))
      })"

definition key_map :: "(string \<times> string) list" where
  "key_map = [(''issuer'', ''kc.issuer''), (''jwks_url'', ''kc.jwks_url''), (''audience'', ''kc.audience''),
     (''authorization_url'', ''kc.authorization_url''), (''token_url'', ''kc.token_url''),
     (''client_id'', ''kc.client_id''), (''client_secret'', ''kc.client_secret''),
     (''redirect_url'', ''kc.redirect_url''), (''auth_host'', ''auth.host''),
     (''cookie_secret'', ''auth.cookie_secret''), (''cookie_domain'', ''auth.cookie_domain''),
     (''brand_name'', ''auth.brand_name'')]"

text \<open>The \<open>kc\<close> field, a map from field to string or null; the inner \<open>None\<close> is a nil map.\<close>

fun dec_opt_pairs :: "(string \<times> json) list \<Rightarrow> (string \<times> string option) list option" where
  "dec_opt_pairs [] = Some []"
| "dec_opt_pairs ((k, JStr s) # kvs) = map_option (Cons (k, Some s)) (dec_opt_pairs kvs)"
| "dec_opt_pairs ((k, JNull) # kvs) = map_option (Cons (k, None)) (dec_opt_pairs kvs)"
| "dec_opt_pairs (_ # kvs) = None"

definition kc_field :: "(string \<times> json) list \<Rightarrow> (string \<times> string option) list option option" where
  "kc_field kvs =
     (case raw_field ''kc'' kvs of
        None \<Rightarrow> Some None
      | Some JNull \<Rightarrow> Some None
      | Some (JObj ps) \<Rightarrow> map_option Some (dec_opt_pairs ps)
      | _ \<Rightarrow> None)"

text \<open>The updates, one per known field: the last value of a field counts, and neither null nor
  the redaction sentinel changes anything. Here in the order of \<open>key_map\<close>.\<close>

definition setting_updates :: "(string \<times> string option) list \<Rightarrow> (string \<times> string) list" where
  "setting_updates ps = List.map_filter (\<lambda>(field, key).
     case map_of (rev ps) field of
       Some (Some v) \<Rightarrow> if v = ''********'' then None else Some (key, v)
     | _ \<Rightarrow> None) key_map"

definition handleAdminPatchSettings :: "server \<Rightarrow> actor \<Rightarrow> json option \<Rightarrow> response prog" where
  "handleAdminPatchSettings sv a body =
     (if \<not> isAdminActor a then fail 403 ''not_admin''
      else case Option.bind (decode_struct body) kc_field of
        None \<Rightarrow> fail 400 ''bad_json''
      | Some None \<Rightarrow> fail 400 ''no_op''
      | Some (Some ps) \<Rightarrow>
          (let updates = setting_updates ps; n = int (length updates) in
           if updates = [] then State_Monad.return (Reply 200 (JObj [(''ok'', JBool True), (''changed'', JNum 0)]))
           else
             orelse (BulkSetSystemConfig updates (actorUserIDPtr a)) db_error (\<lambda>_.
             orelse (Reload sv) (\<lambda>_. fail 500 ''reload'') (\<lambda>_. do {
               _ \<leftarrow> RebuildJWTVerifier;
               _ \<leftarrow> audit a ''settings.update'' None (JObj [(''keys'', JStrs (map fst updates))]);
               State_Monad.return (Reply 200 (JObj [(''ok'', JBool True), (''changed'', JNum n)]))
             }))))"


section \<open>Users (internal/api/admin.go)\<close>

definition JUser :: "user \<Rightarrow> json" where
  "JUser u = JObj [(''id'', JStr (u_id u)), (''email'', JStr (u_email u)), (''name'', JStr (u_name u)),
     (''is_admin'', JBool (u_admin u)), (''created_at'', JNum (u_created u)), (''last_seen_at'', json_time (u_seen u))]"

definition paged :: "string \<Rightarrow> json list \<Rightarrow> nat \<Rightarrow> int \<Rightarrow> int \<Rightarrow> response" where
  "paged name items n limit offset =
     Reply 200 (JObj [(name, JArr items), (''total'', JNum (int n)), (''limit'', JNum limit), (''offset'', JNum offset)])"

definition handleAdminListUsers :: "actor \<Rightarrow> string \<Rightarrow> string \<Rightarrow> response prog" where
  "handleAdminListUsers a lim off =
     (if \<not> isAdminActor a then fail 403 ''not_admin''
      else
        (let (limit, offset) = parsePager lim off 10 200 in
         orelse (query (\<lambda>d. length (users d))) db_error (\<lambda>cnt.
         orelse (query (\<lambda>d. page limit offset (sort_key (\<lambda>u. - u_created u) (users d)))) db_error (\<lambda>us.
         State_Monad.return (paged ''users'' (map JUser us) cnt limit offset)))))"

definition admin_count :: "database \<Rightarrow> nat" where
  "admin_count d = length (filter u_admin (users d))"

text \<open>A failing count or look-up leaves the zero value.\<close>

definition or_zero :: "'a \<Rightarrow> 'a fallible \<Rightarrow> 'a prog" where
  "or_zero z m = do { r \<leftarrow> m; State_Monad.return (case r of Inl _ \<Rightarrow> z | Inr x \<Rightarrow> x) }"

definition set_admin :: "uuid \<Rightarrow> bool \<Rightarrow> int fallible" where
  "set_admin i b = statement (\<lambda>_ d.
     (Inr (int (length (filter (\<lambda>u. u_id u = i) (users d)))),
      d\<lparr>users := update_rows (\<lambda>u. u_id u = i) (\<lambda>u. u\<lparr>u_admin := b\<rparr>) (users d)\<rparr>))"

text \<open>The last path segment \<open>seg\<close> is the user's id, and \<open>i\<close> what the database reads it as:
  \<open>None\<close> when it is not a UUID, so that every statement with it fails.\<close>

definition patch_user :: "actor \<Rightarrow> string \<Rightarrow> uuid option \<Rightarrow> bool \<Rightarrow> response prog" where
  "patch_user a seg i admin =
     (case i of
        None \<Rightarrow> do {
          _ \<leftarrow> (if admin then State_Monad.return 0 else or_zero 0 (query admin_count));
          _ \<leftarrow> (if admin then State_Monad.return False else or_zero False (query (\<lambda>_. False)));
          _ \<leftarrow> query (\<lambda>_. ());
          fail 500 ''db''
        }
      | Some uid \<Rightarrow> do {
          n \<leftarrow> (if admin then State_Monad.return 0 else or_zero 0 (query admin_count));
          cur \<leftarrow> (if admin then State_Monad.return False
                 else or_zero False (query_row (\<lambda>d. map_option u_admin (find_row (\<lambda>u. u_id u = uid) (users d)))));
          if \<not> admin \<and> cur \<and> n \<le> 1 then fail 400 ''last_admin''
          else orelse (set_admin uid admin) db_error (\<lambda>k.
            if k = 0 then fail 404 ''not_found''
            else do {
              _ \<leftarrow> audit a ''user.set_admin'' None (JObj [(''user_id'', JStr seg), (''is_admin'', JBool admin)]);
              reply_ok
            })
        })"

definition handleAdminPatchUser :: "actor \<Rightarrow> string \<Rightarrow> uuid option \<Rightarrow> json option \<Rightarrow> response prog" where
  "handleAdminPatchUser a seg i body =
     (if \<not> isAdminActor a then fail 403 ''not_admin''
      else if seg = [] then fail 400 ''bad_id''
      else case Option.bind (decode_struct body) (\<lambda>kvs. dec_bool_ptr None (field_values ''is_admin'' kvs)) of
        None \<Rightarrow> fail 400 ''bad_json''
      | Some None \<Rightarrow> fail 400 ''no_op''
      | Some (Some b) \<Rightarrow> patch_user a seg i b)"


section \<open>Overviews (internal/api/admin.go)\<close>

text \<open>Both are open to every authenticated caller.\<close>

definition handleAdminProjects :: "server \<Rightarrow> string \<Rightarrow> string \<Rightarrow> response prog" where
  "handleAdminProjects sv lim off =
     (let (limit, offset) = parsePager lim off 10 200 in
      orelse (query (\<lambda>d. length (filter live (projects d)))) db_error (\<lambda>cnt.
      orelse (query (\<lambda>d. map (\<lambda>p. (p, map_option u_email (find_row (\<lambda>u. u_id u = p_owner p) (users d))))
               (page limit offset (sort_key (\<lambda>p. - p_created p) (filter live (projects d)))))) db_error (\<lambda>ps.
      State_Monad.return (paged ''projects'' (map (\<lambda>(p, email).
        JObj ([(''id'', JStr (p_id p)), (''slug'', JStr (p_slug p)), (''name'', JStr (p_name p)), (''owner_id'', JStr (p_owner p)),
               (''owner_email'', JStr (case email of None \<Rightarrow> [] | Some e \<Rightarrow> e)), (''visibility'', JStr (p_visibility p)),
               (''status'', JStr (status_str (p_status p))), (''created_at'', JNum (p_created p))] @
              time_field ''last_pushed_at'' (p_pushed p) @ time_field ''last_active_at'' (p_active p) @
              [(''url'', JStr (projectURL sv (p_slug p)))] @
              (case p_preset p of None \<Rightarrow> [] | Some n \<Rightarrow> [(''access_preset'', JStr n)]) @
              [(''allow_cidrs'', JStrs (p_allow_cidrs p))])) ps) cnt limit offset))))"

definition count_query :: "(database \<Rightarrow> nat) \<Rightarrow> int prog" where
  "count_query f = or_zero 0 (attempt (query f) (\<lambda>n. ok (int n)))"

definition recent :: "int \<Rightarrow> deployment \<Rightarrow> bool" where
  "recent t x = (d_created x > t - days 1)"

definition handleAdminMetrics :: "response prog" where
  "handleAdminMetrics = do {
     t \<leftarrow> get_now;
     total \<leftarrow> count_query (\<lambda>d. length (filter live (projects d)));
     running \<leftarrow> count_query (\<lambda>d. length (filter (\<lambda>p. live p \<and> p_status p = PRunning) (projects d)));
     failed \<leftarrow> count_query (\<lambda>d. length (filter (\<lambda>p. live p \<and> p_status p = PError) (projects d)));
     last24 \<leftarrow> count_query (\<lambda>d. length (filter (recent t) (deployments d)));
     flight \<leftarrow> count_query (\<lambda>d. length (filter (\<lambda>x. d_status x \<in> {Queued, Building, Pushing, Deploying}) (deployments d)));
     failed24 \<leftarrow> count_query (\<lambda>d. length (filter (\<lambda>x. d_status x = Failed \<and> recent t x) (deployments d)));
     State_Monad.return (Reply 200 (JObj
       [(''projects'', JObj [(''total'', JNum total), (''running'', JNum running), (''failed'', JNum failed)]),
        (''deployments'', JObj [(''last_24h'', JNum last24), (''in_flight'', JNum flight), (''failed_last_24h'', JNum failed24)])]))
   }"

definition deref :: "string option \<Rightarrow> string" where
  "deref s = (case s of None \<Rightarrow> [] | Some x \<Rightarrow> x)"

definition resolveActorIdentity ::
  "string option \<Rightarrow> string option \<Rightarrow> string option \<Rightarrow> string \<Rightarrow> string \<times> string" where
  "resolveActorIdentity email token_name token_owner actor_id =
     (if deref email \<noteq> [] then (deref email, [])
      else if deref token_owner \<noteq> [] then (deref token_owner, deref token_name)
      else if deref token_name \<noteq> [] then (deref token_name, [])
      else (actor_id, []))"

text \<open>The joins of the audit query.\<close>

definition audit_identity :: "database \<Rightarrow> audit_row \<Rightarrow> string \<times> string" where
  "audit_identity d r =
     (let user = (if a_type r = ''user'' then find_row (\<lambda>u. u_id u = a_actor r) (users d) else None);
          tok = (if a_type r = ''token'' then find_row (\<lambda>t. t_id t = a_actor r) (tokens d) else None);
          owner = Option.bind (Option.bind tok t_creator) (\<lambda>i. find_row (\<lambda>u. u_id u = i) (users d))
      in resolveActorIdentity (map_option u_email user) (map_option t_name tok) (map_option u_email owner) (a_actor r))"

definition JAudit :: "database \<Rightarrow> audit_row \<Rightarrow> json" where
  "JAudit d r =
     (case audit_identity d r of (label, via) \<Rightarrow>
        JObj ([(''actor_type'', JStr (a_type r)), (''actor_id'', JStr (a_actor r)), (''actor_label'', JStr label)] @
              opt_field ''actor_via'' (Some via) @ [(''action'', JStr (a_action r))] @
              opt_field ''project_id'' (a_project r) @ [(''metadata'', a_meta r), (''created_at'', JNum (a_at r))]))"

definition handleAdminAudit :: "actor \<Rightarrow> string \<Rightarrow> string \<Rightarrow> response prog" where
  "handleAdminAudit a lim off =
     (if \<not> isAdminActor a then fail 403 ''not_admin''
      else
        (let (limit, offset) = parsePager lim off 10 500 in
         orelse (query (\<lambda>d. length (audits d))) db_error (\<lambda>cnt.
         orelse (query (\<lambda>d. map (JAudit d) (page limit offset (sort_key (\<lambda>r. - a_at r) (audits d))))) db_error (\<lambda>rs.
         State_Monad.return (paged ''entries'' rs cnt limit offset)))))"

end
