(* ===== verification/Events.thy ===== *)
theory Events
  imports Projects
begin

text \<open>
  Live deployment events: the in-process bus (internal/events/bus.go), the event stream of a
  deployment (internal/api/sse.go) and the logs of a project's pods (deployer.go).

  A stream is a list of frames. Between two rounds of the stream other requests and workers
  run; they are programs the stream's loop is given, one per round.
\<close>


section \<open>The bus\<close>

text \<open>A subscription: the deployment, the channel and how many signals wait in it. A channel
  holds at most 16.\<close>

record subscription =
  sub_dep :: uuid
  sub_chan :: nat
  sub_pending :: nat

record bus =
  bus_subs :: "subscription list"
  bus_next :: nat

definition bus_capacity :: nat where "bus_capacity = 16"

definition NewBus :: bus where "NewBus = \<lparr>bus_subs = [], bus_next = 0\<rparr>"

definition Subscribe :: "uuid \<Rightarrow> bus \<Rightarrow> nat \<times> bus" where
  "Subscribe dep b =
     (bus_next b, b\<lparr>bus_subs := bus_subs b @ [\<lparr>sub_dep = dep, sub_chan = bus_next b, sub_pending = 0\<rparr>],
        bus_next := Suc (bus_next b)\<rparr>)"

definition cancel_sub :: "nat \<Rightarrow> bus \<Rightarrow> bus" where
  "cancel_sub ch b = b\<lparr>bus_subs := filter (\<lambda>s. sub_chan s \<noteq> ch) (bus_subs b)\<rparr>"

text \<open>A send to a full channel is dropped.\<close>

definition signal :: "subscription \<Rightarrow> subscription" where
  "signal s = (if sub_pending s < bus_capacity then s\<lparr>sub_pending := Suc (sub_pending s)\<rparr> else s)"

definition Publish :: "uuid \<Rightarrow> bus \<Rightarrow> bus" where
  "Publish dep b = b\<lparr>bus_subs := map (\<lambda>s. if sub_dep s = dep then signal s else s) (bus_subs b)\<rparr>"

definition receive :: "nat \<Rightarrow> bus \<Rightarrow> (bool \<times> bus)" where
  "receive ch b =
     (list_ex (\<lambda>s. sub_chan s = ch \<and> sub_pending s > 0) (bus_subs b),
      b\<lparr>bus_subs := map (\<lambda>s. if sub_chan s = ch \<and> sub_pending s > 0 then s\<lparr>sub_pending := sub_pending s - 1\<rparr> else s) (bus_subs b)\<rparr>)"

text \<open>In the world of the handlers a publication is only recorded.\<close>

definition publish :: "uuid \<Rightarrow> unit prog" where
  "publish dep = State_Monad.update (\<lambda>w. w\<lparr>published := published w @ [dep]\<rparr>)"


section \<open>The event stream (internal/api/sse.go)\<close>

definition terminal_status :: "dstatus \<Rightarrow> bool" where
  "terminal_status st = (st \<in> {Running, Failed, Superseded})"

definition event_frame :: "event \<Rightarrow> frame" where
  "event_frame e = EventFrame (e_id e) (e_phase e) (e_level e) (e_message e)"

definition last_id :: "int \<Rightarrow> event list \<Rightarrow> int" where
  "last_id after es =
     (let m = foldl (\<lambda>m e. if e_id e > m then e_id e else m) 0 es in if m < after then after else m)"

text \<open>What one call writes, and its results; a failure after the events are written still has
  written them.\<close>

definition streamEvents :: "uuid \<Rightarrow> int \<Rightarrow> (frame list \<times> (err + int \<times> bool)) prog" where
  "streamEvents dep after = do {
     r \<leftarrow> ListEvents dep after;
     case r of
       Inl e \<Rightarrow> State_Monad.return ([], Inl e)
     | Inr es \<Rightarrow> do {
         q \<leftarrow> GetDeployment dep;
         State_Monad.return
           (case q of
              Inl e \<Rightarrow> (map event_frame es, Inl e)
            | Inr x \<Rightarrow>
                if terminal_status (d_status x)
                then (map event_frame es @ [EndFrame (d_status x)], Inr (last_id after es, True))
                else (map event_frame es, Inr (last_id after es, False)))
       }
   }"

text \<open>A round of the loop: other programs run, then either a signal or the heartbeat wakes it.\<close>

datatype round = Woken "unit prog" | Heartbeat "unit prog"

definition round_prog :: "round \<Rightarrow> unit prog" where
  "round_prog r = (case r of Woken m \<Rightarrow> m | Heartbeat m \<Rightarrow> m)"

definition round_frames :: "round \<Rightarrow> frame list" where
  "round_frames r = (case r of Woken _ \<Rightarrow> [] | Heartbeat _ \<Rightarrow> [PingFrame])"

fun stream_rounds :: "uuid \<Rightarrow> int \<Rightarrow> round list \<Rightarrow> frame list prog" where
  "stream_rounds dep after [] = State_Monad.return []"
| "stream_rounds dep after (r # rs) = do {
     _ \<leftarrow> round_prog r;
     x \<leftarrow> streamEvents dep after;
     case snd x of
       Inl _ \<Rightarrow> State_Monad.return (round_frames r @ fst x)
     | Inr (pos, terminal) \<Rightarrow>
         if terminal then State_Monad.return (round_frames r @ fst x)
         else do { fs \<leftarrow> stream_rounds dep pos rs; State_Monad.return (round_frames r @ fst x @ fs) }
   }"

definition stream_all :: "uuid \<Rightarrow> int \<Rightarrow> round list \<Rightarrow> frame list prog" where
  "stream_all dep after rs = do {
     x \<leftarrow> streamEvents dep after;
     case snd x of
       Inl _ \<Rightarrow> State_Monad.return (fst x)
     | Inr (pos, terminal) \<Rightarrow>
         if terminal then State_Monad.return (fst x)
         else do { fs \<leftarrow> stream_rounds dep pos rs; State_Monad.return (fst x @ fs) }
   }"

text \<open>The position to resume at: the header, then the query parameter. \<open>ParseInt\<close> returns
  the nearest bound when the number is out of range, and the header's error is ignored.\<close>

definition parse_header_id :: "string \<Rightarrow> int" where
  "parse_header_id s =
     (case Atoi s of
        Some n \<Rightarrow> n
      | None \<Rightarrow>
          (let neg = (s \<noteq> [] \<and> hd s = CHR ''-''); ds = (if s \<noteq> [] \<and> hd s \<in> {CHR ''-'', CHR ''+''} then tl s else s)
           in if ds \<noteq> [] \<and> list_all is_digit ds then (if neg then - (2 ^ 63) else 2 ^ 63 - 1) else 0))"

definition resume_after :: "string \<Rightarrow> string \<Rightarrow> int" where
  "resume_after header param =
     (let a = (if header = [] then 0 else parse_header_id header)
      in if param = [] then a else case Atoi param of Some n \<Rightarrow> n | None \<Rightarrow> a)"

text \<open>A deployment of this project, or the answer.\<close>

definition own_deployment :: "project \<Rightarrow> uuid option \<Rightarrow> (deployment \<Rightarrow> 'a prog) \<Rightarrow> (response \<Rightarrow> 'a prog) \<Rightarrow> 'a prog" where
  "own_deployment p i k answer =
     (case i of
        None \<Rightarrow> answer (Error 400 ''bad_id'')
      | Some dep \<Rightarrow> do {
          r \<leftarrow> GetDeployment dep;
          case r of
            Inl e \<Rightarrow> answer (if e = ErrNotFound then Error 404 ''not_found'' else Error 500 ''db'')
          | Inr x \<Rightarrow> if d_project x \<noteq> p_id p then answer (Error 404 ''not_found'') else k x
        })"

definition handleDeploymentEvents ::
  "project \<Rightarrow> uuid option \<Rightarrow> string \<Rightarrow> string \<Rightarrow> round list \<Rightarrow> response prog" where
  "handleDeploymentEvents p i header param rs =
     own_deployment p i
       (\<lambda>x. do { fs \<leftarrow> stream_all (d_id x) (resume_after header param) rs; State_Monad.return (EventStream fs) })
       State_Monad.return"


section \<open>Pod logs (internal/k8sdriver/deployer.go)\<close>

text \<open>A log stream is the results of its reads, each the bytes it returned and the text of its
  error, and \<open>EOF\<close> once they are used up. \<open>copyTo\<close> keeps what a read returned beside an error, and
  takes the error \<open>EOF\<close> for the end.\<close>

type_synonym log_stream = "(string \<times> string option) list"

fun copyTo :: "string \<Rightarrow> log_stream \<Rightarrow> string \<times> err option" where
  "copyTo dst [] = (dst, None)"
| "copyTo dst ((chunk, e) # rs) =
     (case e of
        None \<Rightarrow> copyTo (dst @ chunk) rs
      | Some msg \<Rightarrow> (dst @ chunk, if msg = ''EOF'' then None else Some (ErrOther msg)))"

text \<open>A log that comes in pieces is the pieces in order.\<close>

lemma copyTo_chunks: "copyTo dst (map (\<lambda>c. (c, None)) cs @ [(c, Some ''EOF'')]) = (dst @ concat cs @ c, None)"
  by (induction cs arbitrary: dst) simp_all

text \<open>What the kubelet answers for a pod's log: by pod, whether the previous container is
  asked for, the number of lines and the attempt, a stream or an error.\<close>

type_synonym kubelet = "string \<Rightarrow> bool \<Rightarrow> int \<Rightarrow> nat \<Rightarrow> log_stream option"

definition TailLogs :: "kubelet \<Rightarrow> string \<Rightarrow> int \<Rightarrow> string fallible" where
  "TailLogs kl slug n =
     attempt (list_pods slug) (\<lambda>ps.
       case ps of
         [] \<Rightarrow> throw ErrNoPods
       | p # _ \<Rightarrow> (case kl (pod_name p) False n 0 of
           None \<Rightarrow> throw Fault
         | Some rs \<Rightarrow> (case copyTo [] rs of (out, None) \<Rightarrow> ok out | (out, Some e) \<Rightarrow> throw e)))"

text \<open>The log of a failed pod is what could be read of it.\<close>

definition clean_log :: "log_stream option \<Rightarrow> string" where
  "clean_log r =
     (case r of
        None \<Rightarrow> []
      | Some rs \<Rightarrow>
          (let out = TrimRight (CHR 0x0A) (fst (copyTo [] rs))
           in if HasPrefix out ''unable to retrieve container logs'' \<or>
                 HasPrefix out ''failed to try resolving symlinks in path'' then [] else out))"

text \<open>Three attempts, each at the previous container first.\<close>

definition TailFailedPodLogs :: "kubelet \<Rightarrow> string \<Rightarrow> int \<Rightarrow> string prog" where
  "TailFailedPodLogs kl slug n = do {
     r \<leftarrow> list_pods slug;
     State_Monad.return
       (case r of
          Inr (p # ps) \<Rightarrow>
            (let name = pod_name (newest_pod p ps);
                 tries = concat (map (\<lambda>i. [clean_log (kl name True n i), clean_log (kl name False n i)]) [0, 1, 2])
             in case find (\<lambda>s. s \<noteq> []) tries of Some s \<Rightarrow> s | None \<Rightarrow> [])
        | _ \<Rightarrow> [])
   }"

end
