(* ===== verification/Deployments.thy ===== *)
theory Deployments
  imports Events
begin

text \<open>
  The deployment handlers (internal/api/deployments.go): creating a deployment and its upload
  URL, queueing it once the source is there, and reading deployments and logs.
\<close>


section \<open>Handlers\<close>

definition dstatus_str :: "dstatus \<Rightarrow> string" where
  "dstatus_str s = (case s of Pending \<Rightarrow> ''pending'' | Queued \<Rightarrow> ''queued'' | Building \<Rightarrow> ''building''
     | Pushing \<Rightarrow> ''pushing'' | Deploying \<Rightarrow> ''deploying'' | Running \<Rightarrow> ''running'' | Failed \<Rightarrow> ''failed''
     | Superseded \<Rightarrow> ''superseded'')"

definition JDeployment :: "deployment \<Rightarrow> json" where
  "JDeployment x = JObj
     ([(''id'', JStr (d_id x)), (''project_id'', JStr (d_project x)), (''trigger_type'', JStr (d_trigger_type x)),
       (''triggered_by'', JStr (d_triggered_by x)), (''status'', JStr (dstatus_str (d_status x)))] @
      opt_field ''source_blob_key'' (Some (d_source_key x)) @ opt_field ''image_tag'' (Some (d_image x)) @
      [(''manifest'', d_manifest x)] @ opt_field ''failure_reason'' (Some (d_failure x)) @
      [(''created_at'', JNum (d_created x))] @ time_field ''queued_at'' (d_queued x) @
      time_field ''build_started_at'' (d_build_started x) @ time_field ''build_done_at'' (d_build_done x) @
      time_field ''deployed_at'' (d_deployed x))"

text \<open>\<open>presign\<close> is the object store's signature of an upload URL, which may fail.\<close>

definition handleCreateDeployment ::
  "(string \<Rightarrow> string fallible) \<Rightarrow> string \<Rightarrow> actor \<Rightarrow> json option \<Rightarrow> project \<Rightarrow> response prog" where
  "handleCreateDeployment presign base a body p =
     (case decode_struct body of
        None \<Rightarrow> fail 400 ''bad_json''
      | Some kvs \<Rightarrow>
          (case raw_field ''manifest'' kvs of
             None \<Rightarrow> fail 400 ''no_manifest''
           | Some m \<Rightarrow>
               orelse (CreateDeployment (p_id p) (kind_str a) (identityString a) m) db_error (\<lambda>x.
                 (let key = SourceKey (p_slug p) (d_id x) in
                  orelse (presign key) (\<lambda>_. fail 500 ''minio'') (\<lambda>url. do {
                    _ \<leftarrow> audit a ''deployment.create'' (Some (p_id p)) (JObj [(''deployment_id'', JStr (d_id x))]);
                    State_Monad.return (Reply 201 (JObj
                      [(''deployment_id'', JStr (d_id x)), (''upload_url'', JStr url), (''upload_expiry_seconds'', JNum 900),
                       (''source_key'', JStr key),
                       (''events_url'', JStr (base @ ''/v1/projects/'' @ p_slug p @ ''/deployments/'' @ d_id x @ ''/events''))]))
                  })))))"

definition handleDeploymentUploaded :: "uuid option \<Rightarrow> project \<Rightarrow> response prog" where
  "handleDeploymentUploaded i p =
     own_deployment p i (\<lambda>x.
       orelse (MarkDeploymentQueued (d_id x) (SourceKey (p_slug p) (d_id x))) db_error (\<lambda>_. do {
         r \<leftarrow> SupersedeOlderDeployments (p_id p) (d_id x);
         _ \<leftarrow> (case r of
                 Inl _ \<Rightarrow> AppendEvent (d_id x) ''queue'' ''warn'' ''supersede older deployments''
               | Inr _ \<Rightarrow> ok 0);
         orelse (AppendEvent (d_id x) ''queue'' ''info'' ''source uploaded; queued for build'') db_error (\<lambda>_. do {
           _ \<leftarrow> publish (d_id x);
           reply_ok
         })
       })) State_Monad.return"

definition handleListDeployments :: "string \<Rightarrow> string \<Rightarrow> project \<Rightarrow> response prog" where
  "handleListDeployments lim off p =
     (let (limit, offset) = parsePager lim off 10 200 in do {
        c \<leftarrow> query (\<lambda>d. length (filter (\<lambda>x. d_project x = p_id p) (deployments d)));
        orelse (ListDeployments (p_id p) limit offset) db_error (\<lambda>xs.
          State_Monad.return (Reply 200 (JObj [(''deployments'', JArr (map JDeployment xs)),
            (''total'', JNum (case c of Inl _ \<Rightarrow> 0 | Inr n \<Rightarrow> int n)), (''limit'', JNum limit), (''offset'', JNum offset)])))
      })"

definition handleGetDeployment :: "uuid option \<Rightarrow> project \<Rightarrow> response prog" where
  "handleGetDeployment i p =
     own_deployment p i (\<lambda>x. State_Monad.return (Reply 200 (JObj [(''deployment'', JDeployment x)]))) State_Monad.return"

definition tail_lines :: "string \<Rightarrow> int" where
  "tail_lines v = (case Atoi v of Some n \<Rightarrow> if n > 0 \<and> n \<le> 5000 then n else 200 | None \<Rightarrow> 200)"

definition event_line :: "event \<Rightarrow> string" where
  "event_line e = ''['' @ e_phase e @ ''] '' @ e_level e @ '': '' @ e_message e @ [CHR 0x0A]"

text \<open>Unlike its siblings this handler does not compare the deployment's project with the
  project of the request.\<close>

definition handleDeploymentLogs ::
  "kubelet \<Rightarrow> string \<Rightarrow> string \<Rightarrow> uuid option \<Rightarrow> project \<Rightarrow> response prog" where
  "handleDeploymentLogs kl phase n i p =
     (if phase = ''runtime'' then
        orelse (TailLogs kl (p_slug p) (tail_lines n)) (\<lambda>_. fail 500 ''runtime_logs'') (\<lambda>out.
          State_Monad.return (Text 200 out))
      else case i of
        None \<Rightarrow> fail 400 ''bad_id''
      | Some dep \<Rightarrow>
          orelse (GetDeployment dep) (\<lambda>e. if e = ErrNotFound then fail 404 ''not_found'' else fail 500 ''db'') (\<lambda>_.
          orelse (ListEvents dep 0) db_error (\<lambda>es.
            State_Monad.return (Text 200 (concat (map event_line es))))))"

end
