(* ===== verification/Config.thy ===== *)
theory Config
  imports Http
begin

text \<open>
  The configuration (internal/config/config.go): the environment variables of the two programs
  with their defaults, and what the control plane makes of them (\<open>NewServer\<close>, \<open>NewRuntime\<close>).

  The library that parses the variables is the parameter \<open>env_lib\<close>: the value of a variable, by
  name, default and whether it is required, or an error.
\<close>


section \<open>Environment variables\<close>

record env_lib =
  ev_string :: "string \<Rightarrow> string option \<Rightarrow> bool \<Rightarrow> string option"
  ev_bool :: "string \<Rightarrow> string option \<Rightarrow> bool \<Rightarrow> bool option"
  ev_int :: "string \<Rightarrow> string option \<Rightarrow> bool \<Rightarrow> int option"

record control_plane =
  cp_ListenAddr :: string
  cp_DatabaseURL :: string
  cp_PublicBaseURL :: string
  cp_AppBaseDomain :: string
  cp_S3Endpoint :: string
  cp_S3Region :: string
  cp_S3AccessKey :: string
  cp_S3SecretKey :: string
  cp_S3BucketSource :: string
  cp_S3UseSSL :: bool
  cp_S3PublicEndpoint :: string
  cp_S3PublicUseSSL :: bool
  cp_RegistryHost :: string
  cp_RegistryHostFromK3D :: string
  cp_KEKBase64 :: string
  cp_KCIssuer :: string
  cp_KCJWKSURL :: string
  cp_KCAudience :: string
  cp_KCAuthorizationURL :: string
  cp_KCTokenURL :: string
  cp_KCClientID :: string
  cp_KCClientSecret :: string
  cp_KCRedirectURL :: string
  cp_DevBootstrapToken :: string
  cp_Kubeconfig :: string
  cp_IngressClass :: string
  cp_TLSClusterIssuer :: string
  cp_DNSClusterIP :: string
  cp_AvoidControlPlaneNodes :: bool
  cp_MaxCustomDomains :: int
  cp_UserPGAdminURL :: string
  cp_UserPGPublicHost :: string
  cp_UserRedisAdminURL :: string
  cp_UserRedisPublicHost :: string
  cp_UserS3PublicHost :: string
  cp_UserS3PublicUseSSL :: bool

record build_service =
  bs_DatabaseURL :: string
  bs_S3Endpoint :: string
  bs_S3AccessKey :: string
  bs_S3SecretKey :: string
  bs_S3BucketSource :: string
  bs_S3Region :: string
  bs_S3UseSSL :: bool
  bs_RegistryHost :: string
  bs_WorkDir :: string
  bs_PollInterval :: string
  bs_MaxConcurrent :: int

definition LoadControlPlane :: "env_lib \<Rightarrow> control_plane option" where
  "LoadControlPlane ev = do {
    vListenAddr \<leftarrow> ev_string ev ''CP_LISTEN_ADDR'' (Some '':8080'') False;
    vDatabaseURL \<leftarrow> ev_string ev ''CP_DATABASE_URL'' None True;
    vPublicBaseURL \<leftarrow> ev_string ev ''CP_PUBLIC_BASE_URL'' (Some ''http://localhost:8080'') False;
    vAppBaseDomain \<leftarrow> ev_string ev ''CP_APP_BASE_DOMAIN'' (Some ''lab.localhost'') False;
    vS3Endpoint \<leftarrow> ev_string ev ''CP_S3_ENDPOINT'' None True;
    vS3Region \<leftarrow> ev_string ev ''CP_S3_REGION'' (Some ''us-east-1'') False;
    vS3AccessKey \<leftarrow> ev_string ev ''CP_S3_ACCESS_KEY'' None True;
    vS3SecretKey \<leftarrow> ev_string ev ''CP_S3_SECRET_KEY'' None True;
    vS3BucketSource \<leftarrow> ev_string ev ''CP_S3_BUCKET_SOURCE'' (Some ''vibedeploy-source'') False;
    vS3UseSSL \<leftarrow> ev_bool ev ''CP_S3_USE_SSL'' (Some ''false'') False;
    vS3PublicEndpoint \<leftarrow> ev_string ev ''CP_S3_PUBLIC_ENDPOINT'' None False;
    vS3PublicUseSSL \<leftarrow> ev_bool ev ''CP_S3_PUBLIC_USE_SSL'' (Some ''false'') False;
    vRegistryHost \<leftarrow> ev_string ev ''CP_REGISTRY_HOST'' None True;
    vRegistryHostFromK3D \<leftarrow> ev_string ev ''CP_REGISTRY_HOST_FROM_K3D'' None False;
    vKEKBase64 \<leftarrow> ev_string ev ''CP_KEK_BASE64'' None True;
    vKCIssuer \<leftarrow> ev_string ev ''CP_KC_ISSUER'' None False;
    vKCJWKSURL \<leftarrow> ev_string ev ''CP_KC_JWKS_URL'' None False;
    vKCAudience \<leftarrow> ev_string ev ''CP_KC_AUDIENCE'' None False;
    vKCAuthorizationURL \<leftarrow> ev_string ev ''CP_KC_AUTHORIZATION_URL'' None False;
    vKCTokenURL \<leftarrow> ev_string ev ''CP_KC_TOKEN_URL'' None False;
    vKCClientID \<leftarrow> ev_string ev ''CP_KC_CLIENT_ID'' None False;
    vKCClientSecret \<leftarrow> ev_string ev ''CP_KC_CLIENT_SECRET'' None False;
    vKCRedirectURL \<leftarrow> ev_string ev ''CP_KC_REDIRECT_URL'' None False;
    vDevBootstrapToken \<leftarrow> ev_string ev ''CP_DEV_BOOTSTRAP_TOKEN'' None False;
    vKubeconfig \<leftarrow> ev_string ev ''CP_KUBECONFIG'' (Some ''/root/.kube/config'') False;
    vIngressClass \<leftarrow> ev_string ev ''CP_K8S_INGRESS_CLASS'' (Some ''traefik'') False;
    vTLSClusterIssuer \<leftarrow> ev_string ev ''CP_TLS_CLUSTER_ISSUER'' (Some ''letsencrypt-prod'') False;
    vDNSClusterIP \<leftarrow> ev_string ev ''CP_DNS_CLUSTER_IP'' (Some ''10.43.0.10'') False;
    vAvoidControlPlaneNodes \<leftarrow> ev_bool ev ''CP_K8S_AVOID_CONTROL_PLANE'' (Some ''true'') False;
    vMaxCustomDomains \<leftarrow> ev_int ev ''CP_MAX_CUSTOM_DOMAINS'' (Some ''1'') False;
    vUserPGAdminURL \<leftarrow> ev_string ev ''CP_USER_PG_ADMIN_URL'' None False;
    vUserPGPublicHost \<leftarrow> ev_string ev ''CP_USER_PG_PUBLIC_HOST'' None False;
    vUserRedisAdminURL \<leftarrow> ev_string ev ''CP_USER_REDIS_ADMIN_URL'' None False;
    vUserRedisPublicHost \<leftarrow> ev_string ev ''CP_USER_REDIS_PUBLIC_HOST'' None False;
    vUserS3PublicHost \<leftarrow> ev_string ev ''CP_USER_S3_PUBLIC_HOST'' None False;
    vUserS3PublicUseSSL \<leftarrow> ev_bool ev ''CP_USER_S3_PUBLIC_USE_SSL'' (Some ''false'') False;
    Some \<lparr>cp_ListenAddr = vListenAddr,
      cp_DatabaseURL = vDatabaseURL,
      cp_PublicBaseURL = vPublicBaseURL,
      cp_AppBaseDomain = vAppBaseDomain,
      cp_S3Endpoint = vS3Endpoint,
      cp_S3Region = vS3Region,
      cp_S3AccessKey = vS3AccessKey,
      cp_S3SecretKey = vS3SecretKey,
      cp_S3BucketSource = vS3BucketSource,
      cp_S3UseSSL = vS3UseSSL,
      cp_S3PublicEndpoint = vS3PublicEndpoint,
      cp_S3PublicUseSSL = vS3PublicUseSSL,
      cp_RegistryHost = vRegistryHost,
      cp_RegistryHostFromK3D = vRegistryHostFromK3D,
      cp_KEKBase64 = vKEKBase64,
      cp_KCIssuer = vKCIssuer,
      cp_KCJWKSURL = vKCJWKSURL,
      cp_KCAudience = vKCAudience,
      cp_KCAuthorizationURL = vKCAuthorizationURL,
      cp_KCTokenURL = vKCTokenURL,
      cp_KCClientID = vKCClientID,
      cp_KCClientSecret = vKCClientSecret,
      cp_KCRedirectURL = vKCRedirectURL,
      cp_DevBootstrapToken = vDevBootstrapToken,
      cp_Kubeconfig = vKubeconfig,
      cp_IngressClass = vIngressClass,
      cp_TLSClusterIssuer = vTLSClusterIssuer,
      cp_DNSClusterIP = vDNSClusterIP,
      cp_AvoidControlPlaneNodes = vAvoidControlPlaneNodes,
      cp_MaxCustomDomains = vMaxCustomDomains,
      cp_UserPGAdminURL = vUserPGAdminURL,
      cp_UserPGPublicHost = vUserPGPublicHost,
      cp_UserRedisAdminURL = vUserRedisAdminURL,
      cp_UserRedisPublicHost = vUserRedisPublicHost,
      cp_UserS3PublicHost = vUserS3PublicHost,
      cp_UserS3PublicUseSSL = vUserS3PublicUseSSL\<rparr>
  }"

definition LoadBuildService :: "env_lib \<Rightarrow> build_service option" where
  "LoadBuildService ev = do {
    vDatabaseURL \<leftarrow> ev_string ev ''BS_DATABASE_URL'' None True;
    vS3Endpoint \<leftarrow> ev_string ev ''BS_S3_ENDPOINT'' None True;
    vS3AccessKey \<leftarrow> ev_string ev ''BS_S3_ACCESS_KEY'' None True;
    vS3SecretKey \<leftarrow> ev_string ev ''BS_S3_SECRET_KEY'' None True;
    vS3BucketSource \<leftarrow> ev_string ev ''BS_S3_BUCKET_SOURCE'' (Some ''vibedeploy-source'') False;
    vS3Region \<leftarrow> ev_string ev ''BS_S3_REGION'' (Some ''us-east-1'') False;
    vS3UseSSL \<leftarrow> ev_bool ev ''BS_S3_USE_SSL'' (Some ''false'') False;
    vRegistryHost \<leftarrow> ev_string ev ''BS_REGISTRY_HOST'' None True;
    vWorkDir \<leftarrow> ev_string ev ''BS_WORK_DIR'' (Some ''/var/lib/vibedeploy/build'') False;
    vPollInterval \<leftarrow> ev_string ev ''BS_POLL_INTERVAL'' (Some ''2s'') False;
    vMaxConcurrent \<leftarrow> ev_int ev ''BS_MAX_CONCURRENT'' (Some ''2'') False;
    Some \<lparr>bs_DatabaseURL = vDatabaseURL,
      bs_S3Endpoint = vS3Endpoint,
      bs_S3AccessKey = vS3AccessKey,
      bs_S3SecretKey = vS3SecretKey,
      bs_S3BucketSource = vS3BucketSource,
      bs_S3Region = vS3Region,
      bs_S3UseSSL = vS3UseSSL,
      bs_RegistryHost = vRegistryHost,
      bs_WorkDir = vWorkDir,
      bs_PollInterval = vPollInterval,
      bs_MaxConcurrent = vMaxConcurrent\<rparr>
  }"


section \<open>What the control plane makes of it\<close>

text \<open>The settings of the identity provider until \<open>Reload\<close> reads the database (\<open>NewRuntime\<close>).\<close>

definition env_kc :: "control_plane \<Rightarrow> kc_settings" where
  "env_kc c = \<lparr>kc_issuer = cp_KCIssuer c, kc_jwks_url = cp_KCJWKSURL c, kc_audience = cp_KCAudience c,
     kc_auth_url = cp_KCAuthorizationURL c, kc_token_url = cp_KCTokenURL c, kc_client_id = cp_KCClientID c,
     kc_client_secret = cp_KCClientSecret c, kc_redirect_url = cp_KCRedirectURL c,
     kc_auth_host = [], kc_cookie_secret = [], kc_cookie_domain = [], kc_brand = []\<rparr>"

definition NewServer :: "control_plane \<Rightarrow> crypto \<Rightarrow> jwt_lib \<Rightarrow> string \<Rightarrow> deployer option \<Rightarrow> server" where
  "NewServer c cr jl kek dep =
     \<lparr>sv_base = cp_AppBaseDomain c, sv_public = cp_PublicBaseURL c, sv_max_domains = cp_MaxCustomDomains c,
      sv_pg_admin = cp_UserPGAdminURL c, sv_pg_host = cp_UserPGPublicHost c,
      sv_redis_admin = cp_UserRedisAdminURL c, sv_redis_host = cp_UserRedisPublicHost c,
      sv_s3_endpoint = cp_S3Endpoint c, sv_s3_key = cp_S3AccessKey c, sv_s3_secret = cp_S3SecretKey c,
      sv_s3_host = cp_UserS3PublicHost c, sv_s3_region = cp_S3Region c, sv_s3_public_ssl = cp_UserS3PublicUseSSL c,
      sv_s3_public = cp_S3PublicEndpoint c, sv_registry = cp_RegistryHost c, sv_registry_k3d = cp_RegistryHostFromK3D c,
      sv_kek = kek, sv_crypto = cr, sv_jwt = jl, sv_env_kc = env_kc c, sv_dep = dep\<rparr>"

text \<open>What the deployer is told (\<open>runServer\<close>): the host the nodes pull images from, and the platform
  services that pods may reach.\<close>

definition registryHostFromCluster :: "control_plane \<Rightarrow> string" where
  "registryHostFromCluster c = (if cp_RegistryHostFromK3D c = [] then cp_RegistryHost c else cp_RegistryHostFromK3D c)"

definition platformEndpoints :: "control_plane \<Rightarrow> string list" where
  "platformEndpoints c =
     filter (\<lambda>ep. ep \<noteq> []) [cp_UserPGPublicHost c, cp_UserRedisPublicHost c, cp_UserS3PublicHost c, cp_S3PublicEndpoint c]"

text \<open>The client libraries of the API server: whether the kubeconfig loads and gives clients. Quantity
  parsing and the hash of the configuration are parameters of the deployer itself.\<close>

record kube_lib =
  kb_config :: "string \<Rightarrow> bool"
  kb_client :: "string \<Rightarrow> bool"
  kb_quantity :: "string \<Rightarrow> bool"
  kb_sha256 :: "string \<Rightarrow> string"

definition NewDeployer :: "kube_lib \<Rightarrow> control_plane \<Rightarrow> deployer option" where
  "NewDeployer kb c =
     (if \<not> kb_config kb (cp_Kubeconfig c) \<or> \<not> kb_client kb (cp_Kubeconfig c) then None
      else Some \<lparr>dc_base = cp_AppBaseDomain c, dc_class = cp_IngressClass c, dc_issuer = cp_TLSClusterIssuer c,
        dc_registry = registryHostFromCluster c, dc_endpoints = platformEndpoints c, dc_dns = cp_DNSClusterIP c,
        dc_avoid_cp = cp_AvoidControlPlaneNodes c, dc_quantity_ok = kb_quantity kb, dc_sha256 = kb_sha256 kb\<rparr>)"

end
