(* ===== verification/Object_Store.thy ===== *)
theory Object_Store
  imports Config Provision
begin

text \<open>
  The client of the object store for source archives (internal/storage/minio.go).

  The library is the parameter \<open>minio_lib\<close>: which endpoints it accepts, and the URLs it signs,
  a computation without any request. A library client is the record of what it was created with.
\<close>


section \<open>The client\<close>

record minio_client =
  mn_endpoint :: string
  mn_access :: string
  mn_secret :: string
  mn_secure :: bool
  mn_region :: string
  mn_path_style :: bool

text \<open>Signing takes the client, the bucket, the key and the seconds the URL lives.\<close>

record minio_lib =
  ml_accepts :: "string \<Rightarrow> bool"
  ml_sign_put :: "minio_client \<Rightarrow> string \<Rightarrow> string \<Rightarrow> int \<Rightarrow> string option"
  ml_sign_get :: "minio_client \<Rightarrow> string \<Rightarrow> string \<Rightarrow> int \<Rightarrow> string option"

record storage_client =
  oc_internal :: minio_client
  oc_public :: minio_client
  oc_bucket :: string

record storage_options =
  op_endpoint :: string
  op_public_endpoint :: string
  op_access :: string
  op_secret :: string
  op_bucket :: string
  op_region :: string
  op_ssl :: bool
  op_public_ssl :: bool

definition minio_new :: "minio_lib \<Rightarrow> string \<Rightarrow> minio_client \<Rightarrow> minio_client option" where
  "minio_new ml endpoint c = (if ml_accepts ml endpoint then Some (c\<lparr>mn_endpoint := endpoint\<rparr>) else None)"

definition internal_client :: "storage_options \<Rightarrow> minio_client" where
  "internal_client o' = \<lparr>mn_endpoint = op_endpoint o', mn_access = op_access o', mn_secret = op_secret o',
     mn_secure = op_ssl o', mn_region = op_region o', mn_path_style = False\<rparr>"

definition public_client :: "storage_options \<Rightarrow> minio_client" where
  "public_client o' = (internal_client o')\<lparr>mn_secure := op_public_ssl o', mn_path_style := True\<rparr>"

definition New :: "minio_lib \<Rightarrow> storage_options \<Rightarrow> storage_client option" where
  "New ml o' = do {
     internal \<leftarrow> minio_new ml (op_endpoint o') (internal_client o');
     public \<leftarrow> (if op_public_endpoint o' \<noteq> [] \<and> op_public_endpoint o' \<noteq> op_endpoint o'
               then minio_new ml (op_public_endpoint o') (public_client o') else Some internal);
     Some \<lparr>oc_internal = internal, oc_public = public, oc_bucket = op_bucket o'\<rparr>
   }"

text \<open>The store's buckets are those of the apps too.\<close>

definition EnsureBucket :: "storage_client \<Rightarrow> unit fallible" where
  "EnsureBucket c =
     attempt (bucket_exists (oc_bucket c)) (\<lambda>found. if found then ok () else make_bucket (oc_bucket c))"

definition signed :: "string option \<Rightarrow> string fallible" where
  "signed u = call (\<lambda>w. (case u of None \<Rightarrow> Inl (ErrOther ''presign'') | Some s \<Rightarrow> Inr s, w))"

definition PresignedUploadURL :: "minio_lib \<Rightarrow> storage_client \<Rightarrow> string \<Rightarrow> int \<Rightarrow> string fallible" where
  "PresignedUploadURL ml c key ttl = signed (ml_sign_put ml (oc_public c) (oc_bucket c) key ttl)"

definition PresignedDownloadURL :: "minio_lib \<Rightarrow> storage_client \<Rightarrow> string \<Rightarrow> int \<Rightarrow> string fallible" where
  "PresignedDownloadURL ml c key ttl = signed (ml_sign_get ml (oc_public c) (oc_bucket c) key ttl)"

text \<open>What is put into and taken from the bucket. \<open>GetObject\<close> asks the store only when the object is
  read: the error of one that is not there comes with the first read, here as no content.\<close>

definition Bucket :: "storage_client \<Rightarrow> string" where
  "Bucket c = oc_bucket c"

definition Put :: "storage_client \<Rightarrow> string \<Rightarrow> string \<Rightarrow> unit fallible" where
  "Put c key content = svc_call (\<lambda>v.
     if oc_bucket c \<in> set (s3_buckets v)
     then (Inr (), v\<lparr>s3_objects := assoc_put (oc_bucket c, key) content (s3_objects v)\<rparr>)
     else (Inl (ErrOther ''NoSuchBucket''), v))"

definition Get :: "storage_client \<Rightarrow> string \<Rightarrow> string option fallible" where
  "Get c key = svc_call (\<lambda>v. (Inr (map_of (s3_objects v) (oc_bucket c, key)), v))"

text \<open>The options of the two programs.\<close>

definition cp_storage :: "control_plane \<Rightarrow> storage_options" where
  "cp_storage c = \<lparr>op_endpoint = cp_S3Endpoint c, op_public_endpoint = cp_S3PublicEndpoint c,
     op_access = cp_S3AccessKey c, op_secret = cp_S3SecretKey c, op_bucket = cp_S3BucketSource c,
     op_region = cp_S3Region c, op_ssl = cp_S3UseSSL c, op_public_ssl = cp_S3PublicUseSSL c\<rparr>"

definition bs_storage :: "build_service \<Rightarrow> storage_options" where
  "bs_storage c = \<lparr>op_endpoint = bs_S3Endpoint c, op_public_endpoint = [],
     op_access = bs_S3AccessKey c, op_secret = bs_S3SecretKey c, op_bucket = bs_S3BucketSource c,
     op_region = bs_S3Region c, op_ssl = bs_S3UseSSL c, op_public_ssl = False\<rparr>"


section \<open>Where an upload goes\<close>

text \<open>An upload URL is signed for the public endpoint when there is one, for the internal endpoint
  otherwise, and always for the bucket the build service reads when the two configurations agree.\<close>

lemma New_public:
  assumes "New ml o' = Some c"
  shows "mn_endpoint (oc_public c) = (if op_public_endpoint o' = [] then op_endpoint o' else op_public_endpoint o')"
    and "mn_endpoint (oc_internal c) = op_endpoint o'" and "oc_bucket c = op_bucket o'"
  using assms
  by (auto simp: New_def minio_new_def internal_client_def public_client_def bind_eq_Some_conv split: if_splits)

lemma put_then_get:
  assumes "run_state (Put c key content) w = (Inr (), w')" and "run_state (Get c key') w' = (Inr x, w'')"
  shows "x = (if key' = key then Some content else map_of (s3_objects (svc w)) (Bucket c, key'))"
  using assms
  by (auto simp: Put_def Get_def Bucket_def svc_call_def call_def map_of_assoc_put split: list.splits if_splits)

lemma EnsureBucket_ok:
  assumes "run_state (EnsureBucket c) w = (Inr (), w')"
  shows "oc_bucket c \<in> set (s3_buckets (svc w'))"
  using assms
  by (auto simp: EnsureBucket_def bucket_exists_def make_bucket_def svc_call_def call_def attempt_def split: list.splits if_splits prod.splits)

end
