(* ===== verification/Router.thy ===== *)
theory Router
  imports Path_Rules Egress_Log Squid Admin Deployments Object_Store
begin

text \<open>
  The router of the control plane (\<open>Routes\<close> of internal/api/server.go): which handler answers
  which request, behind which middlewares. The three tables are the routes outside the mount of /v1, those
  behind \<open>AuthMiddleware\<close>, and those of one project behind \<open>requireProjectAccess\<close> as well.

  A request is given by its method, the segments of its path (the empty last segment of a
  trailing slash dropped), query parameters and headers (empty when absent) and its JSON body.
  An unknown path and a known one with another method are not told apart. Nothing else runs while an event stream
  is open here; \<open>Events\<close> has the stream among other programs. Request ids, logging
  and the CORS headers are not modelled.
\<close>


section \<open>Requests\<close>

text \<open>\<open>rq_beats\<close> is the number of heartbeats an event stream lives for.\<close>

record request =
  rq_method :: string
  rq_path :: "string list"
  rq_query :: "string \<Rightarrow> string"
  rq_header :: "string \<Rightarrow> string"
  rq_host :: string
  rq_tls :: bool
  rq_body :: "json option"
  rq_beats :: nat

text \<open>The process: the configured server and the client of the object store, and what stands for
  libraries and services: UUID parsing, the signing of URLs and the kubelet's logs.\<close>

record process =
  pc_server :: server
  pc_uuid :: "string \<Rightarrow> uuid option"
  pc_minio :: minio_lib
  pc_objects :: storage_client
  pc_kubelet :: kubelet

definition presign :: "process \<Rightarrow> string \<Rightarrow> string fallible" where
  "presign pc key = PresignedUploadURL (pc_minio pc) (pc_objects pc) key (15 * 60)"

definition base_url :: "process \<Rightarrow> request \<Rightarrow> string" where
  "base_url pc rq = externalBaseURL (pc_server pc) (rq_header rq ''X-Forwarded-Host'')
     (rq_header rq ''X-Forwarded-Proto'') (rq_host rq) (rq_tls rq)"

definition rounds_of :: "request \<Rightarrow> round list" where
  "rounds_of rq = replicate (rq_beats rq) (Heartbeat (State_Monad.return ()))"


section \<open>Patterns\<close>

datatype pat = Lit string | Var

fun match_path :: "pat list \<Rightarrow> string list \<Rightarrow> string list option" where
  "match_path [] [] = Some []"
| "match_path (Lit l # ps) (s # ss) = (if s = l then match_path ps ss else None)"
| "match_path (Var # ps) (s # ss) = map_option (Cons s) (match_path ps ss)"
| "match_path _ _ = None"

type_synonym 'h route_table = "(string \<times> pat list \<times> (string list \<Rightarrow> 'h)) list"

text \<open>The first route that matches, applied to the values of its parameters.\<close>

fun find_route :: "'h route_table \<Rightarrow> string \<Rightarrow> string list \<Rightarrow> 'h option" where
  "find_route [] m path = None"
| "find_route ((m', p, h) # rs) m path =
     (if m' = m then (case match_path p path of Some vs \<Rightarrow> Some (h vs) | None \<Rightarrow> find_route rs m path)
      else find_route rs m path)"


section \<open>The tables\<close>

definition public_routes :: "process \<Rightarrow> request \<Rightarrow> response prog route_table" where
  "public_routes pc rq =
     (let sv = pc_server pc; q = rq_query rq; hd = rq_header rq in
      [(''GET'', [Lit ''healthz''], \<lambda>_. reply_ok),
       (''GET'', [Lit ''internal'', Lit ''auth'', Lit ''check''], \<lambda>_.
          handleAuthCheck sv (hd ''X-Forwarded-Host'') (rq_host rq) (hd ''X-Auth-Request-Email'') (hd ''X-Auth-Request-Groups'')),
       (''GET'', [Lit ''v1'', Lit ''_internal'', Lit ''verify-api-token''], \<lambda>_.
          handleInternalVerifyAPIToken sv (hd ''X-Forwarded-Host'') (rq_host rq) (hd ''Authorization'')),
       (''GET'', [Lit ''v1'', Lit ''auth'', Lit ''oidc-status''], \<lambda>_. handleOIDCStatus),
       (''GET'', [Lit ''v1'', Lit ''auth'', Lit ''oidc-login''], \<lambda>_. handleOIDCLogin sv (q ''next'')),
       (''GET'', [Lit ''v1'', Lit ''auth'', Lit ''oidc-callback''], \<lambda>_.
          handleOIDCCallback sv (q ''error'') (q ''code'') (q ''state''))])"

definition user_routes :: "process \<Rightarrow> request \<Rightarrow> actor \<Rightarrow> response prog route_table" where
  "user_routes pc rq a =
     (let sv = pc_server pc; q = rq_query rq; body = rq_body rq in
      [(''GET'', [Lit ''whoami''], \<lambda>_. handleWhoami a),
       (''GET'', [Lit ''admin'', Lit ''projects''], \<lambda>_. handleAdminProjects sv (q ''limit'') (q ''offset'')),
       (''GET'', [Lit ''admin'', Lit ''metrics''], \<lambda>_. handleAdminMetrics),
       (''GET'', [Lit ''admin'', Lit ''audit''], \<lambda>_. handleAdminAudit a (q ''limit'') (q ''offset'')),
       (''GET'', [Lit ''admin'', Lit ''users''], \<lambda>_. handleAdminListUsers a (q ''limit'') (q ''offset'')),
       (''PATCH'', [Lit ''admin'', Lit ''users'', Var], \<lambda>vs. handleAdminPatchUser a (hd vs) (pc_uuid pc (hd vs)) body),
       (''GET'', [Lit ''admin'', Lit ''settings''], \<lambda>_. handleAdminGetSettings a),
       (''PATCH'', [Lit ''admin'', Lit ''settings''], \<lambda>_. handleAdminPatchSettings sv a body),
       (''GET'', [Lit ''admin'', Lit ''egress''], \<lambda>_. handleAdminEgressOverview a),
       (''GET'', [Lit ''admin'', Lit ''egress-proxy'', Lit ''status''], \<lambda>_. handleEgressProxyStatus sv a),
       (''GET'', [Lit ''admin'', Lit ''egress-logs''], \<lambda>_.
          handleEgressLogs a (q ''project'') (q ''q'') (q ''status'') (q ''limit'') (q ''offset'')),
       (''GET'', [Lit ''admin'', Lit ''cidr-presets''], \<lambda>_. handleListCIDRPresets a),
       (''PUT'', [Lit ''admin'', Lit ''cidr-presets'', Var], \<lambda>vs. handlePutCIDRPreset sv a (hd vs) body),
       (''DELETE'', [Lit ''admin'', Lit ''cidr-presets'', Var], \<lambda>vs. handleDeleteCIDRPreset sv a (hd vs)),
       (''GET'', [Lit ''projects''], \<lambda>_. handleListProjects sv a (q ''limit'') (q ''offset'')),
       (''POST'', [Lit ''projects''], \<lambda>_. handleCreateProject sv a body)])"

definition project_routes :: "process \<Rightarrow> request \<Rightarrow> actor \<Rightarrow> project \<Rightarrow> response prog route_table" where
  "project_routes pc rq a p =
     (let sv = pc_server pc; q = rq_query rq; body = rq_body rq; render = renderSquidConf in
      [(''GET'', [], \<lambda>_. handleGetProject sv p),
       (''DELETE'', [], \<lambda>_. handleDeleteProject sv a p),
       (''PATCH'', [Lit ''access''], \<lambda>_. handlePatchProjectAccess sv a body p),
       (''PATCH'', [Lit ''tls''], \<lambda>_. handlePatchProjectTLS sv a body p),
       (''PATCH'', [Lit ''name''], \<lambda>_. handlePatchProjectName a body p),
       (''PATCH'', [Lit ''visibility''], \<lambda>_. handlePatchProjectVisibility sv a body p),
       (''POST'', [Lit ''api-token''], \<lambda>_. handleRegenerateProjectAPIToken sv a p),
       (''DELETE'', [Lit ''api-token''], \<lambda>_. handleRevokeProjectAPIToken a p),
       (''GET'', [Lit ''egress''], \<lambda>_. handleListProjectEgress a p),
       (''PUT'', [Lit ''egress''], \<lambda>_. handlePutProjectEgress render sv a body p),
       (''GET'', [Lit ''egress-mode''], \<lambda>_. handleGetEgressMode a p),
       (''PATCH'', [Lit ''egress-mode''], \<lambda>_. handlePatchEgressMode render sv a body p),
       (''GET'', [Lit ''egress-report''], \<lambda>_. handleEgressReport a p),
       (''GET'', [Lit ''path-rules''], \<lambda>_. handleListPathRules p),
       (''POST'', [Lit ''path-rules''], \<lambda>_. handleCreatePathRule sv a body p),
       (''PATCH'', [Lit ''path-rules'', Var], \<lambda>vs. handleUpdatePathRule sv a (pc_uuid pc (hd vs)) body p),
       (''DELETE'', [Lit ''path-rules'', Var], \<lambda>vs. handleDeletePathRule sv a (pc_uuid pc (hd vs)) p),
       (''POST'', [Lit ''deployments''], \<lambda>_. handleCreateDeployment (presign pc) (base_url pc rq) a body p),
       (''GET'', [Lit ''deployments''], \<lambda>_. handleListDeployments (q ''limit'') (q ''offset'') p),
       (''GET'', [Lit ''deployments'', Var], \<lambda>vs. handleGetDeployment (pc_uuid pc (hd vs)) p),
       (''GET'', [Lit ''deployments'', Var, Lit ''events''], \<lambda>vs.
          handleDeploymentEvents p (pc_uuid pc (hd vs)) (rq_header rq ''Last-Event-ID'') (q ''after'') (rounds_of rq)),
       (''GET'', [Lit ''deployments'', Var, Lit ''logs''], \<lambda>vs.
          handleDeploymentLogs (pc_kubelet pc) (q ''phase'') (q ''n'') (pc_uuid pc (hd vs)) p),
       (''POST'', [Lit ''deployments'', Var, Lit ''uploaded''], \<lambda>vs. handleDeploymentUploaded (pc_uuid pc (hd vs)) p),
       (''GET'', [Lit ''domains''], \<lambda>_. handleListDomains sv p),
       (''POST'', [Lit ''domains''], \<lambda>_. handleAddDomain sv a body p),
       (''DELETE'', [Lit ''domains'', Var], \<lambda>vs. handleRemoveDomain sv a (hd vs) p),
       (''GET'', [Lit ''collaborators''], \<lambda>_. handleListCollaborators p),
       (''POST'', [Lit ''collaborators''], \<lambda>_. handleAddCollaborator a body p),
       (''DELETE'', [Lit ''collaborators'', Var], \<lambda>vs. handleRemoveCollaborator a (hd vs) p),
       (''GET'', [Lit ''env''], \<lambda>_. handleListProjectEnv a p),
       (''PUT'', [Lit ''env''], \<lambda>_. handlePutProjectEnv sv a body p),
       (''DELETE'', [Lit ''env'', Var], \<lambda>vs. handleDeleteProjectEnv sv a (hd vs) p)])"

definition not_found :: "response prog" where
  "not_found = State_Monad.return (Text 404 ''404 page not found'')"

definition or_not_found :: "response prog option \<Rightarrow> response prog" where
  "or_not_found h = (case h of None \<Rightarrow> not_found | Some m \<Rightarrow> m)"


section \<open>Serving\<close>

text \<open>Behind \<open>AuthMiddleware\<close>; \<open>path\<close> is what follows /v1.\<close>

definition serve_user :: "process \<Rightarrow> request \<Rightarrow> string list \<Rightarrow> actor \<Rightarrow> response prog" where
  "serve_user pc rq path a =
     (case path of
        x # slug # rest \<Rightarrow>
          if x = ''projects''
          then requireProjectAccess a slug (\<lambda>p. or_not_found (find_route (project_routes pc rq a p) (rq_method rq) rest))
          else or_not_found (find_route (user_routes pc rq a) (rq_method rq) path)
      | _ \<Rightarrow> or_not_found (find_route (user_routes pc rq a) (rq_method rq) path))"

definition serve :: "process \<Rightarrow> request \<Rightarrow> response prog" where
  "serve pc rq =
     (if rq_method rq = ''OPTIONS'' then State_Monad.return (Status 204 [])
      else case find_route (public_routes pc rq) (rq_method rq) (rq_path rq) of
        Some m \<Rightarrow> m
      | None \<Rightarrow>
          (case rq_path rq of
             v # path \<Rightarrow>
               if v = ''v1''
               then AuthMiddleware (pc_server pc) (rq_header rq ''Authorization'') (serve_user pc rq path)
               else not_found
           | [] \<Rightarrow> not_found))"

text \<open>The headers \<open>corsMiddleware\<close> adds to every response, the answer to OPTIONS included: any origin
  may call the API.\<close>

definition cors_headers :: "string \<Rightarrow> (string \<times> string) list" where
  "cors_headers origin =
     (if origin = [] then []
      else [(''Access-Control-Allow-Origin'', origin), (''Vary'', ''Origin''), (''Access-Control-Allow-Credentials'', ''true''),
        (''Access-Control-Allow-Headers'', ''Authorization, Content-Type, Last-Event-ID, Accept''),
        (''Access-Control-Allow-Methods'', ''GET, POST, PUT, PATCH, DELETE, OPTIONS''),
        (''Access-Control-Expose-Headers'', ''Content-Type''), (''Access-Control-Max-Age'', ''300'')])"

definition serve_http :: "process \<Rightarrow> request \<Rightarrow> ((string \<times> string) list \<times> response) prog" where
  "serve_http pc rq = do {
     r \<leftarrow> serve pc rq;
     State_Monad.return (cors_headers (rq_header rq ''Origin''), r)
   }"

end
