(* ===== verification/Reconciler.thy ===== *)
theory Reconciler
  imports Deployments Egress Admin
begin

text \<open>
  The reconciler (internal/api/reconciler.go): one \<open>tick\<close> moves the deployments that are being
  rolled out forward, one health pass brings the status of the live projects in line with the
  cluster. Its own memory, \<open>lastSummary\<close>, is the last pod state reported per deployment.

  A handler that panics takes the control plane down with it: its result is then \<open>None\<close>.
\<close>

record pending_deploy =
  pd_id :: uuid
  pd_project :: uuid
  pd_status :: dstatus
  pd_image :: string
  pd_manifest :: json

type_synonym summaries = "uuid \<Rightarrow> string option"


section \<open>Steps of a deployment\<close>

definition emit :: "uuid \<Rightarrow> string \<Rightarrow> string \<Rightarrow> unit prog" where
  "emit dep level msg = do { _ \<leftarrow> AppendEvent dep ''deploy'' level msg; State_Monad.return () }"

definition rec_fail :: "uuid \<Rightarrow> string \<Rightarrow> unit prog" where
  "rec_fail dep code = do {
     _ \<leftarrow> MarkDeploymentStatus dep Failed code;
     _ \<leftarrow> AppendEvent dep ''deploy'' ''error'' code;
     publish dep
   }"

definition slugFor :: "uuid \<Rightarrow> string fallible" where
  "slugFor pid = query_row (\<lambda>d. map_option p_slug (find_row (\<lambda>p. p_id p = pid \<and> live p) (projects d)))"

text \<open>A step that fails the deployment with its code: the error is the code.\<close>

definition or_code :: "string \<Rightarrow> 'a fallible \<Rightarrow> 'a fallible" where
  "or_code code m = do { r \<leftarrow> m; State_Monad.return (case r of Inl _ \<Rightarrow> Inl (ErrOther code) | Inr x \<Rightarrow> Inr x) }"

definition set_system_env :: "server \<Rightarrow> uuid \<Rightarrow> string \<Rightarrow> string \<Rightarrow> unit fallible" where
  "set_system_env sv pid k v = SetProjectEnv (sv_crypto sv) (sv_kek sv) pid k v True None"

fun set_system_envs :: "server \<Rightarrow> uuid \<Rightarrow> (string \<times> string) list \<Rightarrow> unit fallible" where
  "set_system_envs sv pid [] = ok ()"
| "set_system_envs sv pid ((k, v) # kvs) = attempt (set_system_env sv pid k v) (\<lambda>_. set_system_envs sv pid kvs)"

definition provision_postgres ::
  "server \<Rightarrow> pending_deploy \<Rightarrow> string \<Rightarrow> manifest \<Rightarrow> (string \<Rightarrow> string option) \<Rightarrow> (string \<Rightarrow> string option) fallible" where
  "provision_postgres sv p slug m env =
     (if mf_postgres m \<and> pg_Enabled sv \<and> env ''DATABASE_URL'' = None then do {
        _ \<leftarrow> emit (pd_id p) ''info'' ''provisioning Postgres database'';
        attempt (or_code ''provision_pg'' (pg_Provision sv slug)) (\<lambda>url.
        attempt (or_code ''store_pg_url'' (set_system_env sv (pd_project p) ''DATABASE_URL'' url)) (\<lambda>_.
        ok (env(''DATABASE_URL'' \<mapsto> url))))
      } else ok env)"

definition provision_redis ::
  "server \<Rightarrow> pending_deploy \<Rightarrow> string \<Rightarrow> manifest \<Rightarrow> (string \<Rightarrow> string option) \<Rightarrow> (string \<Rightarrow> string option) fallible" where
  "provision_redis sv p slug m env =
     (if mf_redis m \<and> redis_Enabled sv \<and> env ''REDIS_URL'' = None then do {
        _ \<leftarrow> emit (pd_id p) ''info'' ''provisioning Redis ACL user'';
        attempt (or_code ''provision_redis'' (redis_Provision sv slug)) (\<lambda>c.
        attempt (or_code ''store_redis_url'' (set_system_env sv (pd_project p) ''REDIS_URL'' (rc_url c))) (\<lambda>_.
        attempt (or_code ''store_redis_prefix'' (set_system_env sv (pd_project p) ''REDIS_KEY_PREFIX'' (rc_prefix c))) (\<lambda>_.
        ok (env(''REDIS_URL'' \<mapsto> rc_url c, ''REDIS_KEY_PREFIX'' \<mapsto> rc_prefix c)))))
      } else ok env)"

text \<open>The loop over the S3 variables runs over a Go map; here in the order of its literal.\<close>

definition s3_vars :: "s3_creds \<Rightarrow> (string \<times> string) list" where
  "s3_vars c = [(''S3_ENDPOINT'', sc_endpoint c), (''S3_REGION'', sc_region c), (''S3_ACCESS_KEY_ID'', sc_key c),
     (''S3_SECRET_ACCESS_KEY'', sc_secret c), (''S3_BUCKET'', sc_bucket c),
     (''S3_USE_SSL'', if sc_ssl c then ''true'' else ''false'')]"

definition provision_s3 ::
  "server \<Rightarrow> pending_deploy \<Rightarrow> string \<Rightarrow> manifest \<Rightarrow> (string \<Rightarrow> string option) \<Rightarrow> (string \<Rightarrow> string option) fallible" where
  "provision_s3 sv p slug m env =
     (if (mf_s3 m \<or> mf_sqlite m) \<and> s3_Enabled sv \<and> env ''S3_ACCESS_KEY_ID'' = None then do {
        _ \<leftarrow> emit (pd_id p) ''info'' ''provisioning S3 bucket + IAM user'';
        attempt (or_code ''provision_s3'' (s3_Provision sv slug)) (\<lambda>c.
        attempt (or_code ''store_s3_env'' (set_system_envs sv (pd_project p) (s3_vars c))) (\<lambda>_.
        ok (env ++ map_of (s3_vars c))))
      } else ok env)"

text \<open>Everything before the cluster is touched: slug, port, manifest and merged environment.\<close>

definition prepare ::
  "server \<Rightarrow> pending_deploy \<Rightarrow> (string \<times> manifest \<times> (string \<Rightarrow> string option)) fallible" where
  "prepare sv p =
     (case decode_manifest (pd_manifest p) of (m, bad) \<Rightarrow>
        if bad then throw (ErrOther ''manifest_parse'')
        else attempt (or_code ''lookup_project'' (slugFor (pd_project p))) (\<lambda>slug.
          attempt (or_code ''env_decrypt'' (GetProjectEnv (sv_crypto sv) (sv_kek sv) (pd_project p))) (\<lambda>env0.
          attempt (provision_postgres sv p slug m env0) (\<lambda>env1.
          attempt (provision_redis sv p slug m env1) (\<lambda>env2.
          attempt (provision_s3 sv p slug m env2) (\<lambda>env3.
          ok (slug, m, merge_env (manifest_env m) env3)))))))"

definition deploy_input ::
  "pending_deploy \<Rightarrow> string \<Rightarrow> manifest \<Rightarrow> (string \<Rightarrow> string option) \<Rightarrow> egress_allow list \<Rightarrow> bool \<Rightarrow> string \<Rightarrow> apply_input" where
  "deploy_input p slug m env allows enforce url =
     \<lparr>ai_slug = slug, ai_image = pd_image p, ai_port = (if mf_port m = 0 then 3000 else mf_port m), ai_env = env,
      ai_cpu = mf_cpu m, ai_mem = mf_memory m, ai_sqlite = mf_sqlite m, ai_allows = allows,
      ai_enforce = enforce, ai_proxy = url\<rparr>"

text \<open>The error a \<open>fail\<close> of the step carries as its code.\<close>

definition code_of :: "err \<Rightarrow> string" where
  "code_of e = (case e of ErrOther c \<Rightarrow> c | _ \<Rightarrow> [])"

text \<open>What follows a successful \<open>Apply\<close>.\<close>

definition after_apply :: "server \<Rightarrow> pending_deploy \<Rightarrow> unit prog" where
  "after_apply sv p = do {
     r \<leftarrow> GetProjectByID (pd_project p);
     _ \<leftarrow> (case r of
             Inl _ \<Rightarrow> State_Monad.return ()
           | Inr pr \<Rightarrow> do {
               s \<leftarrow> syncIngressForProject sv pr;
               case s of Inl _ \<Rightarrow> emit (pd_id p) ''warn'' ''ingress sync failed'' | Inr _ \<Rightarrow> State_Monad.return ()
             });
     _ \<leftarrow> emit (pd_id p) ''info'' ''manifests applied; waiting for readiness'';
     publish (pd_id p)
   }"

definition handle_pushing :: "server \<Rightarrow> deployer \<Rightarrow> pending_deploy \<Rightarrow> summaries \<Rightarrow> summaries option prog" where
  "handle_pushing sv dc p sums = do {
     r \<leftarrow> prepare sv p;
     case r of
       Inl e \<Rightarrow> do { _ \<leftarrow> rec_fail (pd_id p) (code_of e); State_Monad.return (Some sums) }
     | Inr (slug, m, env) \<Rightarrow> do {
         cfg \<leftarrow> egressConfigForProject sv (pd_project p);
         case cfg of (allows, enforce, url, ee) \<Rightarrow> do {
           _ \<leftarrow> (if ee \<noteq> None then emit (pd_id p) ''warn'' ''could not load egress allow-list, deploying without it''
                 else State_Monad.return ());
           _ \<leftarrow> MarkDeploymentStatus (pd_id p) Deploying [];
           _ \<leftarrow> emit (pd_id p) ''info'' ''applying Kubernetes manifests'';
           _ \<leftarrow> publish (pd_id p);
           x \<leftarrow> Apply dc (deploy_input p slug m env allows enforce url);
           case x of
             Inl e \<Rightarrow>
               if e = panic then State_Monad.return None
               else do { _ \<leftarrow> rec_fail (pd_id p) ''k8s_apply''; State_Monad.return (Some sums) }
           | Inr _ \<Rightarrow> do { _ \<leftarrow> after_apply sv p; State_Monad.return (Some sums) }
         }
       }
   }"

definition report_summary :: "uuid \<Rightarrow> string \<Rightarrow> summaries \<Rightarrow> summaries prog" where
  "report_summary dep summary sums =
     (if summary \<noteq> [] \<and> sums dep \<noteq> Some summary
      then do {
        _ \<leftarrow> emit dep ''info'' summary;
        _ \<leftarrow> publish dep;
        State_Monad.return (sums(dep \<mapsto> summary))
      }
      else State_Monad.return sums)"

definition promote :: "pending_deploy \<Rightarrow> unit prog" where
  "promote p = do {
     _ \<leftarrow> MarkDeploymentStatus (pd_id p) Running [];
     _ \<leftarrow> SupersedeRunningSiblings (pd_project p) (pd_id p);
     _ \<leftarrow> UpdateProjectStatus (pd_project p) PRunning;
     _ \<leftarrow> TouchProjectPushed (pd_project p);
     _ \<leftarrow> emit (pd_id p) ''info'' ''deployment ready'';
     publish (pd_id p)
   }"

definition handle_deploying :: "kubelet \<Rightarrow> pending_deploy \<Rightarrow> summaries \<Rightarrow> summaries option prog" where
  "handle_deploying kl p sums = do {
     s \<leftarrow> slugFor (pd_project p);
     case s of
       Inl _ \<Rightarrow> State_Monad.return (Some sums)
     | Inr slug \<Rightarrow> do {
         r \<leftarrow> PodSummary slug;
         case r of
           Inl _ \<Rightarrow> State_Monad.return (Some sums)
         | Inr (summary, ready, terminal) \<Rightarrow> do {
             sums' \<leftarrow> report_summary (pd_id p) summary sums;
             if terminal \<noteq> [] then do {
               tail \<leftarrow> TailFailedPodLogs kl slug 60;
               _ \<leftarrow> (if tail \<noteq> [] then do { _ \<leftarrow> AppendEvent (pd_id p) ''pod'' ''error''
                              (''container log tail (last 60 lines):'' @ [CHR 0x0A] @ tail); State_Monad.return () }
                     else State_Monad.return ());
               _ \<leftarrow> rec_fail (pd_id p) (''pod_unhealthy: '' @ terminal);
               State_Monad.return (Some (sums'(pd_id p := None)))
             }
             else if ready then do {
               _ \<leftarrow> promote p;
               State_Monad.return (Some (sums'(pd_id p := None)))
             }
             else State_Monad.return (Some sums')
           }
       }
   }"

definition handle :: "server \<Rightarrow> deployer \<Rightarrow> kubelet \<Rightarrow> pending_deploy \<Rightarrow> summaries \<Rightarrow> summaries option prog" where
  "handle sv dc kl p sums =
     (if pd_status p = Pushing then handle_pushing sv dc p sums
      else if pd_status p = Deploying then handle_deploying kl p sums
      else State_Monad.return (Some sums))"

text \<open>The query of \<open>tick\<close>: at most eight deployments of live projects, by queueing time.\<close>

definition pending_of :: "deployment \<Rightarrow> pending_deploy" where
  "pending_of x = \<lparr>pd_id = d_id x, pd_project = d_project x, pd_status = d_status x, pd_image = d_image x,
     pd_manifest = d_manifest x\<rparr>"

definition project_live :: "database \<Rightarrow> uuid \<Rightarrow> bool" where
  "project_live d pid = (\<exists>p \<in> set (projects d). p_id p = pid \<and> live p)"

definition todo :: "database \<Rightarrow> pending_deploy list" where
  "todo d = map pending_of (take 8 (sort_key queue_key
     (filter (\<lambda>x. d_status x \<in> {Pushing, Deploying} \<and> project_live d (d_project x)) (deployments d))))"

fun handle_all ::
  "server \<Rightarrow> deployer \<Rightarrow> kubelet \<Rightarrow> pending_deploy list \<Rightarrow> summaries \<Rightarrow> summaries option prog" where
  "handle_all sv dc kl [] sums = State_Monad.return (Some sums)"
| "handle_all sv dc kl (p # ps) sums = do {
     r \<leftarrow> handle sv dc kl p sums;
     case r of None \<Rightarrow> State_Monad.return None | Some sums' \<Rightarrow> handle_all sv dc kl ps sums'
   }"

definition tick :: "server \<Rightarrow> deployer \<Rightarrow> kubelet \<Rightarrow> summaries \<Rightarrow> summaries option prog" where
  "tick sv dc kl sums = do {
     r \<leftarrow> query todo;
     case r of Inl _ \<Rightarrow> State_Monad.return (Some sums) | Inr ps \<Rightarrow> handle_all sv dc kl ps sums
   }"


section \<open>Project health\<close>

definition reconcile_one :: "uuid \<times> string \<times> pstatus \<Rightarrow> unit prog" where
  "reconcile_one row =
     (case row of (pid, slug, st) \<Rightarrow> do {
        r \<leftarrow> IsDeploymentReady slug;
        case r of
          Inl _ \<Rightarrow> State_Monad.return ()
        | Inr ready \<Rightarrow>
            (let desired = (if ready then PRunning else PStopped) in
             if desired = st then State_Monad.return ()
             else if desired = PRunning then do { _ \<leftarrow> UpdateProjectStatus pid desired; State_Monad.return () }
             else do { _ \<leftarrow> SetProjectStatusOnly pid desired; State_Monad.return () })
      })"

definition reconcileProjectHealth :: "unit prog" where
  "reconcileProjectHealth = do {
     r \<leftarrow> ListProjectsForHealthReconcile;
     case r of Inl _ \<Rightarrow> State_Monad.return () | Inr rows \<Rightarrow> for_each reconcile_one rows
   }"

end
