(* ===== verification/Build_Service.thy ===== *)
theory Build_Service
  imports Deployments
begin

text \<open>
  The build service (cmd/build-service/main.go, internal/builder/builder.go): a worker claims
  the oldest queued deployment, builds its image and hands it to the control plane.

  What the world does to a build is a parameter, the machine it runs on: which directories and
  files can be made, what the object store holds, what \<open>tar\<close> unpacks, and how a command runs.
  A running command is a list of ticks and an exit status: it prints a line, the watchdog polls,
  or everybody else runs a program. The workers of the pool are at the end.
\<close>


section \<open>The machine\<close>

datatype tick = Line string | Poll | Others "unit prog"

record machine =
  mc_workdir :: string
  mc_mkdir_ok :: "string \<Rightarrow> bool"
  mc_create_ok :: "string \<Rightarrow> bool"
  mc_object :: "string \<Rightarrow> string option"
  mc_untar :: "string \<Rightarrow> string list option"
  mc_exec :: "string list \<Rightarrow> tick list \<times> bool"

text \<open>The directories of a build: its own one, and the one its source is unpacked in.\<close>

definition work_dir :: "machine \<Rightarrow> uuid \<Rightarrow> string" where
  "work_dir mc dep = mc_workdir mc @ ''/'' @ dep"

definition src_dir :: "machine \<Rightarrow> uuid \<Rightarrow> string" where
  "src_dir mc dep = work_dir mc dep @ ''/src''"

definition tarball :: "machine \<Rightarrow> uuid \<Rightarrow> string" where
  "tarball mc dep = work_dir mc dep @ ''/src.tar.zst''"

text \<open>The names of the files the source archive leaves in the source directory, or a failure.\<close>

definition downloadAndExtract :: "machine \<Rightarrow> string \<Rightarrow> uuid \<Rightarrow> string list option" where
  "downloadAndExtract mc key dep =
     (if \<not> mc_mkdir_ok mc (src_dir mc dep) then None
      else case mc_object mc key of
        None \<Rightarrow> None
      | Some content \<Rightarrow> if mc_create_ok mc (tarball mc dep) then mc_untar mc content else None)"


section \<open>Events and failure\<close>

definition bs_emit :: "uuid \<Rightarrow> string \<Rightarrow> string \<Rightarrow> unit prog" where
  "bs_emit dep level msg = do { _ \<leftarrow> AppendEvent dep ''build'' level msg; State_Monad.return () }"

definition bs_fail :: "uuid \<Rightarrow> string \<Rightarrow> unit prog" where
  "bs_fail dep code = do {
     _ \<leftarrow> AppendEvent dep ''build'' ''error'' code;
     _ \<leftarrow> MarkDeploymentStatus dep Failed code;
     State_Monad.return ()
   }"

definition lookupSlug :: "uuid \<Rightarrow> string fallible" where
  "lookupSlug pid = query_row (\<lambda>d. map_option p_slug (find_row (\<lambda>p. p_id p = pid) (projects d)))"

definition status_now :: "uuid \<Rightarrow> dstatus option prog" where
  "status_now dep = do {
     r \<leftarrow> query_row (\<lambda>d. map_option d_status (find_row (\<lambda>x. d_id x = dep) (deployments d)));
     State_Monad.return (case r of Inl _ \<Rightarrow> None | Inr st \<Rightarrow> Some st)
   }"


section \<open>Running the commands\<close>

text \<open>A command runs with the watchdog beside it, which polls the deployment's status every
  three seconds: a poll that fails is ignored, one that sees another status than building
  cancels the build, which kills the command. The result says whether that happened.\<close>

fun run_ticks :: "uuid \<Rightarrow> tick list \<Rightarrow> bool prog" where
  "run_ticks dep [] = State_Monad.return False"
| "run_ticks dep (t # ts) =
     (case t of
        Line s \<Rightarrow> do { _ \<leftarrow> bs_emit dep ''info'' s; run_ticks dep ts }
      | Others m \<Rightarrow> do { _ \<leftarrow> m; run_ticks dep ts }
      | Poll \<Rightarrow> do {
          st \<leftarrow> status_now dep;
          if st = None \<or> st = Some Building then run_ticks dep ts else State_Monad.return True
        })"

definition runStream :: "machine \<Rightarrow> uuid \<Rightarrow> string list \<Rightarrow> bool prog" where
  "runStream mc dep argv = do {
     cancelled \<leftarrow> run_ticks dep (fst (mc_exec mc argv));
     State_Monad.return (\<not> cancelled \<and> snd (mc_exec mc argv))
   }"

definition build_argv :: "bool \<Rightarrow> string \<Rightarrow> string \<Rightarrow> string list" where
  "build_argv dockerfile img src =
     (if dockerfile then [''docker'', ''build'', ''--platform=linux/amd64'', ''-t'', img, src]
      else [''nixpacks'', ''build'', src, ''--name'', img, ''--platform'', ''linux/amd64''])"

definition push_argv :: "string \<Rightarrow> string list" where
  "push_argv img = [''docker'', ''push'', img]"

text \<open>\<open>Build\<close>: the image it pushed, or the failure; every line of output is an event.\<close>

definition Build :: "string \<Rightarrow> machine \<Rightarrow> string list \<Rightarrow> string \<Rightarrow> uuid \<Rightarrow> string fallible" where
  "Build registry mc files slug dep =
     (let img = imageRef registry slug dep; dockerfile = (''Dockerfile'' \<in> set files) in do {
        _ \<leftarrow> bs_emit dep ''info'' (if dockerfile then ''Dockerfile detected, using docker build''
                                  else ''no Dockerfile, using nixpacks'');
        built \<leftarrow> runStream mc dep (build_argv dockerfile img (src_dir mc dep));
        if \<not> built then throw (ErrOther ''build'')
        else do {
          pushed \<leftarrow> runStream mc dep (push_argv img);
          if \<not> pushed then throw (ErrOther ''push'') else ok img
        }
      })"


section \<open>A deployment\<close>

definition finish_build :: "uuid \<Rightarrow> string \<Rightarrow> unit fallible" where
  "finish_build dep img = do {
     _ \<leftarrow> bs_emit dep ''info'' (''image pushed: '' @ img);
     r \<leftarrow> SetDeploymentImage dep img;
     case r of
       Inl e \<Rightarrow> do { _ \<leftarrow> bs_fail dep ''set_image''; throw e }
     | Inr _ \<Rightarrow> attempt (TryAdvanceDeploymentStatus dep Building Pushing) (\<lambda>advanced. do {
         _ \<leftarrow> bs_emit dep ''info'' (if advanced then ''handed off to control-plane for deploy''
                else ''build finished but deployment already moved on; skipping handoff'');
         ok ()
       })
   }"

definition status_text :: "dstatus option \<Rightarrow> string" where
  "status_text st = (case st of None \<Rightarrow> [] | Some x \<Rightarrow> dstatus_str x)"

text \<open>A failed build of a deployment that is no longer building was killed by the watchdog, or
  does not matter any more: it is not stamped as failed.\<close>

definition failed_build :: "uuid \<Rightarrow> err \<Rightarrow> unit fallible" where
  "failed_build dep e = do {
     st \<leftarrow> status_now dep;
     if st \<noteq> Some Building
     then do { _ \<leftarrow> bs_emit dep ''info'' (''build aborted: deployment status changed to '' @ status_text st); ok () }
     else do { _ \<leftarrow> bs_fail dep ''build''; throw e }
   }"

definition build_source :: "string \<Rightarrow> machine \<Rightarrow> string list \<Rightarrow> string \<Rightarrow> uuid \<Rightarrow> unit fallible" where
  "build_source registry mc files slug dep = do {
     _ \<leftarrow> bs_emit dep ''info'' ''source ready'';
     b \<leftarrow> Build registry mc files slug dep;
     case b of Inr img \<Rightarrow> finish_build dep img | Inl e \<Rightarrow> failed_build dep e
   }"

definition run_build :: "string \<Rightarrow> machine \<Rightarrow> deployment \<Rightarrow> unit fallible" where
  "run_build registry mc x =
     (let dep = d_id x in do {
        _ \<leftarrow> bs_emit dep ''info'' ''claimed by build-service'';
        s \<leftarrow> lookupSlug (d_project x);
        case s of
          Inl e \<Rightarrow> do { _ \<leftarrow> bs_fail dep ''lookup_slug''; throw e }
        | Inr slug \<Rightarrow>
            if \<not> mc_mkdir_ok mc (work_dir mc dep) then do { _ \<leftarrow> bs_fail dep ''mkdir''; throw (ErrOther ''mkdir'') }
            else do {
              _ \<leftarrow> bs_emit dep ''info'' ''downloading source from object storage'';
              case downloadAndExtract mc (d_source_key x) dep of
                None \<Rightarrow> do { _ \<leftarrow> bs_fail dep ''fetch_source''; throw (ErrOther ''fetch_source'') }
              | Some files \<Rightarrow> build_source registry mc files slug dep
            }
      })"

definition claimAndRun :: "string \<Rightarrow> machine \<Rightarrow> unit fallible" where
  "claimAndRun registry mc =
     attempt ClaimNextQueued (\<lambda>c. case c of None \<Rightarrow> ok () | Some x \<Rightarrow> run_build registry mc x)"


section \<open>The pool of workers\<close>

text \<open>The weighted semaphore of the main loop: a tick of the ticker starts a worker when there
  is a free slot and is skipped when there is none; a worker that returns gives its slot back.\<close>

datatype pool_event = Ticker | WorkerDone

record pool =
  po_free :: nat
  po_busy :: nat

definition new_pool :: "nat \<Rightarrow> pool" where
  "new_pool n = \<lparr>po_free = n, po_busy = 0\<rparr>"

fun pool_run :: "pool_event list \<Rightarrow> pool \<Rightarrow> pool" where
  "pool_run [] p = p"
| "pool_run (Ticker # es) p =
     pool_run es (if po_free p = 0 then p else p\<lparr>po_free := po_free p - 1, po_busy := Suc (po_busy p)\<rparr>)"
| "pool_run (WorkerDone # es) p =
     pool_run es (if po_busy p = 0 then p else p\<lparr>po_free := Suc (po_free p), po_busy := po_busy p - 1\<rparr>)"

lemma pool_slots: "po_free (pool_run es p) + po_busy (pool_run es p) = po_free p + po_busy p"
  by (induction es p rule: pool_run.induct) (simp_all split: if_splits)

end
