(* ===== verification/Rekey.thy ===== *)
theory Rekey
  imports Secrets
begin

text \<open>
  cmd/rekey-env: re-encrypting every row of project\_env under a new key, in one transaction,
  or not at all when a row can be read under neither key.

  The program logs and exits with an error (\<open>Inl\<close>) or finishes (\<open>Inr\<close>).
\<close>

text \<open>The rows in the order \<open>readAll\<close> gives.\<close>

definition row_order :: "env_row \<Rightarrow> string \<times> string" where
  "row_order r = (ev_project r, ev_key r)"

definition readAll :: "env_row list fallible" where
  "readAll = query (\<lambda>d. sort_key row_order (env_rows d))"

definition row_aad :: "env_row \<Rightarrow> string" where
  "row_aad r = EnvAAD (ev_project r) (ev_key r)"

datatype verdict = Skip | Migrate string | Unreadable

definition old_plaintext :: "crypto \<Rightarrow> string \<Rightarrow> env_row \<Rightarrow> string option" where
  "old_plaintext cr old r =
     (case Decrypt cr old (ev_ct r) (row_aad r) of
        Inr pt \<Rightarrow> Some pt
      | Inl _ \<Rightarrow> (case Decrypt cr old (ev_ct r) [] of Inr pt \<Rightarrow> Some pt | Inl _ \<Rightarrow> None))"

definition classify :: "crypto \<Rightarrow> string \<Rightarrow> string \<Rightarrow> env_row \<Rightarrow> verdict" where
  "classify cr old new r =
     (case Decrypt cr new (ev_ct r) (row_aad r) of
        Inr _ \<Rightarrow> Skip
      | Inl _ \<Rightarrow> (case old_plaintext cr old r of Some pt \<Rightarrow> Migrate pt | None \<Rightarrow> Unreadable))"

text \<open>The first loop: the rows to change with their new ciphertexts, and the unreadable ones.\<close>

fun plan ::
  "crypto \<Rightarrow> string \<Rightarrow> string \<Rightarrow> env_row list \<Rightarrow> ((env_row \<times> string) list \<times> env_row list) fallible" where
  "plan cr old new [] = ok ([], [])"
| "plan cr old new (r # rs) =
     (case classify cr old new r of
        Skip \<Rightarrow> plan cr old new rs
      | Unreadable \<Rightarrow> attempt (plan cr old new rs) (\<lambda>(t, f). ok (t, r # f))
      | Migrate pt \<Rightarrow> attempt (Encrypt cr new pt (row_aad r)) (\<lambda>ct.
          attempt (plan cr old new rs) (\<lambda>(t, f). ok ((r, ct) # t, f))))"

definition set_ct :: "env_row \<Rightarrow> string \<Rightarrow> env_row list \<Rightarrow> env_row list" where
  "set_ct r ct rows = update_rows (env_at (ev_project r) (ev_key r)) (\<lambda>x. x\<lparr>ev_ct := ct\<rparr>) rows"

fun apply_changes :: "(env_row \<times> string) list \<Rightarrow> env_row list \<Rightarrow> env_row list fallible" where
  "apply_changes [] rows = ok rows"
| "apply_changes ((r, ct) # cs) rows = attempt tx_statement (\<lambda>_. apply_changes cs (set_ct r ct rows))"

definition unreadable_err :: err where "unreadable_err = ErrOther ''some rows are unreadable''"
definition verify_err :: err where "verify_err = ErrOther ''post-migration verify FAILED''"

definition readable :: "err + string \<Rightarrow> bool" where
  "readable r = (case r of Inl _ \<Rightarrow> False | Inr _ \<Rightarrow> True)"

definition all_decrypt :: "crypto \<Rightarrow> string \<Rightarrow> env_row list \<Rightarrow> bool" where
  "all_decrypt cr kek rows = list_all (\<lambda>r. readable (Decrypt cr kek (ev_ct r) (row_aad r))) rows"

definition verify :: "crypto \<Rightarrow> string \<Rightarrow> unit fallible" where
  "verify cr kek =
     attempt readAll (\<lambda>rows. if all_decrypt cr kek rows \<and> rows \<noteq> [] then ok () else throw verify_err)"

definition write_changes :: "(env_row \<times> string) list \<Rightarrow> unit fallible" where
  "write_changes cs =
     attempt tx_statement (\<lambda>_.
     attempt (query env_rows) (\<lambda>rows.
     attempt (apply_changes cs rows) (\<lambda>rows'.
     exec (\<lambda>_ d. d\<lparr>env_rows := rows'\<rparr>))))"

text \<open>\<open>main\<close>, with the flags parsed: the two keys in base64 and --dry-run.\<close>

definition rekey :: "crypto \<Rightarrow> string \<Rightarrow> string \<Rightarrow> bool \<Rightarrow> unit fallible" where
  "rekey cr old64 new64 dry =
     (case (LoadKEK cr old64, LoadKEK cr new64) of
        (Inr old, Inr new) \<Rightarrow>
          attempt readAll (\<lambda>rows.
          attempt (plan cr old new rows) (\<lambda>(cs, failed).
            if failed \<noteq> [] then throw unreadable_err
            else if dry \<or> cs = [] then ok ()
            else attempt (write_changes cs) (\<lambda>_. verify cr new)))
      | _ \<Rightarrow> throw (ErrOther ''load KEK''))"

end
