(* ===== verification/Steps.thy ===== *)
theory Steps
  imports Router Reconciler Build_Service Rekey
begin

text \<open>
  The abstract specification of the control plane's database: \<open>db_step\<close> lists what a statement
  of the platform may do to it, one rule per kind of change with the conditions under which
  the code makes it. \<open>refines R m\<close> says that a program \<open>m\<close> changes the database by steps of \<open>R\<close>
  only, from every world and whatever calls fail. The theory \<open>Refinement\<close> shows it of every
  request, worker and tool.
\<close>


section \<open>Refinement\<close>

named_theorems refine_intros \<open>refinement rules\<close>

definition refines :: "(database \<Rightarrow> database \<Rightarrow> bool) \<Rightarrow> 'a prog \<Rightarrow> bool" where
  "refines R m = (\<forall>w. R\<^sup>*\<^sup>* (db w) (db (snd (run_state m w))))"

lemma refines_keeps: "keeps db m \<Longrightarrow> refines R m"
  by (simp add: refines_def keeps_def)

lemma refines_return [refine_intros]: "refines R (State_Monad.return x)"
  by (rule refines_keeps) (rule keeps_return)

lemma refines_bind [refine_intros]:
  assumes "refines R m" and "\<And>x. refines R (g x)"
  shows "refines R (State_Monad.bind m g)"
  unfolding refines_def
proof
  fix w
  obtain x v where m: "run_state m w = (x, v)" by (cases "run_state m w")
  have "R\<^sup>*\<^sup>* (db w) (db v)" using assms(1) m by (auto simp: refines_def dest: spec [of _ w])
  moreover have "R\<^sup>*\<^sup>* (db v) (db (snd (run_state (g x) v)))" using assms(2) by (simp add: refines_def)
  ultimately show "R\<^sup>*\<^sup>* (db w) (db (snd (run_state (State_Monad.bind m g) w)))"
    by (simp add: m)
qed

lemma refines_if [refine_intros]:
  "(b \<Longrightarrow> refines R m) \<Longrightarrow> (\<not> b \<Longrightarrow> refines R n) \<Longrightarrow> refines R (if b then m else n)"
  by simp

lemma refines_case_sum [refine_intros]:
  "(\<And>x. r = Inl x \<Longrightarrow> refines R (m x)) \<Longrightarrow> (\<And>y. r = Inr y \<Longrightarrow> refines R (n y)) \<Longrightarrow>
   refines R (case r of Inl x \<Rightarrow> m x | Inr y \<Rightarrow> n y)"
  by (simp split: sum.split)

lemma refines_case_option [refine_intros]:
  "(r = None \<Longrightarrow> refines R m) \<Longrightarrow> (\<And>y. r = Some y \<Longrightarrow> refines R (n y)) \<Longrightarrow>
   refines R (case r of None \<Rightarrow> m | Some y \<Rightarrow> n y)"
  by (simp split: option.split)

lemma refines_case_prod [refine_intros]:
  "(\<And>x y. p = (x, y) \<Longrightarrow> refines R (m x y)) \<Longrightarrow> refines R (case p of (x, y) \<Rightarrow> m x y)"
  by (simp split: prod.split)

lemma refines_case_list [refine_intros]:
  "refines R m \<Longrightarrow> (\<And>x xs. refines R (n x xs)) \<Longrightarrow> refines R (case l of [] \<Rightarrow> m | x # xs \<Rightarrow> n x xs)"
  by (simp split: list.split)

lemma refines_case_bool [refine_intros]:
  "refines R m \<Longrightarrow> refines R n \<Longrightarrow> refines R (case b of True \<Rightarrow> m | False \<Rightarrow> n)"
  by (simp split: bool.split)

lemma refines_case_kind [refine_intros]:
  "refines R m \<Longrightarrow> refines R n \<Longrightarrow> refines R l \<Longrightarrow>
   refines R (case k of ActorUser \<Rightarrow> m | ActorToken \<Rightarrow> n | ActorNone \<Rightarrow> l)"
  by (simp split: actor_kind.split)

lemma refines_let [refine_intros]: "(\<And>x. x = e \<Longrightarrow> refines R (m x)) \<Longrightarrow> refines R (let x = e in m x)"
  by simp

lemma refines_attempt [refine_intros]:
  "refines R m \<Longrightarrow> (\<And>x. refines R (g x)) \<Longrightarrow> refines R (attempt m g)"
  unfolding attempt_def by (intro refine_intros)

lemma refines_orelse [refine_intros]:
  "refines R m \<Longrightarrow> (\<And>e. refines R (h e)) \<Longrightarrow> (\<And>x. refines R (g x)) \<Longrightarrow> refines R (orelse m h g)"
  unfolding orelse_def by (intro refine_intros)

lemma refines_for_each [refine_intros]: "(\<And>x. refines R (b x)) \<Longrightarrow> refines R (for_each b xs)"
  by (induction xs) (auto intro!: refine_intros)

lemma refines_call:
  assumes "\<And>w. R\<^sup>*\<^sup>* (db w) (db (snd (g w)))"
  shows "refines R (call g)"
proof -
  have "R\<^sup>*\<^sup>* (db w) (db (snd (g (w\<lparr>faults := bs\<rparr>))))" for w bs
    using assms [of "w\<lparr>faults := bs\<rparr>"] by simp
  then show ?thesis by (auto simp: refines_def call_def assms split: list.split)
qed

lemma refines_exec: "(\<And>t d. R\<^sup>*\<^sup>* d (f t d)) \<Longrightarrow> refines R (exec f)"
  unfolding exec_def by (rule refines_call) simp

lemma refines_statement: "(\<And>t d. R\<^sup>*\<^sup>* d (snd (f t d))) \<Longrightarrow> refines R (statement f)"
  unfolding statement_def by (rule refines_call) (simp add: case_prod_beta Let_def)

lemma refines_insert_row: "(\<And>i t d. R\<^sup>*\<^sup>* d (snd (f i t d))) \<Longrightarrow> refines R (insert_row f)"
  unfolding insert_row_def by (rule refines_call) (simp add: case_prod_beta Let_def fresh_uuid_def)

lemma refines_query [refine_intros]: "refines R (query f)"
  by (rule refines_keeps) (intro keeps_intros)

lemma refines_query_row [refine_intros]: "refines R (query_row f)"
  by (rule refines_keeps) (intro keeps_intros, simp)

lemma refines_rand_Read [refine_intros]: "refines R (rand_Read n)" "refines R (rand_bytes n)" "refines R get_now"
  by (rule refines_keeps, intro keeps_intros)+

text \<open>The same from one database on, for programs that act on what they have just read.\<close>

definition goes :: "(database \<Rightarrow> database \<Rightarrow> bool) \<Rightarrow> database \<Rightarrow> 'a prog \<Rightarrow> bool" where
  "goes R d m = (\<forall>w :: world. db w = d \<longrightarrow> R\<^sup>*\<^sup>* d (db (snd (run_state m w))))"

lemma refines_goes: "(\<And>d. goes R d m) \<Longrightarrow> refines R m"
  by (simp add: refines_def goes_def)

lemma goes_refines: "refines R m \<Longrightarrow> goes R d m"
  by (auto simp: refines_def goes_def)

lemma goes_attempt:
  assumes "keeps db m" and "\<And>(w :: world) x v. db w = d \<Longrightarrow> run_state m w = (Inr x, v) \<Longrightarrow> goes R d (g x)"
  shows "goes R d (attempt m g)"
  unfolding goes_def
proof (intro allI impI)
  fix w :: world assume w: "db w = d"
  obtain r v where m: "run_state m w = (r, v)" by (cases "run_state m w")
  with keeps_runD [OF assms(1)] w have v: "db v = d" by metis
  show "R\<^sup>*\<^sup>* d (db (snd (run_state (attempt m g) w)))"
  proof (cases r)
    case (Inr x)
    with assms(2) [OF w] m v show ?thesis by (simp add: run_attempt goes_def)
  qed (simp add: run_attempt m v)
qed

lemma query_result: "run_state (query f) w = (Inr x, v) \<Longrightarrow> x = f (db w)"
  by (auto simp: query_def call_def split: list.splits if_splits)

lemma query_row_result: "run_state (query_row f) w = (Inr x, v) \<Longrightarrow> f (db w) = Some x"
  by (auto simp: query_row_def run_attempt split: prod.splits sum.splits option.splits dest!: query_result)

lemma goes_query: "goes R d (g (f d)) \<Longrightarrow> goes R d (attempt (query f) g)"
  by (rule goes_attempt) (auto intro: keeps_intros dest!: query_result)

lemma goes_query_row: "(\<And>x. f d = Some x \<Longrightarrow> goes R d (g x)) \<Longrightarrow> goes R d (attempt (query_row f) g)"
  by (rule goes_attempt) (auto intro: keeps_intros dest!: query_row_result)

lemma keeps_tx [keeps_intros]: "(\<And>w bs. f (w\<lparr>faults := bs\<rparr>) = f w) \<Longrightarrow> keeps f tx_statement"
  unfolding tx_statement_def by (rule keeps_call) auto

lemma keeps_apply_changes: "keeps db (apply_changes cs rows)"
  by (induction cs rows rule: apply_changes.induct) (auto intro!: keeps_intros)

lemma goes_tx: "goes R d (g ()) \<Longrightarrow> goes R d (attempt tx_statement g)"
  by (rule goes_attempt) (auto intro: keeps_intros)

lemma goes_exec: "(\<And>t. R\<^sup>*\<^sup>* d (f t d)) \<Longrightarrow> goes R d (exec f)"
  by (auto simp: goes_def exec_def call_def split: list.split)


section \<open>Projects\<close>

text \<open>The identity of a project: what never changes after its creation.\<close>

definition same_project :: "project \<Rightarrow> project \<Rightarrow> bool" where
  "same_project p q = (p_id q = p_id p \<and> p_slug q = p_slug p \<and> p_owner q = p_owner p \<and>
     p_created q = p_created p \<and> p_manifest q = p_manifest p \<and> p_visibility q = p_visibility p)"

text \<open>An edit that leaves tombstone, port and preset alone.\<close>

definition project_edit :: "project \<Rightarrow> project \<Rightarrow> bool" where
  "project_edit p q = (same_project p q \<and> p_deleted q = p_deleted p \<and> p_port q = p_port p \<and> p_preset q = p_preset p \<and>
     (p_mode q = p_mode p \<or> p_mode q \<in> set egressModes) \<and>
     (p_allow_cidrs q = p_allow_cidrs p \<or> (\<exists>raws. normaliseCIDRs raws = Inr (p_allow_cidrs q))))"

definition deployment_edit :: "deployment \<Rightarrow> deployment \<Rightarrow> bool" where
  "deployment_edit x y = (d_id y = d_id x \<and> d_project y = d_project x \<and> d_trigger_type y = d_trigger_type x \<and>
     d_triggered_by y = d_triggered_by x \<and> d_manifest y = d_manifest x \<and> d_created y = d_created x \<and>
     (d_queued x \<noteq> None \<longrightarrow> d_queued y \<noteq> None) \<and> (d_build_started x \<noteq> None \<longrightarrow> d_build_started y \<noteq> None) \<and>
     (d_image x \<noteq> [] \<longrightarrow> d_image y \<noteq> []) \<and>
     (d_build_done x \<noteq> None \<longrightarrow> d_build_done y = d_build_done x) \<and> (d_deployed x \<noteq> None \<longrightarrow> d_deployed y = d_deployed x))"

text \<open>The stages of a deployment leave stamps: one that waits in the queue was queued, one that is
  built or further was claimed by a worker, one that is pushed or further has an image and the end of
  its build, and one that runs its promotion.\<close>

definition stage_ok :: "deployment \<Rightarrow> bool" where
  "stage_ok x \<longleftrightarrow>
     (d_status x \<in> {Queued, Building, Pushing, Deploying, Running} \<longrightarrow> d_queued x \<noteq> None) \<and>
     (d_status x \<in> {Building, Pushing, Deploying, Running} \<longrightarrow> d_build_started x \<noteq> None) \<and>
     (d_status x \<in> {Pushing, Deploying, Running} \<longrightarrow> d_image x \<noteq> [] \<and> d_build_done x \<noteq> None) \<and>
     (d_status x = Running \<longrightarrow> d_deployed x \<noteq> None)"

definition token_edit :: "token_row \<Rightarrow> token_row \<Rightarrow> bool" where
  "token_edit x y = (y = x\<lparr>t_used := t_used y\<rparr>)"

definition user_edit :: "user \<Rightarrow> user \<Rightarrow> bool" where
  "user_edit u v = (u_id v = u_id u \<and> u_email v = u_email u \<and> u_created v = u_created u)"

definition reseal :: "env_row \<Rightarrow> env_row \<Rightarrow> bool" where
  "reseal r s = (s = r\<lparr>ev_ct := ev_ct s\<rparr>)"

text \<open>A path rule the handlers let through: source ranges only behind the token check, and none
  of them the whole world.\<close>

definition path_rule_ok :: "path_rule \<Rightarrow> bool" where
  "path_rule_ok r = (valid_mode (r_mode r) \<and>
     (r_cidrs r \<noteq> [] \<longrightarrow> r_mode r = PathRuleModeToken \<and> \<not> hasWorldCIDR (r_cidrs r)))"

text \<open>An egress rule that is not a way to the platform's own protected ports.\<close>

definition egress_rule_ok :: "server \<Rightarrow> egress_rule \<Rightarrow> bool" where
  "egress_rule_ok sv g =
     (port_range_check (g_kind g) (g_port g) \<and>
      (g_kind g = EgressKindEndpoint \<and> (g_port g = 0 \<or> g_port g \<in> set egressForbiddenPorts) \<longrightarrow>
         covered_ip (platformProtectedIPs sv) (g_value g) = None))"

definition egress_key :: "egress_rule \<Rightarrow> uuid \<times> string \<times> string \<times> int" where
  "egress_key g = (g_project g, g_kind g, g_value g, g_port g)"


section \<open>The steps\<close>

inductive plat_step :: "bool \<Rightarrow> server \<Rightarrow> database \<Rightarrow> database \<Rightarrow> bool" for roll sv where
  add_user: "i \<notin> u_id ` set (users d) \<Longrightarrow> \<forall>u \<in> set (users d). \<not> EqualFold (u_email u) email \<Longrightarrow>
    plat_step roll sv d (d\<lparr>users := users d @ [\<lparr>u_id = i, u_email = email, u_name = name, u_admin = False,
      u_created = t, u_seen = Some t\<rparr>]\<rparr>)"
| edit_users: "\<forall>u. user_edit u (f u) \<Longrightarrow> plat_step roll sv d (d\<lparr>users := map f (users d)\<rparr>)"
| add_project: "i \<notin> p_id ` set (projects d) \<Longrightarrow> slug \<notin> p_slug ` set (projects d) \<Longrightarrow> owner \<in> u_id ` set (users d) \<Longrightarrow>
    ''internal'' \<in> pr_name ` set (presets d) \<Longrightarrow> ValidateSlug slug = None \<Longrightarrow>
    plat_step roll sv d (d\<lparr>projects := projects d @ [new_project i t slug name owner m]\<rparr>)"
| edit_projects: "\<forall>p. project_edit p (f p) \<Longrightarrow> plat_step roll sv d (d\<lparr>projects := map f (projects d)\<rparr>)"
| set_preset: "v = None \<or> v \<in> Some ` pr_name ` set (presets d) \<Longrightarrow>
    plat_step roll sv d (d\<lparr>projects := update_rows q (\<lambda>p. p\<lparr>p_preset := v\<rparr>) (projects d)\<rparr>)"
| allot_port: "plat_step roll sv d (d\<lparr>projects := update_rows (\<lambda>p. p_id p = i \<and> live p) (\<lambda>p. p\<lparr>p_port := free_port d\<rparr>) (projects d)\<rparr>)"
| tombstone: "plat_step roll sv d (d\<lparr>projects := update_rows (\<lambda>p. p_id p = i \<and> live p)
    (\<lambda>p. p\<lparr>p_deleted := Some t, p_status := PDeleting\<rparr>) (projects d)\<rparr>)"
| add_deployment: "d_id x \<notin> d_id ` set (deployments d) \<Longrightarrow> d_project x \<in> p_id ` set (projects d) \<Longrightarrow> d_status x = Pending \<Longrightarrow>
    plat_step roll sv d (d\<lparr>deployments := deployments d @ [x]\<rparr>)"
| edit_deployments: "\<forall>x. deployment_edit x (f x) \<and> (stage_ok x \<longrightarrow> stage_ok (f x)) \<Longrightarrow> plat_step roll sv d (d\<lparr>deployments := map f (deployments d)\<rparr>)"
| roll_out: "roll \<Longrightarrow> \<forall>x. deployment_edit x (f x) \<Longrightarrow> plat_step roll sv d (d\<lparr>deployments := map f (deployments d)\<rparr>)"
| add_event: "dep \<in> d_id ` set (deployments d) \<Longrightarrow>
    plat_step roll sv d (d\<lparr>event_seq := event_seq d + 1, events := events d @
      [\<lparr>e_id = event_seq d, e_deployment = dep, e_phase = phase, e_level = level, e_message = msg\<rparr>]\<rparr>)"
| skip_event: "plat_step roll sv d (d\<lparr>event_seq := event_seq d + 1\<rparr>)"
| set_env: "pid \<in> p_id ` set (projects d) \<Longrightarrow> rx_match envKeyRe key \<Longrightarrow>
    plat_step roll sv d (d\<lparr>env_rows := put_env pid key v (env_rows d)\<rparr>)"
| delete_env: "plat_step roll sv d (d\<lparr>env_rows := delete_rows q (env_rows d)\<rparr>)"
| reseal_env: "\<forall>r. reseal r (f r) \<Longrightarrow> plat_step roll sv d (d\<lparr>env_rows := map f (env_rows d)\<rparr>)"
| add_token: "t_id x \<notin> t_id ` set (tokens d) \<Longrightarrow> t_revoked x = None \<Longrightarrow>
    \<forall>y \<in> set (tokens d). \<not> (t_hash y = t_hash x \<and> t_revoked y = None) \<Longrightarrow>
    plat_step roll sv d (d\<lparr>tokens := tokens d @ [x]\<rparr>)"
| edit_tokens: "\<forall>x. token_edit x (f x) \<Longrightarrow> plat_step roll sv d (d\<lparr>tokens := map f (tokens d)\<rparr>)"
| add_audit: "plat_step roll sv d (d\<lparr>audits := audits d @ [x]\<rparr>)"
| add_collab: "co_project c \<in> p_id ` set (projects d) \<Longrightarrow> co_user c \<in> u_id ` set (users d) \<Longrightarrow>
    \<forall>x \<in> set (collabs d). \<not> (co_project x = co_project c \<and> co_user x = co_user c) \<Longrightarrow>
    plat_step roll sv d (d\<lparr>collabs := collabs d @ [c]\<rparr>)"
| edit_collabs: "plat_step roll sv d (d\<lparr>collabs := update_rows q (\<lambda>c. c\<lparr>co_role := role\<rparr>) (collabs d)\<rparr>)"
| delete_collabs: "plat_step roll sv d (d\<lparr>collabs := delete_rows q (collabs d)\<rparr>)"
| add_domain: "dm_id x \<notin> dm_id ` set (domains d) \<Longrightarrow> dm_host x \<notin> dm_host ` set (domains d) \<Longrightarrow>
    dm_project x \<in> p_id ` set (projects d) \<Longrightarrow> validateHostname (dm_host x) = None \<Longrightarrow>
    plat_step roll sv d (d\<lparr>domains := domains d @ [x]\<rparr>)"
| delete_domains: "plat_step roll sv d (d\<lparr>domains := delete_rows q (domains d)\<rparr>)"
| set_configs: "plat_step roll sv d (d\<lparr>configs := cs\<rparr>)"
| add_preset: "pr_name x \<notin> pr_name ` set (presets d) \<Longrightarrow> \<not> pr_system x \<Longrightarrow> normaliseCIDRs raws = Inr (pr_cidrs x) \<Longrightarrow>
    plat_step roll sv d (d\<lparr>presets := presets d @ [x]\<rparr>)"
| seed_preset: "pr_name x \<notin> pr_name ` set (presets d) \<Longrightarrow> pr_system x \<Longrightarrow> pr_cidrs x = [] \<Longrightarrow>
    plat_step roll sv d (d\<lparr>presets := presets d @ [x]\<rparr>)"
| edit_presets: "\<forall>x. pr_name (f x) = pr_name x \<and> pr_system (f x) = pr_system x \<and>
      (pr_cidrs (f x) = pr_cidrs x \<or> (\<exists>raws. normaliseCIDRs raws = Inr (pr_cidrs (f x)))) \<Longrightarrow>
    plat_step roll sv d (d\<lparr>presets := map f (presets d)\<rparr>)"
| drop_preset: "find_preset name d = Some x \<Longrightarrow> \<not> pr_system x \<Longrightarrow> plat_step roll sv d (delete_preset name d)"
| add_path_rule: "r_id r \<notin> r_id ` set (path_rules d) \<Longrightarrow> (r_project r, r_prefix r) \<notin> (\<lambda>x. (r_project x, r_prefix x)) ` set (path_rules d) \<Longrightarrow>
    r_project r \<in> p_id ` set (projects d) \<Longrightarrow> path_rule_ok r \<Longrightarrow>
    plat_step roll sv d (d\<lparr>path_rules := path_rules d @ [r]\<rparr>)"
| edit_path_rule: "\<forall>x \<in> set (path_rules d). \<not> (r_id x \<noteq> rid \<and> r_project x = pid \<and> r_prefix x = pfx) \<Longrightarrow>
    (\<And>r. r_project (f r) = r_project r \<and> r_id (f r) = r_id r \<and> r_prefix (f r) = pfx \<and> path_rule_ok (f r)) \<Longrightarrow>
    plat_step roll sv d (d\<lparr>path_rules := update_rows (\<lambda>r. r_id r = rid \<and> r_project r = pid) f (path_rules d)\<rparr>)"
| delete_path_rules: "plat_step roll sv d (d\<lparr>path_rules := delete_rows q (path_rules d)\<rparr>)"
| delete_egress: "plat_step roll sv d (d\<lparr>egress_rules := delete_rows q (egress_rules d)\<rparr>)"
| add_egress: "egress_rule_ok sv g \<Longrightarrow> egress_key g \<notin> egress_key ` set (egress_rules d) \<Longrightarrow>
    plat_step roll sv d (d\<lparr>egress_rules := egress_rules d @ [g]\<rparr>)"
| set_stats: "plat_step roll sv d (d\<lparr>domain_stats := ss\<rparr>)"
| set_log: "plat_step roll sv d (d\<lparr>access_log := ls, log_seq := n\<rparr>)"

text \<open>\<open>db_step\<close> are all steps, \<open>quiet_step\<close> those that bring no deployment a stage forward that it is
  not stamped for.\<close>

abbreviation db_step :: "server \<Rightarrow> database \<Rightarrow> database \<Rightarrow> bool" where
  "db_step \<equiv> plat_step True"

abbreviation quiet_step :: "server \<Rightarrow> database \<Rightarrow> database \<Rightarrow> bool" where
  "quiet_step \<equiv> plat_step False"

abbreviation quiet :: "server \<Rightarrow> 'a prog \<Rightarrow> bool" where
  "quiet sv m \<equiv> refines (quiet_step sv) m"

abbreviation db_refines :: "server \<Rightarrow> 'a prog \<Rightarrow> bool" where
  "db_refines sv m \<equiv> refines (db_step sv) m"

lemma quiet_db_step: "quiet_step sv d d' \<Longrightarrow> db_step sv d d'"
  by (erule plat_step.cases) (simp_all only:, (rule plat_step.intros; assumption?)+)

lemma step1: "plat_step roll sv d d' \<Longrightarrow> (plat_step roll sv)\<^sup>*\<^sup>* d d'"
  by (rule r_into_rtranclp)

end
