(* ===== verification/Migrations.thy ===== *)
theory Migrations
  imports Store "HOL-Library.Multiset"
begin

text \<open>
  Applying the migrations (internal/store/store.go, migrations/*.up.sql). \<open>Migrate\<close> runs every
  \<open>.up.sql\<close> file of a directory in lexical order, at every start of the control plane.

  A file's content is modelled as its effect on the rows: of the eighteen files four touch rows
  (0005 seeds the presets, 0008 and 0010 update projects, 0018 checks the egress rules), the
  others only create tables, columns and indexes that are there already. A file is sent as one
  simple query, so it has all of its effect or none.
\<close>


section \<open>Reading a directory\<close>

type_synonym script = "int \<Rightarrow> database \<Rightarrow> err + database"

datatype entry = Directory | File "script option"

type_synonym file_tree = "string \<Rightarrow> (string \<times> entry) list option"

text \<open>The paths of the scripts in a directory with what reading them gives.\<close>

definition is_script :: "string \<times> entry \<Rightarrow> bool" where
  "is_script e = (case snd e of Directory \<Rightarrow> False | File _ \<Rightarrow> HasSuffix (fst e) ''.up.sql'')"

fun content_of :: "entry \<Rightarrow> script option" where
  "content_of Directory = None"
| "content_of (File c) = c"

definition script_paths :: "string \<Rightarrow> (string \<times> entry) list \<Rightarrow> (string \<times> script option) list" where
  "script_paths dir es = sort_key fst (map (\<lambda>e. (dir @ ''/'' @ fst e, content_of (snd e))) (filter is_script es))"

definition run_script :: "script \<Rightarrow> unit fallible" where
  "run_script s = statement (\<lambda>t d. case s t d of Inl e \<Rightarrow> (Inl e, d) | Inr d' \<Rightarrow> (Inr (), d'))"

fun run_files :: "(string \<times> script option) list \<Rightarrow> unit fallible" where
  "run_files [] = ok ()"
| "run_files ((_, c) # fs) =
     (case c of
        None \<Rightarrow> throw (ErrOther ''read file'')
      | Some s \<Rightarrow> attempt (run_script s) (\<lambda>_. run_files fs))"

definition Migrate :: "file_tree \<Rightarrow> string \<Rightarrow> unit fallible" where
  "Migrate fs dir =
     (case fs dir of
        None \<Rightarrow> throw (ErrOther ''read migrations dir'')
      | Some es \<Rightarrow> run_files (script_paths dir es))"


section \<open>The migrations\<close>

text \<open>The seeded presets with their labels (UTF-8).\<close>

definition public_label :: string where
  "public_label = map char_of ([0xE5, 0x85, 0xAC, 0xE5, 0xBC, 0x80, 0xE8, 0xAE, 0xBF, 0xE9, 0x97, 0xAE] :: nat list)"

definition public_desc :: string where
  "public_desc = map char_of ([0xE4, 0xB8, 0x8D, 0xE5, 0x81, 0x9A, 0x20, 0x49, 0x50, 0x20, 0xE9, 0x99, 0x90, 0xE5, 0x88, 0xB6,
    0xEF, 0xBC, 0x9B, 0xE4, 0xBB, 0xBB, 0xE4, 0xBD, 0x95, 0xE8, 0x83, 0xBD, 0xE8, 0xA7, 0xA3, 0xE6,
    0x9E, 0x90, 0xE5, 0x88, 0xB0, 0x20, 0x69, 0x6E, 0x67, 0x72, 0x65, 0x73, 0x73, 0x20, 0xE7, 0x9A,
    0x84, 0xE6, 0x9D, 0xA5, 0xE6, 0xBA, 0x90, 0xE9, 0x83, 0xBD, 0xE8, 0x83, 0xBD, 0xE8, 0xAE, 0xBF,
    0xE9, 0x97, 0xAE, 0xE3, 0x80, 0x82] :: nat list)"

definition internal_label :: string where
  "internal_label = map char_of ([0xE5, 0x86, 0x85, 0xE9, 0x83, 0xA8, 0xE8, 0xAE, 0xBF, 0xE9, 0x97, 0xAE] :: nat list)"

definition internal_desc :: string where
  "internal_desc = map char_of ([0xE5, 0x8F, 0xAA, 0xE5, 0x85, 0x81, 0xE8, 0xAE, 0xB8, 0xE5, 0x85, 0xAC, 0xE5, 0x8F, 0xB8, 0xE5,
    0x86, 0x85, 0xE7, 0xBD, 0x91, 0xE6, 0xAE, 0xB5, 0xE8, 0xAE, 0xBF, 0xE9, 0x97, 0xAE, 0xEF, 0xBC,
    0x9B, 0xE9, 0xA6, 0x96, 0xE6, 0xAC, 0xA1, 0xE5, 0xAE, 0x89, 0xE8, 0xA3, 0x85, 0xE5, 0x90, 0x8E,
    0xE8, 0xAF, 0xB7, 0xE7, 0xAE, 0xA1, 0xE7, 0x90, 0x86, 0xE5, 0x91, 0x98, 0xE5, 0x8E, 0xBB, 0x20,
    0xE8, 0xAE, 0xBE, 0xE7, 0xBD, 0xAE, 0x20, 0xE2, 0x86, 0x92, 0x20, 0xE8, 0xAE, 0xBF, 0xE9, 0x97,
    0xAE, 0xE9, 0xA2, 0x84, 0xE8, 0xAE, 0xBE, 0x20, 0xE5, 0xA1, 0xAB, 0xE5, 0x85, 0xA5, 0xE5, 0xAE,
    0x9E, 0xE9, 0x99, 0x85, 0x20, 0x43, 0x49, 0x44, 0x52, 0xE3, 0x80, 0x82] :: nat list)"

definition seeded :: "string \<Rightarrow> string \<Rightarrow> string \<Rightarrow> int \<Rightarrow> preset list \<Rightarrow> preset list" where
  "seeded name label desc t ps =
     (if name \<in> pr_name ` set ps then ps
      else ps @ [\<lparr>pr_name = name, pr_label = label, pr_desc = desc, pr_cidrs = [], pr_system = True,
                  pr_updated = t, pr_by = None, pr_notes = []\<rparr>])"

definition with_presets :: "int \<Rightarrow> database \<Rightarrow> database" where
  "with_presets t d = d\<lparr>presets := seeded ''internal'' internal_label internal_desc t
     (seeded ''public'' public_label public_desc t (presets d))\<rparr>"

definition seed_presets :: script where
  "seed_presets t d = Inr (with_presets t d)"

definition tls_on :: "project \<Rightarrow> project" where
  "tls_on p = (if live p \<and> \<not> p_tls p then p\<lparr>p_tls := True\<rparr> else p)"

definition tls_default_on :: script where
  "tls_default_on t d = Inr (d\<lparr>projects := map tls_on (projects d)\<rparr>)"

text \<open>\<open>access_preset\<close> references the presets.\<close>

definition custom_mode :: "project \<Rightarrow> bool" where
  "custom_mode p \<longleftrightarrow> live p \<and> p_preset p = None"

definition to_internal :: "project \<Rightarrow> project" where
  "to_internal p = (if custom_mode p then p\<lparr>p_preset := Some ''internal''\<rparr> else p)"

definition default_internal :: script where
  "default_internal t d =
     (if (\<exists>p \<in> set (projects d). custom_mode p) \<and> ''internal'' \<notin> pr_name ` set (presets d) then Inl ErrForeignKey
      else Inr (d\<lparr>projects := map to_internal (projects d)\<rparr>))"

definition egress_any_port :: script where
  "egress_any_port t d =
     (if \<forall>r \<in> set (egress_rules d). port_range_check (g_kind r) (g_port r) then Inr d else Inl ErrCheck)"

definition schema_only :: script where
  "schema_only t d = Inr d"

definition up_scripts :: "(string \<times> script) list" where
  "up_scripts =
    [(''0001_init.up.sql'', schema_only),
     (''0002_collaborators_domains.up.sql'', schema_only),
     (''0003_system_config.up.sql'', schema_only),
     (''0004_project_allow_cidrs.up.sql'', schema_only),
     (''0005_cidr_presets.up.sql'', seed_presets),
     (''0006_project_env_system_flag.up.sql'', schema_only),
     (''0007_project_tls_enabled.up.sql'', schema_only),
     (''0008_project_tls_default_on.up.sql'', tls_default_on),
     (''0009_project_api_tokens_and_path_rules.up.sql'', schema_only),
     (''0010_access_preset_default_internal.up.sql'', default_internal),
     (''0011_project_egress_rules.up.sql'', schema_only),
     (''0012_project_egress_proxy_port.up.sql'', schema_only),
     (''0013_path_rule_allow_cidrs.up.sql'', schema_only),
     (''0014_cidr_preset_notes.up.sql'', schema_only),
     (''0015_project_egress_mode.up.sql'', schema_only),
     (''0016_egress_domain_stats.up.sql'', schema_only),
     (''0017_egress_access_log.up.sql'', schema_only),
     (''0018_egress_any_port.up.sql'', egress_any_port)]"


section \<open>What a run does\<close>

lemma append_le: "p @ a \<le> p @ b \<longleftrightarrow> a \<le> (b :: string)"
  by (induction p) simp_all

lemma sorted_paths: "sorted (map (\<lambda>n. dir @ ''/'' @ n) ns) \<longleftrightarrow> sorted ns" for ns :: "string list"
  by (simp add: sorted_map append_le)

text \<open>The listing of a directory that holds the migrations of the repository: every name once,
  and its scripts are \<open>up_scripts\<close>, in any order and with anything else in between.\<close>

definition as_file :: "string \<times> script \<Rightarrow> string \<times> entry" where
  "as_file x = (fst x, File (Some (snd x)))"

definition migration_dir :: "(string \<times> entry) list \<Rightarrow> bool" where
  "migration_dir es \<longleftrightarrow> distinct (map fst es) \<and> set (filter is_script es) = as_file ` set up_scripts"

text \<open>Whatever directory is read, its scripts are among those of the repository.\<close>

definition repo_files :: "file_tree \<Rightarrow> bool" where
  "repo_files fs \<longleftrightarrow> (\<forall>dir es e s. fs dir = Some es \<longrightarrow> e \<in> set es \<longrightarrow> is_script e \<longrightarrow>
     content_of (snd e) = Some s \<longrightarrow> s \<in> snd ` set up_scripts)"

text \<open>The scripts run in the same order however the directory is listed.\<close>

lemma script_paths_order:
  assumes "distinct (map fst es)" and "distinct (map fst es')" and "set (filter is_script es) = set (filter is_script es')"
  shows "script_paths dir es = script_paths dir es'"
proof -
  let ?f = "\<lambda>e. (dir @ ''/'' @ fst e, content_of (snd e))"
  have d: "distinct (map fst (filter is_script es))" "distinct (map fst (filter is_script es'))"
    using assms(1,2) by (simp_all add: distinct_map_filter)
  then have m: "mset (filter is_script es) = mset (filter is_script es')"
    using assms(3) by (metis distinct_map set_eq_iff_mset_eq_distinct)
  have "inj_on (fst \<circ> ?f) (set (filter is_script es))"
    using d(1) by (auto simp: distinct_map inj_on_def)
  then have "inj_on fst (set (map ?f (filter is_script es)))" by (auto simp: inj_on_def)
  then show ?thesis
    unfolding script_paths_def using m by (intro sort_key_inj_key_eq) simp_all
qed

lemma script_paths_repo:
  assumes "migration_dir es"
  shows "script_paths dir es = map (\<lambda>x. (dir @ ''/'' @ fst x, Some (snd x))) up_scripts"
proof -
  have d: "distinct (map fst up_scripts)" "sorted (map fst up_scripts)" "\<forall>x \<in> set up_scripts. is_script (as_file x)"
    by code_simp+
  have "sorted (map (\<lambda>n. dir @ ''/'' @ n) (map fst up_scripts))" using d(2) by (simp only: sorted_paths)
  then have "sorted (map fst (map (\<lambda>x. (dir @ ''/'' @ fst x, Some (snd x))) up_scripts))" by (simp add: comp_def)
  moreover have "map (\<lambda>x. (dir @ ''/'' @ fst x, Some (snd x))) up_scripts =
      map (\<lambda>e. (dir @ ''/'' @ fst e, content_of (snd e))) (map as_file up_scripts)"
    by (simp add: as_file_def)
  moreover have "filter is_script (map as_file up_scripts) = map as_file up_scripts" using d(3) by (auto simp: filter_id_conv)
  moreover have "script_paths dir es = script_paths dir (map as_file up_scripts)"
    using assms d by (intro script_paths_order) (auto simp: migration_dir_def as_file_def comp_def)
  ultimately show ?thesis by (simp only: script_paths_def sort_key_id_if_sorted)
qed

definition reset_project :: "project \<Rightarrow> project" where
  "reset_project p =
     (if live p then p\<lparr>p_tls := True, p_preset := (if p_preset p = None then Some ''internal'' else p_preset p)\<rparr> else p)"

lemma reset_project: "to_internal (tls_on p) = reset_project p"
  by (cases p) (simp add: to_internal_def tls_on_def custom_mode_def reset_project_def live_def)

definition migrated :: "int \<Rightarrow> database \<Rightarrow> database" where
  "migrated t d = (with_presets t d)\<lparr>projects := map reset_project (projects d)\<rparr>"

definition ports_checked :: "database \<Rightarrow> bool" where
  "ports_checked d \<longleftrightarrow> (\<forall>r \<in> set (egress_rules d). port_range_check (g_kind r) (g_port r))"

lemma internal_seeded: "''internal'' \<in> pr_name ` set (presets (with_presets t d))"
  by (auto simp: with_presets_def seeded_def)

lemma run_script_ok: "faults w = [] \<Longrightarrow> s (now w) (db w) = Inr d \<Longrightarrow> run_state (run_script s) w = (Inr (), w\<lparr>db := d\<rparr>)"
  by (simp add: run_script_def statement_def)

lemma run_files_Cons_ok:
  "faults w = [] \<Longrightarrow> s (now w) (db w) = Inr d \<Longrightarrow> run_state (run_files ((f, Some s) # fs)) w = run_state (run_files fs) (w\<lparr>db := d\<rparr>)"
  by (simp add: run_script_ok attempt_def)

lemma Migrate_ok:
  assumes "faults w = []" and "fs dir = Some es" and "migration_dir es" and "ports_checked (db w)"
  shows "run_state (Migrate fs dir) w = (Inr (), w\<lparr>db := migrated (now w) (db w)\<rparr>)"
proof -
  note scripts = schema_only_def seed_presets_def tls_default_on_def default_internal_def egress_any_port_def
  have "ports_checked (migrated (now w) (db w))" using assms(4) by (simp add: ports_checked_def migrated_def with_presets_def)
  moreover have "map to_internal (map tls_on ps) = map reset_project ps" for ps by (simp add: reset_project)
  moreover have "projects (with_presets t d) = projects d" for t d by (simp add: with_presets_def)
  ultimately show ?thesis using assms(1,2) internal_seeded [of "now w" "db w"]
    by (simp add: Migrate_def script_paths_repo [OF assms(3)] up_scripts_def run_files_Cons_ok scripts ports_checked_def migrated_def
        del: run_files.simps(2) map_map list.map_comp)
qed

lemma seeded_twice: "seeded n l e t' (seeded n l e t ps) = seeded n l e t ps"
  by (auto simp: seeded_def)

end
