(* ===== verification/Startup.thy ===== *)
theory Startup
  imports Router Reconciler Build_Service Migrations
begin

text \<open>
  The two programs from their command line to their work (cmd/control-plane/main.go,
  cmd/build-service/main.go): configuration, database, migrations, bootstrap token, key,
  settings, object store, deployer, and the loops they start.

  \<open>platform\<close> collects what the programs find: the environment, the migration files, and the
  libraries. A fatal error is the result \<open>Inl\<close>; a non-fatal one is logged and ignored.
\<close>

record platform =
  pl_env :: env_lib
  pl_dsn_ok :: "string \<Rightarrow> bool"
  pl_files :: file_tree
  pl_crypto :: crypto
  pl_jwt :: jwt_lib
  pl_minio :: minio_lib
  pl_kube :: kube_lib
  pl_uuid :: "string \<Rightarrow> uuid option"
  pl_kubelet :: kubelet


section \<open>The database\<close>

definition Open :: "(string \<Rightarrow> bool) \<Rightarrow> string \<Rightarrow> unit fallible" where
  "Open dsn_ok dsn = (if \<not> dsn_ok dsn then throw (ErrOther ''open db'') else call (\<lambda>w. (Inr (), w)))"

text \<open>The directory of the container image, else the one of the repository.\<close>

definition migrate_db :: "file_tree \<Rightarrow> unit fallible" where
  "migrate_db fs = do {
     r \<leftarrow> Migrate fs ''/migrations'';
     case r of Inr _ \<Rightarrow> ok () | Inl _ \<Rightarrow> Migrate fs ''migrations''
   }"

definition load_config :: "'a option \<Rightarrow> 'a fallible" where
  "load_config c = (case c of None \<Rightarrow> throw (ErrOther ''config'') | Some x \<Rightarrow> ok x)"

definition of_option :: "string \<Rightarrow> 'a option \<Rightarrow> 'a fallible" where
  "of_option msg c = (case c of None \<Rightarrow> throw (ErrOther msg) | Some x \<Rightarrow> ok x)"


section \<open>The control plane\<close>

definition new_process :: "platform \<Rightarrow> control_plane \<Rightarrow> string \<Rightarrow> storage_client \<Rightarrow> process" where
  "new_process pl c kek obj =
     \<lparr>pc_server = NewServer c (pl_crypto pl) (pl_jwt pl) kek (NewDeployer (pl_kube pl) c),
      pc_uuid = pl_uuid pl, pc_minio = pl_minio pl, pc_objects = obj, pc_kubelet = pl_kubelet pl\<rparr>"

text \<open>The settings start as the environment has them, and stay so when \<open>Reload\<close> fails.\<close>

definition load_settings :: "platform \<Rightarrow> control_plane \<Rightarrow> string \<Rightarrow> unit prog" where
  "load_settings pl c kek = do {
     _ \<leftarrow> set_kc (env_kc c);
     _ \<leftarrow> Reload (NewServer c (pl_crypto pl) (pl_jwt pl) kek None);
     RebuildJWTVerifier
   }"

definition boot :: "platform \<Rightarrow> control_plane \<Rightarrow> process fallible" where
  "boot pl c = do {
     _ \<leftarrow> ensureBootstrapToken (pl_crypto pl) (cp_DevBootstrapToken c);
     case LoadKEK (pl_crypto pl) (cp_KEKBase64 c) of
       Inl e \<Rightarrow> throw e
     | Inr kek \<Rightarrow> do {
         _ \<leftarrow> load_settings pl c kek;
         attempt (of_option ''minio'' (New (pl_minio pl) (cp_storage c))) (\<lambda>obj. do {
           _ \<leftarrow> EnsureBucket obj;
           ok (new_process pl c kek obj)
         })
       }
   }"

definition serve_config :: "platform \<Rightarrow> control_plane \<Rightarrow> process fallible" where
  "serve_config pl c =
     attempt (Open (pl_dsn_ok pl) (cp_DatabaseURL c)) (\<lambda>_. attempt (migrate_db (pl_files pl)) (\<lambda>_. boot pl c))"

definition runServer :: "platform \<Rightarrow> process fallible" where
  "runServer pl = attempt (load_config (LoadControlPlane (pl_env pl))) (serve_config pl)"

text \<open>What runs beside the server when there is a deployer: the reconciler's loops, the sweeps and
  the collector. The loops are cut to \<open>n\<close> turns.\<close>

fun ticks :: "server \<Rightarrow> deployer \<Rightarrow> kubelet \<Rightarrow> nat \<Rightarrow> summaries \<Rightarrow> summaries option prog" where
  "ticks sv dc kl 0 sums = State_Monad.return (Some sums)"
| "ticks sv dc kl (Suc n) sums = do {
     r \<leftarrow> tick sv dc kl sums;
     case r of None \<Rightarrow> State_Monad.return None | Some s \<Rightarrow> ticks sv dc kl n s
   }"

definition reconciler_run :: "server \<Rightarrow> deployer \<Rightarrow> kubelet \<Rightarrow> nat \<Rightarrow> unit prog" where
  "reconciler_run sv dc kl n = do {
     _ \<leftarrow> syncPlatformAllowList sv;
     _ \<leftarrow> ticks sv dc kl n Map.empty;
     State_Monad.return ()
   }"

definition runHealthLoop :: "nat \<Rightarrow> unit prog" where
  "runHealthLoop n = for_each (\<lambda>_. reconcileProjectHealth) [0..<Suc n]"

definition background :: "process \<Rightarrow> nat \<Rightarrow> unit prog list" where
  "background pc n =
     (let sv = pc_server pc in
      case sv_dep sv of
        None \<Rightarrow> []
      | Some dc \<Rightarrow>
          [reconciler_run sv dc (pc_kubelet pc) n, runHealthLoop n, SweepIngressesAtStartup sv,
           do { _ \<leftarrow> SweepEgressProxyAtStartup renderSquidConf sv; SweepEgressModesAtStartup renderSquidConf sv },
           RunEgressLogCollector sv n])"


section \<open>The other commands\<close>

definition runMigrate :: "platform \<Rightarrow> unit fallible" where
  "runMigrate pl =
     attempt (load_config (LoadControlPlane (pl_env pl))) (\<lambda>c.
     attempt (Open (pl_dsn_ok pl) (cp_DatabaseURL c)) (\<lambda>_. migrate_db (pl_files pl)))"

definition seed_command :: "platform \<Rightarrow> string fallible" where
  "seed_command pl =
     attempt (load_config (LoadControlPlane (pl_env pl))) (\<lambda>c.
     attempt (Open (pl_dsn_ok pl) (cp_DatabaseURL c)) (\<lambda>_. runSeedDevToken (pl_crypto pl)))"

datatype command = Serve | Seed_Dev_Token | Run_Migrations

text \<open>The command of an argument vector, the program's name included.\<close>

definition command_of :: "string list \<Rightarrow> command" where
  "command_of args =
     (case args of
        _ # a # _ \<Rightarrow> if a = ''seed-dev-token'' then Seed_Dev_Token else if a = ''migrate'' then Run_Migrations else Serve
      | _ \<Rightarrow> Serve)"

definition main_program :: "platform \<Rightarrow> string list \<Rightarrow> process option fallible" where
  "main_program pl args =
     (case command_of args of
        Serve \<Rightarrow> attempt (runServer pl) (\<lambda>pc. ok (Some pc))
      | Seed_Dev_Token \<Rightarrow> attempt (seed_command pl) (\<lambda>_. ok None)
      | Run_Migrations \<Rightarrow> attempt (runMigrate pl) (\<lambda>_. ok None))"


section \<open>The build service\<close>

text \<open>What the worker loop starts with: the registry and the machine of its builds, and its pool. The
  poll interval only sets the pace.\<close>

definition build_main :: "platform \<Rightarrow> machine \<Rightarrow> (string \<times> machine \<times> pool) fallible" where
  "build_main pl mc =
     attempt (load_config (LoadBuildService (pl_env pl))) (\<lambda>c.
     if \<not> mc_mkdir_ok mc (bs_WorkDir c) then throw (ErrOther ''mkdir workdir'')
     else attempt (Open (pl_dsn_ok pl) (bs_DatabaseURL c)) (\<lambda>_.
       attempt (of_option ''minio'' (New (pl_minio pl) (bs_storage c))) (\<lambda>_.
       ok (bs_RegistryHost c, mc\<lparr>mc_workdir := bs_WorkDir c\<rparr>, new_pool (nat (bs_MaxConcurrent c))))))"

end
