(* ===== verification/Refinement.thy ===== *)
theory Refinement
  imports Steps Startup
begin

text \<open>
  The programs of the platform refine the steps of \<open>plat_step\<close>: first the statements of the
  store, then the shared programs, the handlers and the workers, each along its text. All but
  the reconciler's tick and the build worker keep to the quiet steps.
\<close>


section \<open>Statements\<close>

lemma update_rows_map: "update_rows q f t = map (\<lambda>r. if q r then f r else r) t"
  by (simp add: update_rows_def)

lemma refines_edit_users:
  assumes "\<And>t u. user_edit u (f t u)"
  shows "(quiet_step sv)\<^sup>*\<^sup>* d (d\<lparr>users := update_rows q (f t) (users d)\<rparr>)"
  unfolding update_rows_map by (rule step1, rule plat_step.edit_users) (use assms in \<open>auto simp: user_edit_def\<close>)

lemma refines_Upsert [refine_intros]: "quiet sv (UpsertUserByEmail email name)"
  unfolding UpsertUserByEmail_def
proof (rule refines_insert_row)
  fix i t d
  show "(quiet_step sv)\<^sup>*\<^sup>* d (snd (case find_row (\<lambda>u. EqualFold (u_email u) email) (users d) of
       Some u \<Rightarrow> (Inr (seen_user t name u), d\<lparr>users := update_rows (\<lambda>r. EqualFold (u_email r) email) (seen_user t name) (users d)\<rparr>)
     | None \<Rightarrow>
         if \<exists>u \<in> set (users d). u_id u = i then (Inl ErrUnique, d)
         else
           (let u = \<lparr>u_id = i, u_email = email, u_name = name, u_admin = False, u_created = t, u_seen = Some t\<rparr>
            in (Inr u, d\<lparr>users := users d @ [u]\<rparr>))))"
  proof (cases "find_row (\<lambda>u. EqualFold (u_email u) email) (users d)")
    case None
    then have "\<forall>u \<in> set (users d). \<not> EqualFold (u_email u) email" by (simp add: find_row_None)
    then show ?thesis using None by (auto simp: Let_def intro!: step1 plat_step.add_user)
  next
    case (Some u)
    then show ?thesis by (simp add: refines_edit_users user_edit_def seen_user_def)
  qed
qed

lemma refines_set_admin [refine_intros]: "quiet sv (set_admin i b)"
  unfolding set_admin_def by (rule refines_statement) (simp add: refines_edit_users user_edit_def)

lemma refines_CreateProject:
  assumes "ValidateSlug slug = None"
  shows "quiet sv (CreateProject slug name owner m)"
  unfolding CreateProject_def
  by (rule refines_insert_row) (auto simp: Let_def assms image_iff intro!: step1 plat_step.add_project, metis)

lemma refines_update_project:
  assumes "\<And>t p. project_edit p (f t p)"
  shows "quiet sv (update_project i f)"
  unfolding update_project_def update_rows_map
  by (intro refines_exec step1 plat_step.edit_projects) (use assms in \<open>auto simp: project_edit_def same_project_def\<close>)

lemma refines_SetProjectAllowCIDRs:
  assumes "normaliseCIDRs raws = Inr cidrs"
  shows "quiet sv (SetProjectAllowCIDRs i cidrs)"
  unfolding SetProjectAllowCIDRs_def
  by (rule refines_update_project) (use assms in \<open>auto simp: project_edit_def same_project_def\<close>)

lemma refines_project_fields [refine_intros]:
  "quiet sv (SetProjectName i name)" "quiet sv (SetProjectTLSEnabled i b)"
  "quiet sv (SetProjectAPIToken i h pfx)" "quiet sv (UpdateProjectStatus i st)"
  "quiet sv (SetProjectStatusOnly i st)" "quiet sv (TouchProjectPushed i)"
  unfolding SetProjectName_def SetProjectTLSEnabled_def SetProjectAPIToken_def UpdateProjectStatus_def
    SetProjectStatusOnly_def TouchProjectPushed_def
  by (auto intro!: refines_update_project refine_intros simp: project_edit_def same_project_def)

lemma refines_SetProjectAccessPreset [refine_intros]: "quiet sv (SetProjectAccessPreset i preset)"
proof -
  have "(quiet_step sv)\<^sup>*\<^sup>* d (snd (
      if v \<noteq> None \<and> (\<exists>p \<in> set (projects d). p_id p = i) \<and> (\<forall>pr \<in> set (presets d). Some (pr_name pr) \<noteq> v)
      then (Inl ErrForeignKey, d)
      else (Inr (), d\<lparr>projects := update_rows (\<lambda>p. p_id p = i) (\<lambda>p. p\<lparr>p_preset := v\<rparr>) (projects d)\<rparr>)))" for v d
  proof (cases "v = None \<or> v \<in> Some ` pr_name ` set (presets d)")
    case True
    from step1 [OF plat_step.set_preset [OF this]] show ?thesis by auto
  next
    case False
    show ?thesis
    proof (cases "\<exists>p \<in> set (projects d). p_id p = i")
      case no: False
      then have "update_rows (\<lambda>p. p_id p = i) (\<lambda>p. p\<lparr>p_preset := v\<rparr>) (projects d) = projects d"
        by (intro update_rows_id) auto
      then show ?thesis using no by auto
    qed (use False in auto)
  qed
  then show ?thesis unfolding SetProjectAccessPreset_def Let_def by (rule refines_statement)
qed

lemma refines_SetProjectEgressMode [refine_intros]: "quiet sv (SetProjectEgressMode i mode)"
proof -
  have "(quiet_step sv)\<^sup>*\<^sup>* d (snd (if mode \<notin> {''off'', ''observe'', ''enforce''} \<and> (\<exists>p \<in> set (projects d). p_id p = i) then (Inl ErrCheck, d)
     else (Inr (), d\<lparr>projects := update_rows (\<lambda>p. p_id p = i) (\<lambda>p. p\<lparr>p_mode := mode\<rparr>) (projects d)\<rparr>)))" for d
  proof (cases "\<exists>p \<in> set (projects d). p_id p = i")
    case True
    then show ?thesis unfolding update_rows_map
      by (auto intro!: step1 plat_step.edit_projects simp: project_edit_def same_project_def egressModes_def)
  next
    case False
    then have "update_rows (\<lambda>p. p_id p = i) (\<lambda>p. p\<lparr>p_mode := mode\<rparr>) (projects d) = projects d"
      by (intro update_rows_id) auto
    then show ?thesis using False by auto
  qed
  then show ?thesis unfolding SetProjectEgressMode_def by (rule refines_statement)
qed

lemma refines_SoftDelete [refine_intros]: "quiet sv (SoftDeleteProject i)"
  unfolding SoftDeleteProject_def by (rule refines_statement) (auto intro: step1 plat_step.tombstone)

lemma refines_EnsurePort [refine_intros]: "quiet sv (EnsureEgressProxyPort i)"
proof -
  have "quiet sv (statement (\<lambda>_ d.
           if \<exists>p \<in> set (projects d). p_id p = i \<and> live p
           then (Inr (free_port d),
                 d\<lparr>projects := update_rows (\<lambda>p. p_id p = i \<and> live p) (\<lambda>p. p\<lparr>p_port := free_port d\<rparr>) (projects d)\<rparr>)
           else (Inl (ErrOther ''no rows in result set''), d)))"
    by (rule refines_statement) (auto intro: step1 plat_step.allot_port)
  then show ?thesis unfolding EnsureEgressProxyPort_def by (intro refine_intros)
qed

lemma refines_AddCollaborator [refine_intros]: "quiet sv (AddCollaborator pid uid by0 role)"
  unfolding AddCollaborator_def Let_def
  by (rule refines_statement) (auto intro!: step1 plat_step.edit_collabs plat_step.add_collab)

lemma refines_RemoveCollaborator [refine_intros]: "quiet sv (RemoveCollaborator pid uid)"
  unfolding RemoveCollaborator_def by (intro refines_exec step1 plat_step.delete_collabs)

lemma refines_WriteAudit [refine_intros]: "quiet sv (WriteAudit ty ac act pid meta)"
  unfolding WriteAudit_def by (intro refine_intros refines_exec step1 plat_step.add_audit)

lemma refines_audit [refine_intros]: "quiet sv (audit a act pid meta)"
  unfolding audit_def by (rule refines_WriteAudit)

lemma refines_CreateDeployment [refine_intros]: "quiet sv (CreateDeployment pid ty by0 m)"
  unfolding CreateDeployment_def
  by (rule refines_insert_row) (auto simp: Let_def intro!: step1 plat_step.add_deployment)

lemma refines_edit_deployments:
  "(\<And>x. deployment_edit x (f x)) \<Longrightarrow> (\<And>x. q x \<Longrightarrow> stage_ok x \<Longrightarrow> stage_ok (f x)) \<Longrightarrow>
     (quiet_step sv)\<^sup>*\<^sup>* d (d\<lparr>deployments := update_rows q f (deployments d)\<rparr>)"
  unfolding update_rows_map by (rule step1, rule plat_step.edit_deployments) (auto simp: deployment_edit_def)

lemma rolls_edit_deployments:
  "(\<And>x. deployment_edit x (f x)) \<Longrightarrow> (db_step sv)\<^sup>*\<^sup>* d (d\<lparr>deployments := update_rows q f (deployments d)\<rparr>)"
  unfolding update_rows_map by (rule step1, rule plat_step.roll_out) (auto simp: deployment_edit_def)

lemma refines_update_deployments:
  "(\<And>t x. deployment_edit x (f t x)) \<Longrightarrow> (\<And>t x. q x \<Longrightarrow> stage_ok x \<Longrightarrow> stage_ok (f t x)) \<Longrightarrow>
     quiet sv (update_deployments q f)"
  unfolding update_deployments_def by (intro refines_exec refines_edit_deployments)

lemma refines_deployment_fields [refine_intros]:
  "quiet sv (MarkDeploymentQueued i key)" "quiet sv (MarkDeploymentStatus i Failed reason)"
  "quiet sv (SupersedeOlderDeployments pid i)" "quiet sv (SupersedeRunningSiblings pid i)"
  unfolding MarkDeploymentQueued_def MarkDeploymentStatus_def SupersedeOlderDeployments_def SupersedeRunningSiblings_def
  by (auto intro!: refines_update_deployments simp: deployment_edit_def build_done_stamp_def stage_ok_def)

lemma refines_SetDeploymentImage: "img \<noteq> [] \<Longrightarrow> quiet sv (SetDeploymentImage i img)"
  unfolding SetDeploymentImage_def
  by (auto intro!: refines_update_deployments simp: deployment_edit_def stage_ok_def)

text \<open>The statements that bring a deployment forward.\<close>

lemma rolls_MarkDeploymentStatus: "db_refines sv (MarkDeploymentStatus i st reason)"
  unfolding MarkDeploymentStatus_def update_deployments_def
  by (intro refines_exec rolls_edit_deployments) (simp add: deployment_edit_def build_done_stamp_def)

lemma rolls_ClaimNextQueued: "db_refines sv ClaimNextQueued"
  unfolding ClaimNextQueued_def
  by (rule refines_statement) (auto intro!: rolls_edit_deployments simp: deployment_edit_def claim_def split: option.split)

lemma rolls_TryAdvance: "db_refines sv (TryAdvanceDeploymentStatus i st st')"
  unfolding TryAdvanceDeploymentStatus_def
  by (rule refines_statement) (auto intro!: rolls_edit_deployments simp: deployment_edit_def build_done_stamp_def)

lemma refines_AppendEvent [refine_intros]: "quiet sv (AppendEvent dep phase level msg)"
  unfolding AppendEvent_def Let_def
  by (rule refines_statement) (auto intro!: step1 plat_step.add_event plat_step.skip_event)

lemma refines_AddDomain:
  assumes "validateHostname (ToLower (TrimSpace host)) = None"
  shows "quiet sv (AddDomain pid host)"
  unfolding AddDomain_def
  by (rule refines_insert_row) (use assms in \<open>auto simp: Let_def intro!: step1 plat_step.add_domain\<close>)

lemma refines_RemoveDomain [refine_intros]: "quiet sv (RemoveDomain pid host)"
  unfolding RemoveDomain_def Let_def by (rule refines_statement) (auto intro: step1 plat_step.delete_domains)

lemma refines_CreatePathRule:
  assumes "cidrs \<noteq> [] \<Longrightarrow> mode = PathRuleModeToken \<and> \<not> hasWorldCIDR cidrs"
  shows "quiet sv (CreateProjectPathRule pid pfx mode cidrs)"
  unfolding CreateProjectPathRule_def
  by (rule refines_insert_row) (use assms in \<open>auto simp: Let_def path_rule_ok_def intro!: step1 plat_step.add_path_rule\<close>)

lemma refines_UpdatePathRule:
  assumes "cidrs \<noteq> [] \<Longrightarrow> mode = PathRuleModeToken \<and> \<not> hasWorldCIDR cidrs"
  shows "quiet sv (UpdateProjectPathRule pid rid pfx mode cidrs)"
  unfolding UpdateProjectPathRule_def
  by (rule refines_statement)
     (use assms in \<open>auto simp: Let_def path_rule_ok_def split: option.split intro!: step1 plat_step.edit_path_rule [of _ rid pid pfx]\<close>)

lemma refines_DeletePathRule [refine_intros]: "quiet sv (DeleteProjectPathRule pid rid)"
  unfolding DeleteProjectPathRule_def by (intro refines_exec step1 plat_step.delete_path_rules)

lemma refines_UpsertPreset:
  assumes "normaliseCIDRs raws = Inr (pr_cidrs p)"
  shows "quiet sv (UpsertCIDRPreset p by0)"
proof -
  have "(quiet_step sv)\<^sup>*\<^sup>* d (d\<lparr>presets := presets d @ [p\<lparr>pr_system := False, pr_updated := t, pr_by := by0\<rparr>]\<rparr>)"
    if "\<not> (\<exists>x \<in> set (presets d). pr_name x = pr_name p)" for d t
    by (intro step1 plat_step.add_preset [of _ _ raws]) (use that assms in auto)
  moreover have "(quiet_step sv)\<^sup>*\<^sup>* d (d\<lparr>presets := update_rows (\<lambda>x. pr_name x = pr_name p)
      (\<lambda>x. x\<lparr>pr_label := pr_label p, pr_desc := pr_desc p, pr_cidrs := pr_cidrs p, pr_notes := pr_notes p,
        pr_updated := t, pr_by := by0\<rparr>) (presets d)\<rparr>)" for d t
    unfolding update_rows_map by (intro step1 plat_step.edit_presets) (use assms in auto)
  ultimately show ?thesis unfolding UpsertCIDRPreset_def by (intro refines_exec) auto
qed

lemma refines_DeletePreset [refine_intros]: "quiet sv (DeleteCIDRPreset name)"
proof (rule refines_goes)
  fix d
  have "goes (quiet_step sv) d (exec (\<lambda>_. delete_preset name))"
    if "find_preset name d = Some x" "\<not> pr_system x" for x
    by (rule goes_exec) (rule step1, rule plat_step.drop_preset [OF that])
  then show "goes (quiet_step sv) d (DeleteCIDRPreset name)"
    unfolding DeleteCIDRPreset_def
    by (intro goes_query_row) (auto intro: goes_refines refines_return)
qed

lemma refines_BulkSet [refine_intros]: "quiet sv (BulkSetSystemConfig kvs by0)"
proof -
  have s: "quiet sv (set_configs by0 kvs cs)" for cs
    unfolding tx_statement_def
    by (induction by0 kvs cs rule: set_configs.induct)
       (auto intro!: refine_intros refines_call simp: tx_statement_def)
  have e: "quiet sv (exec (\<lambda>_ d. d\<lparr>configs := cs\<rparr>))" for cs
    by (intro refines_exec step1 plat_step.set_configs)
  show ?thesis unfolding BulkSetSystemConfig_def by (intro refine_intros s e)
qed

lemma refines_TouchToken [refine_intros]: "quiet sv (TouchTokenLastUsed i)"
  unfolding TouchTokenLastUsed_def update_rows_map
  by (intro refine_intros refines_exec step1 plat_step.edit_tokens) (auto simp: token_edit_def)

lemma refines_CreateToken [refine_intros]: "quiet sv (CreateDeployToken ti)"
  unfolding CreateDeployToken_def
  by (rule refines_insert_row) (auto simp: Let_def intro!: step1 plat_step.add_token)

lemma refines_SetEnv:
  assumes "rx_match envKeyRe key"
  shows "quiet sv (SetProjectEnv cr kek pid key val sys by0)"
proof -
  have "quiet sv (statement (\<lambda>t d.
       if \<forall>p \<in> set (projects d). p_id p \<noteq> pid then (Inl ErrForeignKey, d)
       else (Inr (), d\<lparr>env_rows := put_env pid key (ct, sys, t, by0) (env_rows d)\<rparr>)))" for ct
    by (rule refines_statement) (use assms in \<open>auto intro!: step1 plat_step.set_env\<close>)
  then show ?thesis unfolding SetProjectEnv_def Encrypt_def by (intro refine_intros)
qed

lemma refines_DeleteEnv [refine_intros]: "quiet sv (DeleteProjectEnv pid key)" "quiet sv (DeleteAllProjectEnv pid)"
  unfolding DeleteProjectEnv_def DeleteAllProjectEnv_def del_env_def
  by (intro refine_intros refines_exec step1 plat_step.delete_env)+



section \<open>Shared programs\<close>

text \<open>Calls to the cluster and to the services leave the database alone.\<close>

lemma keeps_db_calls [keeps_intros]:
  "keeps db (k8s_get k)" "keeps db (k8s_create k v)" "keeps db (k8s_update k v)" "keeps db (k8s_delete k)"
  "keeps db (k8s_apply k v)" "keeps db (k8s_list g)" "keeps db (svc_call h)" "keeps db (list_pods slug)"
  "keeps db hasSchedulableAgentNode" "keeps db (DeleteProject slug)" "keeps db (publish dep)"
  unfolding list_pods_def hasSchedulableAgentNode_def DeleteProject_def publish_def
  by (auto intro!: keeps_intros keeps_call)

lemmas refines_calls [refine_intros] = keeps_db_calls [THEN refines_keeps]

lemma keeps_delete_unkept [keeps_intros]: "keeps db (delete_unkept ns kept names)"
  by (induction ns kept names rule: delete_unkept.induct) (auto intro!: keeps_intros)

lemma keeps_build_routes [keeps_intros]: "keeps db (build_routes dc slug hosts base i rules routes wanted)"
proof (induction rules arbitrary: i routes wanted)
  case (Cons r rs)
  then show ?case by (auto simp: Let_def upsertAllowList_def intro!: keeps_intros)
qed (simp add: keeps_return)

lemma keeps_SyncIngress [keeps_intros]: "keeps db (SyncIngressHostnames dc hi)"
  unfolding SyncIngressHostnames_def syncIPAllowList_def writeIngressWithMiddlewareChain_def
    syncPathRuleIngressRoute_def pruneRuleAllowLists_def Let_def
  by (intro keeps_intros)

lemma keeps_egress_policy [keeps_intros]: "keeps db (SyncEgressPolicy dc slug allows enforce)"
  unfolding SyncEgressPolicy_def ensureEgressPolicy_def by (intro keeps_intros)

lemma keeps_EnsureEgressProxy [keeps_intros]: "keeps db (EnsureEgressProxy dc config ports)"
  unfolding EnsureEgressProxy_def ensureNamespaceNamed_def by (intro keeps_intros)

lemma keeps_Apply [keeps_intros]: "keeps db (Apply dc ai)"
  unfolding Apply_def EnsureNamespace_def ensureEgressPolicy_def applySecret_def applyDeployment_def
    schedulingConstraints_def applyService_def applyIngress_def writeIngress_def writeIngressWithMiddlewareChain_def
  by (intro keeps_intros)

lemma keeps_cluster_reads [keeps_intros]:
  "keeps db (IsDeploymentReady slug)" "keeps db (PodSummary slug)" "keeps db (PodPlacement slug)"
  "keeps db (ProxyLogs n)" "keeps db ProxyStatus" "keeps db (SetProxyEnv dc slug url)"
  "keeps db (UpdateAppEnvSecret slug env)" "keeps db (TailLogs kl slug n)" "keeps db (TailFailedPodLogs kl slug n)"
  unfolding IsDeploymentReady_def PodSummary_def PodPlacement_def ProxyLogs_def ProxyStatus_def
    SetProxyEnv_def UpdateAppEnvSecret_def applySecret_def TailLogs_def TailFailedPodLogs_def Let_def
  by (auto intro!: keeps_intros keeps_call)

lemma keeps_small [keeps_intros]:
  "keeps db ping" "keeps db (randomPassword cr)" "keeps db (result_of e)"
  unfolding ping_def randomPassword_def result_of_def by (intro keeps_intros)+

lemma keeps_provisioning [keeps_intros]:
  "keeps db (pg_Provision sv slug)" "keeps db (pg_Deprovision sv slug)" "keeps db (redis_Provision sv slug)"
  "keeps db (redis_Deprovision sv slug)"
  unfolding pg_Provision_def pg_set_role_def pg_set_owner_def pg_grant_def pg_terminate_def pg_Deprovision_def pg_drop_db_def pg_drop_role_def
    redis_Provision_def acl_setuser_def redis_Deprovision_def acl_deluser_def
  by (intro keeps_intros; simp)+

lemma keeps_case_bool [keeps_intros]:
  "keeps f m \<Longrightarrow> keeps f n \<Longrightarrow> keeps f (case b of True \<Rightarrow> m | False \<Rightarrow> n)"
  by (simp split: bool.split)

lemma keeps_ensure_s3 [keeps_intros]: "keeps db (ensure_bucket b)" "keeps db (ensure_attached user name)"
  unfolding ensure_bucket_def make_bucket_def bucket_exists_def ensure_attached_def attach_policy_def
  by (intro keeps_intros; simp)+

lemma keeps_provisioning_s3 [keeps_intros]: "keeps db (s3_Provision sv slug)" "keeps db (s3_Deprovision sv slug)"
  unfolding s3_Provision_def s3_Deprovision_def add_policy_def add_user_def detach_policy_def remove_user_def
    remove_policy_def
  by (intro keeps_intros; simp)+

lemmas refines_cluster [refine_intros] =
  keeps_SyncIngress [THEN refines_keeps] keeps_egress_policy [THEN refines_keeps]
  keeps_EnsureEgressProxy [THEN refines_keeps] keeps_Apply [THEN refines_keeps]
  keeps_cluster_reads [THEN refines_keeps] keeps_provisioning [THEN refines_keeps]
  keeps_provisioning_s3 [THEN refines_keeps] keeps_small [THEN refines_keeps]

text \<open>Look-ups of the store are queries.\<close>

lemmas store_queries =
  GetProjectBySlug_def GetProjectByID_def GetProjectAPITokenHash_def ListProjectsForUser_def IsCollaborator_def
  ListProjectsForIngressSweep_def ListProjectsForHealthReconcile_def SlugAvailable_def GetDeployment_def
  ListDeployments_def ListEvents_def ListDomains_def LookupProjectIDByHostname_def ListProjectPathRules_def
  ListProjectEgressRules_def CountEgressRulesByProject_def ListEgressProxyTargets_def GetProjectEgressMode_def
  EgressModeCounts_def ProxyPortSlugs_def ListCIDRPresets_def GetCIDRPreset_def GetSystemConfig_def
  ListSystemConfig_def LookupTokenByHash_def ListProjectEnvKeys_def GetProjectEnv_def lookupOwnerEmail_def
  user_by_email_def slugFor_def lookupSlug_def

lemma refines_lookups [refine_intros]:
  "refines R (GetProjectBySlug slug)" "refines R (GetProjectByID i)" "refines R (GetProjectAPITokenHash i)"
  "refines R (ListProjectsForUser u)" "refines R (IsCollaborator pid u)" "refines R ListProjectsForIngressSweep"
  "refines R ListProjectsForHealthReconcile" "refines R (SlugAvailable slug)" "refines R (GetDeployment i)"
  "refines R (ListDeployments pid l off)" "refines R (ListEvents i after)" "refines R (ListDomains pid)"
  "refines R (LookupProjectIDByHostname host)" "refines R (ListProjectPathRules pid)"
  "refines R (ListProjectEgressRules pid)" "refines R CountEgressRulesByProject" "refines R ListEgressProxyTargets"
  "refines R (GetProjectEgressMode pid)" "refines R EgressModeCounts" "refines R ProxyPortSlugs"
  "refines R ListCIDRPresets" "refines R (GetCIDRPreset name)" "refines R GetSystemConfig" "refines R ListSystemConfig"
  "refines R (LookupTokenByHash h)" "refines R (ListProjectEnvKeys pid)" "refines R (GetProjectEnv cr kek pid)"
  "refines R (lookupOwnerEmail i)" "refines R (user_by_email email)" "refines R (slugFor pid)" "refines R (lookupSlug pid)"
  unfolding store_queries by (intro refine_intros)+

lemma refines_answers [refine_intros]:
  "refines R (db_error e)" "refines R reply_ok" "refines R get_kc" "refines R get_verifier" "refines R (set_kc kc)"
  "refines R RebuildJWTVerifier" "refines R (cached_key kid)" "refines R (auth_text st msg)"
  by (auto simp: refines_def db_error_def reply_ok_def get_kc_def get_verifier_def set_kc_def RebuildJWTVerifier_def
      cached_key_def auth_text_def)

lemma refines_actorUserID [refine_intros]: "quiet sv (actorUserID a)"
  unfolding actorUserID_def by (intro refine_intros)

lemma refines_canAccess [refine_intros]: "refines R (canAccessProject a p)"
  unfolding canAccessProject_def by (intro refine_intros)

lemma refines_effective [refine_intros]: "refines R (effectiveAllowCIDRs p)"
  unfolding effectiveAllowCIDRs_def preset_cidrs_def by (intro refine_intros)

lemma refines_syncIngress [refine_intros]: "refines R (syncIngressForProject sv p)"
  unfolding syncIngressForProject_def by (intro refine_intros)

lemma refines_first_error [refine_intros]: "(\<And>x. refines R (f x)) \<Longrightarrow> refines R (first_error f e xs)"
  by (induction f e xs rule: first_error.induct) (auto intro!: refine_intros)

lemma refines_resync [refine_intros]: "refines R (resyncProjectsUsingPreset sv name)"
  unfolding resyncProjectsUsingPreset_def resync_project_def by (intro refine_intros)

lemma refines_syncPlatform [refine_intros]: "refines R (syncPlatformAllowList sv)"
  unfolding syncPlatformAllowList_def SyncPlatformAllowList_def upsertAllowList_def Let_def by (intro refine_intros)

lemma refines_egress_sync [refine_intros]:
  "refines R (egressConfigForProject sv pid)" "refines R (syncEgressForProject sv p)" "refines R (syncEgressProxy render sv)"
  "refines R (push_egress sv dc pid slug)"
proof -
  show c: "refines R (egressConfigForProject sv pid)" for pid
    unfolding egressConfigForProject_def egressAllowsForProject_def by (intro refine_intros)
  show "refines R (syncEgressForProject sv p)" unfolding syncEgressForProject_def by (intro refine_intros c)
  show "refines R (syncEgressProxy render sv)" unfolding syncEgressProxy_def by (intro refine_intros)
  show "refines R (push_egress sv dc pid slug)" unfolding push_egress_def by (intro refine_intros c)
qed

lemma refines_syncEnv [refine_intros]: "refines R (syncProjectEnvToCluster sv p)"
  unfolding syncProjectEnvToCluster_def by (intro refine_intros)


section \<open>Handlers\<close>

lemma refines_access [refine_intros]: "quiet sv (handlePatchProjectAccess sv' a body p)"
proof -
  have f: "quiet sv (access_finish sv' a p ps cs)" for p ps cs
    unfolding access_finish_def by (intro refine_intros)
  have c: "quiet sv (access_cidrs sv' a p ps j)" for p ps j
    unfolding access_cidrs_def by (intro refine_intros f refines_SetProjectAllowCIDRs)
  have s: "(\<And>p'. quiet sv (k p')) \<Longrightarrow> quiet sv (set_preset_then p v k)" for p v k
    unfolding set_preset_then_def by (intro refine_intros)
  show ?thesis unfolding handlePatchProjectAccess_def by (intro refine_intros c s)
qed

lemma refines_settings_handlers [refine_intros]:
  "quiet sv (handlePatchProjectName a body p)" "quiet sv (handlePatchProjectTLS sv' a body p)"
  "quiet sv (handlePatchProjectVisibility sv' a body p)"
  unfolding handlePatchProjectName_def handlePatchProjectTLS_def
  by (intro refine_intros)+ (simp add: handlePatchProjectVisibility_def accessPolicySelfService_def refines_return)


lemma refines_preset_handlers [refine_intros]:
  "quiet sv (handleListCIDRPresets a)" "quiet sv (handlePutCIDRPreset sv' a name body)"
  "quiet sv (handleDeleteCIDRPreset sv' a name)"
proof -
  have s: "quiet sv (preset_saved sv' a p)" for p
    unfolding preset_saved_def by (intro refine_intros)
  show "quiet sv (handleListCIDRPresets a)" unfolding handleListCIDRPresets_def by (intro refine_intros)
  show "quiet sv (handlePutCIDRPreset sv' a name body)"
    unfolding handlePutCIDRPreset_def by (intro refine_intros s refines_UpsertPreset) simp
  show "quiet sv (handleDeleteCIDRPreset sv' a name)"
    unfolding handleDeleteCIDRPreset_def by (intro refine_intros)
qed

lemma checkPathRuleCIDRs_ok:
  "checkPathRuleCIDRs a mode raw = Inr cidrs \<Longrightarrow>
   cidrs \<noteq> [] \<Longrightarrow> mode = PathRuleModeToken \<and> \<not> hasWorldCIDR cidrs \<and> isAdminActor a"
  by (auto simp: checkPathRuleCIDRs_def split: sum.splits if_splits)

lemma refines_path_rule_handlers [refine_intros]:
  "quiet sv (handleListPathRules p)" "quiet sv (handleCreatePathRule sv' a body p)"
  "quiet sv (handleUpdatePathRule sv' a rid body p)" "quiet sv (handleDeletePathRule sv' a rid p)"
proof -
  have s: "quiet sv (rule_saved sv' a p act st ids r)" for p act st ids r
    unfolding rule_saved_def by (intro refine_intros)
  have e: "quiet sv (existing_cidrs pid i)" for pid i
    unfolding existing_cidrs_def by (intro refine_intros)
  show "quiet sv (handleListPathRules p)" unfolding handleListPathRules_def by (intro refine_intros)
  show "quiet sv (handleCreatePathRule sv' a body p)"
    unfolding handleCreatePathRule_def
    by (intro refine_intros s refines_CreatePathRule) (auto dest: checkPathRuleCIDRs_ok)
  show "quiet sv (handleUpdatePathRule sv' a rid body p)"
    unfolding handleUpdatePathRule_def
    by (intro refine_intros s e refines_UpdatePathRule) (auto dest: checkPathRuleCIDRs_ok)
  show "quiet sv (handleDeletePathRule sv' a rid p)"
    unfolding handleDeletePathRule_def by (intro refine_intros)
qed


section \<open>Egress rules\<close>

text \<open>What the validation of a rule guarantees.\<close>

lemma covered_ip_None: "covered_ip prot c = None \<longleftrightarrow> (\<forall>ip \<in> set prot. \<not> in_cidr c ip)"
  by (auto simp: covered_ip_def in_cidr_def find_None_iff split: option.splits)

lemma normaliseEgressRule_ok:
  assumes "normaliseEgressRule knd v port prot = Inr r"
  shows "in_kind r = knd \<and> port_range_check (in_kind r) (in_port r) \<and>
     (in_kind r = EgressKindEndpoint \<and> (in_port r = 0 \<or> in_port r \<in> set egressForbiddenPorts) \<longrightarrow>
        covered_ip prot (in_value r) = None)"
proof -
  have "endpoint_rule prot c q = Inr r \<Longrightarrow> in_kind r = EgressKindEndpoint \<and> in_value r = c \<and> in_port r = q \<and>
      (q = 0 \<or> q \<in> set egressForbiddenPorts \<longrightarrow> covered_ip prot c = None)" for c q
    by (auto simp: endpoint_rule_def split: option.splits if_splits)
  with assms show ?thesis
    by (auto simp: normaliseEgressRule_def Let_def port_range_check_def EgressKindDomain_def EgressKindEndpoint_def
        split: if_splits sum.splits)
qed

definition input_ok :: "nat list \<Rightarrow> rule_input \<Rightarrow> bool" where
  "input_ok prot r = (in_kind r = EgressKindEndpoint \<and> (in_port r = 0 \<or> in_port r \<in> set egressForbiddenPorts) \<longrightarrow>
     covered_ip prot (in_value r) = None)"

lemma normalise_rules_ok: "normalise_rules prot seen ins = Inr rs \<Longrightarrow> list_all (input_ok prot) rs"
proof (induction prot seen ins arbitrary: rs rule: normalise_rules.induct)
  case (2 prot seen k v q n ins)
  obtain r where r: "normaliseEgressRule k v q prot = Inr r"
    using 2(3) by (cases "normaliseEgressRule k v q prot") simp_all
  show ?case
  proof (cases "rule_key r \<in> set seen")
    case True
    with 2(1) [OF r True] 2(3) r show ?thesis by simp
  next
    case False
    obtain rs' where rs': "normalise_rules prot (rule_key r # seen) ins = Inr rs'" "rs = r\<lparr>in_note := TrimSpace n\<rparr> # rs'"
      using 2(3) r False by (cases "normalise_rules prot (rule_key r # seen) ins") auto
    from normaliseEgressRule_ok [OF r] 2(2) [OF r False rs'(1)] show ?thesis
      by (simp add: rs'(2) input_ok_def)
  qed
qed simp

text \<open>Replacing the rules of a project: the transaction commits what its inserts have built.\<close>

lemma attempt_assoc: "attempt (attempt m f) g = attempt m (\<lambda>x. attempt (f x) g)"
  by (rule state_ext) (simp add: run_attempt split: prod.split sum.split)

lemma attempt_simps: "attempt (throw e) g = throw e" "attempt (ok x) g = g x"
  by (rule state_ext, simp add: run_attempt)+

lemma insert_rule_step:
  assumes "insert_egress_rule pid (in_kind r) (in_value r) (in_port r) (in_note r) by0 rows = Some rows'"
    and "input_ok (platformProtectedIPs sv) r"
  shows "(quiet_step sv)\<^sup>*\<^sup>* (d\<lparr>egress_rules := rows\<rparr>) (d\<lparr>egress_rules := rows'\<rparr>)"
proof -
  let ?g = "\<lparr>g_project = pid, g_kind = in_kind r, g_value = in_value r, g_port = in_port r, g_note = in_note r, g_by = by0\<rparr>"
  let ?d = "d\<lparr>egress_rules := rows\<rparr>"
  have p: "port_range_check (in_kind r) (in_port r)" and
    c: "rows' = rows \<or> rows' = rows @ [?g] \<and> egress_key ?g \<notin> egress_key ` set rows"
    using assms(1) by (auto simp: insert_egress_rule_def egress_key_def split: if_splits)
  have "egress_rule_ok sv ?g" using p assms(2) by (simp add: egress_rule_ok_def input_ok_def)
  with c have "rows' = rows \<or> quiet_step sv ?d (?d\<lparr>egress_rules := egress_rules ?d @ [?g]\<rparr>) \<and> rows' = rows @ [?g]"
    using plat_step.add_egress [of sv ?g ?d] by auto
  then show ?thesis by (auto intro: step1)
qed

lemma goes_insert_rules:
  assumes "\<And>rows'. (quiet_step sv)\<^sup>*\<^sup>* (d\<lparr>egress_rules := rows\<rparr>) (d\<lparr>egress_rules := rows'\<rparr>) \<Longrightarrow> goes (quiet_step sv) d (k rows')"
    and "list_all (input_ok (platformProtectedIPs sv)) rs"
  shows "goes (quiet_step sv) d (attempt (insert_egress_rules pid by0 rs rows) k)"
  using assms
proof (induction rs arbitrary: rows)
  case Nil
  then show ?case by (simp add: attempt_simps)
next
  case (Cons r rs)
  have "goes (quiet_step sv) d (attempt (case insert_egress_rule pid (in_kind r) (in_value r) (in_port r) (in_note r) by0 rows of
         None \<Rightarrow> throw ErrCheck | Some rows' \<Rightarrow> insert_egress_rules pid by0 rs rows') k)"
  proof (cases "insert_egress_rule pid (in_kind r) (in_value r) (in_port r) (in_note r) by0 rows")
    case None
    then show ?thesis by (simp add: attempt_simps goes_refines refines_return)
  next
    case (Some rows1)
    with Cons.prems(2) have s: "(quiet_step sv)\<^sup>*\<^sup>* (d\<lparr>egress_rules := rows\<rparr>) (d\<lparr>egress_rules := rows1\<rparr>)"
      by (intro insert_rule_step) auto
    have "goes (quiet_step sv) d (attempt (insert_egress_rules pid by0 rs rows1) k)"
      by (rule Cons.IH) (use Cons.prems s in \<open>auto intro: rtranclp_trans\<close>)
    with Some show ?thesis by simp
  qed
  then show ?case by (simp add: attempt_assoc goes_tx)
qed

lemma refines_ReplaceRules:
  assumes "list_all (input_ok (platformProtectedIPs sv)) rs"
  shows "quiet sv (ReplaceProjectEgressRules pid rs by0)"
proof (rule refines_goes)
  fix d :: database
  let ?rows = "delete_rows (\<lambda>r. g_project r = pid) (egress_rules d)"
  have del: "(quiet_step sv)\<^sup>*\<^sup>* d (d\<lparr>egress_rules := ?rows\<rparr>)" by (intro step1 plat_step.delete_egress)
  have "goes (quiet_step sv) d (exec (\<lambda>_ d. d\<lparr>egress_rules := rows'\<rparr>))"
    if "(quiet_step sv)\<^sup>*\<^sup>* (d\<lparr>egress_rules := ?rows\<rparr>) (d\<lparr>egress_rules := rows'\<rparr>)" for rows'
    by (rule goes_exec) (rule rtranclp_trans [OF del that])
  then show "goes (quiet_step sv) d (ReplaceProjectEgressRules pid rs by0)"
    unfolding ReplaceProjectEgressRules_def
    by (intro goes_tx goes_query goes_insert_rules assms)
qed

lemma refines_egress_handlers [refine_intros]:
  "refines R (handleListProjectEgress a p)" "quiet sv (handlePutProjectEgress render sv a body p)"
  "refines R (handleAdminEgressOverview a)" "quiet sv (handlePatchEgressMode render sv a body p)"
  "refines R (handleGetEgressMode a p)"
  unfolding handleListProjectEgress_def handlePutProjectEgress_def handleAdminEgressOverview_def
    handlePatchEgressMode_def handleGetEgressMode_def
  by (intro refine_intros refines_ReplaceRules normalise_rules_ok; assumption)+


lemma refines_sweeps:
  "quiet sv (SweepIngressesAtStartup sv')" "quiet sv (SweepEgressProxyAtStartup render sv')"
  "quiet sv (SweepEgressModesAtStartup render sv')"
proof -
  have e: "quiet sv (ensure_ports ps)" for ps
    by (induction ps rule: ensure_ports.induct) (auto intro!: refine_intros)
  have p: "quiet sv (push_all sv' dc ps)" for dc ps
    by (induction sv' dc ps rule: push_all.induct) (auto intro!: refine_intros)
  show "quiet sv (SweepIngressesAtStartup sv')" "quiet sv (SweepEgressProxyAtStartup render sv')"
    "quiet sv (SweepEgressModesAtStartup render sv')"
    unfolding SweepIngressesAtStartup_def sweep_one_def SweepEgressProxyAtStartup_def SweepEgressModesAtStartup_def
    by (intro refine_intros e p)+
qed


section \<open>The egress log\<close>

lemma learned_step:
  assumes "insert_egress_rule pid EgressKindDomain host port nt by0 rows = Some rows'"
  shows "(quiet_step sv)\<^sup>*\<^sup>* (d\<lparr>egress_rules := rows\<rparr>) (d\<lparr>egress_rules := rows'\<rparr>)"
  using insert_rule_step [where r = "\<lparr>in_kind = EgressKindDomain, in_value = host, in_port = port, in_note = nt\<rparr>"] assms
  by (simp add: input_ok_def EgressKindDomain_def EgressKindEndpoint_def)

lemma refines_learn_rule: "(quiet_step sv)\<^sup>*\<^sup>* d (learn_rule slug host port d)"
proof -
  have "(quiet_step sv)\<^sup>*\<^sup>* d (d\<lparr>egress_rules := rows'\<rparr>)"
    if "insert_egress_rule pid EgressKindDomain host port nt by0 (egress_rules d) = Some rows'" for pid nt by0 rows'
    using learned_step [OF that, of sv d] by simp
  then show ?thesis by (auto simp: learn_rule_def split: option.split)
qed

lemma refines_backfill: "(quiet_step sv)\<^sup>*\<^sup>* d (backfill d)"
proof -
  have "(quiet_step sv)\<^sup>*\<^sup>* (d\<lparr>egress_rules := rows\<rparr>) (d\<lparr>egress_rules := foldl (backfill_rule d) rows ss\<rparr>)" for rows ss
  proof (induction ss arbitrary: rows)
    case (Cons s ss)
    have "(quiet_step sv)\<^sup>*\<^sup>* (d\<lparr>egress_rules := rows\<rparr>) (d\<lparr>egress_rules := backfill_rule d rows s\<rparr>)"
      by (auto simp: backfill_rule_def intro!: learned_step split: option.split)
    with Cons.IH [of "backfill_rule d rows s"] show ?case by simp
  qed simp
  from this [of "egress_rules d" "domain_stats d"] show ?thesis by (simp add: backfill_def)
qed

lemma refines_collect [refine_intros]: "quiet sv (collectEgressLog cursor)"
proof -
  have s: "(quiet_step sv)\<^sup>*\<^sup>* d (add_stat k g d)" for k g d
    unfolding add_stat_def Let_def by (cases "find_live_slug (fst k) d") (simp_all only: option.case rtranclp.rtrancl_refl step1 [OF plat_step.set_stats])
  have w: "quiet sv (write_stats m)" for m
    by (induction m rule: write_stats.induct) (auto intro!: refine_intros refines_exec s)
  have l: "quiet sv (learn m)" for m
    by (induction m rule: learn.induct) (auto intro!: refine_intros refines_exec refines_learn_rule)
  have a: "(quiet_step sv)\<^sup>*\<^sup>* d (add_log ports ls d)" for ports ls d
    unfolding add_log_def by (intro step1 plat_step.set_log)
  have p: "(quiet_step sv)\<^sup>*\<^sup>* d (prune_log t d)" for t d
    using plat_step.set_log [where d = d and ls = "delete_rows (\<lambda>r. al_ts r < t - thirty_days) (access_log d)" and n = "log_seq d"]
    by (simp add: prune_log_def step1)
  show ?thesis unfolding collectEgressLog_def
    by (intro refine_intros w l refines_exec a p)
qed

lemma refines_collector: "quiet sv (RunEgressLogCollector sv' n)"
proof -
  have t: "quiet sv (collector_turns n cursor)" for n cursor
    by (induction n cursor rule: collector_turns.induct) (auto intro!: refine_intros)
  show ?thesis unfolding RunEgressLogCollector_def start_cursor_def
    by (intro refine_intros t refines_exec refines_backfill)
qed

lemma refines_log_handlers [refine_intros]:
  "refines R (handleEgressProxyStatus sv a)" "refines R (handleEgressReport a p)"
  "refines R (handleEgressLogs a proj q st lim off)"
  unfolding handleEgressProxyStatus_def handleEgressReport_def handleEgressLogs_def by (intro refine_intros)+


section \<open>Projects\<close>

lemma refines_CreateProject_handler [refine_intros]: "quiet sv (handleCreateProject sv' a body)"
proof -
  have c: "refines R (choose_slug x y z)" for R x y z
    unfolding choose_slug_def by (intro refine_intros)
  have i: "quiet sv (insert_project sv' a slug name m)" for slug name m
    unfolding insert_project_def by (intro refine_intros refines_CreateProject) simp_all
  show ?thesis unfolding handleCreateProject_def by (intro refine_intros c i)
qed

lemma refines_project_reads [refine_intros]:
  "quiet sv (handleListProjects sv' a lim off)" "refines R (handleGetProject sv p)" "refines R (handleWhoami a)"
  "refines R (handleListCollaborators p)" "refines R (handleListDomains sv p)" "refines R (handleListProjectEnv a p)"
  unfolding handleListProjects_def handleGetProject_def handleWhoami_def handleListCollaborators_def
    handleListDomains_def handleListProjectEnv_def
  by (intro refine_intros)+

lemma refines_collaborators [refine_intros]:
  "quiet sv (handleAddCollaborator a body p)" "quiet sv (handleRemoveCollaborator a email p)"
  unfolding handleAddCollaborator_def handleRemoveCollaborator_def by (intro refine_intros)+

lemma validated_host: "validateHostname (ToLower (TrimSpace h)) = None \<Longrightarrow>
    validateHostname (ToLower (TrimSpace (ToLower (TrimSpace h)))) = None"
  by (simp add: TrimSpace_ToLower)

lemma refines_domains [refine_intros]:
  "quiet sv (handleAddDomain sv' a body p)" "quiet sv (handleRemoveDomain sv' a path p)"
proof -
  have c: "refines R (domain_cap_reached sv' p)" for R
    unfolding domain_cap_reached_def by (intro refine_intros)
  show "quiet sv (handleAddDomain sv' a body p)"
    unfolding handleAddDomain_def by (intro refine_intros c refines_AddDomain) (simp add: validated_host)
  show "quiet sv (handleRemoveDomain sv' a path p)"
    unfolding handleRemoveDomain_def by (intro refine_intros)
qed

lemma refines_env_handlers [refine_intros]:
  "quiet sv (handlePutProjectEnv sv' a body p)" "quiet sv (handleDeleteProjectEnv sv' a key p)"
  unfolding handlePutProjectEnv_def handleDeleteProjectEnv_def
  by (intro refine_intros refines_SetEnv; simp)+

lemma refines_DeleteProject [refine_intros]: "quiet sv (handleDeleteProject sv' a p)"
  unfolding handleDeleteProject_def best_effort_def by (intro refine_intros)



section \<open>Authentication and administration\<close>

lemma refines_tokens [refine_intros]:
  "refines R (GenerateToken cr env)" "refines R (GenerateAPIToken cr)" "refines R (jwks_refresh cr)"
proof -
  show "refines R (jwks_refresh cr)" unfolding jwks_refresh_def
    by (rule refines_call) (simp add: case_prod_beta Let_def split: option.split list.split)
qed (unfold GenerateToken_def GenerateAPIToken_def, (intro refine_intros)+)

lemma refines_keyFor [refine_intros]: "refines R (keyFor cr kid)"
proof -
  have "refines R (case c of (Some k, True) \<Rightarrow> ok k | _ \<Rightarrow> m)" if "refines R m" for c :: "rsa_key option \<times> bool" and m
    using that by (auto intro: refines_return split: option.split bool.split prod.split)
  then show ?thesis unfolding keyFor_def by (intro refine_intros)
qed

lemma refines_jwt_Verify [refine_intros]: "refines R (jwt_Verify sv raw)"
  unfolding jwt_Verify_def by (intro refine_intros)

lemma refines_verifyDeployToken [refine_intros]: "quiet sv (verifyDeployToken sv' tok)"
  unfolding verifyDeployToken_def by (intro refine_intros)

lemma refines_AuthMiddleware [refine_intros]:
  "(\<And>a. quiet sv (h a)) \<Longrightarrow> quiet sv (AuthMiddleware sv' header h)"
  unfolding AuthMiddleware_def by (intro refine_intros)

lemma refines_api_tokens [refine_intros]:
  "quiet sv (handleRegenerateProjectAPIToken sv' a p)" "quiet sv (handleRevokeProjectAPIToken a p)"
  unfolding handleRegenerateProjectAPIToken_def handleRevokeProjectAPIToken_def by (intro refine_intros)+

lemma refines_verify_endpoint [refine_intros]: "refines R (handleInternalVerifyAPIToken sv fwd host auth)"
proof -
  have c: "refines R (lookup_custom_domain h)" for h
    unfolding lookup_custom_domain_def by (intro refine_intros)
  have k: "refines R (check_api_token sv p auth)" for p
  proof -
    have "refines R (case r of Inr (Some hash) \<Rightarrow> f hash | _ \<Rightarrow> m)"
      if "\<And>x. refines R (f x)" "refines R m" for r :: "err + string option" and f and m :: "response prog"
      using that by (auto split: sum.split option.split)
    then show ?thesis unfolding check_api_token_def by (intro refine_intros)
  qed
  have l: "refines R (lookupProjectByHostname sv h)" for h
    unfolding lookupProjectByHostname_def by (intro refine_intros c)
  show ?thesis unfolding handleInternalVerifyAPIToken_def by (intro refine_intros l k)
qed

lemma refines_AuthCheck [refine_intros]: "refines R (handleAuthCheck sv fwd host email groups)"
proof -
  have d: "refines R (auth_decision p email groups)" for p
    unfolding auth_decision_def by (intro refine_intros)
  have c: "refines R (auth_custom_domain h email groups)" for h
    unfolding auth_custom_domain_def by (intro refine_intros d)
  show ?thesis unfolding handleAuthCheck_def by (intro refine_intros d c)
qed

lemma refines_boot:
  "quiet sv (ensureBootstrapToken cr preset)" "quiet sv (runSeedDevToken cr)"
  unfolding ensureBootstrapToken_def runSeedDevToken_def mint_admin_def by (intro refine_intros)+

text \<open>Starting: the migrations and what follows them.\<close>

lemma seeded_steps: "(quiet_step sv)\<^sup>*\<^sup>* d (d\<lparr>presets := seeded n l e t (presets d)\<rparr>)"
proof (cases "n \<in> pr_name ` set (presets d)")
  case True
  then show ?thesis by (simp add: seeded_def)
next
  case False
  let ?x = "\<lparr>pr_name = n, pr_label = l, pr_desc = e, pr_cidrs = [], pr_system = True, pr_updated = t, pr_by = None, pr_notes = []\<rparr>"
  from False have "quiet_step sv d (d\<lparr>presets := presets d @ [?x]\<rparr>)" by (intro plat_step.seed_preset) simp_all
  with False show ?thesis by (simp add: seeded_def step1)
qed

lemma to_internal_rows: "map to_internal ps = update_rows custom_mode (\<lambda>p. p\<lparr>p_preset := Some ''internal''\<rparr>) ps"
  by (simp add: update_rows_map to_internal_def)

lemma script_steps:
  assumes "s \<in> snd ` set up_scripts" and "s t d = Inr d'"
  shows "(quiet_step sv)\<^sup>*\<^sup>* d d'"
proof -
  have s: "s \<in> {schema_only, seed_presets, tls_default_on, default_internal, egress_any_port}"
    using assms(1) by (auto simp: up_scripts_def)
  have 1: "(quiet_step sv)\<^sup>*\<^sup>* d (with_presets t d)"
    using rtranclp_trans [OF seeded_steps [of sv d "''public''" public_label public_desc t]
        seeded_steps [of sv "d\<lparr>presets := seeded ''public'' public_label public_desc t (presets d)\<rparr>"]]
    by (simp add: with_presets_def)
  have 2: "(quiet_step sv)\<^sup>*\<^sup>* d (d\<lparr>projects := map tls_on (projects d)\<rparr>)"
    by (rule step1, rule plat_step.edit_projects) (simp add: project_edit_def same_project_def tls_on_def)
  have 3: "(quiet_step sv)\<^sup>*\<^sup>* d (d\<lparr>projects := map to_internal (projects d)\<rparr>)"
    if "default_internal t d = Inr d'"
  proof (cases "''internal'' \<in> pr_name ` set (presets d)")
    case True
    then show ?thesis unfolding to_internal_rows by (intro step1 plat_step.set_preset) simp
  next
    case False
    with that have "map to_internal (projects d) = projects d"
      by (auto simp: default_internal_def to_internal_def map_idI split: if_splits)
    then show ?thesis by simp
  qed
  from s assms(2) 1 2 3 show ?thesis
    by (auto simp: schema_only_def seed_presets_def tls_default_on_def default_internal_def egress_any_port_def split: if_splits)
qed

lemma refines_files:
  assumes "\<forall>(f, c) \<in> set fs. \<forall>s. c = Some s \<longrightarrow> s \<in> snd ` set up_scripts"
  shows "quiet sv (run_files fs)"
  using assms
proof (induction fs)
  case (Cons fc fs)
  obtain f c where fc: "fc = (f, c)" by (cases fc)
  have "quiet sv (run_script s)" if "c = Some s" for s
    unfolding run_script_def
    using Cons.prems fc that by (intro refines_statement) (auto intro: script_steps split: sum.split)
  with Cons fc show ?case by (auto intro!: refine_intros split: option.split)
qed (simp add: refines_return)

lemma refines_Migrate: "repo_files fs \<Longrightarrow> quiet sv (Migrate fs dir)"
  unfolding Migrate_def
  by (intro refine_intros refines_files) (auto simp: script_paths_def repo_files_def)

lemma refines_start:
  assumes "repo_files (pl_files pl)"
  shows "quiet sv (runServer pl)" "quiet sv (runMigrate pl)"
proof -
  have m: "quiet sv (migrate_db (pl_files pl))"
    unfolding migrate_db_def by (intro refine_intros refines_Migrate assms)
  have o: "quiet sv (Open f dsn)" for f dsn
    unfolding Open_def by (intro refine_intros refines_call) simp
  have s: "quiet sv (load_settings pl c kek)" for c kek
    unfolding load_settings_def Reload_def by (intro refine_intros)
  have b: "quiet sv (EnsureBucket obj)" for obj
    by (rule refines_keeps)
      (auto simp: EnsureBucket_def bucket_exists_def make_bucket_def svc_call_def case_prod_beta intro!: keeps_intros keeps_call)
  have l: "refines R (load_config c)" "refines R (of_option msg c)" for R c msg
    unfolding load_config_def of_option_def by (intro refine_intros)+
  show "quiet sv (runServer pl)" "quiet sv (runMigrate pl)"
    unfolding runServer_def runMigrate_def serve_config_def boot_def by (intro refine_intros m o s b l refines_boot)+
qed

lemma refines_oidc [refine_intros]:
  "refines R handleOIDCStatus" "refines R (handleOIDCLogin sv nxt)" "quiet sv' (handleOIDCCallback sv e code blob)"
proof -
  have en: "refines R oidcEnabled" for R
    unfolding oidcEnabled_def by (intro refine_intros)
  have si: "refines R (signOIDCState sv nxt)" for R nxt
    unfolding signOIDCState_def by (intro refine_intros)
  have ex: "refines R (exchangeOIDCCode code)" for R
    unfolding exchangeOIDCCode_def by (rule refines_call) simp
  have se: "quiet sv' (oidc_session sv email name nxt)" for email name nxt
    unfolding oidc_session_def by (intro refine_intros)
  show "refines R handleOIDCStatus" unfolding handleOIDCStatus_def by (intro refine_intros en)
  show "refines R (handleOIDCLogin sv nxt)" unfolding handleOIDCLogin_def by (intro refine_intros en si)
  show "quiet sv' (handleOIDCCallback sv e code blob)" unfolding handleOIDCCallback_def by (intro refine_intros en ex se)
qed

lemma refines_admin [refine_intros]:
  "refines R (handleAdminGetSettings a)" "quiet sv (handleAdminPatchSettings sv' a body)"
  "refines R (handleAdminListUsers a lim off)" "quiet sv (handleAdminPatchUser a seg i body)"
  "refines R (handleAdminProjects sv lim off)" "refines R handleAdminMetrics" "refines R (handleAdminAudit a lim off)"
  unfolding handleAdminGetSettings_def handleAdminPatchSettings_def Reload_def handleAdminListUsers_def
    handleAdminPatchUser_def patch_user_def or_zero_def handleAdminProjects_def handleAdminMetrics_def count_query_def
    handleAdminAudit_def
  by (intro refine_intros)+


section \<open>Deployments\<close>

lemma refines_streamEvents [refine_intros]: "refines R (streamEvents dep after)"
  unfolding streamEvents_def by (intro refine_intros)

lemma refines_stream_rounds:
  assumes "\<And>r. r \<in> set rs \<Longrightarrow> refines R (round_prog r)"
  shows "refines R (stream_rounds dep after rs)"
  using assms
  by (induction dep after rs rule: stream_rounds.induct) (auto intro!: refine_intros)

lemma refines_stream_all:
  "(\<And>r. r \<in> set rs \<Longrightarrow> refines R (round_prog r)) \<Longrightarrow> refines R (stream_all dep after rs)"
  unfolding stream_all_def by (intro refine_intros refines_stream_rounds)

lemma refines_own_deployment [refine_intros]:
  "(\<And>x. refines R (k x)) \<Longrightarrow> (\<And>r. refines R (h r)) \<Longrightarrow> refines R (own_deployment p i k h)"
  unfolding own_deployment_def by (intro refine_intros)

lemma refines_events_handler:
  "(\<And>r. r \<in> set rs \<Longrightarrow> refines R (round_prog r)) \<Longrightarrow> refines R (handleDeploymentEvents p i h q rs)"
  unfolding handleDeploymentEvents_def by (intro refine_intros refines_stream_all)

lemma refines_deployment_handlers [refine_intros]:
  "(\<And>k. refines (quiet_step sv) (ps k)) \<Longrightarrow> quiet sv (handleCreateDeployment ps base a body p)"
  "quiet sv (handleDeploymentUploaded i p)" "refines R (handleListDeployments lim off p)"
  "refines R (handleGetDeployment i p)" "refines R (handleDeploymentLogs kl phase n i p)"
  unfolding handleCreateDeployment_def handleDeploymentUploaded_def handleListDeployments_def
    handleGetDeployment_def handleDeploymentLogs_def
  by (intro refine_intros; assumption)+



section \<open>Requests\<close>

lemma find_route_sound:
  "find_route rs m path = Some x \<Longrightarrow> \<exists>p h vs. (m, p, h) \<in> set rs \<and> x = h vs"
  by (induction rs m path rule: find_route.induct) (auto split: if_splits option.splits)

lemma refines_table:
  assumes "\<And>m p h vs. (m, p, h) \<in> set rs \<Longrightarrow> refines R (h vs)"
  shows "refines R (or_not_found (find_route rs m path))"
  using assms
  by (auto simp: or_not_found_def not_found_def split: option.split intro: refines_return dest!: find_route_sound)

lemma refines_presign: "refines R (presign pc key)"
  unfolding presign_def PresignedUploadURL_def signed_def by (rule refines_call) simp

lemma refines_rounds: "r \<in> set (rounds_of rq) \<Longrightarrow> refines R (round_prog r)"
  by (simp add: rounds_of_def round_prog_def refines_return)

lemma refines_public: "(m, p, h) \<in> set (public_routes pc rq) \<Longrightarrow> quiet sv (h vs)"
  by (auto simp: public_routes_def Let_def intro!: refine_intros)

lemma refines_user: "(m, p, h) \<in> set (user_routes pc rq a) \<Longrightarrow> quiet sv (h vs)"
  by (auto simp: user_routes_def Let_def intro!: refine_intros)

lemma refines_project: "(m, pt, h) \<in> set (project_routes pc rq a p) \<Longrightarrow> quiet (pc_server pc) (h vs)"
  by (auto simp: project_routes_def Let_def intro!: refine_intros refines_presign refines_events_handler refines_rounds)

lemma refines_requireProject:
  "(\<And>p. refines R (h p)) \<Longrightarrow> refines R (requireProjectAccess a slug h)"
  unfolding requireProjectAccess_def by (intro refine_intros)

lemma refines_serve: "quiet (pc_server pc) (serve pc rq)"
proof -
  have u: "quiet (pc_server pc) (serve_user pc rq path a)" for path a
    unfolding serve_user_def
    by (intro refine_intros refines_requireProject refines_table refines_user refines_project)
  have p: "quiet (pc_server pc) m"
    if "find_route (public_routes pc rq) (rq_method rq) (rq_path rq) = Some m" for m
    using find_route_sound [OF that] refines_public by auto
  have n: "refines R not_found" for R
    by (simp add: not_found_def refines_return)
  show ?thesis unfolding serve_def by (intro refine_intros u n p)
qed


section \<open>Workers and tools\<close>

lemma refines_emit [refine_intros]:
  "quiet sv (emit dep level msg)" "quiet sv (rec_fail dep code)" "quiet sv (report_summary dep s sums)"
  "quiet sv (after_apply sv' p)"
  unfolding emit_def rec_fail_def report_summary_def after_apply_def by (intro refine_intros)+

lemma system_keys: "list_all (rx_match envKeyRe) [''DATABASE_URL'', ''REDIS_URL'', ''REDIS_KEY_PREFIX'', ''S3_ENDPOINT'',
    ''S3_REGION'', ''S3_ACCESS_KEY_ID'', ''S3_SECRET_ACCESS_KEY'', ''S3_BUCKET'', ''S3_USE_SSL'']"
  by code_simp

lemma refines_or_code [refine_intros]: "refines R m \<Longrightarrow> refines R (or_code code m)"
  unfolding or_code_def by (intro refine_intros)

lemma refines_system_envs:
  "list_all (\<lambda>(k, v). rx_match envKeyRe k) kvs \<Longrightarrow> quiet sv (set_system_envs sv' pid kvs)"
  by (induction sv' pid kvs rule: set_system_envs.induct)
     (auto simp: set_system_env_def intro!: refine_intros refines_SetEnv)

lemma refines_prepare [refine_intros]: "quiet sv (prepare sv' p)"
proof -
  note k = system_keys [simplified]
  have pg: "quiet sv (provision_postgres sv' p slug m env)" for slug m env
    unfolding provision_postgres_def set_system_env_def by (intro refine_intros refines_SetEnv) (simp add: k)
  have rd: "quiet sv (provision_redis sv' p slug m env)" for slug m env
    unfolding provision_redis_def set_system_env_def by (intro refine_intros refines_SetEnv) (simp_all add: k)
  have s3: "quiet sv (provision_s3 sv' p slug m env)" for slug m env
    unfolding provision_s3_def by (intro refine_intros refines_system_envs) (simp add: s3_vars_def k)
  show ?thesis unfolding prepare_def by (intro refine_intros pg rd s3)
qed

lemma refines_health: "quiet sv reconcileProjectHealth"
  unfolding reconcileProjectHealth_def reconcile_one_def Let_def by (intro refine_intros)

lemma refines_bs [refine_intros]:
  "quiet sv (bs_emit dep l msg)" "quiet sv (bs_fail dep code)" "refines R (status_now dep)" "quiet sv (failed_build dep e)"
proof -
  show e: "quiet sv (bs_emit dep l msg)" "quiet sv (bs_fail dep code)" and s: "refines R (status_now dep)"
    for sv R dep l msg code
    unfolding bs_emit_def bs_fail_def status_now_def by (intro refine_intros)+
  show "quiet sv (failed_build dep e)"
    unfolding failed_build_def by (intro refine_intros e s)
qed

lemma Build_image: "run_state (Build registry mc files slug dep) w = (Inr img, v) \<Longrightarrow> img \<noteq> []"
  by (auto simp: Build_def Let_def imageRef_def split: if_splits prod.splits)

lemma refines_bind_run:
  "refines R m \<Longrightarrow> (\<And>w x v. run_state m w = (x, v) \<Longrightarrow> refines R (g x)) \<Longrightarrow> refines R (State_Monad.bind m g)"
  unfolding refines_def by (auto split: prod.split) (metis rtranclp_trans snd_conv)

text \<open>Key rotation: the rows written are the rows read with some ciphertexts replaced.\<close>

lemma reseal_set_ct: "\<exists>f. (\<forall>r. reseal r (f r)) \<and> set_ct r ct rows = map f rows"
  unfolding set_ct_def update_rows_map
  by (rule exI [of _ "\<lambda>x. if env_at (ev_project r) (ev_key r) x then x\<lparr>ev_ct := ct\<rparr> else x"]) (simp add: reseal_def)

lemma reseal_trans: "reseal r s \<Longrightarrow> reseal s t \<Longrightarrow> reseal r t"
  by (cases r; cases s; cases t) (simp add: reseal_def)

lemma reseal_apply:
  "\<forall>rows'. run_state (apply_changes cs rows) w = (Inr rows', v) \<longrightarrow> (\<exists>f. (\<forall>r. reseal r (f r)) \<and> rows' = map f rows)"
proof (induction cs arbitrary: rows w)
  case Nil
  have "\<forall>r. reseal r (id r)" by (simp add: reseal_def)
  then show ?case by (auto intro!: exI [of _ id])
next
  case (Cons c cs)
  obtain r ct where c: "c = (r, ct)" by (cases c)
  obtain f where f: "\<forall>x. reseal x (f x)" "set_ct r ct rows = map f rows" using reseal_set_ct by blast
  show ?case
  proof (intro allI impI)
    fix rows' assume "run_state (apply_changes (c # cs) rows) w = (Inr rows', v)"
    then obtain w2 where "run_state (apply_changes cs (map f rows)) w2 = (Inr rows', v)"
      by (auto simp: c run_attempt f(2) split: prod.splits sum.splits)
    with Cons.IH obtain g where "\<forall>x. reseal x (g x)" "rows' = map g (map f rows)" by blast
    with f(1) show "\<exists>h. (\<forall>x. reseal x (h x)) \<and> rows' = map h rows"
      by (intro exI [of _ "g \<circ> f"]) (auto intro: reseal_trans)
  qed
qed

lemma refines_rekey: "quiet sv (rekey cr old64 new64 dry)"
proof -
  have w: "quiet sv (write_changes cs)" for cs
  proof (rule refines_goes)
    fix d :: database
    have "goes (quiet_step sv) d (exec (\<lambda>_ d. d\<lparr>env_rows := map f (env_rows e)\<rparr>))"
      if "\<forall>r. reseal r (f r)" "e = d" for f and e :: database
      by (rule goes_exec) (use that in \<open>auto intro: step1 plat_step.reseal_env\<close>)
    then have "goes (quiet_step sv) d (attempt (apply_changes cs (env_rows d)) (\<lambda>rows'. exec (\<lambda>_ d. d\<lparr>env_rows := rows'\<rparr>)))"
      by (intro goes_attempt keeps_apply_changes) (metis reseal_apply)
    then show "goes (quiet_step sv) d (write_changes cs)"
      unfolding write_changes_def by (intro goes_tx goes_query)
  qed
  have p: "refines R (plan cr old new rows)" for R old new rows
    by (induction cr old new rows rule: plan.induct)
       (auto simp: Encrypt_def split: verdict.split intro!: refine_intros)
  have v: "refines R (verify cr k)" for R k
    unfolding verify_def readAll_def by (intro refine_intros)
  show ?thesis unfolding rekey_def readAll_def by (intro refine_intros w p v)
qed

end
