(* ===== verification/Stages.thy ===== *)
theory Stages
  imports Refinement
begin

text \<open>
  The stages of a deployment (internal/api/reconciler.go, internal/store/deployments.go,
  cmd/build-service/main.go). The reconciler's tick and the build worker are the programs that
  bring a deployment forward; their proofs are done once, for any relation that has the quiet
  steps (locale \<open>roll_outs\<close>), and used for the steps of the specification and for the
  invariant that a deployment has the stamps of its stage.
\<close>


section \<open>Relations with roll-outs\<close>

text \<open>What brings deployments forward is the reconciler and the build worker. A relation their
  programs refine has the quiet steps and those statements.\<close>

locale roll_outs =
  fixes sv :: server and R :: "database \<Rightarrow> database \<Rightarrow> bool"
  assumes quiet: "quiet_step sv d d' \<Longrightarrow> R d d'"
begin

lemma calm: "quiet sv m \<Longrightarrow> refines R m"
  unfolding refines_def by (blast intro: rtranclp_mono [THEN predicate2D] quiet)

lemmas calm_parts = refines_emit [THEN calm] refines_prepare [THEN calm] refines_AppendEvent [THEN calm]
  refines_deployment_fields(4) [THEN calm] refines_project_fields(4,6) [THEN calm] refines_bs(1,2,4) [THEN calm]

lemma handled:
  assumes "\<And>st. st \<in> {Deploying, Running} \<Longrightarrow> refines R (MarkDeploymentStatus (pd_id p) st [])"
  shows "refines R (handle sv' dc kl p sums)"
  unfolding handle_def handle_pushing_def handle_deploying_def promote_def
  by (intro refine_intros calm_parts assms) simp_all

lemma handled_all:
  assumes "\<And>p st. p \<in> set ps \<Longrightarrow> st \<in> {Deploying, Running} \<Longrightarrow> refines R (MarkDeploymentStatus (pd_id p) st [])"
  shows "refines R (handle_all sv' dc kl ps sums)"
  using assms
  by (induction sv' dc kl ps sums rule: handle_all.induct) (auto intro!: refine_intros handled)

lemma commands:
  assumes "\<And>m. Others m \<in> set (fst (mc_exec mc argv)) \<Longrightarrow> refines R m"
  shows "refines R (runStream mc dep argv)"
proof -
  have "refines R (run_ticks dep ts)" if "\<And>m. Others m \<in> set ts \<Longrightarrow> refines R m" for ts
    using that by (induction ts) (auto split: tick.split intro!: refine_intros calm_parts)
  with assms show ?thesis unfolding runStream_def by (intro refine_intros) blast
qed

lemma built:
  assumes others: "\<And>argv m. Others m \<in> set (fst (mc_exec mc argv)) \<Longrightarrow> refines R m"
    and finish: "\<And>img. img \<noteq> [] \<Longrightarrow> refines R (finish_build (d_id x) img)"
  shows "refines R (run_build registry mc x)"
proof -
  have "refines R (Build registry mc files slug dep)" for files slug dep
    unfolding Build_def Let_def by (intro refine_intros calm_parts commands others)
  then have "refines R (build_source registry mc files slug (d_id x))" for files slug
    unfolding build_source_def
    by (intro refines_bind calm_parts refines_bind_run [of _ "Build registry mc files slug (d_id x)"] refines_case_sum
        finish Build_image) simp_all
  then show ?thesis unfolding run_build_def Let_def by (intro refine_intros calm_parts) simp
qed

end


interpretation any_step: roll_outs sv "db_step sv" for sv
  by unfold_locales (rule quiet_db_step)

lemmas quiet_refines = any_step.calm


section \<open>The steps of the specification\<close>

lemma refines_tick: "db_refines sv (tick sv' dc kl sums)"
  unfolding tick_def by (intro refine_intros any_step.handled_all rolls_MarkDeploymentStatus)

lemma refines_finish: "img \<noteq> [] \<Longrightarrow> db_refines sv (finish_build dep img)"
  unfolding finish_build_def
  by (intro refine_intros any_step.calm_parts rolls_TryAdvance quiet_refines refines_SetDeploymentImage)

text \<open>A deployment is \<open>staged\<close> when it has the stamps of its stage, in a table with unique keys; a
  program is \<open>orderly\<close> when it leaves the table so.\<close>

definition staged :: "database \<Rightarrow> bool" where
  "staged d \<longleftrightarrow> distinct (map d_id (deployments d)) \<and> (\<forall>x \<in> set (deployments d). stage_ok x)"

abbreviation orderly :: "'a prog \<Rightarrow> bool" where
  "orderly \<equiv> refines (\<lambda>d d'. staged d \<longrightarrow> staged d')"

text \<open>Everybody else, while a command runs, keeps to the specification and to the stages.\<close>

definition machine_refines :: "server \<Rightarrow> machine \<Rightarrow> bool" where
  "machine_refines sv mc = (\<forall>argv m. Others m \<in> set (fst (mc_exec mc argv)) \<longrightarrow> db_refines sv m \<and> orderly m)"

lemma refines_build:
  assumes "machine_refines sv mc"
  shows "db_refines sv (claimAndRun registry mc)"
  unfolding claimAndRun_def
  by (intro refine_intros rolls_ClaimNextQueued any_step.built refines_finish)
    (use assms in \<open>auto simp: machine_refines_def\<close>)


section \<open>Keeping the stages\<close>

lemma staged_update:
  assumes "staged d" and "\<And>x. d_id (f x) = d_id x" and "\<And>x. x \<in> set (deployments d) \<Longrightarrow> q x \<Longrightarrow> stage_ok x \<Longrightarrow> stage_ok (f x)"
  shows "staged (d\<lparr>deployments := update_rows q f (deployments d)\<rparr>)"
  using assms by (auto simp: staged_def table_simps)

lemma staged_step:
  assumes "quiet_step sv d d'" and "staged d"
  shows "staged d'"
  using assms(1)
proof (cases rule: plat_step.cases)
  case (add_deployment x)
  with assms(2) show ?thesis by (simp add: staged_def stage_ok_def)
next
  case (edit_deployments f)
  with assms(2) show ?thesis by (simp add: staged_def deployment_edit_def comp_def)
qed (use assms(2) in \<open>simp_all add: staged_def delete_preset_def\<close>)

text \<open>Deployments a worker claimed, and built ones, whatever their status is now.\<close>

definition claimed :: "uuid \<Rightarrow> database \<Rightarrow> bool" where
  "claimed i d = (\<exists>x \<in> set (deployments d). d_id x = i \<and> d_queued x \<noteq> None \<and> d_build_started x \<noteq> None)"

definition built :: "uuid \<Rightarrow> database \<Rightarrow> bool" where
  "built i d = (\<exists>x \<in> set (deployments d). d_id x = i \<and> d_queued x \<noteq> None \<and> d_build_started x \<noteq> None \<and> d_image x \<noteq> [])"

lemma deployments_step:
  "db_step sv d d' \<Longrightarrow> x \<in> set (deployments d) \<Longrightarrow> \<exists>y \<in> set (deployments d'). y = x \<or> deployment_edit x y"
  by (erule plat_step.cases; simp add: delete_preset_def; (blast | fail)?)

lemma claimed_step: "db_step sv d d' \<Longrightarrow> claimed i d \<Longrightarrow> claimed i d'"
  unfolding claimed_def by (elim bexE conjE, drule (1) deployments_step) (fastforce simp: deployment_edit_def)

lemma built_step: "db_step sv d d' \<Longrightarrow> built i d \<Longrightarrow> built i d'"
  unfolding built_def by (elim bexE conjE, drule (1) deployments_step) (fastforce simp: deployment_edit_def)

lemma stamps_stay:
  assumes "(db_step sv)\<^sup>*\<^sup>* d d'"
  shows "claimed i d \<Longrightarrow> claimed i d'" "built i d \<Longrightarrow> built i d'"
  using assms by (induction rule: rtranclp_induct) (auto intro: claimed_step built_step)

definition in_hand :: "uuid \<Rightarrow> database \<Rightarrow> bool" where
  "in_hand i d \<longleftrightarrow> staged d \<and> claimed i d"

definition ready_for :: "uuid set \<Rightarrow> database \<Rightarrow> bool" where
  "ready_for A d \<longleftrightarrow> staged d \<and> (\<forall>i \<in> A. built i d)"

interpretation orderly: roll_outs sv "\<lambda>d d'. staged d \<longrightarrow> staged d'" for sv
  by unfold_locales (blast intro: staged_step)

interpretation in_hand: roll_outs sv "\<lambda>d d'. in_hand i d \<longrightarrow> in_hand i d'" for sv i
  by unfold_locales (auto simp: in_hand_def intro: staged_step claimed_step quiet_db_step)

interpretation ready: roll_outs sv "\<lambda>d d'. ready_for A d \<longrightarrow> ready_for A d'" for sv A
  by unfold_locales (auto simp: ready_for_def intro: staged_step built_step quiet_db_step)


text \<open>What the results of a statement say about the database it left.\<close>

lemma query_reads: "run_state (query f) w = (r, v) \<Longrightarrow> db v = db w \<and> (r = Inl Fault \<or> r = Inr (f (db w)))"
  by (auto simp: query_def call_def split: list.splits if_splits)

lemma exec_result: "run_state (exec f) w = (Inr y, v) \<Longrightarrow> \<exists>t. db v = f t (db w)"
  by (auto simp: exec_def call_def split: list.splits if_splits)

lemma statement_result:
  "run_state (statement f) w = (r, v) \<Longrightarrow> (\<exists>t. f t (db w) = (r, db v)) \<or> r = Inl Fault \<and> db v = db w"
  by (auto simp: statement_def call_def Let_def split: list.splits if_splits prod.splits)

text \<open>The reconciler rolls out what is built.\<close>

lemma staged_row: "staged d \<Longrightarrow> built i d \<Longrightarrow> x \<in> set (deployments d) \<Longrightarrow> d_id x = i \<Longrightarrow>
    d_queued x \<noteq> None \<and> d_build_started x \<noteq> None \<and> d_image x \<noteq> []"
  by (auto simp: staged_def built_def dest: eq_key_imp_eq_value inj_onD simp: distinct_map)

lemma ready_edit:
  assumes "ready_for A d" and "\<And>x. deployment_edit x (f x)"
    and "\<And>x. q x \<Longrightarrow> d_id x \<in> A" and "\<And>x. q x \<Longrightarrow> d_queued x \<noteq> None \<Longrightarrow> d_build_started x \<noteq> None \<Longrightarrow> d_image x \<noteq> [] \<Longrightarrow> stage_ok (f x)"
  shows "ready_for A (d\<lparr>deployments := update_rows q f (deployments d)\<rparr>)"
proof -
  have "staged (d\<lparr>deployments := update_rows q f (deployments d)\<rparr>)"
  proof (rule staged_update)
    fix x assume "x \<in> set (deployments d)" "q x"
    then show "stage_ok (f x)"
      using staged_row [of d "d_id x" x] assms(1,3,4) by (auto simp: ready_for_def)
  qed (use assms(1,2) in \<open>auto simp: ready_for_def deployment_edit_def\<close>)
  moreover have "built i (d\<lparr>deployments := update_rows q f (deployments d)\<rparr>)" if "i \<in> A" for i
    by (rule stamps_stay(2) [OF rolls_edit_deployments [OF assms(2)]]) (use assms(1) that in \<open>simp add: ready_for_def\<close>)
  ultimately show ?thesis by (simp add: ready_for_def)
qed

lemma ready_MarkDeploymentStatus:
  "i \<in> A \<Longrightarrow> st \<in> {Deploying, Running} \<Longrightarrow>
     refines (\<lambda>d d'. ready_for A d \<longrightarrow> ready_for A d') (MarkDeploymentStatus i st reason)"
  unfolding MarkDeploymentStatus_def update_deployments_def
  by (intro refines_exec r_into_rtranclp impI ready_edit) (auto simp: deployment_edit_def build_done_stamp_def stage_ok_def)

lemma ready_TryAdvance:
  "i \<in> A \<Longrightarrow> refines (\<lambda>d d'. ready_for A d \<longrightarrow> ready_for A d') (TryAdvanceDeploymentStatus i Building Pushing)"
  unfolding TryAdvanceDeploymentStatus_def
  by (intro refines_statement r_into_rtranclp impI, simp, rule ready_edit)
    (auto simp: deployment_edit_def build_done_stamp_def stage_ok_def)

lemma todo_built:
  assumes "staged d" and "p \<in> set (todo d)"
  shows "built (pd_id p) d"
proof -
  from assms(2) obtain x where p: "p = pending_of x" and t: "x \<in> set (take 8 (sort_key queue_key
      (filter (\<lambda>x. d_status x \<in> {Pushing, Deploying} \<and> project_live d (d_project x)) (deployments d))))"
    unfolding todo_def by auto
  from in_set_takeD [OF t] p have x: "x \<in> set (deployments d)" "d_status x \<in> {Pushing, Deploying}" "d_id x = pd_id p"
    by (auto simp: pending_of_def)
  with assms(1) have "stage_ok x" by (simp add: staged_def)
  with x(2) have "d_queued x \<noteq> None" "d_build_started x \<noteq> None" "d_image x \<noteq> []" by (auto simp: stage_ok_def)
  with x show ?thesis unfolding built_def by (intro bexI [of _ x]) simp_all
qed

lemma keeps_trans: "(\<lambda>d d'. P d \<longrightarrow> P d')\<^sup>*\<^sup>* d d' \<Longrightarrow> P d \<Longrightarrow> P d'"
  by (induction rule: rtranclp_induct) auto

lemma refines_keepsI: "(\<And>w. P (db w) \<Longrightarrow> P (db (snd (run_state m w)))) \<Longrightarrow> refines (\<lambda>d d'. P d \<longrightarrow> P d') m"
  unfolding refines_def by (blast intro: r_into_rtranclp)

lemma refines_keepsD: "refines (\<lambda>d d'. P d \<longrightarrow> P d') m \<Longrightarrow> P (db w) \<Longrightarrow> P (db (snd (run_state m w)))"
  unfolding refines_def by (blast intro: keeps_trans)

lemma orderly_tick: "orderly (tick sv dc kl sums)"
proof (rule refines_keepsI)
  fix w :: world assume w: "staged (db w)"
  obtain r v where q: "run_state (query todo) w = (r, v)" by (cases "run_state (query todo) w")
  show "staged (db (snd (run_state (tick sv dc kl sums) w)))"
  proof (cases r)
    case (Inr ps)
    let ?A = "pd_id ` set ps"
    from query_reads [OF q] Inr w have "ready_for ?A (db v)" by (auto simp: ready_for_def todo_built)
    moreover have "refines (\<lambda>d d'. ready_for ?A d \<longrightarrow> ready_for ?A d') (handle_all sv dc kl ps sums)"
      by (intro ready.handled_all ready_MarkDeploymentStatus) simp_all
    ultimately have "ready_for ?A (db (snd (run_state (handle_all sv dc kl ps sums) v)))"
      by (rule refines_keepsD [rotated])
    with q Inr show ?thesis by (simp add: tick_def ready_for_def)
  qed (use q w query_reads [OF q] in \<open>simp add: tick_def\<close>)
qed


text \<open>The build worker hands over what it claimed and pushed.\<close>

lemma claim_in_hand:
  assumes "run_state ClaimNextQueued w = (Inr (Some x), v)" and "staged (db w)"
  shows "in_hand (d_id x) (db v)"
proof -
  from statement_result [OF assms(1) [unfolded ClaimNextQueued_def]] obtain t y
    where y: "next_queued (deployments (db w)) = Some y" and x: "x = claim t y"
      and v: "db v = (db w)\<lparr>deployments := update_rows (\<lambda>z. d_id z = d_id y) (claim t) (deployments (db w))\<rparr>"
    by (auto split: option.splits)
  from y obtain ys where "sort_key queue_key (filter (\<lambda>x. d_status x = Queued) (deployments (db w))) = y # ys"
    unfolding next_queued_def by (auto split: list.splits)
  from arg_cong [OF this, of set] have "y \<in> {x \<in> set (deployments (db w)). d_status x = Queued}" by auto
  then have q: "y \<in> set (deployments (db w))" "d_status y = Queued" by simp_all
  with assms(2) have ok: "stage_ok y" by (simp add: staged_def)
  have one: "z = y" if "z \<in> set (deployments (db w))" "d_id z = d_id y" for z
    using that q(1) assms(2) by (auto simp: staged_def distinct_map dest: inj_onD)
  have "staged (db v)"
    unfolding v by (rule staged_update [OF assms(2)]) (use one ok q(2) in \<open>auto simp: claim_def stage_ok_def\<close>)
  moreover have "claimed (d_id x) (db v)"
    using q ok unfolding v x by (auto simp: claimed_def claim_def stage_ok_def table_simps intro!: bexI [of _ "claim t y"])
  ultimately show ?thesis by (simp add: in_hand_def)
qed

lemma in_hand_image:
  assumes "run_state (SetDeploymentImage i img) w = (Inr u, v)" and "img \<noteq> []" and "in_hand i (db w)"
  shows "ready_for {i} (db v)"
proof -
  from exec_result [OF assms(1) [unfolded SetDeploymentImage_def update_deployments_def]]
  have v: "db v = (db w)\<lparr>deployments := update_rows (\<lambda>x. d_id x = i) (\<lambda>x. x\<lparr>d_image := img\<rparr>) (deployments (db w))\<rparr>" by auto
  from assms(3) have w: "staged (db w)" "claimed i (db w)" by (simp_all add: in_hand_def)
  have "staged (db v)"
    unfolding v by (rule staged_update [OF w(1)]) (use assms(2) in \<open>auto simp: stage_ok_def\<close>)
  moreover have "built i (db v)"
  proof -
    from w(2) obtain x where x: "x \<in> set (deployments (db w))" "d_id x = i" "d_queued x \<noteq> None" "d_build_started x \<noteq> None"
      by (auto simp: claimed_def)
    then have "x\<lparr>d_image := img\<rparr> \<in> set (deployments (db v))" unfolding v by (auto simp: table_simps)
    with x assms(2) show ?thesis unfolding built_def by (intro bexI [of _ "x\<lparr>d_image := img\<rparr>"]) simp_all
  qed
  ultimately show ?thesis by (simp add: ready_for_def)
qed

lemma in_hand_finish:
  assumes "img \<noteq> []"
  shows "refines (\<lambda>d d'. in_hand i d \<longrightarrow> in_hand i d') (finish_build i img)"
  unfolding finish_build_def
proof (rule refines_bind [OF in_hand.calm [OF refines_bs(1)]], rule refines_keepsI)
  fix w :: world assume w: "in_hand i (db w)"
  let ?rest = "\<lambda>r. case r of Inl e \<Rightarrow> do { _ \<leftarrow> bs_fail i ''set_image''; throw e }
     | Inr _ \<Rightarrow> attempt (TryAdvanceDeploymentStatus i Building Pushing) (\<lambda>advanced. do {
         _ \<leftarrow> bs_emit i ''info'' (if advanced then ''handed off to control-plane for deploy''
                else ''build finished but deployment already moved on; skipping handoff'');
         ok () })"
  obtain r v where r: "run_state (SetDeploymentImage i img) w = (r, v)" by (cases "run_state (SetDeploymentImage i img) w")
  have "in_hand i (db (snd (run_state (?rest r) v)))"
  proof (cases r)
    case (Inl e)
    have "in_hand i (db v)"
      using refines_keepsD [OF in_hand.calm [OF refines_SetDeploymentImage [where i = i, OF assms]] w] r by simp
    moreover have "refines (\<lambda>d d'. in_hand i d \<longrightarrow> in_hand i d') (?rest (Inl e))"
      by (simp, intro refine_intros in_hand.calm_parts)
    ultimately show ?thesis unfolding Inl by (rule refines_keepsD [rotated])
  next
    case (Inr u)
    have "ready_for {i} (db v)" by (rule in_hand_image [OF r [unfolded Inr] assms w])
    moreover have "refines (\<lambda>d d'. ready_for {i} d \<longrightarrow> ready_for {i} d') (?rest (Inr u))"
      by (simp, intro refine_intros ready.calm_parts ready_TryAdvance) simp_all
    ultimately have "ready_for {i} (db (snd (run_state (?rest r) v)))" unfolding Inr by (rule refines_keepsD [rotated])
    then show ?thesis by (auto simp: ready_for_def in_hand_def built_def claimed_def)
  qed
  then show "in_hand i (db (snd (run_state (State_Monad.bind (SetDeploymentImage i img) ?rest) w)))"
    by (simp add: r)
qed

lemma in_hand_others:
  assumes "db_refines sv m" and "orderly m"
  shows "refines (\<lambda>d d'. in_hand i d \<longrightarrow> in_hand i d') m"
proof (rule refines_keepsI)
  fix w :: world assume w: "in_hand i (db w)"
  then have "staged (db (snd (run_state m w)))" using refines_keepsD [OF assms(2)] by (simp add: in_hand_def)
  moreover have "claimed i (db (snd (run_state m w)))"
    by (rule stamps_stay(1) [of sv "db w"]) (use assms(1) w in \<open>auto simp: refines_def in_hand_def\<close>)
  ultimately show "in_hand i (db (snd (run_state m w)))" by (simp add: in_hand_def)
qed

lemma orderly_build:
  assumes "machine_refines sv mc"
  shows "orderly (claimAndRun registry mc)"
proof (rule refines_keepsI)
  fix w :: world assume w: "staged (db w)"
  obtain r v where r: "run_state ClaimNextQueued w = (r, v)" by (cases "run_state ClaimNextQueued w")
  show "staged (db (snd (run_state (claimAndRun registry mc) w)))"
  proof (cases "\<exists>x. r = Inr (Some x)")
    case True
    then obtain x where x: "r = Inr (Some x)" ..
    have "in_hand (d_id x) (db v)" by (rule claim_in_hand [OF r [unfolded x] w])
    moreover have "refines (\<lambda>d d'. in_hand (d_id x) d \<longrightarrow> in_hand (d_id x) d') (run_build registry mc x)"
      using assms by (intro in_hand.built in_hand_finish) (auto simp: machine_refines_def intro: in_hand_others)
    ultimately have "in_hand (d_id x) (db (snd (run_state (run_build registry mc x) v)))" by (rule refines_keepsD [rotated])
    then show ?thesis by (simp add: claimAndRun_def run_attempt r x in_hand_def)
  next
    case False
    have "db v = db w"
      using statement_result [OF r [unfolded ClaimNextQueued_def]] False by (auto split: option.splits)
    with False w show ?thesis by (auto simp: claimAndRun_def run_attempt r split: sum.split option.split)
  qed
qed


text \<open>The programs that bring no deployment forward.\<close>

lemmas quiet_programs = refines_serve refines_health refines_sweeps refines_collector refines_rekey refines_boot refines_start


text \<open>So requests, ticks and other builds may all run while a command runs.\<close>

lemma others_bind:
  "db_refines sv m \<Longrightarrow> orderly m \<Longrightarrow>
     db_refines sv (do { _ \<leftarrow> m; State_Monad.return () }) \<and> orderly (do { _ \<leftarrow> m; State_Monad.return () })"
  by (intro conjI refine_intros)

lemmas others_may_run = others_bind [OF quiet_refines [OF refines_serve] orderly.calm [OF refines_serve]]
  others_bind [OF refines_tick orderly_tick] others_bind [OF refines_build orderly_build]

end
