(* ===== verification/Integrity.thy ===== *)
theory Integrity
  imports Stages
begin

text \<open>
  The running platform and the integrity of its database. \<open>sys_step\<close> is one thing the platform
  or its surroundings do: a request of anybody with any body, a tick of a worker, a tool of
  the operator, a change outside. An invariant of \<open>db_step\<close> holds in every state that is reached
  (locale \<open>db_invariant\<close>); the invariants of this theory are the unique keys, the references
  between the tables, the listener ports and the rules the handlers enforce.
\<close>


section \<open>The running platform\<close>

text \<open>The steps take their worlds whole, so calls fail in any pattern; between two steps
  everything outside the database may change, the time, the cluster and the failures to come
  included. While a build runs, others change the database by steps of their own,
  requests, ticks and further builds for example (\<open>others_may_run\<close>).\<close>

inductive sys_step :: "process \<Rightarrow> world \<Rightarrow> world \<Rightarrow> bool" for pc where
  request: "sys_step pc w (snd (run_state (serve pc rq) w))"
| reconcile: "sys_step pc w (snd (run_state (tick (pc_server pc) dc kl sums) w))"
| health: "sys_step pc w (snd (run_state reconcileProjectHealth w))"
| ingress_sweep: "sys_step pc w (snd (run_state (SweepIngressesAtStartup (pc_server pc)) w))"
| proxy_sweep: "sys_step pc w (snd (run_state (SweepEgressProxyAtStartup renderSquidConf (pc_server pc)) w))"
| mode_sweep: "sys_step pc w (snd (run_state (SweepEgressModesAtStartup renderSquidConf (pc_server pc)) w))"
| collector: "sys_step pc w (snd (run_state (RunEgressLogCollector (pc_server pc) n) w))"
| build: "machine_refines (pc_server pc) mc \<Longrightarrow> sys_step pc w (snd (run_state (claimAndRun registry mc) w))"
| rotation: "sys_step pc w (snd (run_state (rekey cr old64 new64 dry) w))"
| start: "repo_files (pl_files pl) \<Longrightarrow> sys_step pc w (snd (run_state (runServer pl) w))"
| migrate: "repo_files (pl_files pl) \<Longrightarrow> sys_step pc w (snd (run_state (runMigrate pl) w))"
| seed: "sys_step pc w (snd (run_state (runSeedDevToken cr) w))"
| outside: "db w' = db w \<Longrightarrow> sys_step pc w w'"

abbreviation reachable :: "process \<Rightarrow> world \<Rightarrow> world \<Rightarrow> bool" where
  "reachable pc \<equiv> (sys_step pc)\<^sup>*\<^sup>*"

lemma sys_step_refines: "sys_step pc w w' \<Longrightarrow> (db_step (pc_server pc))\<^sup>*\<^sup>* (db w) (db w')"
proof (induction rule: sys_step.induct)
  case (build br w registry)
  then show ?case using refines_build by (simp add: refines_def)
next
  case (outside w' w)
  then show ?case by simp
qed (use quiet_programs [THEN quiet_refines] refines_tick in \<open>simp_all add: refines_def\<close>)

lemma sys_step_staged: "sys_step pc w w' \<Longrightarrow> staged (db w) \<Longrightarrow> staged (db w')"
proof (induction rule: sys_step.induct)
  case (build mc w registry)
  then show ?case using refines_keepsD [OF orderly_build] by blast
next
  case (reconcile w dc kl sums)
  then show ?case by (intro refines_keepsD [OF orderly_tick])
qed (auto intro: quiet_programs [THEN orderly.calm, THEN refines_keepsD])

locale db_invariant =
  fixes sv :: server and I :: "database \<Rightarrow> bool"
  assumes step: "db_step sv d d' \<Longrightarrow> I d \<Longrightarrow> I d'"
begin

lemma steps: "(db_step sv)\<^sup>*\<^sup>* d d' \<Longrightarrow> I d \<Longrightarrow> I d'"
  by (induction rule: rtranclp_induct) (auto intro: step)

lemma refined: "db_refines sv m \<Longrightarrow> I (db w) \<Longrightarrow> I (db (snd (run_state m w)))"
  by (auto simp: refines_def intro: steps)

lemma reached: "reachable pc w w' \<Longrightarrow> pc_server pc = sv \<Longrightarrow> I (db w) \<Longrightarrow> I (db w')"
  by (induction rule: rtranclp_induct) (auto dest: sys_step_refines intro: steps)

end


section \<open>Unique keys\<close>

definition unique_by :: "('r \<Rightarrow> 'k) \<Rightarrow> 'r list \<Rightarrow> bool" where
  "unique_by f t = distinct (map f t)"

lemma unique_by_simps [simp]:
  "unique_by f []" "unique_by f (t @ [x]) \<longleftrightarrow> unique_by f t \<and> f x \<notin> f ` set t"
  by (auto simp: unique_by_def)

lemma unique_by_map [simp]: "(\<And>x. f (g x) = f x) \<Longrightarrow> unique_by f (map g t) = unique_by f t"
  by (simp add: unique_by_def comp_def)

lemma unique_by_update: "(\<And>x. f (g x) = f x) \<Longrightarrow> unique_by f (update_rows q g t) = unique_by f t"
  unfolding update_rows_map by (rule unique_by_map) simp

lemma unique_by_delete [simp]: "unique_by f t \<Longrightarrow> unique_by f (delete_rows q t)"
  by (simp add: unique_by_def delete_rows_def distinct_map_filter)

lemma unique_put_env:
  assumes "unique_by (\<lambda>r. (ev_project r, ev_key r)) rows"
  shows "unique_by (\<lambda>r. (ev_project r, ev_key r)) (put_env pid key v rows)"
proof -
  obtain ct sys t u where v: "v = (ct, sys, t, u)" by (cases v)
  show ?thesis
  proof (cases "\<exists>r \<in> set rows. env_at pid key r")
    case True
    with assms show ?thesis by (simp add: put_env_def v unique_by_update)
  next
    case False
    with assms show ?thesis by (auto simp: put_env_def v env_at_def)
  qed
qed

definition keys_ok :: "database \<Rightarrow> bool" where
  "keys_ok d \<longleftrightarrow>
     unique_by u_id (users d) \<and> unique_by (\<lambda>u. ToLower (u_email u)) (users d) \<and> unique_by p_id (projects d) \<and> unique_by p_slug (projects d) \<and>
     unique_by d_id (deployments d) \<and> unique_by (\<lambda>r. (ev_project r, ev_key r)) (env_rows d) \<and>
     unique_by t_id (tokens d) \<and> unique_by (\<lambda>c. (co_project c, co_user c)) (collabs d) \<and>
     unique_by dm_id (domains d) \<and> unique_by dm_host (domains d) \<and> unique_by pr_name (presets d) \<and>
     unique_by r_id (path_rules d) \<and> unique_by (\<lambda>r. (r_project r, r_prefix r)) (path_rules d) \<and>
     unique_by egress_key (egress_rules d)"

text \<open>An update that gives a single row a value no other row has.\<close>

lemma unique_update_one:
  assumes "unique_by k t" and "unique_by f t" and "\<And>x. q x \<Longrightarrow> k x = i \<and> f (g x) = y"
    and "\<And>x. x \<in> set t \<Longrightarrow> k x \<noteq> i \<Longrightarrow> f x \<noteq> y"
  shows "unique_by f (update_rows q g t)"
  using assms
proof (induction t)
  case (Cons x t)
  have IH: "unique_by f (update_rows q g t)" using Cons by (auto simp: unique_by_def)
  have "f (if q x then g x else x) \<notin> f ` set (update_rows q g t)"
  proof
    assume "f (if q x then g x else x) \<in> f ` set (update_rows q g t)"
    then obtain z where z: "z \<in> set t" "f (if q x then g x else x) = f (if q z then g z else z)"
      by (auto simp: set_update_rows)
    have "k z \<noteq> k x" "f z \<noteq> f x" using Cons.prems(1,2) z(1) by (auto simp: unique_by_def image_iff)
    with z Cons.prems(3) [of x] Cons.prems(3) [of z] Cons.prems(4) [of x] Cons.prems(4) [of z]
    show False by (auto split: if_splits)
  qed
  with IH show ?case by (simp add: unique_by_def)
qed (simp add: unique_by_def)

lemmas edits = user_edit_def project_edit_def same_project_def deployment_edit_def
  new_project_def delete_preset_def

lemma token_edit_fields: "token_edit x y \<Longrightarrow> t_id y = t_id x \<and> t_hash y = t_hash x \<and> t_creator y = t_creator x \<and>
    t_project y = t_project x \<and> t_scopes y = t_scopes x \<and> t_expires y = t_expires x \<and> t_revoked y = t_revoked x"
  by (cases x; cases y) (simp add: token_edit_def)

lemma reseal_fields: "reseal r s \<Longrightarrow> ev_project s = ev_project r \<and> ev_key s = ev_key r \<and> ev_system s = ev_system r"
  by (cases r; cases s) (simp add: reseal_def)

lemma unique_users:
  "db_step sv d d' \<Longrightarrow> unique_by u_id (users d) \<and> unique_by (\<lambda>u. ToLower (u_email u)) (users d) \<Longrightarrow>
   unique_by u_id (users d') \<and> unique_by (\<lambda>u. ToLower (u_email u)) (users d')"
  by (erule plat_step.cases) (auto simp: edits EqualFold_def)

lemma unique_projects:
  "db_step sv d d' \<Longrightarrow> unique_by p_id (projects d) \<and> unique_by p_slug (projects d) \<Longrightarrow>
   unique_by p_id (projects d') \<and> unique_by p_slug (projects d')"
  by (erule plat_step.cases) (simp_all add: edits unique_by_update)

lemma unique_deployments: "db_step sv d d' \<Longrightarrow> unique_by d_id (deployments d) \<Longrightarrow> unique_by d_id (deployments d')"
  by (erule plat_step.cases) (simp_all add: edits)

lemma unique_env:
  assumes "db_step sv d d'" and "unique_by (\<lambda>r. (ev_project r, ev_key r)) (env_rows d)"
  shows "unique_by (\<lambda>r. (ev_project r, ev_key r)) (env_rows d')"
  using assms
proof (cases rule: plat_step.cases)
  case (reseal_env f)
  then have "ev_project (f r) = ev_project r \<and> ev_key (f r) = ev_key r" for r by (blast dest: reseal_fields)
  with reseal_env assms(2) show ?thesis by simp
qed (simp_all add: delete_preset_def unique_put_env)

lemma unique_tokens:
  assumes "db_step sv d d'" and "unique_by t_id (tokens d)"
  shows "unique_by t_id (tokens d')"
  using assms
proof (cases rule: plat_step.cases)
  case (edit_tokens f)
  then have "t_id (f x) = t_id x" for x by (blast dest: token_edit_fields)
  with edit_tokens assms(2) show ?thesis by simp
qed (simp_all add: delete_preset_def)

lemma unique_collabs:
  "db_step sv d d' \<Longrightarrow> unique_by (\<lambda>c. (co_project c, co_user c)) (collabs d) \<Longrightarrow>
   unique_by (\<lambda>c. (co_project c, co_user c)) (collabs d')"
  by (erule plat_step.cases) (auto simp: delete_preset_def unique_by_update)

lemma unique_domains:
  "db_step sv d d' \<Longrightarrow> unique_by dm_id (domains d) \<and> unique_by dm_host (domains d) \<Longrightarrow>
   unique_by dm_id (domains d') \<and> unique_by dm_host (domains d')"
  by (erule plat_step.cases) (simp_all add: delete_preset_def)

lemma unique_presets: "db_step sv d d' \<Longrightarrow> unique_by pr_name (presets d) \<Longrightarrow> unique_by pr_name (presets d')"
  by (erule plat_step.cases) (simp_all add: delete_preset_def)

lemma unique_rules:
  assumes "db_step sv d d'" and "unique_by r_id (path_rules d) \<and> unique_by (\<lambda>r. (r_project r, r_prefix r)) (path_rules d)"
  shows "unique_by r_id (path_rules d') \<and> unique_by (\<lambda>r. (r_project r, r_prefix r)) (path_rules d')"
  using assms
proof (cases rule: plat_step.cases)
  case (edit_path_rule rid pid pfx f)
  have "unique_by (\<lambda>r. (r_project r, r_prefix r)) (path_rules d')" unfolding edit_path_rule(1)
    using assms(2) edit_path_rule(2,3)
    by simp (rule unique_update_one [where k = r_id and i = rid and y = "(pid, pfx)"], auto)
  moreover have "unique_by r_id (path_rules d')" using assms(2) edit_path_rule(1,3) by (simp add: unique_by_update)
  ultimately show ?thesis by simp
qed (simp_all add: delete_preset_def)

lemma unique_egress: "db_step sv d d' \<Longrightarrow> unique_by egress_key (egress_rules d) \<Longrightarrow> unique_by egress_key (egress_rules d')"
  by (erule plat_step.cases) (simp_all add: delete_preset_def)

lemma keys_ok_step: "db_step sv d d' \<Longrightarrow> keys_ok d \<Longrightarrow> keys_ok d'"
  unfolding keys_ok_def
  by (blast intro: unique_users [THEN conjunct1] unique_users [THEN conjunct2] unique_projects [THEN conjunct1] unique_projects [THEN conjunct2]
      unique_deployments unique_env unique_tokens unique_collabs unique_domains [THEN conjunct1]
      unique_domains [THEN conjunct2] unique_presets unique_rules [THEN conjunct1] unique_rules [THEN conjunct2] unique_egress)

lemma keys_ok_projects: "keys_ok d \<Longrightarrow> unique_by p_id (projects d)"
  by (simp add: keys_ok_def)

interpretation keys: db_invariant sv keys_ok for sv
  by unfold_locales (rule keys_ok_step)


section \<open>References between the tables\<close>

definition refs_ok :: "database \<Rightarrow> bool" where
  "refs_ok d \<longleftrightarrow>
     p_owner ` set (projects d) \<subseteq> u_id ` set (users d) \<and>
     p_preset ` set (projects d) \<subseteq> insert None (Some ` pr_name ` set (presets d)) \<and>
     d_project ` set (deployments d) \<subseteq> p_id ` set (projects d) \<and>
     e_deployment ` set (events d) \<subseteq> d_id ` set (deployments d) \<and>
     ev_project ` set (env_rows d) \<subseteq> p_id ` set (projects d) \<and>
     co_project ` set (collabs d) \<subseteq> p_id ` set (projects d) \<and>
     co_user ` set (collabs d) \<subseteq> u_id ` set (users d) \<and>
     dm_project ` set (domains d) \<subseteq> p_id ` set (projects d) \<and>
     r_project ` set (path_rules d) \<subseteq> p_id ` set (projects d)"

lemma image_update: "(\<And>x. f (g x) = f x) \<Longrightarrow> f ` set (update_rows q g t) = f ` set t"
  using arg_cong [OF map_update_rows [of t f g q], of set] by simp

text \<open>What no step takes away: the ids of users, projects and deployments.\<close>

lemma user_ids_stay: "db_step sv d d' \<Longrightarrow> u_id ` set (users d) \<subseteq> u_id ` set (users d')"
  by (erule plat_step.cases) (simp_all add: user_edit_def delete_preset_def image_image subset_insertI)

lemma project_ids_stay: "db_step sv d d' \<Longrightarrow> p_id ` set (projects d) \<subseteq> p_id ` set (projects d')"
  by (erule plat_step.cases) (simp_all add: edits image_image image_update subset_insertI)

lemma deployment_ids_stay: "db_step sv d d' \<Longrightarrow> d_id ` set (deployments d) \<subseteq> d_id ` set (deployments d')"
  by (erule plat_step.cases) (simp_all add: deployment_edit_def delete_preset_def image_image subset_insertI)

lemmas ids_stay = user_ids_stay project_ids_stay deployment_ids_stay

lemma refs_owner:
  assumes "db_step sv d d'" and "p_owner ` set (projects d) \<subseteq> u_id ` set (users d)"
  shows "p_owner ` set (projects d') \<subseteq> u_id ` set (users d)"
  using assms by (cases rule: plat_step.cases) (simp_all add: edits image_image image_update)

lemma refs_preset:
  assumes "db_step sv d d'" and "p_preset ` set (projects d) \<subseteq> insert None (Some ` pr_name ` set (presets d))"
  shows "p_preset ` set (projects d') \<subseteq> insert None (Some ` pr_name ` set (presets d'))"
  using assms
proof (cases rule: plat_step.cases)
  case (set_preset v i)
  then show ?thesis using assms(2) by (auto simp: set_update_rows)
next
  case (drop_preset name x)
  then show ?thesis using assms(2) by (auto simp: delete_preset_def set_update_rows)
qed (auto simp: edits image_image image_update)

lemma refs_deployment:
  assumes "db_step sv d d'" and "d_project ` set (deployments d) \<subseteq> p_id ` set (projects d)"
  shows "d_project ` set (deployments d') \<subseteq> p_id ` set (projects d)"
  using assms by (cases rule: plat_step.cases) (simp_all add: deployment_edit_def delete_preset_def image_image)

lemma refs_event:
  assumes "db_step sv d d'" and "e_deployment ` set (events d) \<subseteq> d_id ` set (deployments d)"
  shows "e_deployment ` set (events d') \<subseteq> d_id ` set (deployments d)"
  using assms by (cases rule: plat_step.cases) (simp_all add: delete_preset_def)

lemma put_env_projects: "ev_project ` set (put_env pid key v rows) \<subseteq> insert pid (ev_project ` set rows)"
  by (cases v) (auto simp: put_env_def set_update_rows)

lemma refs_env:
  assumes "db_step sv d d'" and "ev_project ` set (env_rows d) \<subseteq> p_id ` set (projects d)"
  shows "ev_project ` set (env_rows d') \<subseteq> p_id ` set (projects d)"
  using assms
proof (cases rule: plat_step.cases)
  case (reseal_env f)
  then have "ev_project (f r) = ev_project r" for r by (blast dest: reseal_fields)
  with reseal_env assms(2) show ?thesis by (simp add: image_image)
next
  case (set_env pid key v)
  have "insert pid (ev_project ` set (env_rows d)) \<subseteq> p_id ` set (projects d)" using set_env(2) assms(2) by blast
  with put_env_projects [of pid key v "env_rows d"] have
    "ev_project ` set (put_env pid key v (env_rows d)) \<subseteq> p_id ` set (projects d)" by (rule order_trans)
  then show ?thesis by (simp add: set_env(1))
qed (auto simp: delete_preset_def)

lemma refs_collab:
  assumes "db_step sv d d'" and "co_project ` set (collabs d) \<subseteq> p_id ` set (projects d)"
    and "co_user ` set (collabs d) \<subseteq> u_id ` set (users d)"
  shows "co_project ` set (collabs d') \<subseteq> p_id ` set (projects d) \<and> co_user ` set (collabs d') \<subseteq> u_id ` set (users d)"
  using assms by (cases rule: plat_step.cases) (auto simp: delete_preset_def image_update)

lemma refs_domain:
  assumes "db_step sv d d'" and "dm_project ` set (domains d) \<subseteq> p_id ` set (projects d)"
  shows "dm_project ` set (domains d') \<subseteq> p_id ` set (projects d)"
  using assms by (cases rule: plat_step.cases) (auto simp: delete_preset_def)

lemma refs_rule:
  assumes "db_step sv d d'" and "r_project ` set (path_rules d) \<subseteq> p_id ` set (projects d)"
  shows "r_project ` set (path_rules d') \<subseteq> p_id ` set (projects d)"
  using assms by (cases rule: plat_step.cases) (auto simp: delete_preset_def image_update)

lemma refs_ok_step:
  assumes "db_step sv d d'" and "refs_ok d"
  shows "refs_ok d'"
  using ids_stay [OF assms(1)] refs_owner [OF assms(1)] refs_preset [OF assms(1)] refs_deployment [OF assms(1)]
    refs_event [OF assms(1)] refs_env [OF assms(1)] refs_collab [OF assms(1)] refs_domain [OF assms(1)]
    refs_rule [OF assms(1)] assms(2)
  unfolding refs_ok_def by (meson order_trans)

interpretation refs: db_invariant sv refs_ok for sv
  by unfold_locales (rule refs_ok_step)


section \<open>Listener ports of the egress proxy\<close>

definition ports_ok :: "database \<Rightarrow> bool" where
  "ports_ok d \<longleftrightarrow> distinct (taken_ports d) \<and>
     (\<forall>q \<in> set (taken_ports d). EgressProxyPortMin \<le> q \<and> q \<le> EgressProxyPortMax)"

lemma free_port_Some:
  "free_port d = Some q \<Longrightarrow> q \<notin> set (taken_ports d) \<and> EgressProxyPortMin \<le> q \<and> q \<le> EgressProxyPortMax"
  by (auto simp: free_port_def find_Some_iff dest: nth_mem)

lemma free_port_None: "free_port d = None \<longleftrightarrow> {EgressProxyPortMin..EgressProxyPortMax} \<subseteq> set (taken_ports d)"
  by (auto simp: free_port_def find_None_iff)

abbreviation ports_of :: "project list \<Rightarrow> int list" where
  "ports_of ps \<equiv> List.map_filter p_port (filter live ps)"

lemma ports_of_Cons: "ports_of (p # ps) = (if live p then (case p_port p of None \<Rightarrow> [] | Some q \<Rightarrow> [q]) else []) @ ports_of ps"
  by (simp add: map_filter_simps split: option.split)

lemma ports_of_map: "(\<And>p. live (f p) = live p \<and> p_port (f p) = p_port p) \<Longrightarrow> ports_of (map f ps) = ports_of ps"
  by (induction ps) (simp_all add: ports_of_Cons split: option.split)

lemma ports_of_kill:
  assumes "\<And>p. \<not> live (f p)"
  shows "set (ports_of (update_rows q f ps)) \<subseteq> set (ports_of ps) \<and>
    (distinct (ports_of ps) \<longrightarrow> distinct (ports_of (update_rows q f ps)))"
  by (induction ps) (use assms in \<open>auto simp: ports_of_Cons subset_iff split: option.split\<close>)

lemma ports_of_allot:
  assumes "unique_by p_id ps" and "distinct (ports_of ps)" and "\<And>x. v = Some x \<Longrightarrow> x \<notin> set (ports_of ps)"
  shows "distinct (ports_of (update_rows (\<lambda>p. p_id p = i \<and> live p) (\<lambda>p. p\<lparr>p_port := v\<rparr>) ps)) \<and>
    set (ports_of (update_rows (\<lambda>p. p_id p = i \<and> live p) (\<lambda>p. p\<lparr>p_port := v\<rparr>) ps)) \<subseteq> set_option v \<union> set (ports_of ps)"
  using assms
proof (induction ps)
  case (Cons p ps)
  let ?u = "update_rows (\<lambda>p. p_id p = i \<and> live p) (\<lambda>p. p\<lparr>p_port := v\<rparr>)"
  have IH: "distinct (ports_of (?u ps)) \<and> set (ports_of (?u ps)) \<subseteq> set_option v \<union> set (ports_of ps)"
    using Cons by (auto simp: ports_of_Cons unique_by_def split: if_splits option.splits)
  show ?case
  proof (cases "p_id p = i \<and> live p")
    case True
    with Cons.prems(1) have "?u ps = ps" by (intro update_rows_id) (auto simp: unique_by_def image_iff)
    with True Cons.prems(2,3) show ?thesis by (auto simp: ports_of_Cons live_def split: option.split)
  next
    case False
    then have "?u (p # ps) = p # ?u ps" by auto
    with IH Cons.prems(2,3) show ?thesis by (auto simp: ports_of_Cons split: if_splits option.splits)
  qed
qed (simp add: map_filter_simps)

lemma ports_ok_step:
  assumes "db_step sv d d'" and "unique_by p_id (projects d)" and "ports_ok d"
  shows "ports_ok d'"
  using assms(1)
proof (cases rule: plat_step.cases)
  case (allot_port i)
  have "distinct (taken_ports d')" "set (taken_ports d') \<subseteq> set_option (free_port d) \<union> set (taken_ports d)"
    using ports_of_allot [OF assms(2), of "free_port d" i] assms(3) free_port_Some [of d]
    by (auto simp: allot_port ports_ok_def taken_ports_def)
  then show ?thesis using assms(3) free_port_Some [of d] by (fastforce simp: ports_ok_def)
next
  case (tombstone i t)
  show ?thesis using assms(3) ports_of_kill [of "\<lambda>p. p\<lparr>p_deleted := Some t, p_status := PDeleting\<rparr>"
      "\<lambda>p. p_id p = i \<and> live p" "projects d"]
    by (auto simp: tombstone ports_ok_def taken_ports_def live_def)
next
  case (set_preset v i)
  then show ?thesis using assms(3) by (simp add: ports_ok_def taken_ports_def update_rows_map ports_of_map live_def)
next
  case (drop_preset name x)
  then show ?thesis using assms(3)
    by (simp add: ports_ok_def taken_ports_def delete_preset_def update_rows_map ports_of_map live_def)
next
  case (edit_projects f)
  then show ?thesis using assms(3)
    by (simp add: ports_ok_def taken_ports_def ports_of_map project_edit_def live_def)
next
  case (add_project i slug owner name t m)
  then show ?thesis using assms(3)
    by (simp add: ports_ok_def taken_ports_def new_project_def map_filter_def)
qed (use assms(3) in \<open>simp_all add: ports_ok_def taken_ports_def\<close>)

interpretation ports: db_invariant sv "\<lambda>d. keys_ok d \<and> ports_ok d" for sv
  by unfold_locales (simp add: keys_ok_step ports_ok_step [OF _ keys_ok_projects])



section \<open>What the handlers check\<close>

text \<open>The content of the tables: every rule is one the handlers let through, every slug,
  hostname and variable name has its syntax, every mode its value.\<close>

definition project_row_ok :: "project \<Rightarrow> bool" where
  "project_row_ok p = (ValidateSlug (p_slug p) = None \<and> p_visibility p = ''org'' \<and> p_mode p \<in> set egressModes)"

definition content_ok :: "server \<Rightarrow> database \<Rightarrow> bool" where
  "content_ok sv d \<longleftrightarrow>
     (\<forall>p \<in> set (projects d). project_row_ok p) \<and>
     (\<forall>x \<in> set (domains d). validateHostname (dm_host x) = None) \<and>
     (\<forall>r \<in> set (env_rows d). rx_match envKeyRe (ev_key r)) \<and>
     (\<forall>r \<in> set (path_rules d). path_rule_ok r) \<and>
     (\<forall>g \<in> set (egress_rules d). egress_rule_ok sv g)"

lemma project_row_ok_edit: "project_edit p q \<Longrightarrow> project_row_ok p \<Longrightarrow> project_row_ok q"
  by (auto simp: project_row_ok_def project_edit_def same_project_def)

lemma project_row_ok_fields [simp]:
  "project_row_ok (p\<lparr>p_preset := v\<rparr>) = project_row_ok p" "project_row_ok (p\<lparr>p_port := q\<rparr>) = project_row_ok p"
  "project_row_ok (p\<lparr>p_deleted := t, p_status := st\<rparr>) = project_row_ok p"
  by (simp_all add: project_row_ok_def)

lemma Ball_update: "(\<And>x. Q x \<Longrightarrow> Q (g x)) \<Longrightarrow> \<forall>x \<in> set t. Q x \<Longrightarrow> \<forall>x \<in> set (update_rows q g t). Q x"
  by (auto simp: set_update_rows)

lemma content_projects:
  assumes "db_step sv d d'" and "\<forall>p \<in> set (projects d). project_row_ok p"
  shows "\<forall>p \<in> set (projects d'). project_row_ok p"
  using assms
proof (cases rule: plat_step.cases)
  case (edit_projects f)
  with assms(2) show ?thesis by (auto intro: project_row_ok_edit)
next
  case (add_project i slug owner name t m)
  then show ?thesis using assms(2) by (simp add: project_row_ok_def new_project_def egressModes_def)
next
  case (set_preset v i)
  show ?thesis unfolding set_preset(1) using assms(2) by (auto simp: set_update_rows)
next
  case (allot_port i)
  show ?thesis unfolding allot_port(1) using assms(2) by (auto simp: set_update_rows)
next
  case (tombstone i t)
  show ?thesis unfolding tombstone(1) using assms(2) by (auto simp: set_update_rows)
next
  case (drop_preset name x)
  show ?thesis using assms(2) by (auto simp: drop_preset(1) delete_preset_def set_update_rows)
qed simp_all

lemma content_domains: "db_step sv d d' \<Longrightarrow> \<forall>x \<in> set (domains d). validateHostname (dm_host x) = None \<Longrightarrow>
    \<forall>x \<in> set (domains d'). validateHostname (dm_host x) = None"
  by (erule plat_step.cases) (simp_all add: delete_preset_def)

lemma put_env_keys: "ev_key ` set (put_env pid key v rows) \<subseteq> insert key (ev_key ` set rows)"
  by (cases v) (auto simp: put_env_def set_update_rows)

lemma content_env:
  assumes "db_step sv d d'" and "\<forall>r \<in> set (env_rows d). rx_match envKeyRe (ev_key r)"
  shows "\<forall>r \<in> set (env_rows d'). rx_match envKeyRe (ev_key r)"
  using assms
proof (cases rule: plat_step.cases)
  case (reseal_env f)
  then have "ev_key (f r) = ev_key r" for r by (blast dest: reseal_fields)
  with reseal_env assms(2) show ?thesis by simp
next
  case (set_env pid key v)
  with assms(2) put_env_keys [of pid key v "env_rows d"] show ?thesis by (fastforce simp: subset_iff image_iff)
qed (auto simp: delete_preset_def)

lemma content_rules: "db_step sv d d' \<Longrightarrow> \<forall>r \<in> set (path_rules d). path_rule_ok r \<Longrightarrow> \<forall>r \<in> set (path_rules d'). path_rule_ok r"
  by (erule plat_step.cases) (auto simp: delete_preset_def set_update_rows)

lemma content_egress: "db_step sv d d' \<Longrightarrow> \<forall>g \<in> set (egress_rules d). egress_rule_ok sv g \<Longrightarrow>
    \<forall>g \<in> set (egress_rules d'). egress_rule_ok sv g"
  by (erule plat_step.cases) (simp_all add: delete_preset_def)

lemma content_ok_step: "db_step sv d d' \<Longrightarrow> content_ok sv d \<Longrightarrow> content_ok sv d'"
  unfolding content_ok_def
  using content_projects [of sv d d'] content_domains [of sv d d'] content_env [of sv d d'] content_rules [of sv d d']
    content_egress [of sv d d'] by simp

interpretation content: db_invariant sv "content_ok sv" for sv
  by unfold_locales (rule content_ok_step)

end
