(* ===== verification/History.thy ===== *)
theory History
  imports Integrity
begin

text \<open>
  What the platform never takes back. \<open>extends d e\<close> relates a database to a later one: the audit
  trail and the deployment events are only appended to, users, projects, deployments and deploy
  tokens are never removed and keep their identity, a tombstone is permanent and so are the
  system presets. It is a preorder that every step increases, so \<open>extends d\<close> is an invariant of
  the runs from \<open>d\<close>.
\<close>


section \<open>Tables that only grow\<close>

definition grows :: "('r \<Rightarrow> 'r \<Rightarrow> bool) \<Rightarrow> 'r list \<Rightarrow> 'r list \<Rightarrow> bool" where
  "grows R t u = (\<exists>u1 u2. u = u1 @ u2 \<and> list_all2 R t u1)"

lemma grows_append: "(\<And>x. R x x) \<Longrightarrow> grows R t (t @ xs)"
  unfolding grows_def by (intro exI [of _ t] exI [of _ xs]) (simp add: list_all2_refl)

lemma grows_refl: "(\<And>x. R x x) \<Longrightarrow> grows R t t"
  using grows_append [of R t "[]"] by simp

lemma grows_map: "(\<And>x. R x (f x)) \<Longrightarrow> grows R t (map f t)"
  unfolding grows_def by (intro exI [of _ "map f t"] exI [of _ "[]"]) (simp add: list_all2_conv_all_nth)

lemma grows_update: "(\<And>x. R x x) \<Longrightarrow> (\<And>x. q x \<Longrightarrow> R x (f x)) \<Longrightarrow> grows R t (update_rows q f t)"
  unfolding update_rows_map by (rule grows_map) simp

lemma grows_trans:
  assumes "\<And>x y z. R x y \<Longrightarrow> R y z \<Longrightarrow> R x z" and "grows R t u" and "grows R u v"
  shows "grows R t v"
proof -
  obtain u1 u2 where u: "u = u1 @ u2" "list_all2 R t u1" using assms(2) by (auto simp: grows_def)
  obtain v1 v2 where v: "v = v1 @ v2" "list_all2 R u v1" using assms(3) by (auto simp: grows_def)
  then obtain w1 w2 where w: "v1 = w1 @ w2" "list_all2 R u1 w1" using u(1) by (auto simp: list_all2_append1)
  have "list_all2 R t w1" using assms(1) u(2) w(2) by (rule list_all2_trans)
  with v(1) w(1) show ?thesis unfolding grows_def by (intro exI [of _ w1] exI [of _ "w2 @ v2"]) simp
qed

lemma grows_in: "grows R t u \<Longrightarrow> x \<in> set t \<Longrightarrow> \<exists>y \<in> set u. R x y"
  by (auto simp: grows_def list_all2_conv_all_nth in_set_conv_nth) (metis Un_iff nth_mem)

lemma grows_eq: "grows (=) t u \<longleftrightarrow> prefix t u"
  by (auto simp: grows_def prefix_def list.rel_eq)


section \<open>Later rows\<close>

definition later_project :: "project \<Rightarrow> project \<Rightarrow> bool" where
  "later_project p q = (same_project p q \<and> (p_deleted p \<noteq> None \<longrightarrow> p_deleted q = p_deleted p))"

definition extends :: "database \<Rightarrow> database \<Rightarrow> bool" where
  "extends d e \<longleftrightarrow>
     prefix (audits d) (audits e) \<and> prefix (events d) (events e) \<and>
     grows user_edit (users d) (users e) \<and> grows later_project (projects d) (projects e) \<and>
     grows deployment_edit (deployments d) (deployments e) \<and> grows token_edit (tokens d) (tokens e) \<and>
     (\<forall>x \<in> set (presets d). pr_system x \<longrightarrow> (\<exists>y \<in> set (presets e). pr_name y = pr_name x \<and> pr_system y))"

lemma row_refl [simp]: "user_edit u u" "later_project p p" "deployment_edit x x" "token_edit t t"
  by (simp_all add: user_edit_def later_project_def same_project_def deployment_edit_def token_edit_def)

lemma row_trans:
  "user_edit u v \<Longrightarrow> user_edit v u' \<Longrightarrow> user_edit u u'"
  "later_project p q \<Longrightarrow> later_project q r \<Longrightarrow> later_project p r"
  "deployment_edit x y \<Longrightarrow> deployment_edit y z \<Longrightarrow> deployment_edit x z"
  "token_edit s t \<Longrightarrow> token_edit t t' \<Longrightarrow> token_edit s t'"
     apply (simp add: user_edit_def)
    apply (auto simp: later_project_def same_project_def) [1]
   apply (auto simp: deployment_edit_def) [1]
  apply (cases s; cases t; cases t') apply (simp add: token_edit_def)
  done

lemma extends_refl: "extends d d"
  by (auto simp: extends_def intro: grows_refl)

lemma extends_trans:
  assumes "extends d e" and "extends e f"
  shows "extends d f"
proof -
  have "prefix (audits d) (audits f)" "prefix (events d) (events f)"
    using assms by (auto simp: extends_def intro: prefix_order.trans)
  moreover have "grows user_edit (users d) (users f)"
    by (rule grows_trans [where u = "users e", OF row_trans(1)]) (use assms in \<open>simp_all add: extends_def\<close>)
  moreover have "grows later_project (projects d) (projects f)"
    by (rule grows_trans [where u = "projects e", OF row_trans(2)]) (use assms in \<open>simp_all add: extends_def\<close>)
  moreover have "grows deployment_edit (deployments d) (deployments f)"
    by (rule grows_trans [where u = "deployments e", OF row_trans(3)]) (use assms in \<open>simp_all add: extends_def\<close>)
  moreover have "grows token_edit (tokens d) (tokens f)"
    by (rule grows_trans [where u = "tokens e", OF row_trans(4)]) (use assms in \<open>simp_all add: extends_def\<close>)
  moreover have "\<forall>x \<in> set (presets d). pr_system x \<longrightarrow> (\<exists>y \<in> set (presets f). pr_name y = pr_name x \<and> pr_system y)"
    using assms unfolding extends_def by metis
  ultimately show ?thesis unfolding extends_def by blast
qed

lemma later_project_edits [simp]:
  "project_edit p q \<Longrightarrow> later_project p q"
  "later_project p (p\<lparr>p_preset := v\<rparr>)" "later_project p (p\<lparr>p_port := v'\<rparr>)"
  "live p \<Longrightarrow> later_project p (p\<lparr>p_deleted := Some t, p_status := PDeleting\<rparr>)"
  by (auto simp: later_project_def project_edit_def same_project_def live_def)

lemma grows_kill: "grows later_project ps
    (update_rows (\<lambda>p. p_id p = i \<and> live p) (\<lambda>p. p\<lparr>p_deleted := Some t, p_status := PDeleting\<rparr>) ps)"
  by (rule grows_update) auto

lemma grows_projects: "db_step sv d e \<Longrightarrow> grows later_project (projects d) (projects e)"
  by (erule plat_step.cases)
    (simp_all add: grows_refl grows_append grows_map grows_update grows_kill delete_preset_def)

lemma grows_others:
  "db_step sv d e \<Longrightarrow> grows user_edit (users d) (users e)"
  "db_step sv d e \<Longrightarrow> grows deployment_edit (deployments d) (deployments e)"
  "db_step sv d e \<Longrightarrow> grows token_edit (tokens d) (tokens e)"
  by (erule plat_step.cases; simp add: grows_refl grows_append grows_map delete_preset_def)+

lemma logs_grow: "db_step sv d e \<Longrightarrow> prefix (audits d) (audits e) \<and> prefix (events d) (events e)"
  by (erule plat_step.cases) (simp_all add: delete_preset_def)

lemma system_presets_stay:
  assumes "db_step sv d e" and "x \<in> set (presets d)" and "pr_system x" and "unique_by pr_name (presets d)"
  shows "\<exists>y \<in> set (presets e). pr_name y = pr_name x \<and> pr_system y"
  using assms(1)
proof (cases rule: plat_step.cases)
  case (drop_preset name y)
  then have "y \<in> set (presets d)" "pr_name y = name" by (auto simp: find_preset_def dest!: find_row_Some)
  with assms(2-4) drop_preset(3) have "pr_name x \<noteq> name"
    by (auto simp: unique_by_def dest!: inj_onD [OF distinct_map [THEN iffD1, THEN conjunct2]])
  with assms(2,3) show ?thesis by (auto simp: drop_preset(1) delete_preset_def)
qed (use assms(2,3) in auto)

lemma extends_step: "db_step sv d e \<Longrightarrow> keys_ok d \<Longrightarrow> extends d e"
  unfolding extends_def
  by (simp add: logs_grow grows_projects grows_others)
    (blast intro: system_presets_stay dest: keys_ok_def [THEN iffD1])

interpretation history: db_invariant sv "\<lambda>d. keys_ok d \<and> extends d0 d" for sv d0
  by unfold_locales (blast intro: keys_ok_step extends_trans extends_step)

end
