(* ===== verification/Runs.thy ===== *)
theory Runs
  imports Http
begin

text \<open>
  Successful runs read backwards: from the result of a call, a query, a statement or a sequence to
  what it read and wrote. The rules are the collection \<open>run_dests\<close>, for \<open>dest!\<close>. The second part
  runs the same programs forwards in a world where no call fails.
\<close>

named_theorems run_dests \<open>what a successful run did\<close>

lemma call_run:
  assumes "run_state (call f) w = (r, v)"
  shows "(\<exists>bs. r = Inl Fault \<and> v = w\<lparr>faults := bs\<rparr>) \<or> (\<exists>bs. (r, v) = f (w\<lparr>faults := bs\<rparr>))"
proof (cases "faults w")
  case Nil
  then have w: "w\<lparr>faults := []\<rparr> = w" by (cases w) simp
  from assms Nil have "(r, v) = f (w\<lparr>faults := []\<rparr>)" unfolding w by simp
  then show ?thesis by blast
next
  case (Cons b bs)
  with assms have "b \<and> r = Inl Fault \<and> v = w\<lparr>faults := bs\<rparr> \<or> (r, v) = f (w\<lparr>faults := bs\<rparr>)"
    by (auto simp: call_def split: if_splits)
  then show ?thesis by blast
qed

lemma call_Inr [run_dests]: "run_state (call f) w = (Inr x, v) \<Longrightarrow> \<exists>bs. (Inr x, v) = f (w\<lparr>faults := bs\<rparr>)"
  using call_run [of f w "Inr x" v] by auto

lemma attempt_Inr [run_dests]: "run_state (attempt m f) w = (Inr y, v) \<Longrightarrow>
    \<exists>x u. run_state m w = (Inr x, u) \<and> run_state (f x) u = (Inr y, v)"
  by (auto simp: run_attempt split: prod.splits sum.splits)

lemma run_attempt_Inr:
  assumes "run_state (attempt m f) w = (Inr y, w')"
  obtains x v where "run_state m w = (Inr x, v)" "run_state (f x) v = (Inr y, w')"
  using assms by (auto simp: attempt_def split: prod.splits sum.splits)

lemma query_Inr [run_dests]: "run_state (query f) w = (Inr x, v) \<Longrightarrow> x = f (db w) \<and> (\<exists>bs. v = w\<lparr>faults := bs\<rparr>)"
  by (auto simp: query_def dest!: call_Inr)

lemma query_row_Inr [run_dests]: "run_state (query_row f) w = (Inr x, v) \<Longrightarrow> f (db w) = Some x \<and> (\<exists>bs. v = w\<lparr>faults := bs\<rparr>)"
  by (auto simp: query_row_def dest!: attempt_Inr query_Inr split: option.splits)

lemma exec_Inr [run_dests]: "run_state (exec f) w = (Inr x, v) \<Longrightarrow> \<exists>bs. v = w\<lparr>faults := bs, db := f (now w) (db w)\<rparr>"
  by (auto simp: exec_def dest!: call_Inr)

lemma statement_Inr [run_dests]:
  assumes "run_state (statement f) w = (Inr x, v)"
  shows "\<exists>bs d. f (now w) (db w) = (Inr x, d) \<and> v = w\<lparr>faults := bs, db := d\<rparr>"
proof -
  obtain bs where "(Inr x, v) = (let (r, d) = f (now w) (db w) in (r, w\<lparr>faults := bs, db := d\<rparr>))"
    using call_Inr [OF assms [unfolded statement_def]] by auto
  then show ?thesis by (cases "f (now w) (db w)") auto
qed

lemma insert_row_Inr [run_dests]:
  assumes "run_state (insert_row f) w = (Inr x, v)"
  shows "\<exists>bs d. f (uuid_src w (uuid_next w)) (now w) (db w) = (Inr x, d) \<and>
    v = w\<lparr>faults := bs, uuid_next := Suc (uuid_next w), db := d\<rparr>"
proof -
  obtain bs where "(Inr x, v) = (let (r, d) = f (uuid_src w (uuid_next w)) (now w) (db w)
      in (r, w\<lparr>faults := bs, uuid_next := Suc (uuid_next w), db := d\<rparr>))"
    using call_Inr [OF assms [unfolded insert_row_def]] by (auto simp: fresh_uuid_def)
  then show ?thesis by (cases "f (uuid_src w (uuid_next w)) (now w) (db w)") auto
qed

lemma rand_Read_Inr [run_dests]: "run_state (rand_Read n) w = (Inr b, v) \<Longrightarrow>
    b = map (rand_src w) [rand_next w..<rand_next w + n] \<and> (\<exists>bs. v = w\<lparr>faults := bs, rand_next := rand_next w + n\<rparr>)"
  by (auto simp: rand_Read_def rand_bytes_def dest!: call_Inr)

lemma bind_run: "run_state (State_Monad.bind m f) w = (y, v) \<Longrightarrow> \<exists>x u. run_state m w = (x, u) \<and> run_state (f x) u = (y, v)"
  by (auto split: prod.splits)


section \<open>Nothing fails\<close>

lemma run_attempt_ok [simp]: "run_state m w = (Inr x, v) \<Longrightarrow> run_state (attempt m f) w = run_state (f x) v"
  by (simp add: run_attempt)

lemma run_attempt_err [simp]: "run_state m w = (Inl e, v) \<Longrightarrow> run_state (attempt m f) w = (Inl e, v)"
  by (simp add: run_attempt)

lemma run_orelse: "run_state (orelse m h f) w =
    (case run_state m w of (Inl e, v) \<Rightarrow> run_state (h e) v | (Inr x, v) \<Rightarrow> run_state (f x) v)"
  by (simp add: orelse_def split: prod.splits sum.splits)

lemma run_orelse_ok [simp]: "run_state m w = (Inr x, v) \<Longrightarrow> run_state (orelse m h f) w = run_state (f x) v"
  by (simp add: run_orelse)

lemma run_orelse_err [simp]: "run_state m w = (Inl e, v) \<Longrightarrow> run_state (orelse m h f) w = run_state (h e) v"
  by (simp add: run_orelse)

lemma run_query_row_ok [simp]: "faults w = [] \<Longrightarrow>
    run_state (query_row f) w = (case f (db w) of None \<Rightarrow> Inl ErrNotFound | Some x \<Rightarrow> Inr x, w)"
  by (simp add: query_row_def split: option.split)

lemma run_statement_ok [simp]: "faults w = [] \<Longrightarrow>
    run_state (statement f) w = (fst (f (now w) (db w)), w\<lparr>db := snd (f (now w) (db w))\<rparr>)"
  by (simp add: statement_def case_prod_beta)

lemma run_get_now [simp]: "run_state get_now w = (now w, w)"
  by (simp add: get_now_def)

end
