(* ===== verification/Sample.thy ===== *)
theory Sample
  imports Router
begin

text \<open>
  A small platform to try statements on: a cipher that has the laws of \<open>aead_ok\<close>, a server without a
  cluster, a database with one administrator, one user, a project of the user's and a deploy
  token, and the world around it. Nothing here models code.
\<close>


section \<open>A cipher\<close>

text \<open>The sealed text carries key and associated data, each preceded by its length in unary.\<close>

definition coded :: "string \<Rightarrow> string" where
  "coded s = replicate (length s) (CHR ''a'') @ CHR ''b'' # s"

lemma coded_inj: "coded s @ x = coded t @ y \<Longrightarrow> s = t \<and> x = y"
proof -
  assume a: "coded s @ x = coded t @ y"
  have len: "length (takeWhile (\<lambda>c. c = CHR ''a'') (coded u @ z)) = length u" for u z
    unfolding coded_def append_assoc append_Cons by (subst takeWhile_append2) auto
  have "length s = length t" using a len [of s x] len [of t y] by simp
  with a show ?thesis by (simp add: coded_def)
qed

definition sealed :: "string \<Rightarrow> string \<Rightarrow> string" where
  "sealed k aad = coded k @ coded aad"

lemma sealed_inj: "sealed k aad @ x = sealed k' aad' @ y \<Longrightarrow> k = k' \<and> aad = aad' \<and> x = y"
  by (auto simp: sealed_def dest!: coded_inj)

definition toy_crypto :: crypto where
  "toy_crypto = \<lparr>
     cr_seal = (\<lambda>k n pt aad. sealed k aad @ pt),
     cr_open = (\<lambda>k n ct aad. if take (length (sealed k aad)) ct = sealed k aad then Some (drop (length (sealed k aad)) ct) else None),
     cr_sha256 = (\<lambda>s. s), cr_hmac = (\<lambda>k s. s @ k), cr_b64dec = Some, cr_b64url = (\<lambda>s. s), cr_b64urldec = Some\<rparr>"

lemma toy_crypto_ok: "aead_ok toy_crypto"
proof -
  have *: "(k', aad') = (k, aad)" if "take (length (sealed k' aad')) (sealed k aad @ pt) = sealed k' aad'" for k' aad' k aad pt
  proof -
    have "sealed k aad @ pt = sealed k' aad' @ drop (length (sealed k' aad')) (sealed k aad @ pt)"
      using that by (metis append_take_drop_id)
    from sealed_inj [OF this] show ?thesis by simp
  qed
  show ?thesis unfolding aead_ok_def
  proof (intro conjI allI impI)
    fix k n pt aad k' aad' :: string assume "(k', aad') \<noteq> (k, aad)"
    with * have "take (length (sealed k' aad')) (sealed k aad @ pt) \<noteq> sealed k' aad'" for pt by blast
    then show "cr_open toy_crypto k' n (cr_seal toy_crypto k n pt aad) aad' = None" by (simp add: toy_crypto_def del: take_append)
  qed (simp add: toy_crypto_def)
qed


section \<open>A platform\<close>

definition sample_kek :: string where "sample_kek = replicate 32 (CHR ''k'')"

definition sample_kc :: kc_settings where
  "sample_kc = \<lparr>kc_issuer = [], kc_jwks_url = [], kc_audience = [], kc_auth_url = [], kc_token_url = [], kc_client_id = [],
     kc_client_secret = [], kc_redirect_url = [], kc_auth_host = [], kc_cookie_secret = ''s'', kc_cookie_domain = [], kc_brand = []\<rparr>"

definition sample_server :: server where
  "sample_server = \<lparr>sv_base = ''apps.io'', sv_public = [], sv_max_domains = 5, sv_pg_admin = [], sv_pg_host = [],
     sv_redis_admin = [], sv_redis_host = [], sv_s3_endpoint = [], sv_s3_key = [], sv_s3_secret = [], sv_s3_host = [],
     sv_s3_region = [], sv_s3_public_ssl = False, sv_s3_public = [], sv_registry = ''reg'', sv_registry_k3d = [],
     sv_kek = sample_kek, sv_crypto = toy_crypto, sv_jwt = \<lparr>jl_parse = (\<lambda>_. None), jl_verify = (\<lambda>_ _. False)\<rparr>,
     sv_env_kc = sample_kc, sv_dep = None\<rparr>"

definition ann :: user where
  "ann = \<lparr>u_id = ''u1'', u_email = ''ann@x.io'', u_name = ''Ann'', u_admin = True, u_created = 0, u_seen = None\<rparr>"

definition bob :: user where
  "bob = \<lparr>u_id = ''u2'', u_email = ''bob@x.io'', u_name = ''Bob'', u_admin = False, u_created = 0, u_seen = None\<rparr>"

definition shop :: project where
  "shop = new_project ''p1'' 0 ''shop'' ''Shop'' ''u2'' None"

definition internal_preset :: preset where
  "internal_preset = \<lparr>pr_name = ''internal'', pr_label = ''Internal'', pr_desc = [], pr_cidrs = [''10.0.0.0/8''],
     pr_system = True, pr_updated = 0, pr_by = None, pr_notes = []\<rparr>"

definition shop_token :: token_row where
  "shop_token = \<lparr>t_id = ''t1'', t_project = Some ''p1'', t_name = ''ci'', t_hash = ''vbd_live_x'', t_prefix = ''vbd_live_x'',
     t_scopes = [], t_allow_db = True, t_creator = Some ''u2'', t_expires = 1000, t_revoked = None, t_used = None\<rparr>"

definition sample_db :: database where
  "sample_db = \<lparr>users = [ann, bob], projects = [shop], deployments = [], events = [], env_rows = [], tokens = [shop_token],
     audits = [], collabs = [], domains = [], configs = [], presets = [internal_preset], path_rules = [], egress_rules = [],
     domain_stats = [], access_log = [], event_seq = 1, log_seq = 1\<rparr>"

text \<open>The n-th fresh identifier; every call succeeds, and random bytes are all \<open>r\<close>.\<close>

definition sample_uuid :: "nat \<Rightarrow> uuid" where
  "sample_uuid n = CHR ''n'' # replicate n (CHR ''x'')"

definition sample_world :: world where
  "sample_world = \<lparr>now = 500, faults = [], uuid_src = sample_uuid, uuid_next = 0, rand_src = (\<lambda>_. CHR ''r''), rand_next = 0,
     db = sample_db, objs = [], pods = (\<lambda>_. []), nodes = [], proxy_log = (\<lambda>_. []), proxy_pods = [],
     svc = \<lparr>pg_roles = [], pg_dbs = [], pg_grants = [], pg_sessions = [], redis_users = [],
       s3_buckets = [], s3_objects = [], s3_users = [], s3_policies = [], s3_attached = []\<rparr>,
     published = [], rt_kc = sample_kc, jwt_v = NewJWTVerifier [] [] [], jwks_at = (\<lambda>_. (404, None)), token_at = (\<lambda>_. (404, None))\<rparr>"

definition sample_minio :: minio_lib where
  "sample_minio = \<lparr>ml_accepts = (\<lambda>e. e \<noteq> []), ml_sign_put = (\<lambda>c b k n. Some (mn_endpoint c @ ''/'' @ b @ ''/'' @ k)),
     ml_sign_get = (\<lambda>c b k n. Some (mn_endpoint c @ ''/'' @ b @ ''/'' @ k))\<rparr>"

definition sample_minio_client :: minio_client where
  "sample_minio_client = \<lparr>mn_endpoint = ''s3'', mn_access = ''a'', mn_secret = ''s'', mn_secure = False, mn_region = ''r'',
     mn_path_style = False\<rparr>"

definition sample_objects :: storage_client where
  "sample_objects = \<lparr>oc_internal = sample_minio_client, oc_public = sample_minio_client, oc_bucket = ''src''\<rparr>"

definition sample_process :: process where
  "sample_process = \<lparr>pc_server = sample_server, pc_uuid = (\<lambda>s. if s = [] then None else Some s), pc_minio = sample_minio, pc_objects = sample_objects,
     pc_kubelet = (\<lambda>_ _ _ _. None)\<rparr>"

text \<open>A request of the deploy token.\<close>

definition sample_request :: "string \<Rightarrow> string list \<Rightarrow> json option \<Rightarrow> request" where
  "sample_request m path body = \<lparr>rq_method = m, rq_path = path, rq_query = (\<lambda>_. []),
     rq_header = (\<lambda>h. if h = ''Authorization'' then ''Bearer vbd_live_x'' else []), rq_host = [], rq_tls = True,
     rq_body = body, rq_beats = 0\<rparr>"

lemmas sample_simps = sample_world_def sample_db_def sample_process_def sample_server_def sample_request_def
  shop_token_def shop_def ann_def bob_def internal_preset_def sample_kek_def sample_uuid_def new_project_def

end
