(* ===== verification/Env_Laws.thy ===== *)
theory Env_Laws
  imports Steps Runs Sample
begin

text \<open>
  What the encryption of the environment gives: a value that was set is the value that is read,
  a ciphertext opens in its own row only, and the rotation of the key keeps every value or
  changes nothing.
\<close>


section \<open>Sealing\<close>

lemma length_rand_Read: "run_state (rand_Read n) w = (Inr b, v) \<Longrightarrow> length b = n \<and> db v = db w"
  by (auto dest!: run_dests)

lemma Encrypt_result:
  assumes "run_state (Encrypt cr kek pt aad) w = (Inr ct, v)"
  shows "(\<exists>nonce. length nonce = 12 \<and> ct = nonce @ cr_seal cr kek nonce pt aad) \<and> db v = db w"
  using assms by (auto simp: Encrypt_def dest!: run_dests intro!: exI [of _ "map (rand_src w) [rand_next w..<rand_next w + 12]"])

lemma sealed_opens:
  assumes "aead_ok cr" and "length nonce = 12"
  shows "Decrypt cr kek' (nonce @ cr_seal cr kek nonce pt aad) aad' = Inr v \<longleftrightarrow> kek' = kek \<and> aad' = aad \<and> v = pt"
  using Decrypt_seal [OF assms, of kek pt aad] Decrypt_other [OF assms, of kek' aad' kek aad pt]
  by (cases "(kek', aad') = (kek, aad)") auto

text \<open>C9. A ciphertext written for a variable of a project opens under the same key, for the same
  project and the same variable name only, and then to the same value: a row moved to another
  project or renamed in the database cannot be read.\<close>

theorem env_ciphertext_bound:
  assumes "aead_ok cr" and "nul \<notin> set pid" and "nul \<notin> set pid'"
    and "run_state (Encrypt cr kek val (EnvAAD pid key)) w = (Inr ct, w')"
  shows "Decrypt cr kek' ct (EnvAAD pid' key') = Inr v \<longleftrightarrow> kek' = kek \<and> pid' = pid \<and> key' = key \<and> v = val"
proof -
  obtain nonce where n: "length nonce = 12" and ct: "ct = nonce @ cr_seal cr kek nonce val (EnvAAD pid key)"
    using Encrypt_result [OF assms(4)] by blast
  have "EnvAAD pid' key' = EnvAAD pid key \<longleftrightarrow> pid' = pid \<and> key' = key"
    using EnvAAD_inj [of pid' key' pid key] assms(2,3) by auto
  then show ?thesis by (simp add: ct sealed_opens [OF assms(1) n])
qed

lemma run_Encrypt: "faults w = [] \<Longrightarrow> run_state (Encrypt cr kek pt aad) w =
   (let nonce = map (rand_src w) [rand_next w..<rand_next w + 12]
    in (Inr (nonce @ cr_seal cr kek nonce pt aad), w\<lparr>rand_next := rand_next w + 12\<rparr>))"
  by (simp add: Encrypt_def run_attempt rand_Read_def rand_bytes_def Let_def)

lemma env_ciphertext_bound_witness:
  "let ct = replicate 12 (CHR ''r'') @ cr_seal toy_crypto sample_kek [] ''secret'' (EnvAAD ''p1'' ''KEY'')
   in Decrypt toy_crypto sample_kek ct (EnvAAD ''p1'' ''KEY'') = Inr ''secret'' \<and>
      Decrypt toy_crypto sample_kek ct (EnvAAD ''p2'' ''KEY'') \<noteq> Inr ''secret''"
proof -
  have n: "map (rand_src sample_world) [rand_next sample_world..<rand_next sample_world + 12] = replicate 12 (CHR ''r'')"
    by (simp add: sample_world_def eval_nat_numeral)
  have f: "faults sample_world = []" by (simp add: sample_world_def)
  have run: "run_state (Encrypt toy_crypto sample_kek ''secret'' (EnvAAD ''p1'' ''KEY'')) sample_world =
     (Inr (replicate 12 (CHR ''r'') @ cr_seal toy_crypto sample_kek [] ''secret'' (EnvAAD ''p1'' ''KEY'')),
      sample_world\<lparr>rand_next := rand_next sample_world + 12\<rparr>)"
    unfolding run_Encrypt [OF f] Let_def n by (simp add: toy_crypto_def)
  have p1: "nul \<notin> set ''p1''" and p2: "nul \<notin> set ''p2''" by (simp_all add: nul_def)
  show ?thesis
    unfolding Let_def env_ciphertext_bound [OF toy_crypto_ok p1 p1 run] env_ciphertext_bound [OF toy_crypto_ok p1 p2 run]
    by simp
qed


section \<open>Set and get\<close>

lemma decrypt_rows_from:
  "decrypt_rows cr kek pid rs m =
     (case decrypt_rows cr kek pid rs (\<lambda>_. None) of Inl e \<Rightarrow> Inl e | Inr g \<Rightarrow> Inr (m ++ g))"
proof (induction rs arbitrary: m)
  case (Cons r rs)
  show ?case
  proof (cases "Decrypt cr kek (ev_ct r) (EnvAAD pid (ev_key r))")
    case (Inr pt)
    have m: "m(ev_key r \<mapsto> pt) ++ g = m ++ ([ev_key r \<mapsto> pt] ++ g)" for g by (simp add: map_add_def fun_eq_iff split: option.split)
    show ?thesis unfolding decrypt_rows.simps Inr sum.case Cons.IH [of "m(ev_key r \<mapsto> pt)"] Cons.IH [of "[ev_key r \<mapsto> pt]"]
      by (simp only: m split: sum.split) simp
  qed simp
qed simp

lemma decrypt_rows_Cons:
  "decrypt_rows cr kek pid (r # rs) (\<lambda>_. None) = Inr g \<longleftrightarrow>
   (\<exists>pt h. Decrypt cr kek (ev_ct r) (EnvAAD pid (ev_key r)) = Inr pt \<and> decrypt_rows cr kek pid rs (\<lambda>_. None) = Inr h \<and>
      g = [ev_key r \<mapsto> pt] ++ h)"
  by (subst decrypt_rows.simps, subst decrypt_rows_from) (auto split: sum.splits)

lemma decrypt_rows_ConsI:
  "Decrypt cr kek (ev_ct r) (EnvAAD pid (ev_key r)) = Inr pt \<Longrightarrow> decrypt_rows cr kek pid rs (\<lambda>_. None) = Inr h \<Longrightarrow>
   decrypt_rows cr kek pid (r # rs) (\<lambda>_. None) = Inr ([ev_key r \<mapsto> pt] ++ h)"
  unfolding decrypt_rows_Cons by blast

lemma decrypt_rows_append:
  "decrypt_rows cr kek pid rs (\<lambda>_. None) = Inr g \<Longrightarrow> decrypt_rows cr kek pid (rs @ [r]) (\<lambda>_. None) =
     (case Decrypt cr kek (ev_ct r) (EnvAAD pid (ev_key r)) of Inl _ \<Rightarrow> Inl (ErrDecrypt (ev_key r)) | Inr pt \<Rightarrow> Inr (g(ev_key r \<mapsto> pt)))"
proof -
  have "decrypt_rows cr kek pid rs m = Inr g \<Longrightarrow> decrypt_rows cr kek pid (rs @ [r]) m =
     (case Decrypt cr kek (ev_ct r) (EnvAAD pid (ev_key r)) of Inl _ \<Rightarrow> Inl (ErrDecrypt (ev_key r)) | Inr pt \<Rightarrow> Inr (g(ev_key r \<mapsto> pt)))" for m
    by (induction rs arbitrary: m) (auto split: sum.splits)
  then show "decrypt_rows cr kek pid rs (\<lambda>_. None) = Inr g \<Longrightarrow> ?thesis" .
qed

lemma decrypt_rows_absent:
  "decrypt_rows cr kek pid rs (\<lambda>_. None) = Inr g \<Longrightarrow> key \<notin> ev_key ` set rs \<Longrightarrow> g key = None"
proof (induction rs arbitrary: g)
  case (Cons r rs)
  then show ?case unfolding decrypt_rows_Cons by (auto simp: map_add_def split: option.split)
qed auto

text \<open>Decrypting the rows of a project after one variable was written.\<close>

lemma decrypt_rows_update:
  assumes "decrypt_rows cr kek pid rs (\<lambda>_. None) = Inr g" and "\<forall>r \<in> set rs. ev_project r = pid"
    and "Decrypt cr kek ct (EnvAAD pid key) = Inr val" and "\<And>r. ev_key (f r) = ev_key r \<and> ev_ct (f r) = ct"
  shows "decrypt_rows cr kek pid (update_rows (env_at pid key) f rs) (\<lambda>_. None) =
    Inr (if \<exists>r \<in> set rs. env_at pid key r then g(key \<mapsto> val) else g)"
  using assms(1,2)
proof (induction rs arbitrary: g)
  case (Cons r rs)
  from Cons.prems(1) obtain pt h where r: "Decrypt cr kek (ev_ct r) (EnvAAD pid (ev_key r)) = Inr pt"
    and h: "decrypt_rows cr kek pid rs (\<lambda>_. None) = Inr h" and g: "g = [ev_key r \<mapsto> pt] ++ h"
    unfolding decrypt_rows_Cons by blast
  have IH: "decrypt_rows cr kek pid (update_rows (env_at pid key) f rs) (\<lambda>_. None) =
    Inr (if \<exists>r \<in> set rs. env_at pid key r then h(key \<mapsto> val) else h)"
    using Cons.IH [OF h] Cons.prems(2) by simp
  show ?case
  proof (cases "env_at pid key r")
    case True
    then have k: "ev_key r = key" by (simp add: env_at_def)
    have "h key = None" if "\<forall>r \<in> set rs. \<not> env_at pid key r"
      using h that Cons.prems(2) by (auto simp: env_at_def intro: decrypt_rows_absent)
    with True have "[key \<mapsto> val] ++ (if \<exists>r \<in> set rs. env_at pid key r then h(key \<mapsto> val) else h) =
        (if \<exists>r \<in> set (r # rs). env_at pid key r then g(key \<mapsto> val) else g)"
      by (auto simp: k g map_add_def fun_eq_iff split: option.split)
    with decrypt_rows_ConsI [of cr kek "f r" pid val, OF _ IH] assms(3,4) k True show ?thesis by (simp add: fun_upd_def)
  next
    case False
    then have "ev_key r \<noteq> key" using Cons.prems(2) by (simp add: env_at_def)
    then have "[ev_key r \<mapsto> pt] ++ (if \<exists>r \<in> set rs. env_at pid key r then h(key \<mapsto> val) else h) =
        (if \<exists>r \<in> set (r # rs). env_at pid key r then g(key \<mapsto> val) else g)" using False
      by (auto simp: g map_add_def fun_eq_iff split: option.split)
    with decrypt_rows_ConsI [OF r IH] False show ?thesis by simp
  qed
qed simp

lemma SetProjectEnv_result:
  assumes "run_state (SetProjectEnv cr kek pid key val sys uid) w = (Inr u, v)" and "aead_ok cr"
  shows "\<exists>ct t. Decrypt cr kek ct (EnvAAD pid key) = Inr val \<and> pid \<in> p_id ` set (projects (db w)) \<and>
    db v = (db w)\<lparr>env_rows := put_env pid key (ct, sys, t, uid) (env_rows (db w))\<rparr>"
proof -
  obtain ct w1 where e: "run_state (Encrypt cr kek val (EnvAAD pid key)) w = (Inr ct, w1)"
    and st: "run_state (statement (\<lambda>t d. if \<forall>p \<in> set (projects d). p_id p \<noteq> pid then (Inl ErrForeignKey, d)
       else (Inr (), d\<lparr>env_rows := put_env pid key (ct, sys, t, uid) (env_rows d)\<rparr>))) w1 = (Inr u, v)"
    using attempt_Inr [OF assms(1) [unfolded SetProjectEnv_def]] by blast
  have ct: "Decrypt cr kek ct (EnvAAD pid key) = Inr val" and w1: "db w1 = db w"
    using Encrypt_result [OF e] sealed_opens [OF assms(2)] by auto
  with statement_Inr [OF st] show ?thesis
    by (intro exI [of _ ct] exI [of _ "now w1"]) (auto split: if_splits)
qed




section \<open>Rotation of the key\<close>

text \<open>The value of a row as the program reads it: under the new key, else under the old one.\<close>

definition row_value :: "crypto \<Rightarrow> string \<Rightarrow> string \<Rightarrow> env_row \<Rightarrow> string option" where
  "row_value cr old new r =
     (case Decrypt cr new (ev_ct r) (row_aad r) of Inr pt \<Rightarrow> Some pt | Inl _ \<Rightarrow> old_plaintext cr old r)"

definition rotated :: "crypto \<Rightarrow> string \<Rightarrow> string \<Rightarrow> env_row \<Rightarrow> env_row \<Rightarrow> bool" where
  "rotated cr old new r s = (reseal r s \<and> (\<exists>pt. row_value cr old new r = Some pt \<and> Decrypt cr new (ev_ct s) (row_aad r) = Inr pt))"

text \<open>One planned change: the row, and a ciphertext of its value under the new key.\<close>

definition good_change :: "crypto \<Rightarrow> string \<Rightarrow> string \<Rightarrow> env_row \<times> string \<Rightarrow> bool" where
  "good_change cr old new c = (\<exists>pt. row_value cr old new (fst c) = Some pt \<and>
     Decrypt cr new (snd c) (row_aad (fst c)) = Inr pt)"

lemma plan_result:
  assumes "run_state (plan cr old new rs) w = (Inr (cs, f), v)" and "aead_ok cr"
  shows "f = filter (\<lambda>r. classify cr old new r = Unreadable) rs \<and>
    map fst cs = filter (\<lambda>r. classify cr old new r \<noteq> Skip \<and> classify cr old new r \<noteq> Unreadable) rs \<and>
    list_all (good_change cr old new) cs \<and> db v = db w"
  using assms(1)
proof (induction rs arbitrary: cs f w v)
  case (Cons r rs)
  show ?case
  proof (cases "classify cr old new r")
    case Skip
    with Cons show ?thesis by simp
  next
    case Unreadable
    with Cons.prems obtain t f' u where "run_state (plan cr old new rs) w = (Inr (t, f'), u)" "cs = t" "f = r # f'" "u = v"
      by (auto dest!: attempt_Inr)
    with Cons.IH Unreadable show ?thesis by simp
  next
    case (Migrate pt)
    with Cons.prems obtain ct t u where e: "run_state (Encrypt cr new pt (row_aad r)) w = (Inr ct, u)"
      and t: "run_state (plan cr old new rs) u = (Inr (t, f), v)" and cs: "cs = (r, ct) # t"
      by (auto dest!: attempt_Inr)
    have "row_value cr old new r = Some pt"
      using Migrate by (auto simp: classify_def row_value_def split: sum.splits option.splits)
    moreover have "Decrypt cr new ct (row_aad r) = Inr pt" and "db u = db w"
      using Encrypt_result [OF e] sealed_opens [OF assms(2)] by auto
    ultimately show ?thesis using Cons.IH [OF t] Migrate by (simp add: cs good_change_def)
  qed
qed simp

lemma apply_changes_result:
  "run_state (apply_changes cs rows) w = (Inr rows', v) \<Longrightarrow>
   rows' = foldl (\<lambda>t (r, ct). set_ct r ct t) rows cs \<and> db v = db w"
proof (induction cs arbitrary: rows w)
  case (Cons c cs)
  obtain r ct where c: "c = (r, ct)" by (cases c)
  with Cons.prems obtain u where "run_state tx_statement w = (Inr (), u)"
    "run_state (apply_changes cs (set_ct r ct rows)) u = (Inr rows', v)" by (auto dest!: attempt_Inr)
  moreover have "db u = db w" if "run_state tx_statement w = (Inr (), u)" for u
    using that by (auto simp: tx_statement_def dest!: run_dests)
  ultimately show ?case using Cons.IH by (simp add: c)
qed auto

text \<open>The changes, as one map over the rows.\<close>

definition row_id :: "env_row \<Rightarrow> uuid \<times> string" where
  "row_id r = (ev_project r, ev_key r)"

lemma changes_as_map:
  assumes "distinct (map (row_id \<circ> fst) cs)"
  shows "foldl (\<lambda>t (r, ct). set_ct r ct t) rows cs =
    map (\<lambda>x. case map_of (map (\<lambda>(r, ct). (row_id r, ct)) cs) (row_id x) of None \<Rightarrow> x | Some ct \<Rightarrow> x\<lparr>ev_ct := ct\<rparr>) rows"
  using assms
proof (induction cs arbitrary: rows)
  case (Cons c cs)
  obtain r ct where c: "c = (r, ct)" by (cases c)
  have new: "map_of (map (\<lambda>(r, ct). (row_id r, ct)) cs) (row_id r) = None"
    using Cons.prems by (auto simp: c map_of_eq_None_iff image_iff split_beta)
  have id: "row_id (x\<lparr>ev_ct := t\<rparr>) = row_id x" for x t by (simp add: row_id_def)
  have at: "env_at (ev_project r) (ev_key r) x \<longleftrightarrow> row_id x = row_id r" for x by (auto simp: env_at_def row_id_def)
  show ?case using Cons new by (auto simp: c set_ct_def update_rows_def at id split: option.split)
qed simp

lemma keeps_plan: "keeps db (plan cr old new rs)"
  by (induction rs) (auto simp: Encrypt_def split: verdict.split intro!: keeps_intros)

lemma write_changes_run:
  assumes "run_state (write_changes cs) w = (r, v)"
  shows "(\<exists>e. r = Inl e \<and> db v = db w) \<or>
    (r = Inr () \<and> db v = (db w)\<lparr>env_rows := foldl (\<lambda>t (r, ct). set_ct r ct t) (env_rows (db w)) cs\<rparr>)"
proof (cases r)
  case (Inl e)
  have e: "run_state (exec f) u = (Inl e, v) \<Longrightarrow> db v = db u" for f u
    by (auto simp: exec_def dest!: call_run)
  have kt: "keeps db tx_statement" and kq: "keeps db (query env_rows)" by (auto intro!: keeps_intros)
  with assms Inl have "db v = db w"
    by (auto simp: write_changes_def run_attempt split: prod.splits sum.splits
        dest!: e keeps_runD [OF keeps_apply_changes] keeps_runD [OF kt] keeps_runD [OF kq])
  with Inl show ?thesis by blast
next
  case (Inr u)
  with assms obtain u1 rows u2 rows' u3 where 1: "run_state tx_statement w = (Inr (), u1)"
    and 2: "run_state (query env_rows) u1 = (Inr rows, u2)" and 3: "run_state (apply_changes cs rows) u2 = (Inr rows', u3)"
    and 4: "run_state (exec (\<lambda>_ d. d\<lparr>env_rows := rows'\<rparr>)) u3 = (Inr u, v)"
    unfolding write_changes_def by (auto dest!: attempt_Inr)
  have "keeps db tx_statement" by (auto intro!: keeps_intros)
  then have "db u1 = db w" using 1 by (rule keeps_runD)
  with 2 3 4 Inr apply_changes_result [OF 3] show ?thesis by (auto dest!: query_Inr exec_Inr)
qed

lemma distinct_map_sort_key: "distinct (map f (sort_key k xs)) = distinct (map f xs)"
  by (simp add: distinct_map)

lemma rotated_rows:
  assumes ids: "distinct (map row_id rows)"
    and fst: "map fst cs = filter (\<lambda>r. classify cr old new r \<noteq> Skip \<and> classify cr old new r \<noteq> Unreadable) (sort_key row_order rows)"
    and good: "list_all (good_change cr old new) cs" and read: "\<forall>r \<in> set rows. classify cr old new r \<noteq> Unreadable"
  shows "list_all2 (rotated cr old new) rows (foldl (\<lambda>t (r, ct). set_ct r ct t) rows cs)"
proof -
  let ?m = "map_of (map (\<lambda>(r, ct). (row_id r, ct)) cs)"
  have "distinct (map row_id (map fst cs))" unfolding fst
    by (rule distinct_map_filter) (simp add: distinct_map_sort_key ids)
  then have d: "distinct (map (row_id \<circ> fst) cs)" by simp
  have "rotated cr old new r (case ?m (row_id r) of None \<Rightarrow> r | Some ct \<Rightarrow> r\<lparr>ev_ct := ct\<rparr>)" if r: "r \<in> set rows" for r
  proof (cases "?m (row_id r)")
    case None
    have "classify cr old new r = Skip"
    proof (rule ccontr)
      assume "classify cr old new r \<noteq> Skip"
      then have "r \<in> set (map fst cs)" unfolding fst using r read by simp
      with None show False by (auto simp: map_of_eq_None_iff image_iff split_beta)
    qed
    then show ?thesis using None
      by (auto simp: rotated_def reseal_def row_value_def classify_def split: sum.splits option.splits)
  next
    case (Some ct)
    then obtain r' where r': "(r', ct) \<in> set cs" "row_id r' = row_id r" by (auto dest!: map_of_SomeD)
    then have "r' \<in> set (map fst cs)" by force
    then have "r' \<in> set rows" unfolding fst by simp
    with ids r r' have "r' = r" by (auto simp: distinct_map dest: inj_onD)
    with r'(1) good have "good_change cr old new (r, ct)" by (auto simp: list_all_iff)
    with Some show ?thesis by (auto simp: rotated_def good_change_def reseal_def)
  qed
  then show ?thesis unfolding changes_as_map [OF d] by (auto simp: list_all2_conv_all_nth)
qed

text \<open>C11. The rotation of the key is all or nothing: whatever fails on the way, afterwards either no
  ciphertext has changed, or every row carries its old value under the new key; and a rotation
  that reports success, other than a dry run, has rotated every row.\<close>

theorem rekey_all_or_nothing:
  assumes "aead_ok cr" and "LoadKEK cr old64 = Inr old" and "LoadKEK cr new64 = Inr new"
    and "distinct (map row_id (env_rows (db w)))" and "run_state (rekey cr old64 new64 dry) w = (r, v)"
  shows "(if dry then db v = db w
     else db v = db w \<and> r \<noteq> Inr () \<or> list_all2 (rotated cr old new) (env_rows (db w)) (env_rows (db v)))"
proof -
  have all: "keeps db readAll" unfolding readAll_def by (auto intro!: keeps_intros)
  show ?thesis
  proof (cases "fst (run_state readAll w)")
    case (Inl e)
    with assms(2,3,5) keepsD [OF all, of w] show ?thesis
      by (auto simp: rekey_def run_attempt split: prod.splits)
  next
    case (Inr rows)
    then obtain w1 where 1: "run_state readAll w = (Inr rows, w1)" by (cases "run_state readAll w") simp
    then have rows: "rows = sort_key row_order (env_rows (db w))" and w1: "db w1 = db w"
      by (auto simp: readAll_def dest!: query_Inr)
    show ?thesis
    proof (cases "fst (run_state (plan cr old new rows) w1)")
      case (Inl e)
      with assms(2,3,5) 1 keepsD [OF keeps_plan, of cr old new rows w1] w1 show ?thesis
        by (auto simp: rekey_def run_attempt split: prod.splits)
    next
      case (Inr p)
      obtain cs f where p: "p = (cs, f)" by (cases p)
      with Inr obtain w2 where 2: "run_state (plan cr old new rows) w1 = (Inr (cs, f), w2)"
        by (cases "run_state (plan cr old new rows) w1") simp
      note plan = plan_result [OF 2 assms(1)]
      have rest: "run_state (if f \<noteq> [] then throw unreadable_err else if dry \<or> cs = [] then ok ()
          else attempt (write_changes cs) (\<lambda>_. verify cr new)) w2 = (r, v)"
        using assms(2,3,5) 1 2 by (simp add: rekey_def)
      have rot: "list_all2 (rotated cr old new) (env_rows (db w)) (foldl (\<lambda>t (r, ct). set_ct r ct t) (env_rows (db w)) cs)"
        if "f = []"
      proof (rule rotated_rows [OF assms(4)])
        have "filter (\<lambda>r. classify cr old new r = Unreadable) rows = []" using plan that by simp
        then show "\<forall>r \<in> set (env_rows (db w)). classify cr old new r \<noteq> Unreadable" by (simp add: rows filter_empty_conv)
      qed (use plan in \<open>simp_all add: rows\<close>)
      show ?thesis
      proof (cases "f \<noteq> [] \<or> dry \<or> cs = []")
        case True
        with rest rot plan w1 show ?thesis by (auto split: if_splits)
      next
        case False
        then have r3: "run_state (attempt (write_changes cs) (\<lambda>_. verify cr new)) w2 = (r, v)" using rest by simp
        obtain r3 w3 where 3: "run_state (write_changes cs) w2 = (r3, w3)" by (cases "run_state (write_changes cs) w2")
        have ver: "keeps db (verify cr new)" unfolding verify_def by (auto intro!: keeps_intros all)
        show ?thesis using write_changes_run [OF 3] r3 False rot plan w1 3
          by (auto simp: run_attempt dest!: keeps_runD [OF ver])
      qed
    qed
  qed
qed

text \<open>A database with one variable, sealed under the key of the sample.\<close>

definition sealed_row :: env_row where
  "sealed_row = \<lparr>ev_project = ''p1'', ev_key = ''KEY'',
     ev_ct = replicate 12 (CHR ''n'') @ cr_seal toy_crypto sample_kek [] ''secret'' (EnvAAD ''p1'' ''KEY''), ev_system = False,
     ev_updated = 0, ev_by = None\<rparr>"

definition sealed_world :: world where
  "sealed_world = sample_world\<lparr>db := sample_db\<lparr>env_rows := [sealed_row]\<rparr>\<rparr>"

definition next_kek :: string where "next_kek = replicate 32 (CHR ''q'')"

lemma toy_seal_nonce: "cr_seal toy_crypto k n pt aad = cr_seal toy_crypto k n' pt aad"
  by (simp add: toy_crypto_def)

lemma sealed_row_opens: "Decrypt toy_crypto k (ev_ct sealed_row) (row_aad sealed_row) = Inr v \<longleftrightarrow> k = sample_kek \<and> v = ''secret''"
  using sealed_opens [OF toy_crypto_ok, of "replicate 12 (CHR ''n'')" k sample_kek "''secret''" "EnvAAD ''p1'' ''KEY''"
      "EnvAAD ''p1'' ''KEY''" v]
  by (simp add: sealed_row_def row_aad_def toy_seal_nonce [of _ "replicate 12 (CHR ''n'')" _ _ "[]"])

lemma sealed_row_migrates: "classify toy_crypto sample_kek next_kek sealed_row = Migrate ''secret''"
proof -
  have "next_kek \<noteq> sample_kek" by (simp add: next_kek_def sample_kek_def)
  then obtain e where "Decrypt toy_crypto next_kek (ev_ct sealed_row) (row_aad sealed_row) = Inl e"
    using sealed_row_opens [of next_kek] by (metis sum.exhaust)
  moreover have "Decrypt toy_crypto sample_kek (ev_ct sealed_row) (row_aad sealed_row) = Inr ''secret''"
    using sealed_row_opens by blast
  ultimately show ?thesis by (simp add: classify_def old_plaintext_def)
qed

lemma rekey_all_or_nothing_witness:
  "Decrypt toy_crypto next_kek
     (ev_ct (hd (env_rows (db (snd (run_state (rekey toy_crypto sample_kek next_kek False) sealed_world))))))
     (EnvAAD ''p1'' ''KEY'') = Inr ''secret''"
proof -
  have f: "faults sealed_world = []" by (simp add: sealed_world_def sample_world_def)
  have rows: "env_rows (db sealed_world) = [sealed_row]" by (simp add: sealed_world_def)
  have k: "LoadKEK toy_crypto sample_kek = Inr sample_kek" "LoadKEK toy_crypto next_kek = Inr next_kek"
    by (simp_all add: LoadKEK_def toy_crypto_def sample_kek_def next_kek_def)
  obtain ct w2 where e: "run_state (Encrypt toy_crypto next_kek ''secret'' (row_aad sealed_row)) sealed_world = (Inr ct, w2)"
      "w2 = sealed_world\<lparr>rand_next := rand_next sealed_world + 12\<rparr>"
    unfolding run_Encrypt [OF f] Let_def by blast
  have d: "Decrypt toy_crypto next_kek ct (row_aad sealed_row) = Inr ''secret''"
    using Encrypt_result [OF e(1)] sealed_opens [OF toy_crypto_ok] by auto
  have aad: "row_aad (r\<lparr>ev_ct := c\<rparr>) = row_aad r" for r c by (simp add: row_aad_def)
  obtain v where v: "run_state (rekey toy_crypto sample_kek next_kek False) sealed_world = (Inr (), v)"
    using f d by (auto simp: rekey_def k readAll_def rows sealed_row_migrates e write_changes_def tx_statement_def
        set_ct_def env_at_def verify_def all_decrypt_def readable_def aad)
  have "distinct (map row_id (env_rows (db sealed_world)))" by (simp add: rows)
  from rekey_all_or_nothing [OF toy_crypto_ok k this v] obtain s where
    "env_rows (db v) = [s]" "rotated toy_crypto sample_kek next_kek sealed_row s"
    by (auto simp: rows list_all2_Cons1)
  moreover have "row_value toy_crypto sample_kek next_kek sealed_row = Some ''secret''"
    using sealed_row_migrates by (auto simp: row_value_def classify_def split: sum.splits option.splits)
  ultimately show ?thesis by (simp add: v rotated_def row_aad_def sealed_row_def)
qed

end
