(* ===== verification/Auth_Laws.thy ===== *)
theory Auth_Laws
  imports History Runs Sample
begin

text \<open>
  Who may do what: the admin area, the projects of others, deploy tokens and API tokens, the login
  state, the last administrator, the secrets of the settings page.
\<close>


section \<open>The admin area\<close>

text \<open>A world but for the calls still to fail.\<close>

definition still :: "world \<Rightarrow> world" where
  "still w = w\<lparr>faults := []\<rparr>"

lemma still_faults [simp]: "still (w\<lparr>faults := bs\<rparr>) = still w"
  by (simp add: still_def)

lemma keeps_still [keeps_intros]: "keeps still (query f)" "keeps still (query_row g)" "keeps still get_now"
  by (auto intro!: keeps_query keeps_query_row keeps_get_now)

lemma find_route_match:
  "find_route rs m path = Some x \<Longrightarrow> \<exists>p h vs. (m, p, h) \<in> set rs \<and> match_path p path = Some vs \<and> x = h vs"
  by (induction rs m path rule: find_route.induct) (auto split: if_splits option.splits)

lemma match_last: "match_path [Lit l] rest = Some vs \<longleftrightarrow> rest = [l] \<and> vs = []"
proof (cases rest)
  case (Cons s ss)
  then show ?thesis by (cases ss) auto
qed simp

text \<open>The interface of a handler behind the admin check: it refuses everybody else outright.\<close>

locale admin_only =
  fixes h :: "actor \<Rightarrow> response prog"
  assumes refuses: "\<not> isAdminActor a \<Longrightarrow> h a = fail 403 ''not_admin''"
begin

lemma refused: "\<not> isAdminActor a \<Longrightarrow> run_state (h a) w = (r, v) \<Longrightarrow> still v = still w \<and> \<not> ok_response r"
  by (auto simp: refuses ok_response_def)

end

interpretation audit_page: admin_only "\<lambda>a. handleAdminAudit a lim off" for lim off
  by unfold_locales (simp add: handleAdminAudit_def)
interpretation users_page: admin_only "\<lambda>a. handleAdminListUsers a lim off" for lim off
  by unfold_locales (simp add: handleAdminListUsers_def)
interpretation user_patch: admin_only "\<lambda>a. handleAdminPatchUser a seg i body" for seg i body
  by unfold_locales (simp add: handleAdminPatchUser_def)
interpretation settings_page: admin_only handleAdminGetSettings
  by unfold_locales (simp add: handleAdminGetSettings_def)
interpretation settings_patch: admin_only "\<lambda>a. handleAdminPatchSettings sv a body" for sv body
  by unfold_locales (simp add: handleAdminPatchSettings_def)
interpretation proxy_page: admin_only "handleEgressProxyStatus sv" for sv
  by unfold_locales (simp add: handleEgressProxyStatus_def)
interpretation log_page: admin_only "\<lambda>a. handleEgressLogs a proj q st lim off" for proj q st lim off
  by unfold_locales (simp add: handleEgressLogs_def)
interpretation presets_page: admin_only handleListCIDRPresets
  by unfold_locales (simp add: handleListCIDRPresets_def)
interpretation preset_put: admin_only "\<lambda>a. handlePutCIDRPreset sv a seg body" for sv seg body
  by unfold_locales (simp add: handlePutCIDRPreset_def)
interpretation preset_drop: admin_only "\<lambda>a. handleDeleteCIDRPreset sv a seg" for sv seg
  by unfold_locales (simp add: handleDeleteCIDRPreset_def)

lemmas admin_pages = audit_page.refused users_page.refused user_patch.refused settings_page.refused
  settings_patch.refused proxy_page.refused log_page.refused presets_page.refused preset_put.refused preset_drop.refused

lemma keeps_overviews:
  "keeps still (handleAdminProjects sv lim off)" "keeps still handleAdminMetrics" "keeps still (handleAdminEgressOverview a)"
  unfolding handleAdminProjects_def handleAdminMetrics_def handleAdminEgressOverview_def count_query_def or_zero_def
    CountEgressRulesByProject_def
  by (intro keeps_intros)+

text \<open>C5. Below /v1/admin a caller who is not an administrator changes nothing, in the database, the
  cluster or anywhere else, whatever the method, path and body; and only three pages answer: the
  lists of projects, of metrics and of egress rule counts, the last of which was meant for
  administrators.\<close>

theorem admin_area_refused:
  assumes "\<not> isAdminActor a" and "run_state (serve_user pc rq (''admin'' # rest) a) w = (r, v)"
  shows "still v = still w \<and>
    (\<not> ok_response r \<or> rq_method rq = ''GET'' \<and> rest \<in> {[''projects''], [''metrics''], [''egress'']})"
proof -
  let ?f = "find_route (user_routes pc rq a) (rq_method rq) (''admin'' # rest)"
  have r: "run_state (or_not_found ?f) w = (r, v)"
    using assms(2) by (cases rest) (simp_all add: serve_user_def)
  show ?thesis
  proof (cases ?f)
    case None
    with r show ?thesis by (auto simp: or_not_found_def not_found_def ok_response_def)
  next
    case (Some x)
    with r have x: "run_state x w = (r, v)" by (simp add: or_not_found_def)
    from find_route_match [OF Some] obtain p h vs where "(rq_method rq, p, h) \<in> set (user_routes pc rq a)"
      "match_path p (''admin'' # rest) = Some vs" "x = h vs" by blast
    then show ?thesis using assms(1) x
      by (auto simp: user_routes_def Let_def dest: admin_pages keeps_runD [OF keeps_overviews(1)]
          keeps_runD [OF keeps_overviews(2)] keeps_runD [OF keeps_overviews(3)] split: if_splits simp: match_last)
  qed
qed

lemma admin_area_refused_witness:
  "still (snd (run_state (serve_user sample_process (sample_request ''PATCH'' [] (Some JNull)) [''admin'', ''settings''] (user_actor bob))
     sample_world)) = still sample_world"
proof -
  have "\<not> isAdminActor (user_actor bob)" by (simp add: isAdminActor_def user_actor_def no_actor_def bob_def)
  from admin_area_refused [OF this surjective_pairing] show ?thesis by blast
qed


section \<open>The projects of others\<close>

text \<open>Whose project it is, in the words of the access check.\<close>

definition may_use :: "database \<Rightarrow> actor \<Rightarrow> project \<Rightarrow> bool" where
  "may_use d a p =
     (case ac_kind a of
        ActorToken \<Rightarrow> ac_project a = None \<or> ac_project a = Some (p_id p)
      | ActorUser \<Rightarrow> ac_admin a \<or> p_owner p = ac_user a \<or> is_member (ac_user a) d p
      | ActorNone \<Rightarrow> False)"

lemma canAccessProject_run:
  assumes "run_state (canAccessProject a p) w = (b, v)"
  shows "still v = still w \<and> (b \<longrightarrow> may_use (db w) a p)"
proof (cases "ac_kind a")
  case ActorUser
  then show ?thesis using assms
    by (auto simp: canAccessProject_def may_use_def is_member_def IsCollaborator_def query_def filter_empty_conv
        dest!: call_run split: if_splits sum.splits prod.splits)
qed (use assms in \<open>auto simp: canAccessProject_def may_use_def\<close>)

text \<open>C4. Under /v1/projects/{slug} nothing runs for an actor the project does not admit: unless the slug
  names a live project that the actor owns, collaborates on, holds a token of or administers, the
  request is refused and changes nothing.\<close>

theorem project_access_refused:
  assumes "\<And>p. find_live_slug slug (db w) = Some p \<Longrightarrow> \<not> may_use (db w) a p"
    and "run_state (serve_user pc rq (''projects'' # slug # rest) a) w = (r, v)"
  shows "still v = still w \<and> \<not> ok_response r"
proof -
  let ?k = "\<lambda>p. or_not_found (find_route (project_routes pc rq a p) (rq_method rq) rest)"
  have r: "run_state (requireProjectAccess a slug ?k) w = (r, v)"
    using assms(2) by (simp add: serve_user_def)
  obtain x u where x: "run_state (GetProjectBySlug slug) w = (x, u)" by (cases "run_state (GetProjectBySlug slug) w")
  have u: "still u = still w" using x unfolding GetProjectBySlug_def by (auto dest: keeps_runD [OF keeps_still(2)])
  show ?thesis
  proof (cases x)
    case (Inl e)
    with r x u show ?thesis by (auto simp: requireProjectAccess_def ok_response_def split: if_splits)
  next
    case (Inr p)
    then have p: "find_live_slug slug (db w) = Some p" and d: "db u = db w"
      using x by (auto simp: GetProjectBySlug_def dest!: query_row_Inr)
    obtain b t where b: "run_state (canAccessProject a p) u = (b, t)" by (cases "run_state (canAccessProject a p) u")
    from canAccessProject_run [OF b] assms(1) [OF p] have "\<not> b" "still t = still u" by (simp_all add: d)
    with r x Inr b u show ?thesis by (auto simp: requireProjectAccess_def ok_response_def)
  qed
qed

lemma project_access_refused_witness:
  "\<not> ok_response (fst (run_state (serve_user sample_process (sample_request ''DELETE'' [] None) [''projects'', ''shop'']
      (user_actor (bob\<lparr>u_id := ''u9''\<rparr>))) sample_world))"
proof -
  have "\<not> may_use (db sample_world) (user_actor (bob\<lparr>u_id := ''u9''\<rparr>)) p" if "find_live_slug ''shop'' (db sample_world) = Some p" for p
    using that by (auto simp: may_use_def user_actor_def no_actor_def is_member_def sample_simps find_live_slug_def live_def split: if_splits)
  from project_access_refused [OF this surjective_pairing] show ?thesis by blast
qed


section \<open>Deploy tokens\<close>

definition valid_token :: "database \<Rightarrow> int \<Rightarrow> string \<Rightarrow> bool" where
  "valid_token d t h = (\<exists>x \<in> set (tokens d). t_hash x = h \<and> t_revoked x = None \<and> t \<le> t_expires x)"

lemma verifyDeployToken_run:
  assumes "run_state (verifyDeployToken sv tok) w = (x, v)"
  shows "(\<exists>e. x = Inl e \<and> still v = still w) \<or> valid_token (db w) (now w) (HashToken (sv_crypto sv) tok)"
proof -
  obtain y u where y: "run_state (LookupTokenByHash (HashToken (sv_crypto sv) tok)) w = (y, u)"
    by (cases "run_state (LookupTokenByHash (HashToken (sv_crypto sv) tok)) w")
  have u: "still u = still w" using y unfolding LookupTokenByHash_def by (auto dest: keeps_runD [OF keeps_still(2)])
  then have "now u = now w" by (auto simp: still_def dest: arg_cong [where f = now])
  with assms y u show ?thesis
    by (cases y) (auto simp: verifyDeployToken_def LookupTokenByHash_def valid_token_def split: if_splits prod.splits
        dest!: query_row_Inr find_row_Some)
qed

text \<open>C6. A request below /v1 to a page that is not public, with no bearer token or with a deploy token
  that is unknown, revoked or expired, is refused and changes nothing.\<close>

theorem unauthenticated_refused:
  assumes "rq_path rq = ''v1'' # path" and "rq_method rq \<noteq> ''OPTIONS''"
    and "find_route (public_routes pc rq) (rq_method rq) (rq_path rq) = None"
    and "let h = rq_header rq ''Authorization''; tok = TrimPrefix h ''Bearer '' in
      \<not> HasPrefix h ''Bearer '' \<or>
      LooksLikeDeployToken tok \<and> \<not> valid_token (db w) (now w) (HashToken (sv_crypto (pc_server pc)) tok)"
    and "run_state (serve pc rq) w = (r, v)"
  shows "still v = still w \<and> \<not> ok_response r"
proof -
  let ?h = "rq_header rq ''Authorization''"
  let ?tok = "TrimPrefix ?h ''Bearer ''"
  have r: "run_state (AuthMiddleware (pc_server pc) ?h (serve_user pc rq path)) w = (r, v)"
    using assms(1,2,3,5) by (simp add: serve_def)
  show ?thesis
  proof (cases "HasPrefix ?h ''Bearer ''")
    case True
    then have l: "LooksLikeDeployToken ?tok"
      and i: "\<not> valid_token (db w) (now w) (HashToken (sv_crypto (pc_server pc)) ?tok)" using assms(4) by (simp_all add: Let_def)
    obtain x u where x: "run_state (verifyDeployToken (pc_server pc) ?tok) w = (x, u)"
      by (cases "run_state (verifyDeployToken (pc_server pc) ?tok) w")
    with verifyDeployToken_run [OF x] i obtain e where "x = Inl e" "still u = still w" by blast
    with r x l True show ?thesis by (simp add: AuthMiddleware_def Let_def ok_response_def) auto
  next
    case False
    with r show ?thesis by (auto simp: AuthMiddleware_def ok_response_def)
  qed
qed

lemma unauthenticated_refused_witness:
  "\<not> ok_response (fst (run_state (serve sample_process (sample_request ''DELETE'' [''v1'', ''projects'', ''shop''] None))
     (sample_world\<lparr>now := 1001\<rparr>)))"
proof -
  let ?rq = "sample_request ''DELETE'' [''v1'', ''projects'', ''shop''] None"
  have a: "rq_path ?rq = ''v1'' # [''projects'', ''shop'']" and b: "rq_method ?rq \<noteq> ''OPTIONS''" by (simp_all add: sample_request_def)
  have c: "find_route (public_routes sample_process ?rq) (rq_method ?rq) (rq_path ?rq) = None"
    by (simp add: public_routes_def Let_def sample_request_def)
  have "HashToken (sv_crypto (pc_server sample_process)) t = t" for t
    by (simp add: HashToken_def sample_process_def sample_server_def toy_crypto_def)
  then have d: "let h = rq_header ?rq ''Authorization''; tok = TrimPrefix h ''Bearer '' in
      \<not> HasPrefix h ''Bearer '' \<or> LooksLikeDeployToken tok \<and>
      \<not> valid_token (db (sample_world\<lparr>now := 1001\<rparr>)) (now (sample_world\<lparr>now := 1001\<rparr>))
        (HashToken (sv_crypto (pc_server sample_process)) tok)"
    by (simp add: Let_def sample_request_def LooksLikeDeployToken_def TokenPrefix_def HasPrefix_def TrimPrefix_def
        valid_token_def sample_world_def sample_db_def shop_token_def)
  from unauthenticated_refused [OF a b c d surjective_pairing] show ?thesis by blast
qed




section \<open>API tokens of a project\<close>

lemma find_row_updated:
  "(\<And>r. q (f r) = q r) \<Longrightarrow> find_row q (update_rows q f t) = map_option f (find_row q t)"
  by (induction t) auto

lemma SetProjectAPIToken_run:
  assumes "run_state (SetProjectAPIToken pid (Some h) pfx) w = (Inr u, v)" and "pid \<in> p_id ` set (projects (db w))"
  shows "map_option p_token_hash (find_row (\<lambda>p. p_id p = pid) (projects (db v))) = Some (Some h)"
proof -
  obtain p where "find_row (\<lambda>p. p_id p = pid) (projects (db w)) = Some p"
    using assms(2) by (cases "find_row (\<lambda>p. p_id p = pid) (projects (db w))") (auto simp: find_row_None)
  then show ?thesis using assms(1)
    by (auto simp: SetProjectAPIToken_def update_project_def find_row_updated dest!: exec_Inr)
qed

lemma audit_projects: "run_state (audit a act pid m) w = (u, v) \<Longrightarrow> projects (db v) = projects (db w)"
  using keeps_audit [of "\<lambda>w. projects (db w)" a act pid m] by (auto dest: keeps_runD)

text \<open>C32. The API token handed out by the last regeneration is the one that opens the project, and a
  bearer token opens it only if it has the same hash.\<close>

theorem api_token_opens:
  assumes "run_state (handleRegenerateProjectAPIToken sv a p) w = (Reply st (JObj [(''token'', JStr plain), x]), v)"
    and "p_id p \<in> p_id ` set (projects (db w))" and "faults v = []" and "TrimSpace t \<noteq> []"
  shows "fst (run_state (check_api_token sv p (''Bearer '' @ t)) v) =
    (if HashToken (sv_crypto sv) (TrimSpace t) = HashToken (sv_crypto sv) plain then Status 200 [] else Error 401 ''bad_token'')"
proof -
  let ?cr = "sv_crypto sv"
  obtain tok hash pfx w1 where g: "run_state (GenerateAPIToken ?cr) w = (Inr (tok, hash, pfx), w1)"
    and rest: "run_state (orelse (SetProjectAPIToken (p_id p) (Some hash) pfx) db_error (\<lambda>_. do {
          _ \<leftarrow> audit a ''project.api_token.regenerate'' (Some (p_id p)) (JObj [(''prefix'', JStr pfx)]);
          State_Monad.return (Reply 201 (JObj [(''token'', JStr tok), (''prefix'', JStr pfx)]))
        })) w1 = (Reply st (JObj [(''token'', JStr plain), x]), v)"
    using assms(1) by (auto simp: handleRegenerateProjectAPIToken_def run_orelse split: if_splits prod.splits sum.splits)
  have hash: "hash = HashToken ?cr tok" and w1: "db w1 = db w"
    using g by (auto simp: GenerateAPIToken_def minted_def dest!: run_dests)
  obtain u w2 where 2: "run_state (SetProjectAPIToken (p_id p) (Some hash) pfx) w1 = (Inr u, w2)"
    and plain: "plain = tok" and v: "projects (db v) = projects (db w2)"
    using rest by (auto simp: run_orelse db_error_def split: prod.splits sum.splits dest!: audit_projects)
  have "map_option p_token_hash (find_row (\<lambda>q. p_id q = p_id p) (projects (db v))) = Some (Some hash)"
    unfolding v by (rule SetProjectAPIToken_run [OF 2]) (simp add: w1 assms(2))
  then show ?thesis using assms(3,4)
    by (auto simp: check_api_token_def GetProjectAPITokenHash_def HasPrefix_def Let_def hash plain split: prod.split)
qed

lemma api_token_opens_witness:
  "\<exists>plain v x. run_state (handleRegenerateProjectAPIToken sample_server (user_actor bob) shop) sample_world =
      (Reply 201 (JObj [(''token'', JStr plain), x]), v) \<and>
     fst (run_state (check_api_token sample_server shop (''Bearer '' @ plain)) v) = Status 200 [] \<and>
     fst (run_state (check_api_token sample_server shop ''Bearer iai_api_guess'') v) = Error 401 ''bad_token''"
proof -
  let ?plain = "APITokenPrefix @ replicate 32 (CHR ''r'')"
  have f: "faults sample_world = []" by (simp add: sample_world_def)
  have r: "map (rand_src sample_world) [rand_next sample_world..<rand_next sample_world + 32] = replicate 32 (CHR ''r'')"
    by (simp add: sample_world_def eval_nat_numeral)
  have m: "canManageProject (user_actor bob) shop"
    by (simp add: canManageProject_def user_actor_def no_actor_def bob_def shop_def new_project_def)
  have g: "run_state (GenerateAPIToken (sv_crypto sample_server)) sample_world =
      (Inr (?plain, ?plain, take 16 ?plain), sample_world\<lparr>rand_next := rand_next sample_world + 32\<rparr>)"
    unfolding GenerateAPIToken_def rand_Read_def rand_bytes_def
    by (simp add: f r minted_def HashToken_def sample_server_def toy_crypto_def display_prefix_def APITokenPrefix_def)
  obtain v x where v: "run_state (handleRegenerateProjectAPIToken sample_server (user_actor bob) shop) sample_world =
      (Reply 201 (JObj [(''token'', JStr ?plain), x]), v)" "faults v = []"
    using m g f by (auto simp: handleRegenerateProjectAPIToken_def SetProjectAPIToken_def update_project_def audit_def WriteAudit_def)
  have p: "p_id shop \<in> p_id ` set (projects (db sample_world))" by (simp add: sample_world_def sample_db_def)
  have t1: "TrimSpace ?plain = ?plain" "?plain \<noteq> []" and t2: "TrimSpace ''iai_api_guess'' = ''iai_api_guess''"
    by code_simp+
  have h: "HashToken (sv_crypto sample_server) s = s" for s by (simp add: HashToken_def sample_server_def toy_crypto_def)
  have ne: "?plain \<noteq> ''iai_api_guess''" by (simp add: APITokenPrefix_def eval_nat_numeral)
  from api_token_opens [OF v(1) p v(2), of ?plain] api_token_opens [OF v(1) p v(2), of "''iai_api_guess''"] v ne t1 t2
  show ?thesis by (intro exI [of _ ?plain] exI [of _ v] exI [of _ x]) (simp add: h)
qed


section \<open>The last administrator\<close>

lemma count_one: "length (filter P t) \<le> length (filter P (update_rows q f t)) + length (filter (\<lambda>x. q x \<and> P x) t)"
  by (induction t) auto

lemma unique_filter: "distinct (map k t) \<Longrightarrow> length (filter (\<lambda>x. k x = i \<and> P x) t) \<le> 1"
  by (induction t) (auto simp: filter_empty_conv image_iff)

text \<open>C35. While every call succeeds, no request of the user page takes the rights of the last
  administrator.\<close>

theorem last_admin_stays:
  assumes "faults w = []" and "distinct (map u_id (users (db w)))" and "admin_count (db w) \<ge> 1"
    and "run_state (handleAdminPatchUser a seg i body) w = (r, v)"
  shows "admin_count (db v) \<ge> 1"
proof (cases "db v = db w")
  case False
  then obtain b where r: "run_state (patch_user a seg i b) w = (r, v)"
    using assms(4) by (auto simp: handleAdminPatchUser_def split: if_splits option.splits)
  with False obtain uid where i: "i = Some uid"
    using assms(1) by (cases i) (auto simp: patch_user_def or_zero_def split: if_splits)
  let ?cur = "case find_row (\<lambda>u. u_id u = uid) (users (db w)) of None \<Rightarrow> False | Some u \<Rightarrow> u_admin u"
  let ?us = "update_rows (\<lambda>u. u_id u = uid) (\<lambda>u. u\<lparr>u_admin := b\<rparr>) (users (db w))"
  have us: "users (db v) = ?us" and g: "b \<or> \<not> ?cur \<or> admin_count (db w) > 1"
    using False r assms(1)
    by (auto simp: i patch_user_def or_zero_def set_admin_def audit_def WriteAudit_def reply_ok_def
        split: if_splits prod.splits option.splits)
  show ?thesis
  proof (cases b)
    case True
    have le: "length (filter u_admin t) \<le> length (filter u_admin (update_rows (\<lambda>u. u_id u = uid) (\<lambda>u. u\<lparr>u_admin := True\<rparr>) t))" for t
      by (induction t) auto
    from assms(3) True le [of "users (db w)"] show ?thesis by (simp add: admin_count_def us)
  next
    case b: False
    let ?lost = "length (filter (\<lambda>u. u_id u = uid \<and> u_admin u) (users (db w)))"
    have le: "admin_count (db w) \<le> admin_count (db v) + ?lost"
      using count_one [of u_admin "users (db w)"] by (simp add: admin_count_def us)
    have "?lost \<le> 1" using assms(2) by (rule unique_filter)
    moreover have "?lost = 0" if "\<not> ?cur"
    proof -
      have "\<not> (u_id u = uid \<and> u_admin u)" if u: "u \<in> set (users (db w))" for u
      proof
        assume a: "u_id u = uid \<and> u_admin u"
        then obtain y where y: "find_row (\<lambda>u. u_id u = uid) (users (db w)) = Some y"
          using u by (cases "find_row (\<lambda>u. u_id u = uid) (users (db w))") (auto simp: find_row_None)
        with find_row_Some [OF y] a u assms(2) have "y = u" by (auto simp: distinct_map dest: inj_onD)
        with y a \<open>\<not> ?cur\<close> show False by simp
      qed
      then show ?thesis by (simp add: filter_empty_conv)
    qed
    ultimately show ?thesis using le g b assms(3) by auto
  qed
qed (use assms(3) in simp)

lemma is_admin_patch: "isAdminActor a \<Longrightarrow> seg \<noteq> [] \<Longrightarrow>
    handleAdminPatchUser a seg i (Some (JObj [(''is_admin'', JBool b)])) = patch_user a seg i b"
proof -
  have "EqualFold ''is_admin'' ''is_admin''" by (simp add: EqualFold_def)
  then show "isAdminActor a \<Longrightarrow> seg \<noteq> [] \<Longrightarrow> ?thesis"
    by (simp add: handleAdminPatchUser_def decode_struct_def field_values_def)
qed

lemma last_admin_stays_witness:
  "admin_count (db (snd (run_state (handleAdminPatchUser (user_actor ann) ''u1'' (Some ''u1'')
     (Some (JObj [(''is_admin'', JBool False)]))) sample_world))) \<ge> 1"
proof -
  have "faults sample_world = []" "distinct (map u_id (users (db sample_world)))" "admin_count (db sample_world) \<ge> 1"
    by (simp_all add: sample_simps admin_count_def)
  from last_admin_stays [OF this surjective_pairing] show ?thesis .
qed

text \<open>The protection of the last administrator fails open: when the second of its two look-ups fails,
  the user page demotes the last administrator and reports success.\<close>

theorem last_admin_lost_on_fault:
  assumes "faults w = [False, True]" and "isAdminActor a" and "seg \<noteq> []" and "admin_count (db w) = 1"
    and "\<exists>u \<in> set (users (db w)). u_id u = uid \<and> u_admin u"
    and "run_state (handleAdminPatchUser a seg (Some uid) (Some (JObj [(''is_admin'', JBool False)]))) w = (r, v)"
  shows "ok_response r \<and> admin_count (db v) = 0"
proof -
  let ?us = "update_rows (\<lambda>u. u_id u = uid) (\<lambda>u. u\<lparr>u_admin := False\<rparr>) (users (db w))"
  have some: "length (filter (\<lambda>u. u_id u = uid) (users (db w))) \<noteq> 0" using assms(5) by (auto simp: filter_empty_conv)
  have "run_state (patch_user a seg (Some uid) False) w = (r, v)"
    using assms(6) unfolding is_admin_patch [OF assms(2,3)] .
  then have r: "ok_response r" and us: "users (db v) = ?us"
    using some assms(1) by (auto simp: patch_user_def or_zero_def query_def call_def set_admin_def statement_def query_row_def
        run_attempt run_orelse audit_def WriteAudit_def exec_def reply_ok_def ok_response_def)
  have e: "filter u_admin (update_rows (\<lambda>u. u_id u = uid) (\<lambda>u. u\<lparr>u_admin := False\<rparr>) t) =
      filter (\<lambda>u. u_id u \<noteq> uid) (filter u_admin t)" for t
    by (induction t) auto
  obtain u where "u \<in> set (filter u_admin (users (db w)))" "\<not> (u_id u \<noteq> uid)" using assms(5) by auto
  from length_filter_less [of u _ "\<lambda>u. u_id u \<noteq> uid", OF this] have "length (filter (\<lambda>u. u_id u \<noteq> uid) (filter u_admin (users (db w)))) < 1"
    using assms(4) by (simp add: admin_count_def)
  with r e [of "users (db w)"] show ?thesis by (simp add: admin_count_def us del: filter_filter)
qed

lemma last_admin_lost_on_fault_witness:
  "admin_count (db (snd (run_state (handleAdminPatchUser (user_actor ann) ''u1'' (Some ''u1'')
     (Some (JObj [(''is_admin'', JBool False)]))) (sample_world\<lparr>faults := [False, True]\<rparr>)))) = 0"
proof -
  let ?w = "sample_world\<lparr>faults := [False, True]\<rparr>"
  have "faults ?w = [False, True]" "isAdminActor (user_actor ann)" "''u1'' \<noteq> []" "admin_count (db ?w) = 1"
    "\<exists>u \<in> set (users (db ?w)). u_id u = ''u1'' \<and> u_admin u"
    by (simp_all add: sample_simps admin_count_def isAdminActor_def user_actor_def no_actor_def)
  from last_admin_lost_on_fault [OF this surjective_pairing] show ?thesis by blast
qed


section \<open>Settings and secrets\<close>

text \<open>The settings page never shows the two secrets of the identity provider: worlds that differ in
  nothing but the secrets, both set in either, give the same answer.\<close>

theorem settings_hide_secrets:
  assumes "kc_client_secret (rt_kc w) \<noteq> []" and "kc_cookie_secret (rt_kc w) \<noteq> []" and "s1 \<noteq> []" and "s2 \<noteq> []"
  shows "fst (run_state (handleAdminGetSettings a) (w\<lparr>rt_kc := (rt_kc w)\<lparr>kc_client_secret := s1, kc_cookie_secret := s2\<rparr>\<rparr>)) =
    fst (run_state (handleAdminGetSettings a) w)"
proof -
  have k: "JKC ((rt_kc w)\<lparr>kc_client_secret := s1, kc_cookie_secret := s2\<rparr>) = JKC (rt_kc w)"
    using assms by (simp add: JKC_def redact_def)
  show ?thesis
    by (simp add: handleAdminGetSettings_def get_kc_def run_orelse ListSystemConfig_def query_def call_def db_error_def k
        split: list.split)
qed

lemma settings_hide_secrets_witness:
  "fst (run_state (handleAdminGetSettings (user_actor ann)) (sample_world\<lparr>rt_kc := sample_kc\<lparr>kc_client_secret := ''x'', kc_cookie_secret := ''y''\<rparr>\<rparr>)) =
   fst (run_state (handleAdminGetSettings (user_actor ann)) (sample_world\<lparr>rt_kc := sample_kc\<lparr>kc_client_secret := ''z''\<rparr>\<rparr>))"
  using settings_hide_secrets [of "sample_world\<lparr>rt_kc := sample_kc\<lparr>kc_client_secret := ''z''\<rparr>\<rparr>" "''x''" "''y''" "user_actor ann"]
  by (simp add: sample_kc_def)


section \<open>Logging in\<close>

lemma seen_user_id: "u_id (seen_user t n u) = u_id u"
  by (simp add: seen_user_def)

text \<open>Every login through the identity provider hands out a token without a project, and such a
  token manages every project of the platform, whoever its user is.\<close>

theorem login_token_manages_everything:
  assumes "run_state (oidc_session sv email name nxt) w = (Redirect url, v)"
  shows "\<exists>t \<in> set (tokens (db v)). t \<notin> set (tokens (db w)) \<and> (\<exists>u \<in> set (users (db v)). t_creator t = Some (u_id u)) \<and>
    (\<forall>p. canManageProject (token_actor t) p)"
proof -
  obtain u w1 where 1: "run_state (UpsertUserByEmail email name) w = (Inr u, w1)"
    and r1: "run_state (orelse (GenerateToken (sv_crypto sv) ''live'') (\<lambda>_. fail 500 ''mint'') (\<lambda>(plain, hash, pfx). do {
       t \<leftarrow> get_now;
       orelse (CreateDeployToken \<lparr>ti_project = None, ti_name = ''oidc-session-'' @ date_str t, ti_hash = hash,
           ti_prefix = pfx, ti_scopes = session_scopes (u_admin u), ti_allow_db = u_admin u,
           ti_expires = t + days 90, ti_creator = Some (u_id u)\<rparr>) (\<lambda>_. fail 500 ''create_token'') (\<lambda>_. do {
         _ \<leftarrow> WriteAudit ''user'' (u_id u) ''auth.oidc-login'' None (JObj [(''email'', JStr email)]);
         State_Monad.return (Redirect (''/login?token='' @ QueryEscape plain @ ''&next='' @ QueryEscape (local_path nxt)))
       })
     })) w1 = (Redirect url, v)"
    using assms by (auto simp: oidc_session_def run_orelse split: prod.splits sum.splits)
  have u: "u_id u \<in> u_id ` set (users (db w1))" and t1: "tokens (db w1) = tokens (db w)"
    using insert_row_Inr [OF 1 [unfolded UpsertUserByEmail_def]]
    by (auto simp: Let_def image_update seen_user_id split: option.splits if_splits dest!: find_row_Some)
  from r1 obtain plain hash pfx w2 where 2: "run_state (GenerateToken (sv_crypto sv) ''live'') w1 = (Inr (plain, hash, pfx), w2)"
    and r2: "run_state (orelse (CreateDeployToken \<lparr>ti_project = None, ti_name = ''oidc-session-'' @ date_str (now w2), ti_hash = hash,
           ti_prefix = pfx, ti_scopes = session_scopes (u_admin u), ti_allow_db = u_admin u,
           ti_expires = now w2 + days 90, ti_creator = Some (u_id u)\<rparr>) (\<lambda>_. fail 500 ''create_token'') (\<lambda>_. do {
         _ \<leftarrow> WriteAudit ''user'' (u_id u) ''auth.oidc-login'' None (JObj [(''email'', JStr email)]);
         State_Monad.return (Redirect (''/login?token='' @ QueryEscape plain @ ''&next='' @ QueryEscape (local_path nxt)))
       })) w2 = (Redirect url, v)"
    by (auto simp: run_orelse split: prod.splits sum.splits)
  have d2: "db w2 = db w1" using 2 by (auto simp: GenerateToken_def dest!: run_dests)
  from r2 obtain x w3 where 3: "run_state (CreateDeployToken \<lparr>ti_project = None, ti_name = ''oidc-session-'' @ date_str (now w2),
      ti_hash = hash, ti_prefix = pfx, ti_scopes = session_scopes (u_admin u), ti_allow_db = u_admin u,
      ti_expires = now w2 + days 90, ti_creator = Some (u_id u)\<rparr>) w2 = (Inr x, w3)"
    and r3: "run_state (WriteAudit ''user'' (u_id u) ''auth.oidc-login'' None (JObj [(''email'', JStr email)])) w3 = ((), v)"
    by (auto simp: run_orelse split: prod.splits sum.splits)
  have x: "tokens (db w3) = tokens (db w2) @ [x]" "x \<notin> set (tokens (db w2))" "t_project x = None" "t_creator x = Some (u_id u)"
      "users (db w3) = users (db w2)"
    using insert_row_Inr [OF 3 [unfolded CreateDeployToken_def]] by (auto simp: Let_def split: if_splits)
  have k: "keeps (\<lambda>w. tokens (db w)) (WriteAudit ty ac act pid m)" "keeps (\<lambda>w. users (db w)) (WriteAudit ty ac act pid m)" for ty ac act pid m
    by (auto intro!: keeps_intros)
  have "tokens (db v) = tokens (db w3)" "users (db v) = users (db w3)"
    using r3 keeps_runD [OF k(1)] keeps_runD [OF k(2)] by blast+
  with x u t1 d2 show ?thesis
    by (intro bexI [of _ x]) (auto simp: canManageProject_def token_actor_def no_actor_def)
qed

lemma login_token_manages_everything_witness:
  "\<exists>url v. run_state (oidc_session sample_server ''bob@x.io'' [] ''/'') sample_world = (Redirect url, v) \<and>
     (\<exists>t \<in> set (tokens (db v)). t \<notin> set (tokens (db sample_world)) \<and> canManageProject (token_actor t) shop)"
proof -
  have f: "faults sample_world = []" by (simp add: sample_world_def)
  have b: "find_row (\<lambda>u. EqualFold (u_email u) ''bob@x.io'') (users (db sample_world)) = Some bob" by code_simp
  obtain w1 where 1: "run_state (UpsertUserByEmail ''bob@x.io'' []) sample_world = (Inr (seen_user 500 [] bob), w1)"
      "faults w1 = []" "tokens (db w1) = [shop_token]" "uuid_src w1 = sample_uuid"
    using b f by (simp add: UpsertUserByEmail_def insert_row_def fresh_uuid_def) (simp add: sample_world_def sample_db_def)
  obtain plain w2 where 2: "run_state (GenerateToken (sv_crypto sample_server) ''live'') w1 = (Inr (plain, plain, display_prefix plain), w2)"
      "faults w2 = []" "tokens (db w2) = [shop_token]" "length plain = 41" "uuid_src w2 = sample_uuid"
    using 1(2-4) by (simp add: GenerateToken_def rand_Read_def rand_bytes_def minted_def HashToken_def TokenPrefix_def
      sample_server_def toy_crypto_def)
  then have "plain \<noteq> t_hash shop_token" by (auto simp: shop_token_def)
  moreover have "t_id shop_token \<noteq> sample_uuid n" for n by (simp add: shop_token_def sample_uuid_def)
  ultimately obtain url v where r: "run_state (oidc_session sample_server ''bob@x.io'' [] ''/'') sample_world = (Redirect url, v)"
    using 1 2 by (simp add: oidc_session_def CreateDeployToken_def insert_row_def fresh_uuid_def Let_def WriteAudit_def run_orelse)
  from login_token_manages_everything [OF r] obtain t where "t \<in> set (tokens (db v))" "t \<notin> set (tokens (db sample_world))"
    "canManageProject (token_actor t) shop" by blast
  with r show ?thesis by blast
qed


text \<open>The expiry inside the login state.\<close>

lemma horner: "foldl (\<lambda>a c. 256 * a + c) 0 (map (\<lambda>i. n div 256 ^ (k - Suc i) mod 256) [0..<k]) = n mod 256 ^ k" for n :: nat
proof (induction k arbitrary: n)
  case (Suc k)
  have "map (\<lambda>i. n div 256 ^ (Suc k - Suc i) mod 256) [0..<k] = map (\<lambda>i. (n div 256) div 256 ^ (k - Suc i) mod 256) [0..<k]"
  proof (rule map_cong [OF refl])
    fix i assume "i \<in> set [0..<k]"
    then have "Suc k - Suc i = Suc (k - Suc i)" by auto
    then show "n div 256 ^ (Suc k - Suc i) mod 256 = n div 256 div 256 ^ (k - Suc i) mod 256"
      by (simp add: div_mult2_eq)
  qed
  then have m: "map (\<lambda>i. n div 256 ^ (Suc k - Suc i) mod 256) [0..<Suc k] =
      map (\<lambda>i. (n div 256) div 256 ^ (k - Suc i) mod 256) [0..<k] @ [n mod 256]" by simp
  show ?case unfolding m foldl_append Suc.IH by (simp add: mod_mult2_eq)
qed simp

lemma foldl_bytes: "foldl (\<lambda>a c. 256 * a + byte c) b (map f xs) = foldl (\<lambda>a c. 256 * a + c) b (map (\<lambda>x. byte (f x)) xs)"
  by (induction xs arbitrary: b) auto

lemma length_be64 [simp]: "length (be64 x) = 8"
  by (simp add: be64_def)

lemma be64_roundtrip: "be64_dec (be64 x) = x"
proof -
  have b: "byte (char_of n) = n mod 256" for n :: nat by (simp add: byte_def)
  have "foldl (\<lambda>a c. 256 * a + byte c) 0 (be64 x) = foldl (\<lambda>a c. 256 * a + c) 0 (map (\<lambda>i. unat x div 256 ^ (8 - Suc i) mod 256) [0..<8])"
    unfolding be64_def foldl_bytes b by simp
  also have "\<dots> = unat x mod 256 ^ 8" by (rule horner)
  also have "\<dots> = unat x" using unsigned_less [of x, where 'a = nat] by simp
  finally show ?thesis by (simp add: be64_dec_def)
qed

lemma sint_small: "0 \<le> i \<Longrightarrow> i < 2 ^ 63 \<Longrightarrow> sint (word_of_int i :: 64 word) = i"
  by (simp add: sint_sbintrunc' signed_take_bit_int_eq_self)

text \<open>C34. A login state that was signed is accepted, with the page to go on to, for ten minutes and
  refused afterwards.\<close>

theorem login_state_lives_ten_minutes:
  assumes "\<And>s. cr_b64urldec (sv_crypto sv) (cr_b64url (sv_crypto sv) s) = Some s"
    and "\<And>m k. length (cr_hmac (sv_crypto sv) m k) = 32"
    and "run_state (signOIDCState sv nxt) w = (Inr blob, v)"
    and "0 \<le> now w" and "(now w + 600000) * 1000000 < 2 ^ 63" and "0 \<le> t" and "t * 1000000 < 2 ^ 63"
  shows "verifyOIDCState sv t blob = (if t \<le> now w + 600000 then Inr nxt else Inl (ErrOther ''state expired''))"
proof -
  have "\<exists>nonce. length nonce = 16 \<and>
      blob = cr_b64url (sv_crypto sv) ((nonce @ be64 (unix_nano (now w) + oidcStateTTL) @ nxt) @
      state_mac sv (nonce @ be64 (unix_nano (now w) + oidcStateTTL) @ nxt))"
    using assms(3) by (auto simp: signOIDCState_def Let_def dest!: run_dests
      intro!: exI [of _ "map (rand_src w) [rand_next w..<rand_next w + 16]"])
  then obtain nonce where n: "length nonce = 16"
    and blob: "blob = cr_b64url (sv_crypto sv) ((nonce @ be64 (unix_nano (now w) + oidcStateTTL) @ nxt) @
      state_mac sv (nonce @ be64 (unix_nano (now w) + oidcStateTTL) @ nxt))" by blast
  let ?payload = "nonce @ be64 (unix_nano (now w) + oidcStateTTL) @ nxt"
  have m: "length (state_mac sv p) = 32" for p by (simp add: state_mac_def assms(2))
  have e: "be64_dec (take 8 (drop 16 ?payload)) = unix_nano (now w) + oidcStateTTL"
    by (simp add: n be64_roundtrip)
  have "unix_nano (now w) + oidcStateTTL = word_of_int ((now w + 600000) * 1000000)"
    by (simp add: unix_nano_def oidcStateTTL_def wi_hom_add [symmetric] distrib_right)
  then have s: "sint (unix_nano (now w) + oidcStateTTL) = (now w + 600000) * 1000000"
    using assms(4,5) by (simp only:) (rule sint_small, simp_all)
  have st: "sint (unix_nano t) = t * 1000000" using assms(6,7) unfolding unix_nano_def by (intro sint_small) simp_all
  show ?thesis unfolding verifyOIDCState_def blob assms(1) option.case
    by (simp add: m n Let_def be64_roundtrip s st)
qed

lemma login_state_lives_ten_minutes_witness:
  "\<exists>sv blob v. run_state (signOIDCState sv ''/projects'') sample_world = (Inr blob, v) \<and>
     verifyOIDCState sv 600500 blob = Inr ''/projects'' \<and> verifyOIDCState sv 600501 blob = Inl (ErrOther ''state expired'')"
proof -
  let ?sv = "sample_server\<lparr>sv_crypto := toy_crypto\<lparr>cr_hmac := (\<lambda>_ _. replicate 32 (CHR ''m''))\<rparr>\<rparr>"
  have a: "cr_b64urldec (sv_crypto ?sv) (cr_b64url (sv_crypto ?sv) s) = Some s" for s by (simp add: toy_crypto_def)
  have b: "length (cr_hmac (sv_crypto ?sv) m k) = 32" for m k by simp
  obtain blob v where r: "run_state (signOIDCState ?sv ''/projects'') sample_world = (Inr blob, v)"
    by (simp add: signOIDCState_def rand_Read_def rand_bytes_def Let_def sample_world_def)
  have n: "now sample_world = 500" by (simp add: sample_world_def)
  from login_state_lives_ten_minutes [OF a b r, of 600500] login_state_lives_ten_minutes [OF a b r, of 600501] r
  show ?thesis by (intro exI [of _ ?sv] exI [of _ blob] exI [of _ v]) (simp add: n)
qed

end
