(* ===== verification/Ingress_Laws.thy ===== *)
theory Ingress_Laws
  imports Access Runs Sample
begin

text \<open>
  Who reaches an app: the routes and allow-lists written for the path rules, the source ranges of
  the app itself, and what is written when its allow-list cannot be.
\<close>


section \<open>Properties of the objects along a program\<close>

definition holds :: "(objects \<Rightarrow> bool) \<Rightarrow> 'a prog \<Rightarrow> bool" where
  "holds P m = (\<forall>w. P (objs w) \<longrightarrow> P (objs (snd (run_state m w))))"

named_theorems holds_intros \<open>preservation rules\<close>

lemma holds_runD: "holds P m \<Longrightarrow> run_state m w = (r, v) \<Longrightarrow> P (objs w) \<Longrightarrow> P (objs v)"
  by (auto simp: holds_def dest: spec [of _ w])

lemma holds_keeps: "keeps objs m \<Longrightarrow> holds P m"
  by (simp add: holds_def keeps_def)

lemma holds_return [holds_intros]: "holds P (State_Monad.return x)"
  by (simp add: holds_def)

lemma holds_bind [holds_intros]: "holds P m \<Longrightarrow> (\<And>x. holds P (g x)) \<Longrightarrow> holds P (State_Monad.bind m g)"
  by (simp add: holds_def split: prod.splits) (metis snd_conv)

lemma holds_if [holds_intros]: "(b \<Longrightarrow> holds P m) \<Longrightarrow> (\<not> b \<Longrightarrow> holds P n) \<Longrightarrow> holds P (if b then m else n)"
  by simp

lemma holds_case_sum [holds_intros]:
  "(\<And>x. r = Inl x \<Longrightarrow> holds P (m x)) \<Longrightarrow> (\<And>y. r = Inr y \<Longrightarrow> holds P (n y)) \<Longrightarrow> holds P (case r of Inl x \<Rightarrow> m x | Inr y \<Rightarrow> n y)"
  by (simp split: sum.split)

lemma holds_case_prod [holds_intros]: "(\<And>x y. p = (x, y) \<Longrightarrow> holds P (m x y)) \<Longrightarrow> holds P (case p of (x, y) \<Rightarrow> m x y)"
  by (simp split: prod.split)

lemma holds_attempt [holds_intros]: "holds P m \<Longrightarrow> (\<And>x. holds P (g x)) \<Longrightarrow> holds P (attempt m g)"
  unfolding attempt_def by (intro holds_intros)

lemma holds_apply: "(\<And>os. P os \<Longrightarrow> P (obj_put k v os)) \<Longrightarrow> holds P (k8s_apply k v)"
  unfolding holds_def using k8s_apply_cases [of k v] by (metis prod.collapse)

lemma holds_delete: "(\<And>os. P os \<Longrightarrow> P (obj_del k os)) \<Longrightarrow> holds P (k8s_delete k)"
  by (auto simp: holds_def k8s_delete_def call_def split: list.split)

lemma k8s_apply_Inr: "run_state (k8s_apply k v) w = (Inr u, w') \<Longrightarrow> objs w' = obj_put k v (objs w)"
  using k8s_apply_cases [of k v w] by auto


section \<open>The routes of the path rules\<close>

abbreviation rule_key :: "deployer \<Rightarrow> string \<Rightarrow> route_rule \<Rightarrow> okey" where
  "rule_key dc slug r \<equiv> (MiddlewareK, namespaceFor slug, pathAllowListName dc slug (rr_prefix r))"

text \<open>The allow-lists the loop over the rules writes.\<close>

lemma build_routes_objs:
  assumes "run_state (build_routes dc slug hosts base i rules routes wanted) w = (Inr (routes', wanted'), v)"
    and "distinct (map (rule_key dc slug) rules)"
  shows "(\<forall>r \<in> set rules. rr_cidrs r \<noteq> [] \<longrightarrow> obj_get (rule_key dc slug r) (objs v) = Some (KMiddleware True (rr_cidrs r)) \<and>
      pathAllowListName dc slug (rr_prefix r) \<in> set wanted') \<and> set wanted \<subseteq> set wanted' \<and>
    (\<forall>k. k \<notin> rule_key dc slug ` set rules \<longrightarrow> obj_get k (objs v) = obj_get k (objs w))"
  using assms
proof (induction rules arbitrary: i routes wanted w)
  case (Cons rule rules)
  let ?name = "pathAllowListName dc slug (rr_prefix rule)" and ?n = "namespaceFor slug"
  have dist: "distinct (map (rule_key dc slug) rules)" and new: "rule_key dc slug rule \<notin> rule_key dc slug ` set rules"
    using Cons.prems(2) by auto
  show ?case
  proof (cases "rr_cidrs rule \<noteq> []")
    case True
    with Cons.prems(1) obtain u routes2 w2 where 1: "run_state (upsertAllowList ?n ?name (rr_cidrs rule)) w = (Inr u, w2)"
      and 2: "run_state (build_routes dc slug hosts base (Suc i) rules routes2 (?name # wanted)) w2 = (Inr (routes', wanted'), v)"
      by (auto simp: Let_def dest!: attempt_Inr split: if_splits)
    have o: "objs w2 = obj_put (rule_key dc slug rule) (KMiddleware True (rr_cidrs rule)) (objs w)"
      using k8s_apply_Inr [OF 1 [unfolded upsertAllowList_def]] .
    note IH = Cons.IH [OF 2 dist]
    then have fr: "\<forall>k. k \<notin> rule_key dc slug ` set rules \<longrightarrow> obj_get k (objs v) = obj_get k (objs w2)" by blast
    have "obj_get (rule_key dc slug rule) (objs v) = Some (KMiddleware True (rr_cidrs rule))"
      using fr new by (simp add: o)
    moreover have "obj_get k (objs v) = obj_get k (objs w)" if "k \<notin> rule_key dc slug ` set (rule # rules)" for k
      using fr [rule_format, of k] that by (simp add: o)
    ultimately show ?thesis using IH by auto
  next
    case False
    with Cons.prems(1) obtain routes2 where
      "run_state (build_routes dc slug hosts base (Suc i) rules routes2 wanted) w = (Inr (routes', wanted'), v)"
      by (auto simp: Let_def split: if_splits)
    from Cons.IH [OF this dist] False show ?thesis by auto
  qed
qed simp

text \<open>Pruning takes nothing that is kept.\<close>

lemma delete_unkept_objs:
  assumes "run_state (delete_unkept ns kept names) w = (x, v)"
    and "\<And>name. k = (MiddlewareK, ns, name) \<Longrightarrow> name \<in> set kept \<or> name \<notin> set names"
  shows "obj_get k (objs v) = obj_get k (objs w)"
proof -
  have "holds (\<lambda>os. obj_get k os = y) (delete_unkept ns kept names)" for y
    using assms(2)
  proof (induction ns kept names rule: delete_unkept.induct)
    case (2 ns kept name names)
    have "holds (\<lambda>os. obj_get k os = y) (k8s_delete (MiddlewareK, ns, name))" if "name \<notin> set kept"
      by (rule holds_delete) (use 2(4) that in \<open>auto simp: obj_get_del_if\<close>)
    with 2 show ?case by (auto intro!: holds_intros)
  qed (simp add: holds_return)
  with assms(1) show ?thesis by (auto dest: holds_runD)
qed

lemma prune_objs:
  assumes "run_state (pruneRuleAllowLists ns kept) w = (x, v)"
    and "\<And>name. k = (MiddlewareK, ns, name) \<Longrightarrow> name \<in> set kept \<or> name \<notin> set (labelled ns (objs w))"
  shows "obj_get k (objs v) = obj_get k (objs w)"
proof -
  obtain y w1 where l: "run_state (k8s_list (labelled ns)) w = (y, w1)" by (cases "run_state (k8s_list (labelled ns)) w")
  have "objs w1 = objs w" and "\<And>names. y = Inr names \<Longrightarrow> names = labelled ns (objs w)"
    using l by (auto simp: k8s_list_def dest!: call_run)
  then show ?thesis
  proof (cases y)
    case (Inr names)
    then have "run_state (delete_unkept ns kept (labelled ns (objs w))) w1 = (x, v)"
      using assms(1) l \<open>\<And>names. y = Inr names \<Longrightarrow> names = labelled ns (objs w)\<close> by (simp add: pruneRuleAllowLists_def)
    from delete_unkept_objs [OF this, of k] assms(2) \<open>objs w1 = objs w\<close> show ?thesis by auto
  qed (use assms(1) l in \<open>auto simp: pruneRuleAllowLists_def split: if_splits\<close>)
qed


text \<open>A deployer, the namespace of the sample's project and two rules, the shorter prefix first.\<close>

definition sample_deployer :: deployer where
  "sample_deployer = \<lparr>dc_base = ''apps.io'', dc_class = ''traefik'', dc_issuer = [], dc_registry = [], dc_endpoints = [],
     dc_dns = [], dc_avoid_cp = False, dc_quantity_ok = (\<lambda>_. True), dc_sha256 = (\<lambda>s. s)\<rparr>"

definition cluster_world :: world where
  "cluster_world = sample_world\<lparr>objs := [((NamespaceK, [], namespaceFor ''shop''), KNamespace (project_labels ''shop''))]\<rparr>"

definition sample_rules :: "route_rule list" where
  "sample_rules = [\<lparr>rr_prefix = ''/a'', rr_mode = ''token'', rr_cidrs = []\<rparr>,
     \<lparr>rr_prefix = ''/a/b'', rr_mode = ''token'', rr_cidrs = [''10.0.0.0/8'']\<rparr>]"

lemma sample_sync: "\<exists>v. run_state (syncPathRuleIngressRoute sample_deployer ''shop'' [''shop.apps.io''] sample_rules False False) cluster_world = (Inr (), v)"
proof -
  have f: "fst (run_state (syncPathRuleIngressRoute sample_deployer ''shop'' [''shop.apps.io''] sample_rules False False) cluster_world) = Inr ()"
    by code_simp
  then show ?thesis by (metis prod.collapse)
qed



section \<open>The allow-list of the app\<close>

lemma effective_not_world:
  assumes "run_state (effectiveAllowCIDRs p) w = (cs, v)"
  shows "\<not> hasWorldCIDR cs"
  using assms by (auto simp: effectiveAllowCIDRs_def Let_def split: prod.splits sum.splits if_splits)

text \<open>One object of an unlabelled kind, whatever the list of objects repeats.\<close>

definition sole :: "okey \<Rightarrow> kobj \<Rightarrow> objects \<Rightarrow> bool" where
  "sole k v os = (obj_get k os = Some v \<and> (\<forall>x. (k, x) \<in> set os \<longrightarrow> x = v))"

lemma sole_put: "sole k v (obj_put k v os)" "k' \<noteq> k \<Longrightarrow> sole k v os \<Longrightarrow> sole k v (obj_put k' v' os)"
  by (auto simp: sole_def obj_put_def obj_get_def map_of_filter_in)

lemma sole_del: "k' \<noteq> k \<Longrightarrow> sole k v os \<Longrightarrow> sole k v (obj_del k' os)"
  by (auto simp: sole_def obj_del_def) (use obj_get_del_other [of k k' os] in \<open>simp add: obj_del_def\<close>)

lemma list_name_differs: "pathAllowListName dc slug pfx \<noteq> allowListMiddlewareName slug"
proof
  assume "pathAllowListName dc slug pfx = allowListMiddlewareName slug"
  from arg_cong [OF this, of length] show False by (simp add: pathAllowListName_def allowListMiddlewareName_def)
qed

lemma holds_build_routes: "holds (sole (allow_list_key slug) x) (build_routes dc slug hosts base i rules routes wanted)"
proof (induction rules arbitrary: i routes wanted)
  case (Cons rule rules)
  have "holds (sole (allow_list_key slug) x) (upsertAllowList (namespaceFor slug) (pathAllowListName dc slug (rr_prefix rule)) cs)" for cs
    unfolding upsertAllowList_def by (rule holds_apply) (auto simp: allow_list_key_def list_name_differs intro: sole_put)
  with Cons show ?case by (auto simp: Let_def intro!: holds_intros)
qed (simp add: holds_return)

lemma holds_prune: "holds (sole (allow_list_key slug) (KMiddleware False cs)) (pruneRuleAllowLists (namespaceFor slug) kept)"
proof -
  have d: "holds (sole (allow_list_key slug) v) (delete_unkept (namespaceFor slug) kept names)"
    if "allowListMiddlewareName slug \<notin> set names" for v names
    using that
  proof (induction "namespaceFor slug" kept names rule: delete_unkept.induct)
    case (2 kept name names)
    then have "holds (sole (allow_list_key slug) v) (k8s_delete (MiddlewareK, namespaceFor slug, name))"
      by (intro holds_delete) (auto simp: allow_list_key_def intro: sole_del)
    with 2 show ?case by (auto intro!: holds_intros)
  qed (simp add: holds_return)
  show ?thesis unfolding holds_def
  proof (intro allI impI)
    fix w :: world assume s: "sole (allow_list_key slug) (KMiddleware False cs) (objs w)"
    then have n: "allowListMiddlewareName slug \<notin> set (labelled (namespaceFor slug) (objs w))"
      by (auto simp: sole_def allow_list_key_def labelled_def map_filter_def split: kind.splits kobj.splits if_splits bool.splits)
    obtain y w1 where l: "run_state (k8s_list (labelled (namespaceFor slug))) w = (y, w1)"
      by (cases "run_state (k8s_list (labelled (namespaceFor slug))) w")
    then have o: "objs w1 = objs w" "\<And>names. y = Inr names \<Longrightarrow> names = labelled (namespaceFor slug) (objs w)"
      by (auto simp: k8s_list_def dest!: call_run)
    have "sole (allow_list_key slug) (KMiddleware False cs)
        (objs (snd (run_state (delete_unkept (namespaceFor slug) kept (labelled (namespaceFor slug) (objs w))) w1)))"
      using d [OF n] s o(1) by (simp add: holds_def)
    with s l o show "sole (allow_list_key slug) (KMiddleware False cs)
        (objs (snd (run_state (pruneRuleAllowLists (namespaceFor slug) kept) w)))"
      by (cases y) (auto simp: pruneRuleAllowLists_def)
  qed
qed

lemma holds_path_rules:
  "holds (sole (allow_list_key slug) (KMiddleware False cs)) (syncPathRuleIngressRoute dc slug hosts rules tls b)"
proof -
  have "holds (sole (allow_list_key slug) x) (k8s_delete (route_key slug))" for x
    by (rule holds_delete) (auto simp: allow_list_key_def route_key_def intro: sole_del)
  moreover have "holds (sole (allow_list_key slug) x) (k8s_apply (route_key slug) y)" for x y
    by (rule holds_apply) (auto simp: allow_list_key_def route_key_def intro: sole_put)
  ultimately show ?thesis unfolding syncPathRuleIngressRoute_def Let_def
    by (intro holds_intros holds_build_routes holds_prune)
qed

text \<open>The Ingress stays as it was written while the path rules are synchronised.\<close>

lemma holds_ingress: "holds (\<lambda>os. obj_get (ingress_key slug) os = y) (syncPathRuleIngressRoute dc slug hosts rules tls b)"
proof -
  let ?P = "\<lambda>os. obj_get (ingress_key slug) os = y"
  have put: "holds ?P (k8s_apply (MiddlewareK, ns, name) x)" for ns name x
    by (rule holds_apply) (simp add: ingress_key_def)
  have put2: "holds ?P (k8s_apply (route_key slug) x)" for x
    by (rule holds_apply) (simp add: ingress_key_def route_key_def)
  have del: "holds ?P (k8s_delete (MiddlewareK, ns, name))" "holds ?P (k8s_delete (route_key slug))" for ns name
    by (rule holds_delete; simp add: ingress_key_def route_key_def)+
  have unkept: "holds ?P (delete_unkept ns kept names)" for ns kept names
    by (induction ns kept names rule: delete_unkept.induct) (auto intro!: holds_intros del)
  have lst: "holds ?P (k8s_list g)" for g by (rule holds_keeps) (auto intro!: keeps_intros)
  have prune: "holds ?P (pruneRuleAllowLists ns kept)" for ns kept
    unfolding pruneRuleAllowLists_def by (intro holds_intros lst unkept)
  have build: "holds ?P (build_routes dc slug hosts base i rules routes wanted)" for base i rules routes wanted
  proof (induction rules arbitrary: i routes wanted)
    case (Cons rule rules)
    then show ?case by (auto simp: Let_def upsertAllowList_def intro!: holds_intros put)
  qed (simp add: holds_return)
  show ?thesis unfolding syncPathRuleIngressRoute_def Let_def
    by (intro holds_intros build prune put2 del)
qed

text \<open>C27. A synchronised app has an Ingress with the wanted host names behind the login of the platform;
  and when its chain names the app's allow-list, the list is there, is not empty and does not open
  the app to the whole internet, whatever presets the database holds.\<close>

theorem app_allow_list_closed:
  assumes "run_state (syncIngressForProject sv p) w = (Inr u, v)" and "sv_dep sv = Some dc"
  shows "\<exists>ing. obj_get (ingress_key (p_slug p)) (objs v) = Some (KIngress ing) \<and>
    hd (ing_hosts ing) = p_slug p @ ''.'' @ sv_base sv \<and> set auth_chain \<subseteq> set (ing_middlewares ing) \<and>
    (crd_ref (namespaceFor (p_slug p)) (allowListMiddlewareName (p_slug p)) \<in> set (ing_middlewares ing) \<longrightarrow>
      (\<exists>cs. obj_get (allow_list_key (p_slug p)) (objs v) = Some (KMiddleware False cs) \<and> cs \<noteq> [] \<and> \<not> hasWorldCIDR cs))"
proof -
  let ?slug = "p_slug p"
  obtain others w1 where o: "run_state (ListDomains (p_id p)) w = (others, w1)" by (cases "run_state (ListDomains (p_id p)) w")
  obtain cs w2 where e: "run_state (effectiveAllowCIDRs p) w1 = (cs, w2)" by (cases "run_state (effectiveAllowCIDRs p) w1")
  obtain rs w3 where l: "run_state (ListProjectPathRules (p_id p)) w2 = (rs, w3)" by (cases "run_state (ListProjectPathRules (p_id p)) w2")
  let ?hosts = "(?slug @ ''.'' @ sv_base sv) # (case others of Inl _ \<Rightarrow> [] | Inr ds \<Rightarrow> map dm_host ds)"
    and ?rules = "case rs of Inl _ \<Rightarrow> [] | Inr rs \<Rightarrow> map (route_rule_of cs) rs"
  have sync: "run_state (SyncIngressHostnames dc \<lparr>hi_slug = ?slug, hi_hosts = ?hosts, hi_cidrs = cs, hi_auth = True,
      hi_tls = p_tls p, hi_rules = ?rules\<rparr>) w3 = (Inr u, v)"
    using assms o e l by (simp add: syncIngressForProject_def)
  have cs: "\<not> hasWorldCIDR cs" using e by (rule effective_not_world)
  obtain r w4 where 4: "run_state (syncIPAllowList ?slug cs) w3 = (r, w4)" by (cases "run_state (syncIPAllowList ?slug cs) w3")
  let ?mw = "case r of Inl _ \<Rightarrow> [] | Inr n \<Rightarrow> n"
  let ?refs = "(if ?mw \<noteq> [] then [crd_ref (namespaceFor ?slug) ?mw] else []) @ auth_chain"
  obtain x w5 where 5: "run_state (writeIngressWithMiddlewareChain dc ?slug ?hosts ?refs (p_tls p)) w4 = (Inr x, w5)"
    and 6: "run_state (syncPathRuleIngressRoute dc ?slug ?hosts ?rules (p_tls p) (?mw \<noteq> [])) w5 = (Inr u, v)"
    using sync [unfolded SyncIngressHostnames_def hosts_input.simps] 4 by (auto simp: Let_def dest!: attempt_Inr)
  let ?ing = "mk_ingress dc ?slug ?hosts ?refs (p_tls p)"
  have o5: "objs w5 = obj_put (ingress_key ?slug) (KIngress ?ing) (objs w4)"
    using k8s_apply_Inr [OF 5 [unfolded writeIngressWithMiddlewareChain_def]] .
  then have i: "obj_get (ingress_key ?slug) (objs v) = Some (KIngress ?ing)"
    using holds_runD [OF holds_ingress 6, of "Some (KIngress ?ing)"] by simp
  have "\<exists>cs. obj_get (allow_list_key ?slug) (objs v) = Some (KMiddleware False cs) \<and> cs \<noteq> [] \<and> \<not> hasWorldCIDR cs" if "r = Inr n" for n
  proof -
    have "objs w4 = obj_put (allow_list_key ?slug) (KMiddleware False (source_range cs)) (objs w3)"
      using 4 that by (auto simp: syncIPAllowList_def dest!: attempt_Inr k8s_apply_Inr)
    then have "sole (allow_list_key ?slug) (KMiddleware False (source_range cs)) (objs w5)"
      unfolding o5 by (auto simp: allow_list_key_def ingress_key_def intro!: sole_put)
    from holds_runD [OF holds_path_rules 6 this] show ?thesis
      using source_range_ne [of cs] source_range_not_world [OF cs] by (auto simp: sole_def)
  qed
  moreover have "crd_ref (namespaceFor ?slug) (allowListMiddlewareName ?slug) \<notin> set auth_chain"
    by (simp add: auth_chain_def crd_ref_def namespaceFor_def)
  ultimately show ?thesis using i
    by (cases r) (auto simp: mk_ingress_def)
qed

definition cluster_server :: server where
  "cluster_server = sample_server\<lparr>sv_dep := Some sample_deployer\<rparr>"

definition bare_world :: world where
  "bare_world = cluster_world\<lparr>db := sample_db\<lparr>presets := []\<rparr>\<rparr>"

lemma app_allow_list_closed_witness:
  "\<exists>v ing. run_state (syncIngressForProject cluster_server (shop\<lparr>p_preset := None\<rparr>)) bare_world = (Inr (), v) \<and>
     obj_get (ingress_key ''shop'') (objs v) = Some (KIngress ing) \<and> hd (ing_hosts ing) = ''shop.apps.io''"
proof -
  have "fst (run_state (syncIngressForProject cluster_server (shop\<lparr>p_preset := None\<rparr>)) bare_world) = Inr ()" by code_simp
  then obtain v where v: "run_state (syncIngressForProject cluster_server (shop\<lparr>p_preset := None\<rparr>)) bare_world = (Inr (), v)"
    by (metis prod.collapse)
  have d: "sv_dep cluster_server = Some sample_deployer" by (simp add: cluster_server_def)
  have b: "sv_base cluster_server = ''apps.io''" "p_slug (shop\<lparr>p_preset := None\<rparr>) = ''shop''"
    by (simp_all add: cluster_server_def sample_server_def shop_def new_project_def)
  from app_allow_list_closed [OF v d] v show ?thesis by (auto simp: b)
qed


definition sample_hosts :: hosts_input where
  "sample_hosts = \<lparr>hi_slug = ''shop'', hi_hosts = [''shop.apps.io''], hi_cidrs = [''10.0.0.0/8''], hi_auth = True, hi_tls = False,
     hi_rules = []\<rparr>"


end
