(* ===== verification/Egress_Laws.thy ===== *)
theory Egress_Laws
  imports Egress Egress_Log Integrity Ingress_Laws
begin

text \<open>
  The outbound side: the listener ports of the proxy, the fixed points of the rule validation, what
  an unreadable configuration opens, and the counts of the collector.
\<close>


section \<open>Listener ports\<close>

lemma least_free:
  assumes "free_port d = Some q"
  shows "{EgressProxyPortMin..<q} \<subseteq> set (taken_ports d)"
proof
  fix p assume p: "p \<in> {EgressProxyPortMin..<q}"
  obtain i where i: "i < length [EgressProxyPortMin..EgressProxyPortMax]" "q = [EgressProxyPortMin..EgressProxyPortMax] ! i"
    "\<And>j. j < i \<Longrightarrow> [EgressProxyPortMin..EgressProxyPortMax] ! j \<in> set (taken_ports d)"
    using assms by (auto simp: free_port_def find_Some_iff)
  then have q: "q = EgressProxyPortMin + int i" by simp
  with p have "nat (p - EgressProxyPortMin) < i" by auto
  with i(3) [OF this] i(1) p q show "p \<in> set (taken_ports d)" by simp
qed

lemma unique_find:
  assumes "unique_by f t" and "x \<in> set t" and "q x" and "\<And>y. q y \<Longrightarrow> f y = f x"
  shows "find_row q t = Some x"
proof (cases "find_row q t")
  case None
  with assms(2,3) show ?thesis by (auto simp: find_row_None)
next
  case (Some y)
  from find_row_Some [OF this] have "y \<in> set t" "f y = f x" using assms(4) by auto
  with assms(1,2) Some show ?thesis by (auto simp: unique_by_def distinct_map dest: inj_onD)
qed

text \<open>A project that asks for its listener port gets the one it has, or else the least port of
  13128 to 13999 that no other live project holds, and then the project has it; the call says
  that no port is left only when all of them are taken.\<close>

theorem listener_port_allotted:
  assumes "run_state (EnsureEgressProxyPort pid) w = (r, v)" and "keys_ok (db w)"
  shows "case r of
      Inr q \<Rightarrow> (\<exists>p \<in> set (projects (db v)). p_id p = pid \<and> live p \<and> p_port p = Some q) \<and>
        (db v = db w \<or> 13128 \<le> q \<and> q \<le> 13999 \<and> q \<notin> set (taken_ports (db w)) \<and> {13128..<q} \<subseteq> set (taken_ports (db w)))
    | Inl e \<Rightarrow> e = ErrNoEgressProxyPort \<longrightarrow> {13128..13999} \<subseteq> set (taken_ports (db w))"
proof -
  let ?mine = "\<lambda>p. p_id p = pid \<and> live p"
  obtain r1 w1 where 1: "run_state (query_row (\<lambda>d. map_option p_port (find_row ?mine (projects d)))) w = (r1, w1)"
    by (cases "run_state (query_row (\<lambda>d. map_option p_port (find_row ?mine (projects d)))) w")
  have "keeps db (query_row f)" for f :: "database \<Rightarrow> int option option" by (auto intro!: keeps_intros)
  from keeps_runD [OF this 1] have d1: "db w1 = db w" .
  show ?thesis
  proof (cases r1)
    case (Inl e)
    moreover have "e \<noteq> ErrNoEgressProxyPort" using 1 Inl
      by (auto simp: query_row_def run_attempt query_def split: prod.splits sum.splits option.splits dest!: call_run)
    ultimately show ?thesis using assms(1) 1 by (auto simp: EnsureEgressProxyPort_def)
  next
    case (Inr existing)
    then obtain p where p: "find_row ?mine (projects (db w)) = Some p" "existing = p_port p"
      using 1 by (auto dest!: query_row_Inr)
    then have p': "p \<in> set (projects (db w))" "?mine p" by (auto dest!: find_row_Some)
    show ?thesis
    proof (cases existing)
      case (Some q)
      with assms(1) 1 Inr have "r = Inr q" "v = w1" by (auto simp: EnsureEgressProxyPort_def)
      with p p' d1 Some show ?thesis by auto
    next
      case None
      let ?st = "statement (\<lambda>_ d. if \<exists>p \<in> set (projects d). ?mine p
           then (Inr (free_port d), d\<lparr>projects := update_rows ?mine (\<lambda>p. p\<lparr>p_port := free_port d\<rparr>) (projects d)\<rparr>)
           else (Inl (ErrOther ''no rows in result set''), d))"
      obtain r2 w2 where 2: "run_state ?st w1 = (r2, w2)" by (cases "run_state ?st w1")
      have run: "(r, v) = (case r2 of Inl e \<Rightarrow> (Inl e, w2) | Inr None \<Rightarrow> (Inl ErrNoEgressProxyPort, w2) | Inr (Some q) \<Rightarrow> (Inr q, w2))"
        using assms(1) 1 2 Inr None
        by (auto simp: EnsureEgressProxyPort_def run_attempt split: sum.splits option.splits)
      show ?thesis
      proof (cases r2)
        case (Inl e)
        have "e \<noteq> ErrNoEgressProxyPort" using 2 Inl
          by (auto simp: statement_def Let_def split: if_splits dest!: call_run)
        with run Inl show ?thesis by simp
      next
        case (Inr x)
        then have x: "x = free_port (db w)" "db w2 = (db w)\<lparr>projects := update_rows ?mine (\<lambda>p. p\<lparr>p_port := free_port (db w)\<rparr>) (projects (db w))\<rparr>"
          using 2 d1 by (auto split: if_splits dest!: statement_Inr)
        have "\<exists>p \<in> set (projects (db w2)). p_id p = pid \<and> live p \<and> p_port p = free_port (db w)"
          by (rule bexI [of _ "p\<lparr>p_port := free_port (db w)\<rparr>"]) (use p' in \<open>auto simp: x(2) set_update_rows live_def\<close>)
        then show ?thesis using run Inr x free_port_Some [of "db w"] least_free [of "db w"] free_port_None [of "db w"]
          by (auto simp: EgressProxyPortMin_def EgressProxyPortMax_def split: option.splits)
      qed
    qed
  qed
qed

lemma listener_port_allotted_witness:
  "\<exists>v. run_state (EnsureEgressProxyPort ''p1'') sample_world = (Inr 13128, v) \<and>
     (\<exists>p \<in> set (projects (db v)). p_id p = ''p1'' \<and> live p \<and> p_port p = Some 13128)"
proof -
  have "[EgressProxyPortMin..EgressProxyPortMax] = 13128 # [13129..13999]"
    by (simp add: EgressProxyPortMin_def EgressProxyPortMax_def upto_rec1)
  then have "free_port sample_db = Some 13128"
    by (simp add: free_port_def taken_ports_def sample_simps map_filter_simps)
  then obtain v where v: "run_state (EnsureEgressProxyPort ''p1'') sample_world = (Inr 13128, v)"
    by (simp add: EnsureEgressProxyPort_def sample_simps live_def)
  have "keys_ok (db sample_world)" by code_simp
  from listener_port_allotted [OF v this] v show ?thesis by simp
qed


section \<open>Rules\<close>

text \<open>What the console sends back for a stored rule: \<open>-1\<close> is its "any port".\<close>

definition sent_port :: "rule_input \<Rightarrow> int" where
  "sent_port r = (if in_port r = 0 then -1 else in_port r)"

lemma normalised_domain: "normaliseEgressDomain v = Inr d \<Longrightarrow> d = v"
  by (auto simp: normaliseEgressDomain_def Let_def split: if_splits)

lemma normalised_cidr:
  assumes "normaliseCIDR (ToLower v) = Inr c" and "TrimSpace v = v"
  shows "ToLower (TrimSpace c) = c"
proof -
  have "TrimSpace (ToLower v) = ToLower v" using assms(2) by (simp add: TrimSpace_ToLower)
  then have "ToLower c = c" using normaliseCIDR_cases [OF assms(1)]
    by (auto simp: ToLower_def lower_char_def is_upper_def byte_def)
  then show ?thesis by (simp add: normaliseCIDR_trimmed [OF assms(1)])
qed

lemma endpoint_rule_Inr: "endpoint_rule prot c p = Inr r \<Longrightarrow>
   r = \<lparr>in_kind = EgressKindEndpoint, in_value = c, in_port = p, in_note = []\<rparr>"
  by (simp add: endpoint_rule_def split: option.splits)

text \<open>What validation accepts is a fixed point of it: a rule that is read back from the database
  and saved again, as the console does with the whole list, is accepted and stored as it was.\<close>

theorem rule_write_back:
  assumes "normaliseEgressRule knd v q prot = Inr r"
  shows "normaliseEgressRule (in_kind r) (in_value r) (sent_port r) prot = Inr r"
proof (cases "knd = EgressKindDomain")
  case True
  let ?v = "ToLower (TrimSpace v)"
  obtain port where p: "port \<in> {0, 80, 443}" "normaliseEgressDomain ?v = Inr ?v"
    "r = \<lparr>in_kind = knd, in_value = ?v, in_port = port, in_note = []\<rparr>"
    using assms True by (auto simp: normaliseEgressRule_def Let_def split: if_splits sum.splits dest: normalised_domain)
  then show ?thesis using True by (auto simp: normaliseEgressRule_def sent_port_def Let_def TrimSpace_ToLower)
next
  case False
  let ?v = "ToLower (TrimSpace v)" and ?port = "if q = -1 then 0 else q"
  have k: "knd = EgressKindEndpoint" and port: "0 \<le> ?port" "?port \<le> 65535"
    using assms False by (simp_all add: normaliseEgressRule_def Let_def split: if_splits)
  obtain c where p: "normaliseCIDR ?v = Inr c" "endpoint_rule prot c ?port = Inr r"
    using assms False k port by (cases "normaliseCIDR ?v") (simp_all add: normaliseEgressRule_def Let_def split: if_splits)
  note r = endpoint_rule_Inr [OF p(2)]
  have "ToLower (TrimSpace c) = c" using p(1) by (rule normalised_cidr) simp
  then show ?thesis using p(2) port normaliseCIDR_idem [OF p(1)] False
    by (cases "q = -1"; cases "q = 0") (simp_all add: r normaliseEgressRule_def sent_port_def Let_def k)
qed

lemma rule_write_back_witness:
  "normaliseEgressRule ''domain'' '' Api.Example.COM'' (-1) [] = Inr \<lparr>in_kind = ''domain'', in_value = ''api.example.com'', in_port = 0, in_note = []\<rparr> \<and>
   normaliseEgressRule ''domain'' ''api.example.com'' (-1) [] = Inr \<lparr>in_kind = ''domain'', in_value = ''api.example.com'', in_port = 0, in_note = []\<rparr>"
proof -
  have "normaliseEgressRule ''domain'' '' Api.Example.COM'' (-1) [] = Inr \<lparr>in_kind = ''domain'', in_value = ''api.example.com'', in_port = 0, in_note = []\<rparr>"
    by code_simp
  with rule_write_back [OF this] show ?thesis by (simp add: sent_port_def)
qed


section \<open>What the policies let through\<close>

lemma ensureEgressPolicy_writes:
  assumes "run_state (ensureEgressPolicy dc slug extra enforce) w = (Inr (), w')"
    and "dc_endpoints dc \<noteq> []" and "granted dc extra c q"
  shows "pod_egress w' slug d proto port \<longleftrightarrow> egress_allowed (the (egress_rules_for dc extra enforce)) d proto port"
proof -
  have "allowed_map dc extra \<noteq> []" using assms(3) by (auto simp: allowed_map_Nil)
  with assms(2) obtain rules where r: "egress_rules_for dc extra enforce = Some rules"
    by (auto simp: egress_rules_for_def Let_def)
  with assms(1) have "run_state (k8s_apply (policy_key slug) (KNetworkPolicy rules)) w = (Inr (), w')"
    by (simp add: ensureEgressPolicy_def)
  from k8s_apply_Inr [OF this] show ?thesis by (simp add: pod_egress_def r)
qed



text \<open>The sample's deployer with one service of the platform, at 10.0.0.5.\<close>

definition policed :: deployer where
  "policed = sample_deployer\<lparr>dc_endpoints := [''10.0.0.5:5432'']\<rparr>"

lemma in_cidr_v4:
  assumes "ParseAddr c = Some (A4 u)" "dtoi m = Some n" "n \<le> 32" "x < 4294967296" "CHR ''/'' \<notin> set c"
  shows "in_cidr (c @ CHR ''/'' # m) (v4_base + x) \<longleftrightarrow> mask_to 32 n u div 2 ^ (32 - n) = x div 2 ^ (32 - n)"
  using assms by (simp add: in_cidr_def ParseCIDR_slash ip_Contains_def network_number_def BitLen_def To4_v4_base)


lemmas parse_simps = ParseAddr_def parseIPv4Fields_def v4_field_def is_digit_def byte_def digits_val_def bytes_val_def

lemma parse_v4:
  "ParseAddr ''0.0.0.0'' = Some (A4 0)" "ParseAddr ''10.0.0.0'' = Some (A4 167772160)"
  "ParseAddr ''172.16.0.0'' = Some (A4 2886729728)" "ParseAddr ''192.168.0.0'' = Some (A4 3232235520)"
  "ParseAddr ''169.254.0.0'' = Some (A4 2851995648)" "ParseAddr ''10.0.0.5'' = Some (A4 167772165)"
  by (simp_all add: parse_simps)

lemma dtoi_lengths: "dtoi ''0'' = Some 0" "dtoi ''8'' = Some 8" "dtoi ''12'' = Some 12" "dtoi ''16'' = Some 16"
  by (simp_all add: dtoi_def is_digit_def byte_def digits_val_def)

lemma policed_map: "allowed_map policed [] = [(''10.0.0.5/32'', [80, 443, 5432])]"
proof -
  have "SplitHostPort (TrimSpace ''10.0.0.5:5432'') = Some (''10.0.0.5'', ''5432'')" by code_simp
  moreover have "Atoi ''5432'' = Some 5432" by code_simp
  moreover have "SplitHostPort (TrimSpace []) = None" by code_simp
  ultimately show ?thesis
    by (simp add: allowed_map_def policed_def sample_deployer_def add_endpoint_def add_registry_def ParseIP_def parse_v4 host_cidr_def)
qed

lemma private_dropped: "filter (\<lambda>c. case ParseCIDR c of Some (ip, _) \<Rightarrow> \<not> isPrivateOrLinkLocal ip | None \<Rightarrow> False) [''10.0.0.5/32''] = []"
proof -
  have "ParseCIDR ''10.0.0.5/32'' = Some (As16 (A4 167772165), \<lparr>net_bits = 32, net_ones = 32, net_ip = 167772165\<rparr>)"
    using ParseCIDR_slash [of "''10.0.0.5''" "''32''"] by (simp add: parse_v4 BitLen_def)
  moreover have "isPrivateOrLinkLocal (As16 (A4 167772165))"
    by (simp add: isPrivateOrLinkLocal_def IsPrivate_def As16_def To4_v4_base)
  ultimately show ?thesis by simp
qed

lemma open_internet: "in_cidr ''0.0.0.0/0'' (v4_base + 134744072)"
  "x \<in> set private_ranges \<Longrightarrow> \<not> in_cidr x (v4_base + 134744072)"
  using in_cidr_v4 [OF parse_v4(1) dtoi_lengths(1)] in_cidr_v4 [OF parse_v4(2) dtoi_lengths(2)]
    in_cidr_v4 [OF parse_v4(3) dtoi_lengths(3)] in_cidr_v4 [OF parse_v4(4) dtoi_lengths(4)]
    in_cidr_v4 [OF parse_v4(5) dtoi_lengths(4)]
  by (auto simp: private_ranges_def mask_to_def)


lemma policed_apply: "\<exists>w'. run_state (k8s_apply (policy_key ''shop'') x) cluster_world = (Inr (), w')"
  by (simp add: k8s_apply_def k8s_get_def k8s_create_def k8s_update_def call_def cluster_world_def sample_world_def
      has_namespace_def policy_key_def obj_get_def)

lemma policed_run: "\<exists>w'. run_state (ensureEgressPolicy policed ''shop'' [] enforce) cluster_world = (Inr (), w')"
  using policed_apply by (auto simp: ensureEgressPolicy_def split: option.split)

lemma policed_grant: "granted policed [] ''10.0.0.5/32'' 5432" "dc_endpoints policed \<noteq> []"
  by (simp_all add: in_map_allowed [symmetric] policed_map in_map_def ports_of_def) (simp add: policed_def)


text \<open>Under enforce the same deployer lets the pods reach its service, and nothing of the internet.\<close>

lemma ensureEgressPolicy_exact_witness:
  "\<exists>w'. run_state (ensureEgressPolicy policed ''shop'' [] True) cluster_world = (Inr (), w') \<and>
     pod_egress w' ''shop'' DNSPod UDP 53 \<and> \<not> pod_egress w' ''shop'' DNSPod UDP 54"
proof -
  obtain w' where w: "run_state (ensureEgressPolicy policed ''shop'' [] True) cluster_world = (Inr (), w')"
    using policed_run by blast
  from ensureEgressPolicy_exact [OF w policed_grant(2,1)] w show ?thesis by (simp add: may_reach_def)
qed

lemma ensureEgressPolicy_no_grant_witness:
  "run_state (ensureEgressPolicy sample_deployer ''shop'' [] True) sample_world = (Inr (), sample_world) \<and>
     pod_egress sample_world ''shop'' (Addr 1) TCP 1"
proof -
  have "dc_endpoints sample_deployer = [] \<or> (\<forall>c q. \<not> granted sample_deployer [] c q)" by (simp add: sample_deployer_def)
  from ensureEgressPolicy_no_grant [OF this] show ?thesis by (simp add: pod_egress_def sample_world_def obj_get_def)
qed


section \<open>The counts of the collector\<close>

text \<open>What a list of lines contributes to the host \<open>k\<close>.\<close>

definition of_key :: "(int \<Rightarrow> string option) \<Rightarrow> string \<times> string \<Rightarrow> proxy_line list \<Rightarrow> proxy_line list" where
  "of_key ports k ls = filter (\<lambda>l. line_key ports l = k) ls"

definition allowed_lines :: "proxy_line list \<Rightarrow> int" where
  "allowed_lines ls = int (length (filter (\<lambda>l. \<not> is_denied l) ls))"

definition denied_lines :: "proxy_line list \<Rightarrow> int" where
  "denied_lines ls = int (length (filter is_denied ls))"

lemma map_of_count_in:
  "map_of (count_in k l m) k' = (if k' = k then Some (count_line l (case map_of m k of None \<Rightarrow> new_agg l | Some g \<Rightarrow> g)) else map_of m k')"
  by (induction k l m rule: count_in.induct) auto

lemma keys_count_in: "fst ` set (count_in k l m) = insert k (fst ` set m)"
  by (induction k l m rule: count_in.induct) auto

lemma distinct_count_in: "distinct (map fst m) \<Longrightarrow> distinct (map fst (count_in k l m))"
proof (induction k l m rule: count_in.induct)
  case (2 k l k' g m)
  then show ?case using keys_count_in [of k l m] by (auto simp: image_iff)
qed simp

lemma distinct_aggregate: "distinct (map fst m) \<Longrightarrow> distinct (map fst (aggregate ports ls m))"
  by (induction ports ls m rule: aggregate.induct) (simp_all add: distinct_count_in)

lemma of_key_simps [simp]:
  "of_key ports k [] = []"
  "of_key ports k (l # ls) = (if line_key ports l = k then l # of_key ports k ls else of_key ports k ls)"
  by (simp_all add: of_key_def)

lemma lines_simps [simp]:
  "allowed_lines [] = 0" "allowed_lines (l # ls) = (if is_denied l then 0 else 1) + allowed_lines ls"
  "denied_lines [] = 0" "denied_lines (l # ls) = (if is_denied l then 1 else 0) + denied_lines ls"
  by (simp_all add: allowed_lines_def denied_lines_def)

definition counts :: "agg option \<Rightarrow> int \<times> int" where
  "counts g = (case g of None \<Rightarrow> (0, 0) | Some a \<Rightarrow> (ag_allowed a, ag_denied a))"

lemma counts_aggregate:
  "counts (map_of (aggregate ports ls m) k) =
     (fst (counts (map_of m k)) + allowed_lines (of_key ports k ls),
      snd (counts (map_of m k)) + denied_lines (of_key ports k ls))"
proof (induction ports ls m rule: aggregate.induct)
  case (2 ports l ls m)
  then show ?case
    by (auto simp: map_of_count_in counts_def count_line_def new_agg_def split: option.split)
qed simp


definition stat_of :: "database \<Rightarrow> uuid \<Rightarrow> string \<Rightarrow> int \<times> int" where
  "stat_of d pid h =
     (case find_row (\<lambda>s. st_project s = pid \<and> st_host s = h) (domain_stats d) of
        None \<Rightarrow> (0, 0) | Some s \<Rightarrow> (st_allowed s, st_denied s))"

definition plus2 :: "int \<times> int \<Rightarrow> int \<times> int \<Rightarrow> int \<times> int" where
  "plus2 x y = (fst x + fst y, snd x + snd y)"

lemma plus2_zero [simp]: "plus2 x (0, 0) = x" and plus2_assoc: "plus2 (plus2 x y) z = plus2 x (plus2 y z)"
  by (simp_all add: plus2_def)

definition projects_unique :: "database \<Rightarrow> bool" where
  "projects_unique d = (unique_by p_id (projects d) \<and> unique_by p_slug (projects d))"

lemma live_slug: "projects_unique d \<Longrightarrow> p \<in> set (projects d) \<Longrightarrow> live p \<Longrightarrow> find_live_slug (p_slug p) d = Some p"
  unfolding find_live_slug_def by (rule unique_find [where f = p_slug]) (auto simp: projects_unique_def)

lemma find_row_update_same:
  assumes "\<And>s. q s \<Longrightarrow> q (f s)"
  shows "find_row q (update_rows q f t) = map_option f (find_row q t)"
  using assms by (induction t) auto

lemma find_row_update_disjoint:
  assumes "\<And>s. q' s \<Longrightarrow> \<not> q s \<and> \<not> q (f s)"
  shows "find_row q (update_rows q' f t) = find_row q t"
  using assms by (induction t) auto

lemma add_stat_projects [simp]: "projects (add_stat k g d) = projects d"
  by (simp add: add_stat_def Let_def split: option.split)

lemma stat_of_add:
  assumes "projects_unique d" and "p \<in> set (projects d)" and "live p"
  shows "stat_of (add_stat k g d) (p_id p) h =
    (if k = (p_slug p, h) then plus2 (stat_of d (p_id p) h) (ag_allowed g, ag_denied g) else stat_of d (p_id p) h)"
proof (cases "find_live_slug (fst k) d")
  case None
  with live_slug [OF assms] have "fst k \<noteq> p_slug p" by auto
  with None show ?thesis by (auto simp: add_stat_def)
next
  case (Some p')
  then have p': "p' \<in> set (projects d)" "p_slug p' = fst k" by (auto simp: find_live_slug_def dest!: find_row_Some)
  have same: "p_id p' = p_id p \<longleftrightarrow> fst k = p_slug p"
    using assms(1,2) p' by (auto simp: projects_unique_def unique_by_def distinct_map dest: inj_onD)
  show ?thesis
  proof (cases "k = (p_slug p, h)")
    case True
    with same have i: "p_id p' = p_id p" by simp
    show ?thesis
    proof (cases "\<exists>s \<in> set (domain_stats d). st_project s = p_id p \<and> st_host s = h")
      case e: True
      then have "find_row (\<lambda>s. st_project s = p_id p \<and> st_host s = h) (domain_stats d) \<noteq> None" by (auto simp: find_row_None)
      with e True Some i show ?thesis
        by (auto simp: add_stat_def stat_of_def find_row_update_same plus2_def)
    next
      case e: False
      then have "find_row (\<lambda>s. st_project s = p_id p \<and> st_host s = h) (domain_stats d) = None" by (auto simp: find_row_None)
      with e True Some i show ?thesis
        by (auto simp: add_stat_def stat_of_def find_row_append plus2_def Let_def)
    qed
  next
    case False
    with same have o: "p_id p' \<noteq> p_id p \<or> snd k \<noteq> h" by (cases k) auto
    have "find_row (\<lambda>s. st_project s = p_id p \<and> st_host s = h)
        (update_rows (\<lambda>s. st_project s = p_id p' \<and> st_host s = snd k) f (domain_stats d)) =
      find_row (\<lambda>s. st_project s = p_id p \<and> st_host s = h) (domain_stats d)"
      if "\<And>s. st_project (f s) = st_project s \<and> st_host (f s) = st_host s" for f
      by (rule find_row_update_disjoint) (use o that in auto)
    with False Some o show ?thesis
      by (auto simp: add_stat_def stat_of_def Let_def find_row_append split: option.split)
  qed
qed

lemma write_stats_run: "run_state (write_stats m) w = (Inr (), v) \<Longrightarrow> db v = foldl (\<lambda>d (k, g). add_stat k g d) (db w) m"
proof (induction m arbitrary: w)
  case (Cons kg m)
  obtain k g where kg: "kg = (k, g)" by (cases kg)
  with Cons.prems obtain u where 1: "run_state (exec (\<lambda>_. add_stat k g)) w = (Inr (), u)" "run_state (write_stats m) u = (Inr (), v)"
    by (auto dest!: attempt_Inr)
  then have "db u = add_stat k g (db w)" by (auto dest!: exec_Inr)
  with Cons.IH [OF 1(2)] show ?case by (simp add: kg)
qed simp

lemma stat_of_adds:
  assumes "projects_unique d" and "p \<in> set (projects d)" and "live p" and "distinct (map fst m)"
  shows "stat_of (foldl (\<lambda>d (k, g). add_stat k g d) d m) (p_id p) h =
    plus2 (stat_of d (p_id p) h) (counts (map_of m (p_slug p, h)))"
  using assms
proof (induction m arbitrary: d)
  case (Cons kg m)
  obtain k g where kg: "kg = (k, g)" by (cases kg)
  have u: "projects_unique (add_stat k g d)" using Cons.prems(1) by (simp add: projects_unique_def)
  have "map_of m k = None" using Cons.prems(4) by (simp add: kg map_of_eq_None_iff)
  then show ?case
    using Cons.IH [OF u] Cons.prems stat_of_add [OF Cons.prems(1-3), of k g h]
    by (auto simp: kg counts_def)
qed (simp add: counts_def)

text \<open>The lines of a project and a host that a turn with the cursor \<open>c\<close> counts.\<close>

definition lines_of :: "project \<Rightarrow> string \<Rightarrow> int \<Rightarrow> string \<Rightarrow> proxy_line list" where
  "lines_of p h c raw =
     filter (\<lambda>l. pl_ts l > c \<and> p_port p = Some (pl_port l) \<and> pl_host l = h \<and> h \<noteq> []) (parseProxyLog raw)"

lemma fst_map_filter: "map fst (List.map_filter (\<lambda>p. map_option (\<lambda>q. (q, g p)) (f p)) xs) = List.map_filter f xs"
  by (induction xs) (simp_all split: option.split)

lemma set_map_filter: "set (List.map_filter f xs) = {y. \<exists>x \<in> set xs. f x = Some y}"
  by (induction xs) (auto split: option.splits)

lemma distinct_map_filter_inj:
  "distinct (List.map_filter f xs) \<Longrightarrow> x \<in> set xs \<Longrightarrow> y \<in> set xs \<Longrightarrow> f x = Some n \<Longrightarrow> f y = Some n \<Longrightarrow> x = y"
proof (induction xs)
  case (Cons z xs)
  then show ?case by (cases "x = z"; cases "y = z") (auto simp: set_map_filter split: option.splits)
qed simp

lemma port_slugs_live:
  assumes "ports_ok d" and "projects_unique d" and "p \<in> set (projects d)" and "live p"
  shows "map_of (rev (List.map_filter (\<lambda>p. map_option (\<lambda>q. (q, p_slug p)) (p_port p)) (filter live (projects d)))) q =
    Some (p_slug p) \<longleftrightarrow> p_port p = Some q"
proof -
  let ?ps = "List.map_filter (\<lambda>p. map_option (\<lambda>q. (q, p_slug p)) (p_port p)) (filter live (projects d))"
  have "distinct (map fst (rev ?ps))"
    using assms(1) by (simp add: fst_map_filter ports_ok_def taken_ports_def rev_map [symmetric])
  then have "map_of (rev ?ps) q = Some (p_slug p) \<longleftrightarrow> (q, p_slug p) \<in> set ?ps" by simp
  also have "\<dots> \<longleftrightarrow> p_port p = Some q"
    using assms(2-4) by (fastforce simp: set_map_filter projects_unique_def unique_by_def distinct_map dest: inj_onD)
  finally show ?thesis .
qed

abbreviation stats_of :: "world \<Rightarrow> domain_stat list" where
  "stats_of w \<equiv> domain_stats (db w)"

lemma insert_rule_stats: "domain_stats (learn_rule slug host port d) = domain_stats d"
  by (simp add: learn_rule_def split: option.split)

lemma keeps_learn: "keeps stats_of (learn m)"
  by (induction m rule: learn.induct) (auto simp: insert_rule_stats intro!: keeps_intros)

definition raw_log :: "world \<Rightarrow> string" where
  "raw_log w = (if proxy_pods w = [] then [] else proxy_log w (log_pod (proxy_pods w)))"

lemma ProxyLogs_Inr: "run_state (ProxyLogs n) w = (Inr raw, v) \<Longrightarrow> raw = raw_log w \<and> db v = db w"
  by (auto simp: ProxyLogs_def raw_log_def split: if_splits dest!: attempt_Inr call_Inr)

lemma collect_Inr:
  assumes "run_state (collectEgressLog c) w = (Inr c', v)"
  shows "\<exists>ports ls. ports = map_of (rev (List.map_filter (\<lambda>p. map_option (\<lambda>q. (q, p_slug p)) (p_port p)) (filter live (projects (db w))))) \<and>
    ls = filter (counted ports c) (parseProxyLog (raw_log w)) \<and> c' = next_cursor c ls \<and>
    stats_of v = domain_stats (foldl (\<lambda>d (k, g). add_stat k g d) (db w) (aggregate ports ls []))"
proof -
  obtain raw u1 ports u2 where 1: "run_state (ProxyLogs 20000) w = (Inr raw, u1)"
    and 2: "run_state ProxyPortSlugs u1 = (Inr ports, u2)"
    and rest: "run_state (let ls = filter (counted ports c) (parseProxyLog raw); m = aggregate ports ls []
      in attempt (write_stats m) (\<lambda>_.
         attempt (if ls \<noteq> [] then exec (\<lambda>_. add_log ports ls) else ok ()) (\<lambda>_. do {
           _ \<leftarrow> learn m;
           _ \<leftarrow> exec prune_log;
           ok (next_cursor c ls)
         }))) u2 = (Inr c', v)"
    using assms unfolding collectEgressLog_def by (auto dest!: attempt_Inr simp del: run_state_bind)
  let ?ls = "filter (counted ports c) (parseProxyLog raw)"
  let ?m = "aggregate ports ?ls []"
  let ?log = "if ?ls \<noteq> [] then exec (\<lambda>_. add_log ports ?ls) else ok ()"
  obtain u3 where 3: "run_state (write_stats ?m) u2 = (Inr (), u3)"
    and r3: "run_state (attempt ?log (\<lambda>_. do { _ \<leftarrow> learn ?m; _ \<leftarrow> exec prune_log; ok (next_cursor c ?ls) })) u3 = (Inr c', v)"
    using rest by (auto simp: Let_def dest!: attempt_Inr simp del: run_state_bind)
  have "keeps stats_of (attempt ?log (\<lambda>_. do { _ \<leftarrow> learn ?m; _ \<leftarrow> exec prune_log; ok (next_cursor c ?ls) }))"
    by (auto simp: add_log_def prune_log_def intro!: keeps_intros keeps_learn)
  from keeps_runD [OF this r3] have v: "stats_of v = stats_of u3" .
  have c': "c' = next_cursor c ?ls" using r3 by (auto dest!: attempt_Inr split: prod.splits)
  have "db u2 = db w" "raw = raw_log w" using ProxyLogs_Inr [OF 1] 2 by (auto simp: ProxyPortSlugs_def dest!: query_Inr)
  moreover have "ports = map_of (rev (List.map_filter (\<lambda>p. map_option (\<lambda>q. (q, p_slug p)) (p_port p)) (filter live (projects (db w)))))"
    using 2 ProxyLogs_Inr [OF 1] by (auto simp: ProxyPortSlugs_def dest!: query_Inr)
  ultimately show ?thesis using v c' write_stats_run [OF 3] by auto
qed

text \<open>C28. A successful turn of the collector adds to the statistics of a live project exactly the lines of
  its own listener that are newer than the cursor, host by host, allowed and denied apart.\<close>

theorem collector_counts:
  assumes "run_state (collectEgressLog c) w = (Inr c', v)" and "keys_ok (db w)" and "ports_ok (db w)"
    and "p \<in> set (projects (db w))" and "live p"
  shows "stat_of (db v) (p_id p) h =
    plus2 (stat_of (db w) (p_id p) h)
      (allowed_lines (lines_of p h c (raw_log w)), denied_lines (lines_of p h c (raw_log w)))"
proof -
  have u: "projects_unique (db w)" using assms(2) by (simp add: keys_ok_def projects_unique_def)
  obtain ports ls where ports: "ports = map_of (rev (List.map_filter (\<lambda>p. map_option (\<lambda>q. (q, p_slug p)) (p_port p)) (filter live (projects (db w)))))"
    and ls: "ls = filter (counted ports c) (parseProxyLog (raw_log w))"
    and v: "stats_of v = domain_stats (foldl (\<lambda>d (k, g). add_stat k g d) (db w) (aggregate ports ls []))"
    using collect_Inr [OF assms(1)] by blast
  have port: "ports q = Some (p_slug p) \<longleftrightarrow> p_port p = Some q" for q
    unfolding ports by (rule port_slugs_live [OF assms(3) u assms(4,5)])
  have mine: "counted ports c l \<and> line_key ports l = (p_slug p, h) \<longleftrightarrow>
      pl_ts l > c \<and> p_port p = Some (pl_port l) \<and> pl_host l = h \<and> h \<noteq> []" for l
    unfolding counted_def line_key_def using port [of "pl_port l"] by (cases "ports (pl_port l)") auto
  have "of_key ports (p_slug p, h) ls = lines_of p h c (raw_log w)"
    unfolding of_key_def ls lines_of_def filter_filter by (rule filter_cong) (use mine in auto)
  moreover have "stat_of (db v) (p_id p) h = stat_of (foldl (\<lambda>d (k, g). add_stat k g d) (db w) (aggregate ports ls [])) (p_id p) h"
    by (simp add: stat_of_def v)
  ultimately show ?thesis
    using stat_of_adds [OF u assms(4,5) distinct_aggregate, of "[]" ports ls h]
      counts_aggregate [of ports ls "[]" "(p_slug p, h)"] by (simp add: counts_def)
qed

lemma next_cursor_ge: "c \<le> next_cursor c ls \<and> (\<forall>l \<in> set ls. pl_ts l \<le> next_cursor c ls)"
proof (induction ls arbitrary: c)
  case (Cons l ls)
  from Cons [of "max c (pl_ts l)"] show ?case by (auto simp: next_cursor_def)
qed (simp add: next_cursor_def)


text \<open>The sample with a listener for its project and two lines in the log of the proxy.\<close>

definition line1 :: string where "line1 = ''7.0 13128 TCP_TUNNEL/200 CONNECT api.x.io:443''"
definition line2 :: string where "line2 = ''8.5 13128 TCP_DENIED/403 GET http://y.io/''"

definition log_world :: world where
  "log_world = sample_world\<lparr>db := sample_db\<lparr>projects := [shop\<lparr>p_port := Some 13128\<rparr>]\<rparr>,
     proxy_pods := [\<lparr>pod_name = ''proxy'', pod_created = 0, pod_phase = ''Running'', pod_node = [], pod_ip = [], pod_host_ip = [],
       pod_started = None, pod_annotations = [], pod_unschedulable = None, pod_statuses = []\<rparr>],
     proxy_log := (\<lambda>_. line1 @ CHR 0x0A # line2 @ [CHR 0x0A])\<rparr>"

definition entry1 :: proxy_line where
  "entry1 = \<lparr>pl_ts = 7000, pl_port = 13128, pl_method = ''CONNECT'', pl_dport = 443, pl_status = ''TCP_TUNNEL/200'', pl_host = ''api.x.io''\<rparr>"

definition entry2 :: proxy_line where
  "entry2 = \<lparr>pl_ts = 8500, pl_port = 13128, pl_method = ''GET'', pl_dport = 80, pl_status = ''TCP_DENIED/403'', pl_host = ''y.io''\<rparr>"

lemma Atoi_13128: "Atoi ''13128'' = Some 13128"
  by (simp add: Atoi_def digits_val_def is_digit_def byte_def)

lemma parse_line1: "parse_line line1 = Some entry1"
proof -
  have "Fields line1 = [''7.0'', ''13128'', ''TCP_TUNNEL/200'', ''CONNECT'', ''api.x.io:443'']" by code_simp
  moreover have "parse_ts ''7.0'' = 7000" by code_simp
  moreover have "url_dest ''api.x.io:443'' = (''api.x.io'', 443)" by code_simp
  ultimately show ?thesis by (simp add: parse_line_def Atoi_13128 entry1_def)
qed

lemma parse_line2: "parse_line line2 = Some entry2"
proof -
  have "Fields line2 = [''8.5'', ''13128'', ''TCP_DENIED/403'', ''GET'', ''http://y.io/'']" by code_simp
  moreover have "parse_ts ''8.5'' = 8500" by code_simp
  moreover have "url_dest ''http://y.io/'' = (''y.io'', 80)" by code_simp
  ultimately show ?thesis by (simp add: parse_line_def Atoi_13128 entry2_def)
qed

lemma log_entries: "parseProxyLog (raw_log log_world) = [entry1, entry2]"
proof -
  have "scan_lines (line1 @ CHR 0x0A # line2 @ [CHR 0x0A]) = [line1, line2]" by code_simp
  then show ?thesis by (simp add: parseProxyLog_def raw_log_def log_world_def parse_line1 parse_line2)
qed

lemma write_stats_ok: "faults w = [] \<Longrightarrow> \<exists>v. run_state (write_stats m) w = (Inr (), v) \<and> faults v = []"
proof (induction m arbitrary: w)
  case (Cons kg m)
  obtain k g where kg: "kg = (k, g)" by (cases kg)
  have "run_state (exec (\<lambda>_. add_stat k g)) w = (Inr (), w\<lparr>db := add_stat k g (db w)\<rparr>)" using Cons.prems by (simp add: exec_def)
  with Cons.IH [of "w\<lparr>db := add_stat k g (db w)\<rparr>"] Cons.prems show ?case by (simp add: kg)
qed simp

lemma collect_ok:
  assumes "faults w = []"
  shows "fst (run_state (collectEgressLog c) w) = Inr (next_cursor c (filter (counted (map_of (rev (List.map_filter
    (\<lambda>p. map_option (\<lambda>q. (q, p_slug p)) (p_port p)) (filter live (projects (db w)))))) c) (parseProxyLog (raw_log w))))"
proof -
  let ?ports = "map_of (rev (List.map_filter (\<lambda>p. map_option (\<lambda>q. (q, p_slug p)) (p_port p)) (filter live (projects (db w)))))"
  let ?ls = "filter (counted ?ports c) (parseProxyLog (raw_log w))"
  obtain v where v: "run_state (write_stats (aggregate ?ports ?ls [])) w = (Inr (), v)" "faults v = []"
    using write_stats_ok [OF assms] by blast
  have 1: "run_state (ProxyLogs 20000) w = (Inr (raw_log w), w)" and 2: "run_state ProxyPortSlugs w = (Inr ?ports, w)"
    using assms by (simp_all add: ProxyLogs_def raw_log_def ProxyPortSlugs_def query_def)
  have "\<exists>u. run_state (if ?ls \<noteq> [] then exec (\<lambda>_. add_log ?ports ?ls) else ok ()) v = (Inr (), u)"
    using v(2) by (simp add: exec_def)
  with v(1) 1 2 show ?thesis by (auto simp: collectEgressLog_def Let_def split: prod.split)
qed

lemma log_run: "fst (run_state (collectEgressLog 0) log_world) = Inr 8500"
proof -
  have "faults log_world = []" by (simp add: log_world_def sample_world_def)
  moreover have "map_of (rev (List.map_filter (\<lambda>p. map_option (\<lambda>q. (q, p_slug p)) (p_port p)) (filter live (projects (db log_world))))) = [13128 \<mapsto> ''shop'']"
    by (simp add: log_world_def sample_simps live_def)
  ultimately show ?thesis
    by (simp add: collect_ok log_entries counted_def next_cursor_def entry1_def entry2_def)
qed

lemma log_db: "keys_ok (db log_world)" "ports_ok (db log_world)" "live (shop\<lparr>p_port := Some 13128\<rparr>)"
  "shop\<lparr>p_port := Some 13128\<rparr> \<in> set (projects (db log_world))"
  by code_simp+

lemma log_lines: "lines_of (shop\<lparr>p_port := Some 13128\<rparr>) ''api.x.io'' 0 (raw_log log_world) = [entry1]" "\<not> is_denied entry1"
  by (simp_all add: lines_of_def log_entries entry1_def entry2_def is_denied_def) code_simp

lemma collector_counts_witness:
  "\<exists>v. run_state (collectEgressLog 0) log_world = (Inr 8500, v) \<and> stat_of (db v) ''p1'' ''api.x.io'' = (1, 0)"
proof -
  obtain v where v: "run_state (collectEgressLog 0) log_world = (Inr 8500, v)" using log_run by (metis prod.collapse)
  have "stat_of (db log_world) ''p1'' ''api.x.io'' = (0, 0)" "p_id (shop\<lparr>p_port := Some 13128\<rparr>) = ''p1''"
    by (simp_all add: stat_of_def log_world_def sample_simps)
  with collector_counts [OF v log_db(1,2,4,3), of "''api.x.io''"] v show ?thesis by (simp add: log_lines plus2_def)
qed



end
