(* ===== verification/Deploy_Laws.thy ===== *)
theory Deploy_Laws
  imports History Env_Laws Ingress_Laws Reconciler
begin

text \<open>
  The way of a deployment: the build queue, the live event stream, the promotion of a ready
  deployment, and what handlers and the reconciler do in the corners.
\<close>


section \<open>Event numbers\<close>

text \<open>Events are numbered upwards from one, in the order of the log.\<close>

definition events_ok :: "database \<Rightarrow> bool" where
  "events_ok d \<longleftrightarrow> 1 \<le> event_seq d \<and> sorted_wrt (<) (map e_id (events d)) \<and>
     (\<forall>e \<in> set (events d). 1 \<le> e_id e \<and> e_id e < event_seq d)"

lemma events_ok_step: "db_step sv d d' \<Longrightarrow> events_ok d \<Longrightarrow> events_ok d'"
  by (erule plat_step.cases) (auto simp: events_ok_def sorted_wrt_append delete_preset_def)

interpretation event_log: db_invariant sv events_ok for sv
  by unfold_locales (rule events_ok_step)


section \<open>The event stream\<close>

text \<open>The events a client that has seen everything up to \<open>after\<close> still misses.\<close>

definition missing :: "uuid \<Rightarrow> int \<Rightarrow> event list \<Rightarrow> event list" where
  "missing dep after es = filter (\<lambda>e. e_deployment e = dep \<and> e_id e > after) es"

definition is_event :: "frame \<Rightarrow> bool" where
  "is_event f = (case f of EventFrame _ _ _ _ \<Rightarrow> True | _ \<Rightarrow> False)"

lemma is_event_simps [simp]:
  "is_event (event_frame e)" "\<not> is_event (EndFrame st)" "\<not> is_event PingFrame"
  by (simp_all add: is_event_def event_frame_def)

lemma events_of_frames [simp]: "filter is_event (map event_frame es) = map event_frame es"
  by (induction es) simp_all

lemma events_of_round [simp]: "filter is_event (round_frames r) = []"
  by (simp add: round_frames_def split: round.split)

lemma greatest_id:
  "a \<le> foldl (\<lambda>m e. if e_id e > m then e_id e else m) a es \<and>
   (\<forall>e \<in> set es. e_id e \<le> foldl (\<lambda>m e. if e_id e > m then e_id e else m) a es) \<and>
   (foldl (\<lambda>m e. if e_id e > m then e_id e else m) a es \<in> insert a (e_id ` set es))"
proof (induction es arbitrary: a)
  case (Cons e es)
  show ?case using Cons [of "if e_id e > a then e_id e else a"] by (auto split: if_splits)
qed simp

lemma last_id_ge: "after \<le> last_id after es \<and> 0 \<le> last_id after es \<and> (\<forall>e \<in> set es. e_id e \<le> last_id after es)"
  using greatest_id [of 0 es] by (auto simp: last_id_def Let_def)

lemma last_id_in: "last_id after es = max 0 after \<or> last_id after es \<in> e_id ` set es"
  using greatest_id [of 0 es] by (auto simp: last_id_def Let_def)

text \<open>The position of a client that asked for what follows \<open>after\<close> and was sent what \<open>es\<close> has of it.\<close>

definition at_pos :: "uuid \<Rightarrow> int \<Rightarrow> event list \<Rightarrow> int \<Rightarrow> bool" where
  "at_pos dep after es pos \<longleftrightarrow> after \<le> pos \<and> 0 \<le> pos \<and> (\<forall>e \<in> set (missing dep after es). e_id e \<le> pos) \<and>
     (pos = max 0 after \<or> pos \<in> e_id ` set es)"

lemma at_first: "at_pos dep after es (last_id after (missing dep after es))"
  using last_id_ge [of after "missing dep after es"] last_id_in [of after "missing dep after es"]
  by (auto simp: at_pos_def missing_def)

text \<open>What comes after the position is what was missing and has not been sent.\<close>

lemma missing_after:
  assumes "events_ok d" and "events d = es @ new" and "at_pos dep after es pos"
  shows "missing dep after (es @ new) = missing dep after es @ missing dep pos (es @ new)"
proof -
  have less: "\<forall>e \<in> set es. \<forall>f \<in> set new. e_id e < e_id f" and one: "\<forall>e \<in> set (es @ new). 1 \<le> e_id e"
    using assms(1,2) by (auto simp: events_ok_def sorted_wrt_append)
  have "missing dep pos es = []" using assms(3) by (fastforce simp: missing_def at_pos_def filter_empty_conv)
  moreover have "e_id e > pos \<longleftrightarrow> e_id e > after" if "e \<in> set new" for e
    using assms(3) less that one [rule_format, of e] by (auto simp: at_pos_def)
  then have "missing dep pos new = missing dep after new" unfolding missing_def by (intro filter_cong) auto
  ultimately show ?thesis by (simp add: missing_def)
qed

lemma at_next:
  assumes "events_ok d" and "events d = es @ new" and "at_pos dep after es pos"
  shows "at_pos dep after (es @ new) (last_id pos (missing dep pos (es @ new)))"
proof -
  let ?pos = "last_id pos (missing dep pos (es @ new))"
  note ge = last_id_ge [of pos "missing dep pos (es @ new)"]
  have "max 0 pos = pos" using assms(3) by (simp add: at_pos_def)
  then have "?pos = max 0 after \<or> ?pos \<in> e_id ` set (es @ new)"
    using last_id_in [of pos "missing dep pos (es @ new)"] assms(3) by (auto simp: at_pos_def missing_def)
  moreover have "e_id e \<le> ?pos" if "e \<in> set (missing dep after (es @ new))" for e
    using that ge assms(3) unfolding missing_after [OF assms] by (auto simp: at_pos_def)
  ultimately show ?thesis using ge assms(3) by (simp add: at_pos_def)
qed

lemma sorted_list_events:
  assumes "events_ok d"
  shows "sort_key e_id (filter P (events d)) = filter P (events d)"
proof -
  have "sorted (map e_id (events d))" using assms by (auto simp: events_ok_def intro: strict_sorted_imp_sorted)
  then have "sorted (map e_id (filter P (events d)))" by (rule sorted_filter)
  then show ?thesis by (rule sort_key_id_if_sorted)
qed

lemma streamEvents_run:
  assumes "run_state (streamEvents dep after) w = ((fs, r), v)" and "events_ok (db w)"
  shows "db v = db w \<and> (filter is_event fs = [] \<and> (\<exists>e. r = Inl e) \<or>
    filter is_event fs = map event_frame (missing dep after (events (db w))) \<and>
    (\<forall>pos t. r = Inr (pos, t) \<longrightarrow> pos = last_id after (missing dep after (events (db w)))))"
proof -
  have "keeps db (streamEvents dep after)" by (auto simp: streamEvents_def ListEvents_def GetDeployment_def intro!: keeps_intros)
  from keeps_runD [OF this assms(1)] have "db v = db w" .
  moreover have "x = Inr es \<Longrightarrow> es = missing dep after (events (db w))" if "run_state (ListEvents dep after) w = (x, u)" for x u es
    using that sorted_list_events [OF assms(2)] by (auto simp: ListEvents_def missing_def dest!: query_Inr)
  ultimately show ?thesis using assms(1)
    by (auto simp: streamEvents_def split: prod.splits sum.splits if_splits)
qed


lemma events_grow:
  assumes "db_refines sv m" and "run_state m w = (x, u)"
  shows "prefix (events (db w)) (events (db u))"
proof -
  have "(db_step sv)\<^sup>*\<^sup>* (db w) (db u)" using assms by (auto simp: refines_def dest: spec [of _ w])
  then show ?thesis by (induction rule: rtranclp_induct) (auto dest: logs_grow intro: prefix_order.trans)
qed

lemma stream_rounds_run:
  assumes "run_state (stream_rounds dep pos rs) w = (fs, v)" and "list_all (\<lambda>r. db_refines sv (round_prog r)) rs"
    and "events_ok (db w)" and "at_pos dep after es pos" and "prefix es (events (db w))"
  shows "\<exists>es'. events_ok (db v) \<and> prefix es' (events (db v)) \<and>
    map event_frame (missing dep after es) @ filter is_event fs = map event_frame (missing dep after es')"
  using assms
proof (induction rs arbitrary: pos es w fs)
  case Nil
  then show ?case by auto
next
  case (Cons r rs)
  obtain x u fs1 q u2 where 1: "run_state (round_prog r) w = (x, u)" and 2: "run_state (streamEvents dep pos) u = ((fs1, q), u2)"
    by (metis surj_pair)
  have ok: "events_ok (db u)" using event_log.refined [of sv "round_prog r" w] Cons.prems(2,3) 1 by simp
  have "prefix (events (db w)) (events (db u))" using events_grow [of sv, OF _ 1] Cons.prems(2) by simp
  with Cons.prems(5) obtain new where new: "events (db u) = es @ new" by (metis prefix_def append.assoc)
  note s = streamEvents_run [OF 2 ok]
  note miss = missing_after [OF ok new Cons.prems(4)]
  show ?case
  proof (cases "\<exists>pos'. q = Inr (pos', False)")
    case True
    then obtain pos' where q: "q = Inr (pos', False)" by blast
    then obtain fs2 where 3: "run_state (stream_rounds dep pos' rs) u2 = (fs2, v)" and fs: "fs = round_frames r @ fs1 @ fs2"
      using Cons.prems(1) 1 2 by (auto split: prod.splits)
    have p: "pos' = last_id pos (missing dep pos (es @ new))" and f1: "filter is_event fs1 = map event_frame (missing dep pos (es @ new))"
      and d: "db u2 = db u" using s q new by auto
    have "at_pos dep after (es @ new) pos'" unfolding p by (rule at_next [OF ok new Cons.prems(4)])
    from Cons.IH [OF 3 _ _ this] Cons.prems(2) ok d new obtain es' where
      "events_ok (db v)" "prefix es' (events (db v))" "map event_frame (missing dep after (es @ new)) @ filter is_event fs2 = map event_frame (missing dep after es')"
      by auto
    then show ?thesis by (intro exI [of _ es']) (simp add: miss fs f1)
  next
    case False
    then have "fs = round_frames r @ fs1" "v = u2"
      using Cons.prems(1) 1 2 by (auto split: sum.splits prod.splits if_splits)
    then show ?thesis using s new miss ok
      by (elim conjE disjE) (auto intro: exI [of _ es] exI [of _ "es @ new"])
  qed
qed

text \<open>C12. Whatever other requests and workers do between its rounds, the stream of a deployment sends
  the deployment's events after the position the client resumed at, each once, in the order of
  the log and with nothing left out up to the last event it sent.\<close>

theorem stream_sends_each_once:
  assumes "run_state (stream_all dep after rs) w = (fs, v)" and "list_all (\<lambda>r. db_refines sv (round_prog r)) rs"
    and "events_ok (db w)"
  shows "\<exists>es. prefix es (events (db v)) \<and>
    filter is_event fs = map event_frame (filter (\<lambda>e. e_deployment e = dep \<and> e_id e > after) es) \<and>
    sorted_wrt (<) (map e_id es)"
proof -
  obtain fs1 q u where 1: "run_state (streamEvents dep after) w = ((fs1, q), u)" by (metis surj_pair)
  note s = streamEvents_run [OF 1 assms(3)]
  have "\<exists>es. events_ok (db v) \<and> prefix es (events (db v)) \<and> filter is_event fs = map event_frame (missing dep after es)"
  proof (cases "\<exists>pos. q = Inr (pos, False)")
    case True
    then obtain pos where q: "q = Inr (pos, False)" by blast
    then obtain fs2 where 2: "run_state (stream_rounds dep pos rs) u = (fs2, v)" and fs: "fs = fs1 @ fs2"
      using assms(1) 1 by (auto simp: stream_all_def split: prod.splits)
    have d: "db u = db w" and p: "pos = last_id after (missing dep after (events (db w)))"
      and f: "filter is_event fs1 = map event_frame (missing dep after (events (db w)))" using s q by auto
    from stream_rounds_run [OF 2 assms(2), of after "events (db w)"] assms(3) d p at_first obtain es where
      "events_ok (db v)" "prefix es (events (db v))" "map event_frame (missing dep after (events (db w))) @ filter is_event fs2 = map event_frame (missing dep after es)"
      by auto
    then show ?thesis by (intro exI [of _ es]) (simp add: fs f)
  next
    case False
    then have "fs = fs1" "v = u"
      using assms(1) 1 by (auto simp: stream_all_def split: sum.splits prod.splits if_splits)
    with s assms(3) show ?thesis by (elim conjE disjE) (auto simp: missing_def intro: exI [of _ "[]"] exI [of _ "events (db w)"])
  qed
  then obtain es where es: "events_ok (db v)" "prefix es (events (db v))" "filter is_event fs = map event_frame (missing dep after es)"
    by blast
  then have "sorted_wrt (<) (map e_id es)" by (auto simp: events_ok_def prefix_def sorted_wrt_append)
  with es show ?thesis by (auto simp: missing_def)
qed


text \<open>The sample with one queued deployment of its project.\<close>

definition queued_row :: "uuid \<Rightarrow> int \<Rightarrow> deployment" where
  "queued_row i t = \<lparr>d_id = i, d_project = ''p1'', d_trigger_type = ''user'', d_triggered_by = ''bob@x.io'', d_status = Queued,
     d_source_key = ''k'', d_image = [], d_manifest = JObj [], d_failure = [], d_created = 1, d_queued = Some t,
     d_build_started = None, d_build_done = None, d_deployed = None\<rparr>"

definition queue_world :: world where
  "queue_world = sample_world\<lparr>db := sample_db\<lparr>deployments := [queued_row ''d2'' 20, queued_row ''d1'' 10]\<rparr>\<rparr>"

definition one_event :: "unit prog" where
  "one_event = do { _ \<leftarrow> AppendEvent ''d1'' ''build'' ''info'' ''go''; State_Monad.return () }"

lemma stream_sends_each_once_witness:
  "\<exists>v es. run_state (stream_all ''d1'' 0 [Woken one_event, Heartbeat one_event]) queue_world =
       ([EventFrame 1 ''build'' ''info'' ''go'', PingFrame, EventFrame 2 ''build'' ''info'' ''go''], v) \<and>
     prefix es (events (db v)) \<and> length (filter (\<lambda>e. e_deployment e = ''d1'' \<and> e_id e > 0) es) = 2"
proof -
  have "fst (run_state (stream_all ''d1'' 0 [Woken one_event, Heartbeat one_event]) queue_world) =
     [EventFrame 1 ''build'' ''info'' ''go'', PingFrame, EventFrame 2 ''build'' ''info'' ''go'']" by code_simp
  then obtain v where v: "run_state (stream_all ''d1'' 0 [Woken one_event, Heartbeat one_event]) queue_world =
     ([EventFrame 1 ''build'' ''info'' ''go'', PingFrame, EventFrame 2 ''build'' ''info'' ''go''], v)" by (metis prod.collapse)
  have r: "db_refines sample_server one_event" unfolding one_event_def by (intro refine_intros quiet_refines [OF refines_AppendEvent])
  have e: "events_ok (db queue_world)" by (simp add: events_ok_def queue_world_def sample_db_def)
  from stream_sends_each_once [OF v _ e, of sample_server] r obtain es where es: "prefix es (events (db v))"
    "filter is_event [EventFrame 1 ''build'' ''info'' ''go'', PingFrame, EventFrame 2 ''build'' ''info'' ''go''] =
      map event_frame (filter (\<lambda>e. e_deployment e = ''d1'' \<and> e_id e > 0) es)"
    by (auto simp: round_prog_def)
  have "length (filter (\<lambda>e. e_deployment e = ''d1'' \<and> e_id e > 0) es) = 2"
    using arg_cong [OF es(2), of length] by (simp add: is_event_def)
  with v es(1) show ?thesis by blast
qed




section \<open>The build queue\<close>

text \<open>\<open>n\<close> claims, one after the other.\<close>

fun claims :: "nat \<Rightarrow> world \<Rightarrow> deployment list \<times> world" where
  "claims 0 w = ([], w)"
| "claims (Suc n) w =
     (case run_state ClaimNextQueued w of
        (Inr (Some x), v) \<Rightarrow> (case claims n v of (xs, u) \<Rightarrow> (x # xs, u))
      | (_, v) \<Rightarrow> ([], v))"

definition queue_of :: "deployment list \<Rightarrow> deployment list" where
  "queue_of ds = sort_key queue_key (filter (\<lambda>x. d_status x = Queued) ds)"

lemma next_queued_queue: "next_queued ds = (case queue_of ds of [] \<Rightarrow> None | x # _ \<Rightarrow> Some x)"
  by (simp add: next_queued_def queue_of_def)

lemma queue_claimed:
  assumes "unique_by d_id ds" and "queue_of ds = x # q"
  shows "queue_of (update_rows (\<lambda>y. d_id y = d_id x) (claim t) ds) = q"
proof -
  have "filter (\<lambda>x. d_status x = Queued) (update_rows (\<lambda>y. d_id y = i) (claim t) ds) =
      filter (\<lambda>y. d_id y \<noteq> i) (filter (\<lambda>x. d_status x = Queued) ds)" for i
    by (induction ds) (auto simp: claim_def)
  then have "queue_of (update_rows (\<lambda>y. d_id y = d_id x) (claim t) ds) = filter (\<lambda>y. d_id y \<noteq> d_id x) (queue_of ds)"
    by (simp add: queue_of_def filter_sort)
  moreover have "distinct (map d_id (queue_of ds))" using assms(1)
    by (simp add: queue_of_def unique_by_def distinct_map_sort_key distinct_map_filter)
  then have "filter (\<lambda>y. d_id y \<noteq> d_id x) q = q" using assms(2) by (auto simp: filter_id_conv image_iff)
  ultimately show ?thesis using assms(2) by simp
qed


lemma claim_run:
  assumes "faults w = []"
  shows "run_state ClaimNextQueued w = (case queue_of (deployments (db w)) of
      [] \<Rightarrow> (Inr None, w)
    | x # _ \<Rightarrow> (Inr (Some (claim (now w) x)),
        w\<lparr>db := (db w)\<lparr>deployments := update_rows (\<lambda>y. d_id y = d_id x) (claim (now w)) (deployments (db w))\<rparr>\<rparr>))"
  using assms by (simp add: ClaimNextQueued_def next_queued_queue split: list.split)

text \<open>C13. The queue is served in the order the deployments were queued, each one once: \<open>n\<close> claims get
  the first \<open>n\<close> of it and leave the rest, and as many claims as there are entries empty it.\<close>

theorem queue_served_in_order:
  assumes "faults w = []" and "unique_by d_id (deployments (db w))"
  shows "map d_id (fst (claims n w)) = take n (map d_id (queue_of (deployments (db w)))) \<and>
    list_all (\<lambda>x. d_status x = Building) (fst (claims n w)) \<and>
    queue_of (deployments (db (snd (claims n w)))) = drop n (queue_of (deployments (db w)))"
  using assms
proof (induction n arbitrary: w)
  case (Suc n)
  show ?case
  proof (cases "queue_of (deployments (db w))")
    case Nil
    with Suc.prems show ?thesis by (simp add: claim_run)
  next
    case (Cons x q)
    let ?w = "w\<lparr>db := (db w)\<lparr>deployments := update_rows (\<lambda>y. d_id y = d_id x) (claim (now w)) (deployments (db w))\<rparr>\<rparr>"
    have "unique_by d_id (deployments (db ?w))" using Suc.prems(2) by (simp add: unique_by_update claim_def)
    moreover have "queue_of (deployments (db ?w)) = q" using queue_claimed [OF Suc.prems(2) Cons] by simp
    ultimately show ?thesis using Suc.IH [of ?w] Suc.prems(1) Cons
      by (auto simp: claim_run claim_def split: prod.splits)
  qed
qed simp

lemma queue_served_in_order_witness:
  "map d_id (fst (claims 2 queue_world)) = [''d1'', ''d2''] \<and> queue_of (deployments (db (snd (claims 2 queue_world)))) = []"
proof -
  have f: "faults queue_world = []" by (simp add: queue_world_def sample_world_def)
  have u: "unique_by d_id (deployments (db queue_world))" by (simp add: unique_by_def queue_world_def queued_row_def)
  have "queue_of (deployments (db queue_world)) = [queued_row ''d1'' 10, queued_row ''d2'' 20]" by code_simp
  with queue_served_in_order [OF f u, of 2] show ?thesis by (simp add: queued_row_def)
qed


section \<open>Promotion\<close>

abbreviation rollout_tables :: "world \<Rightarrow> deployment list \<times> project list" where
  "rollout_tables w \<equiv> (deployments (db w), projects (db w))"

lemma keeps_emit: "keeps rollout_tables (emit dep level msg)"
  by (auto simp: emit_def AppendEvent_def Let_def intro!: keeps_intros)

lemma keeps_publish: "keeps rollout_tables (publish dep)"
  by (auto simp: publish_def intro!: keeps_intros)

text \<open>When the reconciler promotes a deployment whose pod is ready, it is afterwards the only
  running one of its project, and the project runs too.\<close>

theorem promoted_runs_alone:
  assumes "run_state (promote p) w = (u, v)" and "faults w = []"
  shows "(\<forall>x \<in> set (deployments (db v)). d_project x = pd_project p \<longrightarrow> (d_status x = Running \<longleftrightarrow> d_id x = pd_id p)) \<and>
    (\<forall>x \<in> set (projects (db v)). p_id x = pd_project p \<longrightarrow> p_status x = PRunning)"
proof -
  define f where "f = (\<lambda>x. x\<lparr>d_status := Running, d_failure := [], d_build_done := build_done_stamp (now w) Running x,
      d_deployed := (if d_deployed x = None then Some (now w) else d_deployed x)\<rparr>)"
  let ?ds = "update_rows (\<lambda>x. d_project x = pd_project p \<and> d_id x \<noteq> pd_id p \<and> d_status x = Running)
      (\<lambda>x. x\<lparr>d_status := Superseded\<rparr>) (update_rows (\<lambda>x. d_id x = pd_id p) f (deployments (db w)))"
    and ?ps = "update_rows (\<lambda>x. p_id x = pd_project p) (\<lambda>x. x\<lparr>p_pushed := Some (now w)\<rparr>)
      (update_rows (\<lambda>x. p_id x = pd_project p) (\<lambda>x. x\<lparr>p_status := PRunning, p_active := Some (now w)\<rparr>) (projects (db w)))"
  let ?w = "w\<lparr>db := (db w)\<lparr>deployments := ?ds, projects := ?ps\<rparr>\<rparr>"
  have "run_state (do { _ \<leftarrow> emit (pd_id p) ''info'' ''deployment ready''; publish (pd_id p) }) ?w = (u, v)"
    using assms(1) unfolding promote_def MarkDeploymentStatus_def SupersedeRunningSiblings_def UpdateProjectStatus_def
      TouchProjectPushed_def update_deployments_def update_project_def
    by (simp add: run_exec_ok assms(2) f_def)
  from keeps_runD [OF keeps_bind [OF keeps_emit keeps_publish] this]
  have "deployments (db v) = ?ds" "projects (db v) = ?ps" by simp_all
  moreover have "d_id (f x) = d_id x" "d_status (f x) = Running" for x by (simp_all add: f_def)
  ultimately show ?thesis by (auto simp: set_update_rows split: if_splits)
qed


text \<open>Two deployments of the sample's project: the new one is ready, the old one still runs.\<close>

definition rollout_world :: world where
  "rollout_world = sample_world\<lparr>db := sample_db\<lparr>deployments := [queued_row ''d1'' 10\<lparr>d_status := Running\<rparr>,
     queued_row ''d2'' 20\<lparr>d_status := Deploying\<rparr>]\<rparr>\<rparr>"

definition new_rollout :: pending_deploy where
  "new_rollout = pending_of (queued_row ''d2'' 20\<lparr>d_status := Deploying\<rparr>)"

lemma promoted_runs_alone_witness:
  "\<exists>v. snd (run_state (promote new_rollout) rollout_world) = v \<and> map d_id (deployments (db v)) = [''d1'', ''d2''] \<and>
     d_status (hd (deployments (db v))) \<noteq> Running \<and> d_status (deployments (db v) ! 1) = Running"
proof -
  obtain u v where v: "run_state (promote new_rollout) rollout_world = (u, v)" by (metis prod.collapse)
  have f: "faults rollout_world = []" by (simp add: rollout_world_def sample_world_def)
  have "map d_id (deployments (db (snd (run_state (promote new_rollout) rollout_world)))) = [''d1'', ''d2'']"
    "map d_project (deployments (db (snd (run_state (promote new_rollout) rollout_world)))) = [''p1'', ''p1'']"
    by code_simp+
  then obtain x y where xy: "deployments (db v) = [x, y]" "d_id x = ''d1''" "d_id y = ''d2''" "d_project x = ''p1''" "d_project y = ''p1''"
    by (auto simp: v map_eq_Cons_conv)
  have "pd_id new_rollout = ''d2''" "pd_project new_rollout = ''p1''" by (simp_all add: new_rollout_def pending_of_def queued_row_def)
  with promoted_runs_alone [OF v f] xy v show ?thesis by simp
qed


section \<open>Corners\<close>

text \<open>The log of a deployment's build is handed out through any project: the handler looks the
  deployment up by its id alone, so whoever may use one project reads the build logs of all,
  while the sibling handlers answer that there is no such deployment.\<close>

theorem build_log_of_any_project:
  assumes "faults w = []" and "find_row (\<lambda>x. d_id x = dep) (deployments (db w)) = Some x" and "d_project x \<noteq> p_id p"
    and "phase \<noteq> ''runtime''" and "events_ok (db w)"
  shows "run_state (handleDeploymentLogs kl phase n (Some dep) p) w =
      (Text 200 (concat (map event_line (filter (\<lambda>e. e_deployment e = dep \<and> e_id e > 0) (events (db w))))), w) \<and>
    run_state (handleGetDeployment (Some dep) p) w = (Error 404 ''not_found'', w) \<and>
    run_state (handleDeploymentUploaded (Some dep) p) w = (Error 404 ''not_found'', w)"
proof -
  have g: "run_state (GetDeployment dep) w = (Inr x, w)" using assms(1,2) by (simp add: GetDeployment_def)
  have l: "run_state (ListEvents dep 0) w = (Inr (filter (\<lambda>e. e_deployment e = dep \<and> e_id e > 0) (events (db w))), w)"
    using assms(1) sorted_list_events [OF assms(5)] by (simp add: ListEvents_def query_def)
  show ?thesis using g l assms(3,4)
    by (simp add: handleDeploymentLogs_def handleGetDeployment_def handleDeploymentUploaded_def own_deployment_def)
qed

text \<open>An upload notice re-queues a deployment in any state: one that has failed, runs or was superseded
  is queued for another build, and every other deployment of the project on its way is superseded.\<close>

theorem upload_requeues_any:
  assumes "faults w = []" and "find_row (\<lambda>x. d_id x = dep) (deployments (db w)) = Some x" and "d_project x = p_id p"
  shows "\<exists>v. run_state (handleDeploymentUploaded (Some dep) p) w = (Reply 200 (JObj [(''ok'', JBool True)]), v) \<and>
    (\<forall>y \<in> set (deployments (db v)). d_project y = p_id p \<longrightarrow>
       (if d_id y = dep then d_status y = Queued else d_status y \<notin> {Queued, Building, Pushing, Deploying}))"
proof -
  have x: "x \<in> set (deployments (db w))" "d_id x = dep" using find_row_Some [OF assms(2)] by auto
  define f :: "deployment \<Rightarrow> deployment" where "f = (\<lambda>x. x\<lparr>d_status := Queued, d_source_key := SourceKey (p_slug p) dep, d_queued := Some (now w)\<rparr>)"
  define ds where "ds = update_rows (\<lambda>x. d_project x = p_id p \<and> d_id x \<noteq> dep \<and> d_status x \<in> {Queued, Building, Pushing, Deploying})
      (\<lambda>x. x\<lparr>d_status := Superseded\<rparr>) (update_rows (\<lambda>x. d_id x = dep) f (deployments (db w)))"
  have g: "run_state (GetDeployment dep) w = (Inr x, w)" using assms(1,2) by (simp add: GetDeployment_def)
  have ids: "d_id (f x) = d_id x" "d_status (f x) = Queued" for x by (simp_all add: f_def)
  let ?w = "w\<lparr>db := (db w)\<lparr>deployments := ds\<rparr>\<rparr>"
  have "d_id ` set ds = d_id ` set (deployments (db w))" unfolding ds_def by (simp add: image_update ids)
  then have "\<not> (\<forall>y \<in> set ds. d_id y \<noteq> dep)" using x by (metis image_iff)
  then have "fst (run_state (AppendEvent dep ''queue'' ''info'' ''source uploaded; queued for build'') ?w) = Inr (event_seq (db w))"
    using assms(1) by (simp add: AppendEvent_def Let_def)
  then obtain u where u: "run_state (AppendEvent dep ''queue'' ''info'' ''source uploaded; queued for build'') ?w = (Inr (event_seq (db w)), u)"
    by (metis prod.collapse)
  have "keeps rollout_tables (AppendEvent dep ''queue'' ''info'' ''source uploaded; queued for build'')"
    by (auto simp: AppendEvent_def Let_def intro!: keeps_intros)
  from keeps_runD [OF this u] have du: "deployments (db u) = ds" by simp
  have "run_state (MarkDeploymentQueued dep (SourceKey (p_slug p) dep)) w =
      (Inr (), w\<lparr>db := (db w)\<lparr>deployments := update_rows (\<lambda>x. d_id x = dep) f (deployments (db w))\<rparr>\<rparr>)"
    by (simp add: MarkDeploymentQueued_def update_deployments_def run_exec_ok assms(1) f_def)
  moreover have "run_state (SupersedeOlderDeployments (p_id p) dep)
      (w\<lparr>db := (db w)\<lparr>deployments := update_rows (\<lambda>x. d_id x = dep) f (deployments (db w))\<rparr>\<rparr>) = (Inr (), ?w)"
    by (simp add: SupersedeOlderDeployments_def update_deployments_def run_exec_ok assms(1) ds_def)
  ultimately have "run_state (handleDeploymentUploaded (Some dep) p) w =
      (Reply 200 (JObj [(''ok'', JBool True)]), u\<lparr>published := published u @ [dep]\<rparr>)"
    using u by (simp add: handleDeploymentUploaded_def own_deployment_def g assms(3) x(2) publish_def reply_ok_def)
  then show ?thesis by (auto simp: du ds_def set_update_rows ids split: if_splits)
qed

lemma build_log_of_any_project_witness:
  "run_state (handleDeploymentLogs (\<lambda>_ _ _ _. None) ''build'' [] (Some ''d1'') (shop\<lparr>p_id := ''p2''\<rparr>))
     (queue_world\<lparr>db := (db queue_world)\<lparr>events := [\<lparr>e_id = 1, e_deployment = ''d1'', e_phase = ''build'', e_level = ''info'', e_message = ''secret''\<rparr>], event_seq := 2\<rparr>\<rparr>) =
   (Text 200 (''[build] info: secret'' @ [CHR 0x0A]),
     queue_world\<lparr>db := (db queue_world)\<lparr>events := [\<lparr>e_id = 1, e_deployment = ''d1'', e_phase = ''build'', e_level = ''info'', e_message = ''secret''\<rparr>], event_seq := 2\<rparr>\<rparr>)"
proof -
  let ?w = "queue_world\<lparr>db := (db queue_world)\<lparr>events := [\<lparr>e_id = 1, e_deployment = ''d1'', e_phase = ''build'', e_level = ''info'', e_message = ''secret''\<rparr>], event_seq := 2\<rparr>\<rparr>"
  have f: "faults ?w = []" by (simp add: queue_world_def sample_world_def)
  have x: "find_row (\<lambda>x. d_id x = ''d1'') (deployments (db ?w)) = Some (queued_row ''d1'' 10)"
    by (simp add: queue_world_def queued_row_def)
  have p: "d_project (queued_row ''d1'' 10) \<noteq> p_id (shop\<lparr>p_id := ''p2''\<rparr>)" by (simp add: queued_row_def)
  have e: "events_ok (db ?w)" by (simp add: events_ok_def)
  have "''build'' \<noteq> ''runtime''" by simp
  from build_log_of_any_project [OF f x p this e] show ?thesis by (simp add: event_line_def)
qed

lemma upload_requeues_any_witness:
  "\<exists>v. run_state (handleDeploymentUploaded (Some ''d1'') shop) rollout_world = (Reply 200 (JObj [(''ok'', JBool True)]), v) \<and>
     (\<forall>y \<in> set (deployments (db v)). d_project y = ''p1'' \<longrightarrow>
       (if d_id y = ''d1'' then d_status y = Queued else d_status y \<notin> {Queued, Building, Pushing, Deploying}))"
proof -
  have f: "faults rollout_world = []" by (simp add: rollout_world_def sample_world_def)
  have x: "find_row (\<lambda>x. d_id x = ''d1'') (deployments (db rollout_world)) = Some (queued_row ''d1'' 10\<lparr>d_status := Running\<rparr>)"
    by (simp add: rollout_world_def queued_row_def)
  have p: "d_project (queued_row ''d1'' 10\<lparr>d_status := Running\<rparr>) = p_id shop" and s: "p_id shop = ''p1''"
    by (simp_all add: queued_row_def shop_def new_project_def)
  show ?thesis using upload_requeues_any [OF f x p] by (simp only: s)
qed


section \<open>A manifest that stops the control plane\<close>

text \<open>Programs that keep a world without failures free of them.\<close>

definition calm :: "'a prog \<Rightarrow> bool" where
  "calm m = (\<forall>w. faults w = [] \<longrightarrow> faults (snd (run_state m w)) = [])"

named_theorems calm_intros \<open>programs without failures\<close>

lemma calm_run: "calm m \<Longrightarrow> run_state m w = (r, v) \<Longrightarrow> faults w = [] \<Longrightarrow> faults v = []"
  by (auto simp: calm_def dest: spec [of _ w])

lemma calm_return [calm_intros]: "calm (State_Monad.return x)"
  by (simp add: calm_def)

lemma calm_bind [calm_intros]: "calm m \<Longrightarrow> (\<And>x. calm (g x)) \<Longrightarrow> calm (State_Monad.bind m g)"
  by (simp add: calm_def split: prod.splits) (metis snd_conv)

lemma calm_if [calm_intros]: "calm m \<Longrightarrow> calm n \<Longrightarrow> calm (if b then m else n)"
  by simp

lemma calm_case_sum [calm_intros]: "(\<And>x. calm (m x)) \<Longrightarrow> (\<And>y. calm (n y)) \<Longrightarrow> calm (case r of Inl x \<Rightarrow> m x | Inr y \<Rightarrow> n y)"
  by (simp split: sum.split)

lemma calm_call: "(\<And>w. faults w = [] \<Longrightarrow> faults (snd (f w)) = []) \<Longrightarrow> calm (call f)"
  by (simp add: calm_def)

lemma calm_attempt [calm_intros]: "calm m \<Longrightarrow> (\<And>x. calm (g x)) \<Longrightarrow> calm (attempt m g)"
  unfolding attempt_def by (intro calm_intros)

lemma calm_db [calm_intros]: "calm (query f)" "calm (query_row g)" "calm (exec h)" "calm (statement s)"
  unfolding query_row_def query_def exec_def statement_def
  by (auto simp: case_prod_beta split: option.split intro!: calm_intros calm_call)

lemma calm_update [calm_intros]: "(\<And>w. faults (f w) = faults w) \<Longrightarrow> calm (State_Monad.update f)"
  by (simp add: calm_def)

lemma calm_emit [calm_intros]: "calm (emit dep level msg)"
  unfolding emit_def AppendEvent_def by (intro calm_intros)

lemma calm_publish [calm_intros]: "calm (publish dep)"
  unfolding publish_def by (intro calm_intros) simp

lemma calm_status [calm_intros]: "calm (MarkDeploymentStatus dep st reason)"
  unfolding MarkDeploymentStatus_def update_deployments_def by (intro calm_intros)

lemma calm_config: "calm (egressConfigForProject sv pid)"
  unfolding egressConfigForProject_def egressAllowsForProject_def ListProjectEgressRules_def GetProjectEgressMode_def
  by (intro calm_intros)

lemma k8s_apply_ok:
  assumes "faults w = []" and "has_namespace k (objs w)"
  shows "run_state (k8s_apply k v) w = (Inr (), w\<lparr>objs := obj_put k v (objs w)\<rparr>)"
  using assms by (simp add: k8s_apply_def k8s_get_def k8s_create_def k8s_update_def split: option.split)

abbreviation ns_there :: "string \<Rightarrow> objects \<Rightarrow> bool" where
  "ns_there slug os \<equiv> obj_get (NamespaceK, [], namespaceFor slug) os \<noteq> None"

lemma EnsureNamespace_ok:
  assumes "faults w = []"
  shows "\<exists>v. run_state (EnsureNamespace slug) w = (Inr (), v) \<and> faults v = [] \<and> ns_there slug (objs v)"
  using assms by (cases "obj_get (NamespaceK, [], namespaceFor slug) (objs w)")
    (auto simp: EnsureNamespace_def k8s_get_def k8s_create_def namespace_key_def has_namespace_def)

lemma namespaced_apply_ok:
  assumes "faults w = []" and "ns_there slug (objs w)" and "k = (kd, namespaceFor slug, n)" and "kd \<noteq> NamespaceK"
  shows "\<exists>v. run_state (k8s_apply k x) w = (Inr (), v) \<and> faults v = [] \<and> ns_there slug (objs v)"
  using assms by (auto simp: k8s_apply_ok has_namespace_def)

definition bad_quantity :: "deployer \<Rightarrow> manifest \<Rightarrow> bool" where
  "bad_quantity dc m = (\<not> dc_quantity_ok dc (or_default (mf_cpu m) ''1'') \<or> \<not> dc_quantity_ok dc (or_default (mf_memory m) ''2Gi''))"

lemma apply_prefix:
  assumes "faults w = []"
  obtains w1 w2 w3 where "run_state (EnsureNamespace slug) w = (Inr (), w1)"
    "run_state (ensureEgressPolicy dc slug allows enforce) w1 = (Inr (), w2)"
    "run_state (applySecret slug env) w2 = (Inr (), w3)" "faults w3 = []" "ns_there slug (objs w3)"
proof -
  obtain w1 where 1: "run_state (EnsureNamespace slug) w = (Inr (), w1)" "faults w1 = []" "ns_there slug (objs w1)"
    using EnsureNamespace_ok [OF assms(1)] by blast
  obtain w2 where 2: "run_state (ensureEgressPolicy dc slug allows enforce) w1 = (Inr (), w2)" "faults w2 = []" "ns_there slug (objs w2)"
  proof (cases "egress_rules_for dc allows enforce")
    case None
    with 1(2,3) that show ?thesis by (simp add: ensureEgressPolicy_def)
  next
    case (Some rules)
    have k: "policy_key slug = (NetworkPolicyK, namespaceFor slug, ''iai-egress'')" by (simp add: policy_key_def)
    obtain u where "run_state (k8s_apply (policy_key slug) (KNetworkPolicy rules)) w1 = (Inr (), u)" "faults u = []" "ns_there slug (objs u)"
      using namespaced_apply_ok [OF 1(2,3) k] by blast
    with Some that show ?thesis by (simp add: ensureEgressPolicy_def)
  qed
  obtain w3 where "run_state (applySecret slug env) w2 = (Inr (), w3)" "faults w3 = []" "ns_there slug (objs w3)"
    using namespaced_apply_ok [OF 2(2,3) refl, of SecretK "''app-env''" "KSecret env"] by (auto simp: applySecret_def secret_key_def)
  with 1(1) 2(1) that show thesis by blast
qed

lemma Apply_panics:
  assumes "faults w = []" and "bad_quantity dc m"
  shows "fst (run_state (Apply dc (deploy_input p slug m env allows enforce url)) w) = Inl panic"
proof -
  let ?ai = "deploy_input p slug m env allows enforce url"
  have s: "ai_slug ?ai = slug" by (simp add: deploy_input_def)
  obtain w1 w2 w3 where "run_state (EnsureNamespace slug) w = (Inr (), w1)"
    "run_state (ensureEgressPolicy dc slug (ai_allows ?ai) (ai_enforce ?ai)) w1 = (Inr (), w2)"
    "run_state (applySecret slug (ai_env ?ai)) w2 = (Inr (), w3)"
    by (rule apply_prefix [OF assms(1)])
  moreover have "applyDeployment dc ?ai = throw panic"
    using assms(2) by (auto simp: applyDeployment_def deploy_input_def bad_quantity_def)
  ultimately show ?thesis by (simp add: Apply_def s)
qed

text \<open>C38. A manifest whose cpu or memory is not a Kubernetes quantity is not rejected anywhere: when its
  turn comes, and nothing else fails, the reconciler panics, and the control plane with it.\<close>

theorem malformed_quantity_crashes:
  assumes "faults w = []" and "todo (db w) = p # ps" and "pd_status p = Pushing"
    and "run_state (prepare sv p) w = (Inr (slug, m, env), v)" and "faults v = []" and "bad_quantity dc m"
  shows "fst (run_state (tick sv dc kl sums) w) = None"
proof -
  obtain cfg w1 where 1: "run_state (egressConfigForProject sv (pd_project p)) v = (cfg, w1)" by (metis surj_pair)
  obtain allows enforce url ee where cfg: "cfg = (allows, enforce, url, ee)" by (cases cfg) auto
  let ?pre = "do {
    _ \<leftarrow> (if ee \<noteq> None then emit (pd_id p) ''warn'' ''could not load egress allow-list, deploying without it'' else State_Monad.return ());
    _ \<leftarrow> MarkDeploymentStatus (pd_id p) Deploying [];
    _ \<leftarrow> emit (pd_id p) ''info'' ''applying Kubernetes manifests'';
    publish (pd_id p) }"
  obtain w2 where 2: "run_state ?pre w1 = ((), w2)" by (cases "run_state ?pre w1") simp
  have "calm ?pre" by (intro calm_intros)
  from calm_run [OF this 2 calm_run [OF calm_config 1 assms(5)]] have f: "faults w2 = []" .
  obtain w3 where 3: "run_state (Apply dc (deploy_input p slug m env allows enforce url)) w2 = (Inl panic, w3)"
    using Apply_panics [OF f assms(6)] by (metis prod.collapse)
  have "run_state (handle_pushing sv dc p sums) w = (None, w3)"
    using assms(4) 1 2 3 by (simp add: handle_pushing_def cfg case_prod_beta prod_eq_iff)
  moreover have "run_state (query todo) w = (Inr (p # ps), w)" using assms(1,2) by (simp add: query_def)
  ultimately show ?thesis by (simp add: tick_def handle_def assms(3))
qed


definition lots_row :: deployment where
  "lots_row = queued_row ''d1'' 10\<lparr>d_status := Pushing, d_manifest := JObj [(''resources'', JObj [(''cpu'', JStr ''lots'')])]\<rparr>"

definition lots_world :: world where
  "lots_world = sample_world\<lparr>db := sample_db\<lparr>deployments := [lots_row]\<rparr>\<rparr>"

definition strict_deployer :: deployer where
  "strict_deployer = sample_deployer\<lparr>dc_quantity_ok := (\<lambda>q. q \<in> {''1'', ''2Gi''})\<rparr>"

lemma malformed_quantity_crashes_witness:
  "fst (run_state (tick sample_server strict_deployer (\<lambda>_ _ _ _. None) (\<lambda>_. None)) lots_world) = None"
proof -
  have f: "faults lots_world = []" by (simp add: lots_world_def sample_world_def)
  have t: "todo (db lots_world) = pending_of lots_row # []" by code_simp
  have st: "pd_status (pending_of lots_row) = Pushing" by (simp add: pending_of_def lots_row_def)
  have "case run_state (prepare sample_server (pending_of lots_row)) lots_world of
      (Inr (slug, m, env), v) \<Rightarrow> faults v = [] \<and> bad_quantity strict_deployer m | _ \<Rightarrow> False" by code_simp
  then obtain slug m env v where "run_state (prepare sample_server (pending_of lots_row)) lots_world = (Inr (slug, m, env), v)"
    "faults v = []" "bad_quantity strict_deployer m" by (auto split: prod.splits sum.splits)
  from malformed_quantity_crashes [OF f t st this] show ?thesis .
qed

end
