(* ===== verification/Build_Laws.thy ===== *)
theory Build_Laws
  imports Build_Service Deploy_Laws
begin

text \<open>
  What the build service does to the deployment it builds (cmd/build-service/main.go): the
  outcome of a build nobody interferes with, and a deployment that is superseded while it is
  built.
\<close>


section \<open>Programs that leave a deployment alone\<close>

definition dep_row :: "uuid \<Rightarrow> database \<Rightarrow> deployment option" where
  "dep_row dep d = find_row (\<lambda>x. d_id x = dep) (deployments d)"

text \<open>Nothing fails, and the row of the deployment stays what it is.\<close>

definition leaves_row :: "uuid \<Rightarrow> 'a prog \<Rightarrow> bool" where
  "leaves_row dep m = (\<forall>w. faults w = [] \<longrightarrow>
     faults (snd (run_state m w)) = [] \<and> dep_row dep (db (snd (run_state m w))) = dep_row dep (db w))"

lemma leaves_rowD:
  "leaves_row dep m \<Longrightarrow> run_state m w = (r, v) \<Longrightarrow> faults w = [] \<Longrightarrow> faults v = [] \<and> dep_row dep (db v) = dep_row dep (db w)"
  unfolding leaves_row_def by (drule spec [of _ w]) simp

lemma leaves_row_bind:
  assumes "leaves_row dep m" and "\<And>x. leaves_row dep (g x)"
  shows "leaves_row dep (State_Monad.bind m g)"
  unfolding leaves_row_def
proof (intro allI impI)
  fix w :: world
  assume f: "faults w = []"
  obtain x u where u: "run_state m w = (x, u)" by (metis prod.collapse)
  have 1: "faults u = []" "dep_row dep (db u) = dep_row dep (db w)" using leaves_rowD [OF assms(1) u f] by simp_all
  from leaves_rowD [OF assms(2) surjective_pairing 1(1)] 1(2)
  show "faults (snd (run_state (State_Monad.bind m g) w)) = [] \<and>
      dep_row dep (db (snd (run_state (State_Monad.bind m g) w))) = dep_row dep (db w)" by (simp add: u)
qed

lemma leaves_row_return: "leaves_row dep (State_Monad.return x)"
  by (simp add: leaves_row_def)

lemma leaves_row_event: "leaves_row dep (AppendEvent dep' phase level msg)"
  by (simp add: leaves_row_def AppendEvent_def statement_def dep_row_def Let_def split: prod.splits)

lemma leaves_row_emit: "leaves_row dep (bs_emit dep' level msg)"
  unfolding bs_emit_def by (intro leaves_row_bind leaves_row_event leaves_row_return)

definition machine_leaves :: "machine \<Rightarrow> uuid \<Rightarrow> bool" where
  "machine_leaves mc dep = (\<forall>argv m. Others m \<in> set (fst (mc_exec mc argv)) \<longrightarrow> leaves_row dep m)"

lemma status_now_ok: "faults w = [] \<Longrightarrow> run_state (status_now dep) w = (map_option d_status (dep_row dep (db w)), w)"
  by (simp add: status_now_def query_row_def dep_row_def query_def split: option.split)

text \<open>A command while nobody touches the row: it is cancelled when the watchdog polls and the
  deployment is not building, and never otherwise.\<close>

lemma run_ticks_leaves:
  assumes "run_state (run_ticks dep ts) w = (c, v)" and "faults w = []" and "dep_row dep (db w) = Some x"
    and "\<forall>m. Others m \<in> set ts \<longrightarrow> leaves_row dep m"
  shows "faults v = [] \<and> dep_row dep (db v) = Some x \<and> c = (d_status x \<noteq> Building \<and> Poll \<in> set ts)"
  using assms
proof (induction ts arbitrary: w)
  case (Cons t ts)
  show ?case
  proof (cases t)
    case (Line s)
    obtain u where u: "run_state (bs_emit dep ''info'' s) w = (u, snd (run_state (bs_emit dep ''info'' s) w))"
      by (metis prod.collapse)
    from leaves_rowD [OF leaves_row_emit this Cons.prems(2)] Cons.prems Cons.IH u Line show ?thesis
      by (auto split: prod.splits)
  next
    case (Others m)
    then have "leaves_row dep m" using Cons.prems(4) by simp
    from leaves_rowD [OF this surjective_pairing Cons.prems(2)] Cons.prems Cons.IH Others show ?thesis
      by (auto split: prod.splits)
  next
    case Poll
    then show ?thesis using Cons by (auto simp: status_now_ok split: if_splits)
  qed
qed simp

lemma runStream_leaves:
  assumes "run_state (runStream mc dep argv) w = (b, v)" and "faults w = []" and "dep_row dep (db w) = Some x"
    and "machine_leaves mc dep"
  shows "faults v = [] \<and> dep_row dep (db v) = Some x \<and>
    b = (snd (mc_exec mc argv) \<and> \<not> (d_status x \<noteq> Building \<and> Poll \<in> set (fst (mc_exec mc argv))))"
proof -
  obtain c where c: "run_state (run_ticks dep (fst (mc_exec mc argv))) w = (c, v)" "b = (\<not> c \<and> snd (mc_exec mc argv))"
    using assms(1) by (auto simp: runStream_def split: prod.splits)
  from run_ticks_leaves [OF c(1) assms(2,3)] assms(4) c(2) show ?thesis by (auto simp: machine_leaves_def)
qed

text \<open>Whether a command succeeds for a deployment with the given status.\<close>

definition succeeds :: "machine \<Rightarrow> dstatus \<Rightarrow> string list \<Rightarrow> bool" where
  "succeeds mc st argv = (snd (mc_exec mc argv) \<and> (st = Building \<or> Poll \<notin> set (fst (mc_exec mc argv))))"

abbreviation build_command :: "string \<Rightarrow> machine \<Rightarrow> string list \<Rightarrow> string \<Rightarrow> uuid \<Rightarrow> string list" where
  "build_command registry mc files slug dep \<equiv>
     build_argv (''Dockerfile'' \<in> set files) (imageRef registry slug dep) (src_dir mc dep)"

lemma Build_leaves:
  assumes "run_state (Build registry mc files slug dep) w = (r, v)" and "faults w = []"
    and "dep_row dep (db w) = Some x" and "machine_leaves mc dep"
  shows "faults v = [] \<and> dep_row dep (db v) = Some x \<and>
    r = (if \<not> succeeds mc (d_status x) (build_command registry mc files slug dep) then Inl (ErrOther ''build'')
         else if \<not> succeeds mc (d_status x) (push_argv (imageRef registry slug dep)) then Inl (ErrOther ''push'')
         else Inr (imageRef registry slug dep))"
proof -
  let ?m = "if ''Dockerfile'' \<in> set files then ''Dockerfile detected, using docker build'' else ''no Dockerfile, using nixpacks''"
  let ?img = "imageRef registry slug dep" and ?w1 = "snd (run_state (bs_emit dep ''info'' ?m) w)"
  have "leaves_row dep (bs_emit dep ''info'' ?m)" by (rule leaves_row_emit)
  from leaves_rowD [OF this surjective_pairing assms(2)] assms(3)
  have 1: "faults ?w1 = []" "dep_row dep (db ?w1) = Some x" by simp_all
  obtain b w2 where b: "run_state (runStream mc dep (build_command registry mc files slug dep)) ?w1 = (b, w2)"
    by (metis prod.collapse)
  from runStream_leaves [OF b 1 assms(4)]
  have 2: "faults w2 = []" "dep_row dep (db w2) = Some x" "b = succeeds mc (d_status x) (build_command registry mc files slug dep)"
    by (auto simp: succeeds_def)
  obtain p w3 where p: "run_state (runStream mc dep (push_argv ?img)) w2 = (p, w3)" by (metis prod.collapse)
  from runStream_leaves [OF p 2(1,2) assms(4)]
  have 3: "faults w3 = []" "dep_row dep (db w3) = Some x" "p = succeeds mc (d_status x) (push_argv ?img)"
    by (auto simp: succeeds_def)
  have "(r, v) = (if \<not> b then (Inl (ErrOther ''build''), w2) else if \<not> p then (Inl (ErrOther ''push''), w3) else (Inr ?img, w3))"
    using assms(1) b p by (cases b; cases p) (simp_all add: Build_def Let_def split: prod.splits)
  then show ?thesis using 2 3 by (auto split: if_splits)
qed


section \<open>The outcome of a build\<close>

lemma dep_row_update:
  "(\<And>x. d_id (f x) = d_id x) \<Longrightarrow>
   dep_row dep (d\<lparr>deployments := update_rows q f (deployments d)\<rparr>) = map_option (\<lambda>x. if q x then f x else x) (dep_row dep d)"
  unfolding dep_row_def by (simp add: find_row_update)

lemma dep_row_id: "dep_row dep d = Some x \<Longrightarrow> d_id x = dep"
  unfolding dep_row_def by (drule find_row_Some) simp

lemma set_image_row:
  assumes "faults w = []" and "dep_row dep (db w) = Some x"
  obtains v where "run_state (SetDeploymentImage dep img) w = (Inr (), v)" "faults v = []"
    "dep_row dep (db v) = Some (x\<lparr>d_image := img\<rparr>)"
proof
  show "run_state (SetDeploymentImage dep img) w = (Inr (), w\<lparr>db := (db w)\<lparr>deployments :=
      update_rows (\<lambda>x. d_id x = dep) (\<lambda>x. x\<lparr>d_image := img\<rparr>) (deployments (db w))\<rparr>\<rparr>)"
    using assms(1) by (simp add: SetDeploymentImage_def update_deployments_def)
qed (use assms dep_row_id [OF assms(2)] in \<open>simp_all add: dep_row_update\<close>)

lemma advance_row:
  assumes "faults w = []" and "dep_row dep (db w) = Some x"
  obtains b v where "run_state (TryAdvanceDeploymentStatus dep Building Pushing) w = (Inr b, v)" "faults v = []"
    "dep_row dep (db v) = Some (if d_status x = Building
       then x\<lparr>d_status := Pushing, d_build_done := build_done_stamp (now w) Pushing x\<rparr> else x)"
proof
  let ?q = "\<lambda>x. d_id x = dep \<and> d_status x = Building"
  show "run_state (TryAdvanceDeploymentStatus dep Building Pushing) w =
     (Inr (length (filter ?q (deployments (db w))) = 1), w\<lparr>db := (db w)\<lparr>deployments :=
        update_rows ?q (\<lambda>x. x\<lparr>d_status := Pushing, d_build_done := build_done_stamp (now w) Pushing x\<rparr>) (deployments (db w))\<rparr>\<rparr>)"
    using assms(1) by (simp add: TryAdvanceDeploymentStatus_def statement_def)
qed (use assms dep_row_id [OF assms(2)] in \<open>simp_all add: dep_row_update\<close>)

lemma finish_build_row:
  assumes "run_state (finish_build dep img) w = (r, v)" and "faults w = []" and "dep_row dep (db w) = Some x"
  shows "r = Inr () \<and> (\<exists>y. dep_row dep (db v) = Some y \<and> d_image y = img \<and>
    d_status y = (if d_status x = Building then Pushing else d_status x))"
proof -
  have "leaves_row dep (bs_emit dep ''info'' (''image pushed: '' @ img))" by (rule leaves_row_emit)
  from leaves_rowD [OF this surjective_pairing assms(2)] assms(3)
  have 1: "faults (snd (run_state (bs_emit dep ''info'' (''image pushed: '' @ img)) w)) = []"
    "dep_row dep (db (snd (run_state (bs_emit dep ''info'' (''image pushed: '' @ img)) w))) = Some x" by simp_all
  obtain w2 where 2: "run_state (SetDeploymentImage dep img) (snd (run_state (bs_emit dep ''info'' (''image pushed: '' @ img)) w)) = (Inr (), w2)"
      "faults w2 = []" "dep_row dep (db w2) = Some (x\<lparr>d_image := img\<rparr>)"
    by (rule set_image_row [OF 1, where img = img])
  obtain b w3 where 3: "run_state (TryAdvanceDeploymentStatus dep Building Pushing) w2 = (Inr b, w3)" "faults w3 = []"
      "dep_row dep (db w3) = Some (if d_status x = Building then x\<lparr>d_image := img, d_status := Pushing,
         d_build_done := build_done_stamp (now w2) Pushing (x\<lparr>d_image := img\<rparr>)\<rparr> else x\<lparr>d_image := img\<rparr>)"
    by (rule advance_row [OF 2(2,3)]) auto
  let ?m = "if b then ''handed off to control-plane for deploy''
            else ''build finished but deployment already moved on; skipping handoff''"
  have "leaves_row dep (bs_emit dep ''info'' ?m)" by (rule leaves_row_emit)
  note 4 = leaves_rowD [OF this surjective_pairing 3(2)]
  have "(r, v) = (Inr (), snd (run_state (bs_emit dep ''info'' ?m) w3))"
    using assms(1) 2(1) 3(1) by (cases b) (simp_all add: finish_build_def run_attempt split: prod.splits)
  with 3(3) 4 show ?thesis by (auto split: if_splits)
qed

lemma failed_build_row:
  assumes "run_state (failed_build dep e) w = (r, v)" and "faults w = []" and "dep_row dep (db w) = Some x"
  shows "if d_status x = Building
    then r = Inl e \<and> (\<exists>y. dep_row dep (db v) = Some y \<and> d_status y = Failed \<and> d_failure y = ''build'' \<and> d_image y = d_image x)
    else r = Inr () \<and> dep_row dep (db v) = Some x"
proof (cases "d_status x = Building")
  case True
  have "leaves_row dep (AppendEvent dep ''build'' ''error'' ''build'')" by (rule leaves_row_event)
  from leaves_rowD [OF this surjective_pairing assms(2)] assms(3)
  have 1: "faults (snd (run_state (AppendEvent dep ''build'' ''error'' ''build'') w)) = []"
    "dep_row dep (db (snd (run_state (AppendEvent dep ''build'' ''error'' ''build'') w))) = Some x" by simp_all
  have "r = Inl e \<and> v = snd (run_state (bs_fail dep ''build'') w)"
    using assms True by (auto simp: failed_build_def status_now_ok split: prod.splits)
  with 1 True dep_row_id [OF assms(3)] show ?thesis
    by (auto simp: bs_fail_def MarkDeploymentStatus_def update_deployments_def dep_row_update split: prod.splits)
next
  case False
  let ?m = "''build aborted: deployment status changed to '' @ status_text (Some (d_status x))"
  have "leaves_row dep (bs_emit dep ''info'' ?m)" by (rule leaves_row_emit)
  note 1 = leaves_rowD [OF this surjective_pairing assms(2)]
  have "r = Inr () \<and> v = snd (run_state (bs_emit dep ''info'' ?m) w)"
    using assms False by (auto simp: failed_build_def status_now_ok split: prod.splits)
  with 1 assms(3) False show ?thesis by simp
qed

lemma build_source_run:
  assumes "run_state (build_source registry mc files slug dep) w = (r, v)" and "faults w = []"
    and "dep_row dep (db w) = Some x" and "machine_leaves mc dep"
  obtains u where "faults u = []" "dep_row dep (db u) = Some x"
    "run_state (if \<not> succeeds mc (d_status x) (build_command registry mc files slug dep) then failed_build dep (ErrOther ''build'')
       else if \<not> succeeds mc (d_status x) (push_argv (imageRef registry slug dep)) then failed_build dep (ErrOther ''push'')
       else finish_build dep (imageRef registry slug dep)) u = (r, v)"
proof -
  have "leaves_row dep (bs_emit dep ''info'' ''source ready'')" by (rule leaves_row_emit)
  from leaves_rowD [OF this surjective_pairing assms(2)] assms(3)
  have 1: "faults (snd (run_state (bs_emit dep ''info'' ''source ready'') w)) = []"
    "dep_row dep (db (snd (run_state (bs_emit dep ''info'' ''source ready'') w))) = Some x" by simp_all
  obtain b u where b: "run_state (Build registry mc files slug dep) (snd (run_state (bs_emit dep ''info'' ''source ready'') w)) = (b, u)"
    by (metis prod.collapse)
  note 2 = Build_leaves [OF b 1 assms(4)]
  have "run_state (case b of Inr img \<Rightarrow> finish_build dep img | Inl e \<Rightarrow> failed_build dep e) u = (r, v)"
    using assms(1) b by (simp add: build_source_def split: prod.splits)
  with 2 that show thesis by (auto split: if_splits)
qed

text \<open>C30. The outcome of a build nobody interferes with, when the database answers: the deployment becomes
  pushing with the image of its slug and id exactly when the build command and the push
  succeed; otherwise it is failed with the reason build, and keeps the image it had.\<close>

theorem build_outcome:
  assumes "faults w = []" and "dep_row dep (db w) = Some x" and "d_status x = Building" and "machine_leaves mc dep"
    and "run_state (build_source registry mc files slug dep) w = (r, v)"
  shows "\<exists>y. dep_row dep (db v) = Some y \<and>
    (if snd (mc_exec mc (build_argv (''Dockerfile'' \<in> set files) (imageRef registry slug dep) (src_dir mc dep))) \<and>
        snd (mc_exec mc (push_argv (imageRef registry slug dep)))
     then r = Inr () \<and> d_status y = Pushing \<and> d_image y = imageRef registry slug dep
     else (\<exists>e. r = Inl e) \<and> d_status y = Failed \<and> d_failure y = ''build'' \<and> d_image y = d_image x)"
proof -
  obtain u where u: "faults u = []" "dep_row dep (db u) = Some x"
    "run_state (if \<not> succeeds mc (d_status x) (build_command registry mc files slug dep) then failed_build dep (ErrOther ''build'')
       else if \<not> succeeds mc (d_status x) (push_argv (imageRef registry slug dep)) then failed_build dep (ErrOther ''push'')
       else finish_build dep (imageRef registry slug dep)) u = (r, v)"
    using build_source_run [OF assms(5,1,2,4)] .
  from u(3) assms(3) show ?thesis
    by (auto simp: succeeds_def split: if_splits dest!: failed_build_row [OF _ u(1,2)] finish_build_row [OF _ u(1,2)])
qed


definition demo_build :: deployment where
  "demo_build = queued_row ''d1'' 10"

text \<open>A machine on which \<open>docker build\<close> is polled once and succeeds, like every other command.\<close>

definition demo_machine :: machine where
  "demo_machine = \<lparr>mc_workdir = ''/w'', mc_mkdir_ok = (\<lambda>_. True), mc_create_ok = (\<lambda>_. True),
     mc_object = (\<lambda>_. Some []), mc_untar = (\<lambda>_. Some [''Dockerfile'']),
     mc_exec = (\<lambda>argv. (if take 2 argv = [''docker'', ''build''] then [Line ''step 1'', Poll] else [], True))\<rparr>"

definition build_world :: "dstatus \<Rightarrow> world" where
  "build_world st = sample_world\<lparr>db := sample_db\<lparr>deployments := [demo_build\<lparr>d_status := st\<rparr>]\<rparr>\<rparr>"

lemma demo_leaves: "machine_leaves demo_machine dep"
  by (auto simp: machine_leaves_def demo_machine_def split: if_splits)

lemma build_world_row: "faults (build_world st) = []" "dep_row ''d1'' (db (build_world st)) = Some (demo_build\<lparr>d_status := st\<rparr>)"
  by (simp_all add: build_world_def sample_world_def dep_row_def demo_build_def queued_row_def)

lemma build_outcome_witness:
  "\<exists>y. dep_row ''d1'' (db (snd (run_state (build_source ''reg'' demo_machine [''Dockerfile''] ''shop'' ''d1'') (build_world Building)))) = Some y
     \<and> d_status y = Pushing \<and> d_image y = imageRef ''reg'' ''shop'' ''d1''"
proof -
  have "d_status (demo_build\<lparr>d_status := Building\<rparr>) = Building" by simp
  from build_outcome [OF build_world_row this demo_leaves surjective_pairing, of "''reg''" "[''Dockerfile'']" "''shop''"]
  show ?thesis by (auto simp: demo_machine_def)
qed


end
