(* ===== verification/Startup_Laws.thy ===== *)
theory Startup_Laws
  imports Egress_Laws
begin

text \<open>
  What a start of the control plane does to what is there already (internal/store/store.go,
  cmd/control-plane/main.go): the migrations run again every time.
\<close>


section \<open>The rows after a start\<close>

lemma keeps_new_token: "keeps (\<lambda>w. projects (db w)) (CreateDeployToken ti)"
  unfolding CreateDeployToken_def insert_row_def
  by (rule keeps_call) (simp_all add: fresh_uuid_def Let_def)

lemma keeps_projects_start:
  "keeps (\<lambda>w. projects (db w)) (ensureBootstrapToken cr preset)"
  "keeps (\<lambda>w. projects (db w)) (load_settings pl c kek)"
  "keeps (\<lambda>w. projects (db w)) (EnsureBucket obj)"
proof -
  show "keeps (\<lambda>w. projects (db w)) (ensureBootstrapToken cr preset)"
    unfolding ensureBootstrapToken_def mint_admin_def GenerateToken_def
    by (auto intro!: keeps_intros keeps_rand_Read keeps_new_token simp: Let_def)
  show "keeps (\<lambda>w. projects (db w)) (load_settings pl c kek)"
    unfolding load_settings_def Reload_def set_kc_def RebuildJWTVerifier_def GetSystemConfig_def
    by (auto intro!: keeps_intros)
  show "keeps (\<lambda>w. projects (db w)) (EnsureBucket obj)"
    by (auto simp: EnsureBucket_def bucket_exists_def make_bucket_def svc_call_def case_prod_beta intro!: keeps_intros keeps_call)
qed

text \<open>After the migrations a start leaves the projects alone.\<close>

lemma keeps_boot: "keeps (\<lambda>w. projects (db w)) (boot pl c)"
  unfolding boot_def of_option_def by (intro keeps_intros keeps_projects_start)

lemma runServer_migrates:
  assumes "run_state (runServer pl) w = (Inr pc, w')" and "faults w = []"
    and "run_state (migrate_db (pl_files pl)) w = (Inr (), v)"
  shows "projects (db w') = projects (db v)"
proof -
  obtain c u where c: "run_state (load_config (LoadControlPlane (pl_env pl))) w = (Inr c, u)" "run_state (serve_config pl c) u = (Inr pc, w')"
    using assms(1) unfolding runServer_def by (rule run_attempt_Inr)
  then have u: "u = w" by (auto simp: load_config_def split: option.splits)
  obtain x t where t: "run_state (Open (pl_dsn_ok pl) (cp_DatabaseURL c)) u = (Inr x, t)"
      "run_state (attempt (migrate_db (pl_files pl)) (\<lambda>_. boot pl c)) t = (Inr pc, w')"
    using c(2) unfolding serve_config_def by (rule run_attempt_Inr)
  then have "t = w" using u assms(2) by (simp add: Open_def split: if_splits)
  with t(2) assms(3) have "run_state (boot pl c) v = (Inr pc, w')" by (simp add: attempt_def)
  from keeps_runD [OF keeps_boot this] show ?thesis .
qed

text \<open>C19. Every start of the control plane undoes settings of the projects: when no call fails, TLS
  is on again for every live project that had switched it off, and every live project with an
  allow-list of its own (no preset) is bound to the preset internal, so that its list no longer
  applies. Nothing else of a project changes, and tombstones stay as they are. (The files 0008
  and 0010 are not written to be run again, as the comment on \<open>Migrate\<close> says all files are.)\<close>

theorem start_resets_projects:
  assumes "run_state (runServer pl) w = (Inr pc, w')" and "faults w = []"
    and "pl_files pl ''/migrations'' = Some es" and "migration_dir es" and "ports_checked (db w)"
  shows "projects (db w') =
    map (\<lambda>p. if p_deleted p = None
             then p\<lparr>p_tls := True, p_preset := (if p_preset p = None then Some ''internal'' else p_preset p)\<rparr> else p)
      (projects (db w))"
proof -
  have "run_state (migrate_db (pl_files pl)) w = (Inr (), w\<lparr>db := migrated (now w) (db w)\<rparr>)"
    using Migrate_ok [where fs = "pl_files pl" and dir = "''/migrations''", OF assms(2-5)] by (simp add: migrate_db_def)
  from runServer_migrates [OF assms(1,2) this] show ?thesis
    by (simp add: migrated_def reset_project_def live_def)
qed

text \<open>Running the migrations a second time, from a directory listed in any other order and at any
  later time, succeeds and changes nothing: up to the order of listing and to repetition there
  is one result of migrating.\<close>

theorem migrations_settle:
  assumes "faults w = []" and "fs dir = Some es" and "migration_dir es" and "ports_checked (db w)"
    and "fs' dir' = Some es'" and "migration_dir es'"
  shows "\<exists>v. run_state (Migrate fs dir) w = (Inr (), v) \<and> run_state (Migrate fs' dir') w = (Inr (), v) \<and>
    run_state (Migrate fs' dir') (v\<lparr>now := t\<rparr>) = (Inr (), v\<lparr>now := t\<rparr>)"
proof -
  let ?v = "w\<lparr>db := migrated (now w) (db w)\<rparr>"
  have s: "seeded n l e t' (seeded n' l' e' s (seeded n l e t ps)) = seeded n' l' e' s (seeded n l e t ps)" for n l e t' n' l' e' s t ps
    by (auto simp: seeded_def)
  have "map reset_project (map reset_project ps) = map reset_project ps" for ps
    by (simp add: reset_project_def live_def)
  then have "migrated t (migrated (now w) (db w)) = migrated (now w) (db w)"
    by (simp add: migrated_def with_presets_def s seeded_twice)
  moreover have "ports_checked (migrated (now w) (db w))"
    using assms(4) by (simp add: ports_checked_def migrated_def with_presets_def)
  ultimately have "run_state (Migrate fs' dir') (?v\<lparr>now := t\<rparr>) = (Inr (), ?v\<lparr>now := t\<rparr>)"
    using Migrate_ok [where w = "?v\<lparr>now := t\<rparr>" and fs = fs' and dir = dir', OF _ assms(5,6)] assms(1) by simp
  then show ?thesis
    using Migrate_ok [where fs = fs and dir = dir, OF assms(1-4)] Migrate_ok [where fs = fs' and dir = dir', OF assms(1,5,6,4)]
    by blast
qed


section \<open>The process that is started\<close>

lemma runServer_process:
  assumes "run_state (runServer pl) w = (Inr pc, w')"
  obtains c kek obj where "LoadControlPlane (pl_env pl) = Some c" "LoadKEK (pl_crypto pl) (cp_KEKBase64 c) = Inr kek"
    "New (pl_minio pl) (cp_storage c) = Some obj" "pc = new_process pl c kek obj"
proof -
  obtain c u where c: "run_state (load_config (LoadControlPlane (pl_env pl))) w = (Inr c, u)" "run_state (serve_config pl c) u = (Inr pc, w')"
    using assms unfolding runServer_def by (rule run_attempt_Inr)
  obtain x t where t: "run_state (attempt (migrate_db (pl_files pl)) (\<lambda>_. boot pl c)) t = (Inr pc, w')"
    using c(2) unfolding serve_config_def by (rule run_attempt_Inr)
  obtain y v where b: "run_state (boot pl c) v = (Inr pc, w')" using t by (rule run_attempt_Inr)
  obtain kek where k: "LoadKEK (pl_crypto pl) (cp_KEKBase64 c) = Inr kek"
    using b by (cases "LoadKEK (pl_crypto pl) (cp_KEKBase64 c)") (simp_all add: boot_def split: prod.splits)
  obtain obj where o: "New (pl_minio pl) (cp_storage c) = Some obj"
    using b k by (cases "New (pl_minio pl) (cp_storage c)") (simp_all add: boot_def of_option_def attempt_def split: prod.splits)
  have "pc = new_process pl c kek obj" using b k o by (simp add: boot_def of_option_def attempt_def split: prod.splits)
  with c(1) k o that show thesis by (simp add: load_config_def split: option.splits)
qed

text \<open>The policy lets through what is granted, whatever the mode.\<close>

lemma granted_reachable:
  assumes "run_state (ensureEgressPolicy dc slug extra enforce) w = (Inr (), w')"
    and "dc_endpoints dc \<noteq> []" and "granted dc extra c q" and "in_cidr c v"
  shows "pod_egress w' slug (Addr v) TCP q"
proof -
  let ?m = "allowed_map dc extra"
  have "?m \<noteq> []" using assms(3) by (auto simp: allowed_map_Nil)
  with assms(2) obtain rules where r: "egress_rules_for dc extra enforce = Some rules"
    by (auto simp: egress_rules_for_def Let_def)
  with assms(1) have "run_state (k8s_apply (policy_key slug) (KNetworkPolicy rules)) w = (Inr (), w')"
    by (simp add: ensureEgressPolicy_def)
  from k8s_apply_cases [OF this] have o: "obj_get (policy_key slug) (objs w') = Some (KNetworkPolicy rules)" by auto
  have "egress_allowed (map (cidr_rule ?m) (sort (map fst ?m))) (Addr v) TCP q"
    using assms(3,4) by (auto simp: cidr_rules_allow in_map_allowed)
  then have "egress_allowed rules (Addr v) TCP q"
    using r by (auto simp: egress_rules_for_def Let_def egress_allowed_def split: if_splits)
  with o show ?thesis by (simp add: pod_egress_def)
qed

text \<open>C21. What the control plane hands to the apps they can reach: when a host and port is configured for
  Postgres, Redis or S3 (the hosts of DATABASE_URL, REDIS_URL and S3_ENDPOINT) or for uploads, and
  the host is an address, then every policy the started process writes lets the project's pods
  reach that address on that port, under enforce too and whatever rules the project has.\<close>

theorem configured_services_reachable:
  assumes "run_state (runServer pl) w = (Inr pc, w1)" and "sv_dep (pc_server pc) = Some dc"
    and "ep \<in> {sv_pg_host (pc_server pc), sv_redis_host (pc_server pc), sv_s3_host (pc_server pc), sv_s3_public (pc_server pc)}"
    and "SplitHostPort (TrimSpace ep) = Some (host, ps)" and "ParseIP host = Some ip" and "Atoi ps = Some q"
    and "1 \<le> q" and "q \<le> 65535" and "in_cidr (host_cidr host) v"
    and "run_state (ensureEgressPolicy dc slug extra enforce) w2 = (Inr (), w3)"
  shows "pod_egress w3 slug (Addr v) TCP q"
proof -
  obtain c kek obj where pc: "pc = new_process pl c kek obj" using runServer_process [OF assms(1)] by metis
  have "SplitHostPort (TrimSpace []) = None" by code_simp
  then have "ep \<noteq> []" using assms(4) by auto
  then have e: "ep \<in> set (dc_endpoints dc)" using assms(2,3)
    by (auto simp: pc new_process_def NewServer_def NewDeployer_def platformEndpoints_def split: if_splits)
  with assms(4-8) have "granted dc extra (host_cidr host) q" by (auto simp: granted_def endpoint_grants_def)
  moreover have "dc_endpoints dc \<noteq> []" using e by (cases "dc_endpoints dc") simp_all
  ultimately show ?thesis using granted_reachable [OF assms(10)] assms(9) by blast
qed


text \<open>A start without failures succeeds.\<close>

lemma run_boot:
  assumes "LoadKEK (pl_crypto pl) (cp_KEKBase64 c) = Inr kek" and "New (pl_minio pl) (cp_storage c) = Some obj"
  shows "\<exists>w'. run_state (boot pl c) w = (Inr (new_process pl c kek obj), w')"
  using assms by (simp add: boot_def of_option_def attempt_def split: prod.split)

lemma start_succeeds:
  assumes "faults w = []" and "LoadControlPlane (pl_env pl) = Some c" and "pl_dsn_ok pl (cp_DatabaseURL c)"
    and "pl_files pl ''/migrations'' = Some es" and "migration_dir es" and "ports_checked (db w)"
    and "LoadKEK (pl_crypto pl) (cp_KEKBase64 c) = Inr kek" and "New (pl_minio pl) (cp_storage c) = Some obj"
  obtains w' where "run_state (runServer pl) w = (Inr (new_process pl c kek obj), w')"
proof -
  have "run_state (migrate_db (pl_files pl)) w = (Inr (), w\<lparr>db := migrated (now w) (db w)\<rparr>)"
    using Migrate_ok [where fs = "pl_files pl" and dir = "''/migrations''", OF assms(1,4-6)] by (simp add: migrate_db_def)
  with assms run_boot [OF assms(7,8)] that show thesis
    by (auto simp: runServer_def load_config_def serve_config_def Open_def attempt_def split: prod.splits sum.splits)
qed


section \<open>A sample start\<close>

definition sample_env :: env_lib where
  "sample_env = \<lparr>ev_string = (\<lambda>name dflt req. Some (if name = ''CP_KEK_BASE64'' then sample_kek
       else if name = ''CP_USER_PG_PUBLIC_HOST'' then ''10.0.0.5:5432'' else case dflt of Some d \<Rightarrow> d | None \<Rightarrow> if req then ''x'' else [])),
     ev_bool = (\<lambda>name dflt req. Some False), ev_int = (\<lambda>name dflt req. Some 1)\<rparr>"

definition sample_files :: file_tree where
  "sample_files dir = (if dir = ''/migrations'' then Some (map as_file up_scripts) else None)"

definition sample_platform :: platform where
  "sample_platform = \<lparr>pl_env = sample_env, pl_dsn_ok = (\<lambda>_. True), pl_files = sample_files, pl_crypto = toy_crypto,
     pl_jwt = sv_jwt sample_server, pl_minio = sample_minio,
     pl_kube = \<lparr>kb_config = (\<lambda>_. True), kb_client = (\<lambda>_. True), kb_quantity = (\<lambda>_. True), kb_sha256 = (\<lambda>s. s)\<rparr>,
     pl_uuid = pc_uuid sample_process, pl_kubelet = pc_kubelet sample_process\<rparr>"

text \<open>The shop with an allow-list of its own and without TLS.\<close>

definition custom_shop :: project where
  "custom_shop = shop\<lparr>p_tls := False, p_preset := None, p_allow_cidrs := [''10.1.0.0/16'']\<rparr>"

definition custom_world :: world where
  "custom_world = sample_world\<lparr>db := sample_db\<lparr>projects := [custom_shop]\<rparr>\<rparr>"

lemma sample_dir: "migration_dir (map as_file up_scripts)"
proof -
  have "distinct (map fst up_scripts)" "\<forall>x \<in> set up_scripts. is_script (as_file x)" by code_simp+
  then show ?thesis by (auto simp: migration_dir_def as_file_def comp_def)
qed

definition sample_control :: control_plane where
  "sample_control = the (LoadControlPlane sample_env)"

lemma sample_loads: "LoadControlPlane sample_env = Some sample_control"
  unfolding sample_control_def by (simp add: LoadControlPlane_def sample_env_def)

lemma sample_control_fields:
  "cp_KEKBase64 sample_control = sample_kek" "cp_UserPGPublicHost sample_control = ''10.0.0.5:5432''"
  "cp_S3Endpoint sample_control = ''x''" "cp_S3PublicEndpoint sample_control = []"
  by (simp_all add: sample_control_def LoadControlPlane_def sample_env_def sample_kek_def)

definition sample_store :: storage_client where
  "sample_store = the (New sample_minio (cp_storage sample_control))"

lemma sample_opens:
  "pl_dsn_ok sample_platform (cp_DatabaseURL sample_control)" "pl_files sample_platform ''/migrations'' = Some (map as_file up_scripts)"
  "LoadControlPlane (pl_env sample_platform) = Some sample_control"
  "LoadKEK (pl_crypto sample_platform) (cp_KEKBase64 sample_control) = Inr sample_kek"
  "New (pl_minio sample_platform) (cp_storage sample_control) = Some sample_store"
proof -
  have "LoadKEK toy_crypto sample_kek = Inr sample_kek" by (simp add: LoadKEK_def toy_crypto_def sample_kek_def)
  then show "LoadKEK (pl_crypto sample_platform) (cp_KEKBase64 sample_control) = Inr sample_kek"
    by (simp add: sample_platform_def sample_control_fields)
  show "New (pl_minio sample_platform) (cp_storage sample_control) = Some sample_store"
    by (simp add: sample_platform_def sample_minio_def New_def minio_new_def cp_storage_def sample_control_fields sample_store_def)
qed (simp_all add: sample_platform_def sample_files_def sample_loads)

lemma sample_start:
  assumes "faults w = []" and "ports_checked (db w)"
  obtains w' where
    "run_state (runServer sample_platform) w = (Inr (new_process sample_platform sample_control sample_kek sample_store), w')"
  using start_succeeds [OF assms(1) sample_opens(3,1,2) sample_dir assms(2) sample_opens(4,5)] .

lemma custom_world_ok: "faults custom_world = []" "ports_checked (db custom_world)"
  by (simp_all add: ports_checked_def custom_world_def sample_world_def sample_db_def)

lemma start_resets_projects_witness:
  "\<exists>pc w'. run_state (runServer sample_platform) custom_world = (Inr pc, w') \<and>
     projects (db w') = [custom_shop\<lparr>p_tls := True, p_preset := Some ''internal''\<rparr>]"
proof -
  obtain pc w' where r: "run_state (runServer sample_platform) custom_world = (Inr pc, w')"
    using sample_start [OF custom_world_ok] by metis
  have "projects (db w') = [custom_shop\<lparr>p_tls := True, p_preset := Some ''internal''\<rparr>]"
    using start_resets_projects [OF r custom_world_ok(1) sample_opens(2) sample_dir custom_world_ok(2)] by (simp add: custom_world_def custom_shop_def shop_def new_project_def)
  with r show ?thesis by blast
qed

lemma migrations_settle_witness:
  "\<exists>v. run_state (Migrate sample_files ''/migrations'') custom_world = (Inr (), v) \<and>
     run_state (Migrate (\<lambda>_. Some (rev (map as_file up_scripts))) ''m'') (v\<lparr>now := 900\<rparr>) = (Inr (), v\<lparr>now := 900\<rparr>)"
proof -
  have "migration_dir (rev (map as_file up_scripts))" using sample_dir by (simp add: migration_dir_def flip: rev_map rev_filter)
  moreover have "sample_files ''/migrations'' = Some (map as_file up_scripts)" by (simp add: sample_files_def)
  ultimately show ?thesis
    using custom_world_ok migrations_settle [where fs' = "\<lambda>_. Some (rev (map as_file up_scripts))" and dir' = "''m''" and t = 900] sample_dir by blast
qed

lemma service_address: "in_cidr (host_cidr ''10.0.0.5'') (v4_base + 167772165)"
proof -
  have "dtoi ''32'' = Some 32" by (simp add: dtoi_def is_digit_def byte_def digits_val_def)
  from in_cidr_v4 [OF parse_v4(6) this] show ?thesis by (simp add: host_cidr_def mask_to_def)
qed

lemma configured_services_reachable_witness:
  "\<exists>pc w1 dc w3. run_state (runServer sample_platform) custom_world = (Inr pc, w1) \<and> sv_dep (pc_server pc) = Some dc \<and>
     run_state (ensureEgressPolicy dc ''shop'' [] True) cluster_world = (Inr (), w3) \<and> pod_egress w3 ''shop'' (Addr (v4_base + 167772165)) TCP 5432"
proof -
  let ?pc = "new_process sample_platform sample_control sample_kek sample_store"
  obtain w1 where r: "run_state (runServer sample_platform) custom_world = (Inr ?pc, w1)" using sample_start [OF custom_world_ok] .
  obtain dc where dc: "sv_dep (pc_server ?pc) = Some dc"
    by (simp add: new_process_def NewServer_def NewDeployer_def sample_platform_def)
  obtain w3 where w3: "run_state (ensureEgressPolicy dc ''shop'' [] True) cluster_world = (Inr (), w3)"
    using policed_apply by (cases "egress_rules_for dc [] True") (auto simp: ensureEgressPolicy_def)
  have "SplitHostPort (TrimSpace ''10.0.0.5:5432'') = Some (''10.0.0.5'', ''5432'')" "Atoi ''5432'' = Some 5432" by code_simp+
  moreover have "''10.0.0.5:5432'' \<in> {sv_pg_host (pc_server ?pc), sv_redis_host (pc_server ?pc), sv_s3_host (pc_server ?pc), sv_s3_public (pc_server ?pc)}"
    by (simp add: new_process_def NewServer_def sample_control_fields)
  moreover obtain ip where "ParseIP ''10.0.0.5'' = Some ip" by (simp add: ParseIP_def parse_v4)
  ultimately have "pod_egress w3 ''shop'' (Addr (v4_base + 167772165)) TCP 5432"
    using configured_services_reachable [OF r dc _ _ _ _ _ _ service_address w3] by simp
  with r dc w3 show ?thesis by blast
qed

text \<open>A platform that has just been installed: nothing in the database, and the first start.\<close>

definition installed :: world where
  "installed = sample_world\<lparr>db := empty_db\<rparr>"

lemma installed_ok: "faults installed = []" "ports_checked (db installed)" "db installed = empty_db"
  by (simp_all add: installed_def sample_world_def ports_checked_def empty_db_def)

lemma sample_repo: "repo_files (pl_files sample_platform)"
  by (auto simp: repo_files_def sample_platform_def sample_files_def as_file_def image_iff split: if_splits) force

end
