(* ===== verification/Provision_Laws.thy ===== *)
theory Provision_Laws
  imports Env_Laws Auth_Laws
begin

text \<open>
  What the provisioning of the apps' services guarantees (internal/provision, the provisioning
  part of internal/api/reconciler.go): projects do not touch each other's resources, the
  credentials handed out open exactly what was made for the project, and what is not repaired.
\<close>


section \<open>The resources of a project\<close>

text \<open>Everything on the shared services that carries a project's name: role, database and privileges, ACL user,
  bucket, S3 user, policy and attachments.\<close>

definition resources :: "string \<Rightarrow> services \<Rightarrow>
    string option \<times> string option \<times> (string \<times> string) list \<times> (string list \<times> string) option \<times> bool \<times> string option \<times> string option \<times> (string \<times> string) list" where
  "resources slug v =
     (map_of (pg_roles v) (dbIdentFor slug), map_of (pg_dbs v) (dbIdentFor slug),
      filter (\<lambda>g. fst g = dbIdentFor slug) (pg_grants v), map_of (redis_users v) (redisUserForSlug slug),
      s3IdentFor slug \<in> set (s3_buckets v), map_of (s3_users v) (s3IdentFor slug), map_of (s3_policies v) (policyName slug),
      filter (\<lambda>x. fst x = s3IdentFor slug) (s3_attached v))"

text \<open>An ARN pattern of a policy covers a resource: a final star stands for anything.\<close>

definition arn_covers :: "string \<Rightarrow> string \<Rightarrow> bool" where
  "arn_covers pat r = (if pat \<noteq> [] \<and> last pat = CHR ''*'' then HasPrefix r (butlast pat) else r = pat)"

lemma idents_differ:
  assumes "valid_slug s" and "valid_slug t" and "s \<noteq> t"
  shows "dbIdentFor s \<noteq> dbIdentFor t" "redisUserForSlug s \<noteq> redisUserForSlug t" "s3IdentFor s \<noteq> s3IdentFor t"
    "policyName s \<noteq> policyName t"
  using assms dbIdentFor_eq by (auto simp: redisUserForSlug_def s3IdentFor_def policyName_def)

text \<open>The calls of a provisioner leave another project's resources alone.\<close>

lemma keeps_resources_svc:
  assumes "\<And>v. resources t (snd (g v)) = resources t v"
  shows "keeps (\<lambda>w. resources t (svc w)) (svc_call g)"
  unfolding svc_call_def by (rule keeps_call) (simp_all add: case_prod_beta Let_def assms)

lemma keeps_calls:
  assumes "valid_slug s" and "valid_slug t" and "s \<noteq> t"
  shows "keeps (\<lambda>w. resources t (svc w)) ping" "keeps (\<lambda>w. resources t (svc w)) (randomPassword cr)"
    "keeps (\<lambda>w. resources t (svc w)) (pg_set_role (dbIdentFor s) pw)"
    "keeps (\<lambda>w. resources t (svc w)) (pg_set_owner (dbIdentFor s) u)"
    "keeps (\<lambda>w. resources t (svc w)) (pg_grant (dbIdentFor s) u)"
    "keeps (\<lambda>w. resources t (svc w)) (pg_terminate (dbIdentFor s))"
    "keeps (\<lambda>w. resources t (svc w)) (pg_drop_db (dbIdentFor s))"
    "keeps (\<lambda>w. resources t (svc w)) (pg_drop_role (dbIdentFor s))"
    "keeps (\<lambda>w. resources t (svc w)) (acl_setuser (redisUserForSlug s) pw pat)"
    "keeps (\<lambda>w. resources t (svc w)) (acl_deluser (redisUserForSlug s))"
    "keeps (\<lambda>w. resources t (svc w)) (make_bucket (s3IdentFor s))"
    "keeps (\<lambda>w. resources t (svc w)) (bucket_exists b)"
    "keeps (\<lambda>w. resources t (svc w)) (add_policy (policyName s) doc)"
    "keeps (\<lambda>w. resources t (svc w)) (add_user (s3IdentFor s) secret)"
    "keeps (\<lambda>w. resources t (svc w)) (attach_policy (s3IdentFor s) p)"
    "keeps (\<lambda>w. resources t (svc w)) (detach_policy (s3IdentFor s) p)"
    "keeps (\<lambda>w. resources t (svc w)) (remove_user (s3IdentFor s))"
    "keeps (\<lambda>w. resources t (svc w)) (remove_policy (policyName s))"
    "keeps (\<lambda>w. resources t (svc w)) (svc_call (\<lambda>v. (Inr (f v), v)))"
proof -
  note ne = idents_differ [OF assms] idents_differ [OF assms, THEN not_sym]
  note defs = ping_def pg_set_role_def pg_set_owner_def pg_grant_def pg_terminate_def pg_drop_db_def pg_drop_role_def acl_setuser_def acl_deluser_def
    make_bucket_def bucket_exists_def add_policy_def add_user_def attach_policy_def detach_policy_def remove_user_def remove_policy_def
  have f: "filter (\<lambda>x. x \<noteq> (s3IdentFor s, p) \<and> fst x = s3IdentFor t) xs = filter (\<lambda>x. fst x = s3IdentFor t) xs" for xs p
    by (rule filter_cong) (use ne in auto)
  have g: "filter (\<lambda>g. fst g \<noteq> dbIdentFor s \<and> fst g = dbIdentFor t) xs = filter (\<lambda>g. fst g = dbIdentFor t) xs" for xs :: "(string \<times> string) list"
    by (rule filter_cong) (use ne in auto)
  show "keeps (\<lambda>w. resources t (svc w)) (randomPassword cr)"
    unfolding randomPassword_def by (intro keeps_intros keeps_rand_Read) simp_all
  show "keeps (\<lambda>w. resources t (svc w)) ping"
    "keeps (\<lambda>w. resources t (svc w)) (pg_set_role (dbIdentFor s) pw)"
    "keeps (\<lambda>w. resources t (svc w)) (pg_set_owner (dbIdentFor s) u)"
    "keeps (\<lambda>w. resources t (svc w)) (pg_grant (dbIdentFor s) u)"
    "keeps (\<lambda>w. resources t (svc w)) (pg_terminate (dbIdentFor s))"
    "keeps (\<lambda>w. resources t (svc w)) (pg_drop_db (dbIdentFor s))"
    "keeps (\<lambda>w. resources t (svc w)) (pg_drop_role (dbIdentFor s))"
    "keeps (\<lambda>w. resources t (svc w)) (acl_setuser (redisUserForSlug s) pw pat)"
    "keeps (\<lambda>w. resources t (svc w)) (acl_deluser (redisUserForSlug s))"
    "keeps (\<lambda>w. resources t (svc w)) (make_bucket (s3IdentFor s))"
    "keeps (\<lambda>w. resources t (svc w)) (bucket_exists b)"
    "keeps (\<lambda>w. resources t (svc w)) (add_policy (policyName s) doc)"
    "keeps (\<lambda>w. resources t (svc w)) (add_user (s3IdentFor s) secret)"
    "keeps (\<lambda>w. resources t (svc w)) (attach_policy (s3IdentFor s) p)"
    "keeps (\<lambda>w. resources t (svc w)) (detach_policy (s3IdentFor s) p)"
    "keeps (\<lambda>w. resources t (svc w)) (remove_user (s3IdentFor s))"
    "keeps (\<lambda>w. resources t (svc w)) (remove_policy (policyName s))"
    "keeps (\<lambda>w. resources t (svc w)) (svc_call (\<lambda>v. (Inr (f v), v)))"
    unfolding defs
    by (rule keeps_resources_svc; simp add: resources_def map_of_assoc_put map_of_assoc_del ne f g List.insert_def Let_def)+
qed

lemma keeps_provisioners:
  assumes "valid_slug s" and "valid_slug t" and "s \<noteq> t"
  shows "keeps (\<lambda>w. resources t (svc w)) (pg_Provision sv s)" "keeps (\<lambda>w. resources t (svc w)) (pg_Deprovision sv s)"
    "keeps (\<lambda>w. resources t (svc w)) (redis_Provision sv s)" "keeps (\<lambda>w. resources t (svc w)) (redis_Deprovision sv s)"
    "keeps (\<lambda>w. resources t (svc w)) (s3_Provision sv s)" "keeps (\<lambda>w. resources t (svc w)) (s3_Deprovision sv s)"
proof -
  note k = keeps_calls [OF assms]
  have b: "keeps (\<lambda>w. resources t (svc w)) (ensure_bucket (s3IdentFor s))"
    unfolding ensure_bucket_def
    by (intro keeps_intros k)
  have a: "keeps (\<lambda>w. resources t (svc w)) (ensure_attached (s3IdentFor s) n)" for n
    unfolding ensure_attached_def by (intro keeps_intros k)
  show "keeps (\<lambda>w. resources t (svc w)) (pg_Provision sv s)" "keeps (\<lambda>w. resources t (svc w)) (pg_Deprovision sv s)"
    "keeps (\<lambda>w. resources t (svc w)) (redis_Provision sv s)" "keeps (\<lambda>w. resources t (svc w)) (redis_Deprovision sv s)"
    "keeps (\<lambda>w. resources t (svc w)) (s3_Provision sv s)" "keeps (\<lambda>w. resources t (svc w)) (s3_Deprovision sv s)"
    unfolding pg_Provision_def pg_Deprovision_def redis_Provision_def redis_Deprovision_def s3_Provision_def s3_Deprovision_def
      result_of_def
    by (intro keeps_intros k a b)+
qed

lemma arn_covers_resources:
  assumes "valid_slug s" and "p \<in> set (policy_resources (s3IdentFor s))" and "arn_covers p r"
  shows "\<exists>u. r = ''arn:aws:s3:::proj-'' @ s @ u \<and> (u = [] \<or> hd u = CHR ''/'')"
proof -
  have "\<not> slug_char (CHR ''*'')" by (simp add: slug_char_def is_alnum_def is_lower_def is_digit_def byte_def)
  then have l: "last s \<noteq> CHR ''*''" "s \<noteq> []"
    using valid_slug_ne [OF assms(1)] valid_slug_chars [OF assms(1) last_in_set] by auto
  consider "p = ''arn:aws:s3:::proj-'' @ s" | "p = (''arn:aws:s3:::proj-'' @ s @ ''/'') @ ''*''"
    using assms(2) by (auto simp: policy_resources_def s3IdentFor_def)
  then show ?thesis
  proof cases
    case 1
    with l assms(3) show ?thesis by (simp add: arn_covers_def)
  next
    case 2
    have "last p = CHR ''*''" "butlast p = ''arn:aws:s3:::proj-'' @ s @ ''/''" "p \<noteq> []"
      unfolding 2 by (simp_all only: last_appendR butlast_append) simp_all
    with assms(3) have "HasPrefix r (''arn:aws:s3:::proj-'' @ s @ ''/'')" by (simp add: arn_covers_def)
    then obtain v where "r = (''arn:aws:s3:::proj-'' @ s @ ''/'') @ v" unfolding HasPrefix_iff by blast
    then show ?thesis by (intro exI [of _ "''/'' @ v"]) simp
  qed
qed

lemma policies_apart:
  assumes "valid_slug s" and "valid_slug t" and "s \<noteq> t"
    and "p \<in> set (policy_resources (s3IdentFor s))" and "q \<in> set (policy_resources (s3IdentFor t))"
  shows "\<not> (arn_covers p r \<and> arn_covers q r)"
proof
  have sl: "CHR ''/'' \<notin> set s" "CHR ''/'' \<notin> set t" using assms(1,2) valid_slug_not_in by blast+
  assume "arn_covers p r \<and> arn_covers q r"
  then obtain u v where r: "r = ''arn:aws:s3:::proj-'' @ s @ u" "u = [] \<or> hd u = CHR ''/''"
      "r = ''arn:aws:s3:::proj-'' @ t @ v" "v = [] \<or> hd v = CHR ''/''"
    using arn_covers_resources [OF assms(1,4)] arn_covers_resources [OF assms(2,5)] by blast
  then have e: "s @ u = t @ v" by simp
  show False
  proof (cases u; cases v)
    assume "u = []" "v = []"
    with e assms(3) show False by simp
  next
    fix c u' assume "u = c # u'" "v = []"
    with e r(2) sl(2) show False by auto
  next
    fix c v' assume "u = []" "v = c # v'"
    with e r(4) sl(1) show False by auto
  next
    fix c u' d v' assume "u = c # u'" "v = d # v'"
    with e r(2,4) sep_append_inj [OF _ sl, of u' v'] assms(3) show False by simp
  qed
qed

text \<open>C22. Projects are kept apart on the shared services: whatever fails on the way, provisioning or
  deprovisioning Postgres, Redis or S3 for one project changes no role, database, ACL user, bucket,
  user, policy or attachment of another; no Redis key or channel matches the patterns of both; and
  no S3 resource is covered by the bucket policies of both.\<close>

theorem provisioning_isolated:
  assumes "valid_slug s" and "valid_slug t" and "s \<noteq> t"
  shows "resources t (svc (snd (run_state (pg_Provision sv s) w))) = resources t (svc w) \<and>
    resources t (svc (snd (run_state (pg_Deprovision sv s) w))) = resources t (svc w) \<and>
    resources t (svc (snd (run_state (redis_Provision sv s) w))) = resources t (svc w) \<and>
    resources t (svc (snd (run_state (redis_Deprovision sv s) w))) = resources t (svc w) \<and>
    resources t (svc (snd (run_state (s3_Provision sv s) w))) = resources t (svc w) \<and>
    resources t (svc (snd (run_state (s3_Deprovision sv s) w))) = resources t (svc w) \<and>
    \<not> (HasPrefix key (redisKeyPrefix s) \<and> HasPrefix key (redisKeyPrefix t)) \<and>
    \<not> ((\<exists>p \<in> set (policy_resources (s3IdentFor s)). arn_covers p r) \<and>
       (\<exists>p \<in> set (policy_resources (s3IdentFor t)). arn_covers p r))"
proof -
  note k = keeps_provisioners [OF assms, of sv, THEN keepsD, of w]
  have "\<not> (HasPrefix key (redisKeyPrefix s) \<and> HasPrefix key (redisKeyPrefix t))"
    using redis_prefix_eq [OF assms(1,2)] assms(3) by blast
  then show ?thesis using k policies_apart [OF assms] by blast
qed

lemma provisioning_isolated_witness:
  "valid_slug ''shop'' \<and> valid_slug ''shop-2'' \<and>
   resources ''shop-2'' (svc (snd (run_state (pg_Provision sample_server ''shop'') sample_world))) = resources ''shop-2'' (svc sample_world)"
proof -
  have "valid_slug ''shop''" "valid_slug ''shop-2''" by code_simp+
  with provisioning_isolated [OF this, of sample_server sample_world] show ?thesis by simp
qed


section \<open>The credentials handed out\<close>

lemma run_svc_call_Inr:
  assumes "run_state (svc_call g) w = (Inr x, v)"
  shows "fst (g (svc w)) = Inr x \<and> svc v = snd (g (svc w))"
  using assms by (auto simp: svc_call_def call_def Let_def split: list.splits if_splits prod.splits)

lemma run_password: "run_state (randomPassword cr) w = (Inr pw, v) \<Longrightarrow> svc v = svc w"
  using keepsD [of svc "randomPassword cr" w] by (auto simp: randomPassword_def intro!: keeps_intros)

lemma run_ping: "run_state ping w = (x, v) \<Longrightarrow> svc v = svc w"
  by (auto simp: ping_def svc_call_def call_def split: list.splits if_splits)

lemma run_bucket: "run_state (ensure_bucket b) w = (Inr x, v) \<Longrightarrow> b \<in> set (s3_buckets (svc v)) \<and> s3_users (svc v) = s3_users (svc w)
    \<and> s3_policies (svc v) = s3_policies (svc w) \<and> s3_attached (svc v) = s3_attached (svc w)"
  by (auto simp: ensure_bucket_def make_bucket_def bucket_exists_def svc_call_def call_def
      split: list.splits if_splits prod.splits sum.splits bool.splits)

lemma run_attached: "run_state (ensure_attached u n) w = (Inr x, v) \<Longrightarrow> (u, n) \<in> set (s3_attached (svc v)) \<and>
    s3_users (svc v) = s3_users (svc w) \<and> s3_policies (svc v) = s3_policies (svc w) \<and> s3_buckets (svc v) = s3_buckets (svc w)"
  by (auto simp: ensure_attached_def attach_policy_def already_attached_def svc_call_def call_def
      split: list.splits if_splits prod.splits sum.splits)

lemma pg_credentials:
  assumes "run_state (pg_Provision sv slug) w = (Inr url, w')"
  shows "\<exists>pw. url = pg_url sv slug pw \<and> map_of (pg_roles (svc w')) (dbIdentFor slug) = Some pw \<and>
    map_of (pg_dbs (svc w')) (dbIdentFor slug) = Some (dbIdentFor slug) \<and>
    (dbIdentFor slug, dbIdentFor slug) \<in> set (pg_grants (svc w'))"
  using assms
  unfolding pg_Provision_def pg_set_role_def pg_set_owner_def pg_grant_def ping_def
  by (auto split: if_splits elim!: run_attempt_Inr simp: map_of_assoc_put dest!: run_svc_call_Inr)

text \<open>Redis keeps the passwords an ACL user had before.\<close>

lemma redis_credentials:
  assumes "run_state (redis_Provision sv slug) w = (Inr c, w')"
  shows "\<exists>pw pws. rc_url c = ''redis://'' @ redisUserForSlug slug @ '':'' @ pw @ ''@'' @ sv_redis_host sv @ ''/0'' \<and>
    rc_prefix c = redisKeyPrefix slug \<and> pw \<in> set pws \<and>
    map_of (redis_users (svc w')) (redisUserForSlug slug) = Some (pws, redisKeyPrefix slug @ ''*'') \<and>
    (\<forall>old pat. map_of (redis_users (svc w)) (redisUserForSlug slug) = Some (old, pat) \<longrightarrow> set old \<subseteq> set pws)"
  using assms
  unfolding redis_Provision_def
  by (auto split: if_splits prod.splits option.splits elim!: run_attempt_Inr simp: map_of_assoc_put acl_setuser_def Let_def
      dest!: run_svc_call_Inr run_password run_ping)

lemma s3_credentials:
  assumes "run_state (s3_Provision sv slug) w = (Inr c, w')"
  shows "sc_key c = s3IdentFor slug \<and> sc_bucket c = s3IdentFor slug \<and> sc_endpoint c = sv_s3_host sv \<and>
    s3IdentFor slug \<in> set (s3_buckets (svc w')) \<and> map_of (s3_users (svc w')) (s3IdentFor slug) = Some (sc_secret c) \<and>
    map_of (s3_policies (svc w')) (policyName slug) = Some (bucket_policy (s3IdentFor slug)) \<and>
    (s3IdentFor slug, policyName slug) \<in> set (s3_attached (svc w'))"
  using assms
  unfolding s3_Provision_def add_policy_def add_user_def
  by (auto split: if_splits elim!: run_attempt_Inr simp: map_of_assoc_put dest!: run_svc_call_Inr run_password run_bucket run_attached)

text \<open>C23. The credentials that provisioning hands out are the ones it made: the database URL names a
  role with the password in it, which owns the project's database and has all privileges on it; the Redis URL names an ACL user
  that accepts the password in it and is confined to the project's keys; the S3 key names a user
  with the secret handed out, to whom the policy for the project's own, existing bucket is attached.\<close>

theorem provisioned_credentials_work:
  assumes "run_state (pg_Provision sv slug) w1 = (Inr url, w1')" and "run_state (redis_Provision sv slug) w2 = (Inr rc, w2')"
    and "run_state (s3_Provision sv slug) w3 = (Inr sc, w3')"
  shows "(\<exists>pw. url = ''postgres://'' @ dbIdentFor slug @ '':'' @ pw @ ''@'' @ sv_pg_host sv @ ''/'' @ dbIdentFor slug @ ''?sslmode=disable'' \<and>
      map_of (pg_roles (svc w1')) (dbIdentFor slug) = Some pw \<and>
      map_of (pg_dbs (svc w1')) (dbIdentFor slug) = Some (dbIdentFor slug) \<and>
      (dbIdentFor slug, dbIdentFor slug) \<in> set (pg_grants (svc w1'))) \<and>
    (\<exists>pw pws. rc_url rc = ''redis://'' @ redisUserForSlug slug @ '':'' @ pw @ ''@'' @ sv_redis_host sv @ ''/0'' \<and> pw \<in> set pws \<and>
      map_of (redis_users (svc w2')) (redisUserForSlug slug) = Some (pws, rc_prefix rc @ ''*'')) \<and>
    map_of (s3_users (svc w3')) (sc_key sc) = Some (sc_secret sc) \<and> sc_bucket sc \<in> set (s3_buckets (svc w3')) \<and>
    (\<exists>p. (sc_key sc, p) \<in> set (s3_attached (svc w3')) \<and> map_of (s3_policies (svc w3')) p = Some (bucket_policy (sc_bucket sc)))"
  using pg_credentials [OF assms(1)] redis_credentials [OF assms(2)] s3_credentials [OF assms(3)]
  by (auto simp: pg_url_def)


section \<open>The environment of a deployment\<close>

lemma run_or_code: "run_state (or_code c m) w = (Inr x, v) \<Longrightarrow> run_state m w = (Inr x, v)"
  by (auto simp: or_code_def split: prod.splits sum.splits)

lemma provision_mono:
  assumes "env0 k \<noteq> None"
  shows "run_state (provision_postgres sv p slug m env0) v = (Inr env1, v') \<Longrightarrow> env1 k \<noteq> None"
    "run_state (provision_redis sv p slug m env0) v = (Inr env1, v') \<Longrightarrow> env1 k \<noteq> None"
    "run_state (provision_s3 sv p slug m env0) v = (Inr env1, v') \<Longrightarrow> env1 k \<noteq> None"
    using assms by (auto simp: provision_postgres_def provision_redis_def provision_s3_def map_add_def
        elim!: run_attempt_Inr split: if_splits prod.splits option.split)

lemma provision_sets:
  "run_state (provision_postgres sv p slug m env0) v = (Inr env1, v') \<Longrightarrow> mf_postgres m \<and> pg_Enabled sv \<Longrightarrow> env1 ''DATABASE_URL'' \<noteq> None"
  "run_state (provision_redis sv p slug m env0) v = (Inr env1, v') \<Longrightarrow> mf_redis m \<and> redis_Enabled sv \<Longrightarrow> env1 ''REDIS_URL'' \<noteq> None"
  "run_state (provision_s3 sv p slug m env0) v = (Inr env1, v') \<Longrightarrow> (mf_s3 m \<or> mf_sqlite m) \<and> s3_Enabled sv \<Longrightarrow> env1 ''S3_ACCESS_KEY_ID'' \<noteq> None"
  by (auto simp: provision_postgres_def provision_redis_def provision_s3_def s3_vars_def elim!: run_attempt_Inr split: if_splits prod.splits)

lemma prepare_steps:
  assumes "run_state (prepare sv p) w = (Inr (slug, m, env), w')"
  obtains env0 env1 env2 env3 v0 v1 v2 v3 where "env_rows (db v0) = env_rows (db w)"
    "run_state (GetProjectEnv (sv_crypto sv) (sv_kek sv) (pd_project p)) v0 = (Inr env0, v1)"
    "run_state (provision_postgres sv p slug m env0) v1 = (Inr env1, v2)"
    "run_state (provision_redis sv p slug m env1) v2 = (Inr env2, v3)"
    "run_state (provision_s3 sv p slug m env2) v3 = (Inr env3, w')"
    "env = merge_env (manifest_env m) env3"
proof -
  have "keeps db (slugFor pid)" for pid unfolding slugFor_def by (intro keeps_intros) simp_all
  then have k: "run_state (slugFor pid) w = (r, v) \<Longrightarrow> env_rows (db v) = env_rows (db w)" for pid r v
    by (metis keeps_runD)
  show thesis using assms that unfolding prepare_def
    by (auto split: prod.splits if_splits elim!: run_attempt_Inr dest!: run_or_code dest: k)
qed



text \<open>What a provisioner may set.\<close>

lemma s3_names: "fst ` set (s3_vars c) = set [''S3_ENDPOINT'', ''S3_REGION'', ''S3_ACCESS_KEY_ID'', ''S3_SECRET_ACCESS_KEY'', ''S3_BUCKET'', ''S3_USE_SSL'']"
  by (simp add: s3_vars_def)

lemma map_add_other: "k \<notin> fst ` set kvs \<Longrightarrow> (m ++ map_of kvs) k = m k"
  by (simp add: map_add_dom_app_simps(3) dom_map_of_conv_image_fst)

lemma provision_frame:
  "run_state (provision_postgres sv p slug m env0) v = (Inr env1, v') \<Longrightarrow> k \<noteq> ''DATABASE_URL'' \<Longrightarrow> env1 k = env0 k"
  "run_state (provision_redis sv p slug m env0) v = (Inr env1, v') \<Longrightarrow>
     env0 ''REDIS_URL'' \<noteq> None \<or> k \<noteq> ''REDIS_URL'' \<and> k \<noteq> ''REDIS_KEY_PREFIX'' \<Longrightarrow> env1 k = env0 k"
  "run_state (provision_s3 sv p slug m env0) v = (Inr env1, v') \<Longrightarrow> env0 ''S3_ACCESS_KEY_ID'' \<noteq> None \<Longrightarrow> env1 = env0"
  "run_state (provision_s3 sv p slug m env0) v = (Inr env1, v') \<Longrightarrow> \<forall>c. k \<notin> fst ` set (s3_vars c) \<Longrightarrow> env1 k = env0 k"
  by (auto simp: provision_postgres_def provision_redis_def provision_s3_def map_add_other
      elim!: run_attempt_Inr split: if_splits prod.splits)

text \<open>C25. A half-stored set of credentials is never completed: when the Redis URL is in the environment
  of the project but its key prefix is not, or the S3 access key is but another of the S3
  variables is not (storing it had failed), the next deployment succeeds and goes out without
  the missing variable, unless the manifest has one.\<close>

theorem half_stored_credentials_stay:
  assumes "run_state (prepare sv p) w = (Inr (slug, m, env), w')"
    and "decrypt_rows (sv_crypto sv) (sv_kek sv) (pd_project p) (filter (\<lambda>r. ev_project r = pd_project p) (env_rows (db w))) (\<lambda>_. None) = Inr stored"
    and "stored ''REDIS_URL'' \<noteq> None \<and> k = ''REDIS_KEY_PREFIX'' \<or>
      stored ''S3_ACCESS_KEY_ID'' \<noteq> None \<and> k \<in> {''S3_ENDPOINT'', ''S3_REGION'', ''S3_SECRET_ACCESS_KEY'', ''S3_BUCKET'', ''S3_USE_SSL''}"
    and "stored k = None" and "manifest_env m k = None"
  shows "env k = None"
proof -
  obtain env0 env1 env2 env3 v0 v1 v2 v3 where v0: "env_rows (db v0) = env_rows (db w)"
    "run_state (GetProjectEnv (sv_crypto sv) (sv_kek sv) (pd_project p)) v0 = (Inr env0, v1)"
    and s: "run_state (provision_postgres sv p slug m env0) v1 = (Inr env1, v2)"
    "run_state (provision_redis sv p slug m env1) v2 = (Inr env2, v3)"
    "run_state (provision_s3 sv p slug m env2) v3 = (Inr env3, w')"
    and e: "env = merge_env (manifest_env m) env3"
    using prepare_steps [OF assms(1)] by metis
  obtain rows u where r: "run_state (query (\<lambda>d. filter (\<lambda>r. ev_project r = pd_project p) (env_rows d))) v0 = (Inr rows, u)"
      "decrypt_rows (sv_crypto sv) (sv_kek sv) (pd_project p) rows (\<lambda>_. None) = Inr env0"
    using v0(2) unfolding GetProjectEnv_def by (rule run_attempt_Inr) simp
  from query_Inr [OF r(1)] v0(1) r(2) assms(2) have env0: "env0 = stored" by simp
  have "k \<noteq> ''DATABASE_URL''" using assms(3) by auto
  note 1 = provision_frame(1) [OF s(1) this] provision_frame(1) [OF s(1), of "''REDIS_URL''"]
    provision_frame(1) [OF s(1), of "''S3_ACCESS_KEY_ID''"]
  have "env3 k = None"
  proof (cases "k = ''REDIS_KEY_PREFIX''")
    case True
    then have "env2 k = env1 k" using assms(3) 1 by (intro provision_frame(2) [OF s(2)]) (simp add: env0)
    moreover have "env3 k = env2 k" unfolding True by (rule provision_frame(4) [OF s(3)]) (simp add: s3_names)
    ultimately show ?thesis using 1(1) assms(4) by (simp add: env0)
  next
    case False
    with assms(3) have k: "stored ''S3_ACCESS_KEY_ID'' \<noteq> None" "k \<noteq> ''REDIS_URL''" by auto
    have "env2 k = env1 k" using False k(2) by (intro provision_frame(2) [OF s(2)]) simp
    moreover have "env2 ''S3_ACCESS_KEY_ID'' = env1 ''S3_ACCESS_KEY_ID''" by (rule provision_frame(2) [OF s(2)]) simp
    ultimately show ?thesis using provision_frame(3) [OF s(3)] 1 k(1) assms(4) by (simp add: env0)
  qed
  then show ?thesis using assms(5) by (simp add: e merge_env_def map_add_def)
qed


section \<open>The properties at a sample\<close>

definition service_server :: server where
  "service_server = sample_server\<lparr>sv_pg_admin := ''pg'', sv_pg_host := ''10.0.0.5:5432'', sv_redis_admin := ''rd'',
     sv_redis_host := ''10.0.0.5:6379'', sv_s3_endpoint := ''s3'', sv_s3_key := ''k'', sv_s3_secret := ''s'', sv_s3_host := ''10.0.0.5:9000''\<rparr>"

lemma services_enabled: "pg_Enabled service_server" "redis_Enabled service_server" "s3_Enabled service_server"
  by (simp_all add: pg_Enabled_def redis_Enabled_def s3_Enabled_def service_server_def)

lemmas service_defs = randomPassword_def rand_Read_def rand_bytes_def ping_def svc_call_def pg_set_role_def pg_set_owner_def pg_grant_def
  acl_setuser_def ensure_bucket_def make_bucket_def bucket_exists_def add_policy_def add_user_def ensure_attached_def attach_policy_def

lemma sample_provisions:
  "\<exists>url w. run_state (pg_Provision service_server ''shop'') sample_world = (Inr url, w)"
  "\<exists>c w. run_state (redis_Provision service_server ''shop'') sample_world = (Inr c, w)"
  "\<exists>c w. run_state (s3_Provision service_server ''shop'') sample_world = (Inr c, w)"
  by (simp_all add: pg_Provision_def redis_Provision_def s3_Provision_def services_enabled service_defs run_attempt sample_world_def
      map_of_assoc_put Let_def)

lemma provisioned_credentials_work_witness:
  "\<exists>sc w3. run_state (s3_Provision service_server ''shop'') sample_world = (Inr sc, w3) \<and>
     map_of (s3_users (svc w3)) (sc_key sc) = Some (sc_secret sc)"
proof -
  obtain url w1 rc w2 sc w3 where r: "run_state (pg_Provision service_server ''shop'') sample_world = (Inr url, w1)"
    "run_state (redis_Provision service_server ''shop'') sample_world = (Inr rc, w2)"
    "run_state (s3_Provision service_server ''shop'') sample_world = (Inr sc, w3)"
    using sample_provisions by blast
  from provisioned_credentials_work [OF r] r(3) show ?thesis by blast
qed

definition needs_s3 :: json where
  "needs_s3 = JObj [(''needs'', JObj [(''s3'', JBool True)])]"

definition s3_deploy :: pending_deploy where
  "s3_deploy = \<lparr>pd_id = ''d1'', pd_project = ''p1'', pd_status = Pushing, pd_image = ''i'', pd_manifest = needs_s3\<rparr>"

text \<open>The access key is stored, the secret is not.\<close>

definition half_row :: env_row where
  "half_row = \<lparr>ev_project = ''p1'', ev_key = ''S3_ACCESS_KEY_ID'',
     ev_ct = replicate 12 (CHR ''n'') @ cr_seal toy_crypto sample_kek [] ''proj-shop'' (EnvAAD ''p1'' ''S3_ACCESS_KEY_ID''),
     ev_system = True, ev_updated = 0, ev_by = None\<rparr>"

definition half_world :: world where
  "half_world = sample_world\<lparr>db := sample_db\<lparr>env_rows := [half_row]\<rparr>\<rparr>"

lemma half_decrypts: "decrypt_rows toy_crypto sample_kek ''p1'' [half_row] (\<lambda>_. None) = Inr [''S3_ACCESS_KEY_ID'' \<mapsto> ''proj-shop'']"
  using sealed_opens [OF toy_crypto_ok, of "replicate 12 (CHR ''n'')" sample_kek sample_kek "''proj-shop''"
      "EnvAAD ''p1'' ''S3_ACCESS_KEY_ID''" "EnvAAD ''p1'' ''S3_ACCESS_KEY_ID''" "''proj-shop''"]
  by (simp add: half_row_def toy_seal_nonce [of _ "replicate 12 (CHR ''n'')" _ _ "[]"])

definition s3_manifest :: manifest where
  "s3_manifest = fst (decode_manifest needs_s3)"

lemma needs_s3_manifest: "decode_manifest needs_s3 = (s3_manifest, False)" "mf_s3 s3_manifest" "\<not> mf_postgres s3_manifest"
  "\<not> mf_redis s3_manifest" "mf_env s3_manifest = []"
proof -
  have "\<not> snd (decode_manifest needs_s3)" by code_simp
  then show "decode_manifest needs_s3 = (s3_manifest, False)" by (simp add: s3_manifest_def prod_eq_iff)
qed code_simp+

lemma half_prepared:
  obtains env w' where "run_state (prepare service_server s3_deploy) half_world = (Inr (''shop'', s3_manifest, env), w')"
proof -
  have f: "faults half_world = []" by (simp add: half_world_def sample_world_def)
  have "run_state (slugFor ''p1'') half_world = (Inr ''shop'', half_world)"
    by (simp add: slugFor_def query_row_def f run_attempt) (simp add: half_world_def sample_db_def shop_def new_project_def live_def)
  moreover have "run_state (GetProjectEnv toy_crypto sample_kek ''p1'') half_world = (Inr [''S3_ACCESS_KEY_ID'' \<mapsto> ''proj-shop''], half_world)"
  proof -
    have "filter (\<lambda>r. ev_project r = ''p1'') (env_rows (db half_world)) = [half_row]" by (simp add: half_world_def half_row_def)
    then show ?thesis by (simp add: GetProjectEnv_def f run_attempt half_decrypts del: decrypt_rows.simps)
  qed
  moreover have "sv_crypto service_server = toy_crypto" "sv_kek service_server = sample_kek"
    by (simp_all add: service_server_def sample_server_def)
  ultimately show thesis using that
    by (simp add: prepare_def s3_deploy_def needs_s3_manifest run_attempt or_code_def provision_postgres_def provision_redis_def provision_s3_def)
qed


lemma half_stored_credentials_stay_witness:
  "\<exists>env w'. run_state (prepare service_server s3_deploy) half_world = (Inr (''shop'', s3_manifest, env), w') \<and>
     env ''S3_SECRET_ACCESS_KEY'' = None"
proof -
  obtain env w' where r: "run_state (prepare service_server s3_deploy) half_world = (Inr (''shop'', s3_manifest, env), w')"
    by (rule half_prepared)
  have "filter (\<lambda>r. ev_project r = pd_project s3_deploy) (env_rows (db half_world)) = [half_row]"
    by (simp add: half_world_def half_row_def s3_deploy_def)
  with half_decrypts have "decrypt_rows (sv_crypto service_server) (sv_kek service_server) (pd_project s3_deploy)
      (filter (\<lambda>r. ev_project r = pd_project s3_deploy) (env_rows (db half_world))) (\<lambda>_. None) = Inr [''S3_ACCESS_KEY_ID'' \<mapsto> ''proj-shop'']"
    by (simp add: service_server_def sample_server_def s3_deploy_def del: decrypt_rows.simps)
  from half_stored_credentials_stay [OF r this, of "''S3_SECRET_ACCESS_KEY''"] needs_s3_manifest(5) r show ?thesis
    by (auto simp: manifest_env_def)
qed

end
