(* ===== verification/Pipeline.thy ===== *)
theory Pipeline
  imports Build_Laws Provision_Laws
begin

text \<open>
  The way of a deployment from the queue to the running app, through the build service, the
  reconciler and the cluster: each component does its part when nothing fails, and what one
  leaves is what the next one picks up.
\<close>


section \<open>What a step leaves alone\<close>

abbreviation tables :: "world \<Rightarrow> deployment list \<times> project list \<times> env_row list" where
  "tables w \<equiv> (deployments (db w), projects (db w), env_rows (db w))"

text \<open>A program is \<open>still\<close> when it keeps a world without failures free of them, and these tables.\<close>

definition still :: "'a prog \<Rightarrow> bool" where
  "still m \<longleftrightarrow> calm m \<and> keeps tables m"

lemma still_run:
  assumes "still m" and "run_state m w = (r, v)" and "faults w = []"
  shows "faults v = []" and "tables v = tables w"
  using assms(1) calm_run [OF _ assms(2,3)] keeps_runD [of tables, OF _ assms(2)] unfolding still_def by auto

lemma run_unit:
  obtains v where "run_state (m :: unit prog) w = ((), v)"
  by (cases "run_state m w") simp

named_theorems still_intros \<open>programs that leave the tables\<close>

lemma still_return [still_intros]: "still (State_Monad.return x)"
  by (simp add: still_def calm_return keeps_return)

lemma still_bind [still_intros]: "still m \<Longrightarrow> (\<And>x. still (g x)) \<Longrightarrow> still (State_Monad.bind m g)"
  by (simp add: still_def calm_bind keeps_bind)

lemma still_if [still_intros]: "still m \<Longrightarrow> still n \<Longrightarrow> still (if b then m else n)"
  by simp

lemma still_case_sum [still_intros]: "(\<And>x. still (m x)) \<Longrightarrow> (\<And>y. still (n y)) \<Longrightarrow> still (case r of Inl x \<Rightarrow> m x | Inr y \<Rightarrow> n y)"
  by (simp split: sum.split)

lemma still_attempt [still_intros]: "still m \<Longrightarrow> (\<And>x. still (g x)) \<Longrightarrow> still (attempt m g)"
  by (simp add: attempt_def still_intros)

lemma still_event [still_intros]: "still (AppendEvent dep phase level msg)"
  by (auto simp: still_def AppendEvent_def Let_def intro!: calm_intros keeps_intros)

lemma still_emit [still_intros]: "still (emit dep level msg)" "still (bs_emit dep level msg)" "still (publish dep)"
  by (auto simp: emit_def bs_emit_def publish_def still_def[of "State_Monad.update _"]
      intro!: still_intros calm_update keeps_update)

lemma still_query [still_intros]: "still (query f)" "still (query_row g)"
  by (auto simp: still_def intro!: calm_intros keeps_intros)

lemma still_config: "still (egressConfigForProject sv pid)"
  unfolding egressConfigForProject_def egressAllowsForProject_def ListProjectEgressRules_def GetProjectEgressMode_def
  by (intro still_intros)


lemma still_leaves: "still m \<Longrightarrow> leaves_row dep m"
  using still_run [of m, OF _ surjective_pairing] by (simp add: leaves_row_def dep_row_def)

lemma still_stream:
  assumes "\<And>argv m. Others m \<notin> set (fst (mc_exec mc argv))"
  shows "still (runStream mc dep argv)"
proof -
  have s: "still (status_now dep)" unfolding status_now_def by (intro still_intros)
  have "still (run_ticks dep ts)" if "\<And>m. Others m \<notin> set ts" for ts
    using that by (induction ts) (auto split: tick.split intro!: still_intros s)
  with assms show ?thesis unfolding runStream_def by (intro still_intros) blast
qed

lemma still_Build:
  assumes "\<And>argv m. Others m \<notin> set (fst (mc_exec mc argv))"
  shows "still (Build registry mc files slug dep)"
  unfolding Build_def Let_def by (intro still_intros still_stream assms)


section \<open>The build\<close>

text \<open>Nobody interferes with the machine, the source is there, and every command succeeds.\<close>

definition builds :: "machine \<Rightarrow> deployment \<Rightarrow> bool" where
  "builds mc x \<longleftrightarrow> (\<forall>argv m. Others m \<notin> set (fst (mc_exec mc argv))) \<and> (\<forall>argv. snd (mc_exec mc argv)) \<and>
     mc_mkdir_ok mc (work_dir mc (d_id x)) \<and> downloadAndExtract mc (d_source_key x) (d_id x) \<noteq> None"

text \<open>An edit of deployments that keeps what identifies them.\<close>

definition same_deployment :: "(deployment \<Rightarrow> deployment) \<Rightarrow> bool" where
  "same_deployment g \<longleftrightarrow> (\<forall>y. d_id (g y) = d_id y \<and> d_project (g y) = d_project y \<and> d_manifest (g y) = d_manifest y)"

lemma same_deploymentD: "same_deployment g \<Longrightarrow> d_id (g y) = d_id y \<and> d_project (g y) = d_project y \<and> d_manifest (g y) = d_manifest y"
  by (simp add: same_deployment_def)

lemma update_twice:
  "same_deployment f \<Longrightarrow> update_rows (\<lambda>y. d_id y = i) g (update_rows (\<lambda>y. d_id y = i) f t) = update_rows (\<lambda>y. d_id y = i) (g \<circ> f) t"
  by (induction t) (auto simp: same_deployment_def)

lemma update_guard:
  "(\<And>y. d_id y = i \<Longrightarrow> y \<in> set t \<Longrightarrow> c y) \<Longrightarrow> update_rows (\<lambda>y. d_id y = i \<and> c y) g t = update_rows (\<lambda>y. d_id y = i) g t"
  by (induction t) auto

lemma finish_build_run:
  assumes "run_state (finish_build i img) w = (r, v)" and "faults w = []"
    and "\<forall>y \<in> set (deployments (db w)). d_id y = i \<longrightarrow> d_status y = Building"
  obtains g where "r = Inr ()" "faults v = []" "same_deployment g" "\<forall>y. d_status (g y) = Pushing \<and> d_image (g y) = img"
    "tables v = (update_rows (\<lambda>y. d_id y = i) g (deployments (db w)), projects (db w), env_rows (db w))"
proof -
  let ?e1 = "bs_emit i ''info'' (''image pushed: '' @ img)"
  obtain w1 where 1: "run_state ?e1 w = ((), w1)" by (cases "run_state ?e1 w") simp
  note k1 = still_run [OF still_emit(2) 1 assms(2)]
  let ?img = "\<lambda>x. x\<lparr>d_image := img\<rparr>" and ?adv = "\<lambda>x. x\<lparr>d_status := Pushing, d_build_done := build_done_stamp (now w1) Pushing x\<rparr>"
  let ?w2 = "w1\<lparr>db := (db w1)\<lparr>deployments := update_rows (\<lambda>x. d_id x = i) ?img (deployments (db w1))\<rparr>\<rparr>"
  let ?w3 = "?w2\<lparr>db := (db ?w2)\<lparr>deployments := update_rows (\<lambda>x. d_id x = i \<and> d_status x = Building) ?adv (deployments (db ?w2))\<rparr>\<rparr>"
  have 2: "run_state (SetDeploymentImage i img) w1 = (Inr (), ?w2)"
    using k1 by (simp add: SetDeploymentImage_def update_deployments_def)
  obtain b where 3: "run_state (TryAdvanceDeploymentStatus i Building Pushing) ?w2 = (Inr b, ?w3)"
    using k1 by (simp add: TryAdvanceDeploymentStatus_def statement_def)
  let ?e2 = "bs_emit i ''info'' (if b then ''handed off to control-plane for deploy''
            else ''build finished but deployment already moved on; skipping handoff'')"
  have rv: "r = Inr ()" "run_state ?e2 ?w3 = ((), v)"
    using assms(1) 1 2 3 by (auto simp: finish_build_def run_attempt split: prod.splits)
  have f: "faults ?w3 = []" using k1 by simp
  have "update_rows (\<lambda>x. d_id x = i \<and> d_status x = Building) ?adv (deployments (db ?w2)) = update_rows (\<lambda>x. d_id x = i) ?adv (deployments (db ?w2))"
  proof (rule update_guard)
    fix y assume y: "y \<in> set (deployments (db ?w2))" and "d_id y = i"
    have "deployments (db w1) = deployments (db w)" using k1(2) by simp
    then have "y \<in> set (update_rows (\<lambda>x. d_id x = i) ?img (deployments (db w)))" using y by simp
    then have "y \<in> (\<lambda>z. if d_id z = i then ?img z else z) ` set (deployments (db w))" unfolding set_update_rows .
    then obtain z where z: "y = (if d_id z = i then ?img z else z)" "z \<in> set (deployments (db w))" by (rule imageE)
    with \<open>d_id y = i\<close> have "d_id z = i" by (simp split: if_splits)
    with z assms(3) show "d_status y = Building" by simp
  qed
  also have "\<dots> = update_rows (\<lambda>x. d_id x = i) (?adv \<circ> ?img) (deployments (db w))"
    using k1 by (simp add: update_twice same_deployment_def)
  finally have ds: "deployments (db ?w3) = update_rows (\<lambda>x. d_id x = i) (?adv \<circ> ?img) (deployments (db w))" by simp
  note k3 = still_run [OF still_emit(2) rv(2) f]
  show thesis
  proof (rule that [of "?adv \<circ> ?img", OF rv(1) k3(1)])
    show "tables v = (update_rows (\<lambda>y. d_id y = i) (?adv \<circ> ?img) (deployments (db w)), projects (db w), env_rows (db w))"
      using k3(2) ds k1(2) by simp
  qed (simp_all add: same_deployment_def)
qed


lemma next_queued_row: "next_queued ds = Some x \<Longrightarrow> x \<in> set ds"
  using set_sort [of queue_key "filter (\<lambda>x. d_status x = Queued) ds"]
  by (cases "sort_key queue_key (filter (\<lambda>x. d_status x = Queued) ds)") (auto simp: next_queued_def simp del: set_sort)

lemma build_run:
  assumes "faults w = []" and "unique_by d_id (deployments (db w))" and "next_queued (deployments (db w)) = Some x"
    and "find_row (\<lambda>p. p_id p = d_project x) (projects (db w)) = Some p" and "builds mc x"
    and "run_state (claimAndRun registry mc) w = (r, v)"
  obtains g where "r = Inr ()" "faults v = []" "same_deployment g"
    "\<forall>y. d_status (g y) = Pushing \<and> d_image (g y) = imageRef registry (p_slug p) (d_id x)"
    "tables v = (update_rows (\<lambda>y. d_id y = d_id x) g (deployments (db w)), projects (db w), env_rows (db w))"
proof -
  let ?i = "d_id x" and ?f = "claim (now w)" and ?img = "imageRef registry (p_slug p) (d_id x)"
  let ?w1 = "w\<lparr>db := (db w)\<lparr>deployments := update_rows (\<lambda>y. d_id y = ?i) ?f (deployments (db w))\<rparr>\<rparr>"
  obtain q where q: "queue_of (deployments (db w)) = x # q"
    using assms(3) by (auto simp: next_queued_queue split: list.splits)
  have x: "x \<in> set (deployments (db w))" by (rule next_queued_row [OF assms(3)])
  have c: "run_state ClaimNextQueued w = (Inr (Some (?f x)), ?w1)" using q by (simp add: claim_run assms(1))
  have fx: "d_id (?f x) = ?i" "d_project (?f x) = d_project x" "d_source_key (?f x) = d_source_key x" "d_status (?f x) = Building"
    by (simp_all add: claim_def)
  from assms(5) have mc: "\<And>argv m. Others m \<notin> set (fst (mc_exec mc argv))" "\<And>argv. snd (mc_exec mc argv)"
    "mc_mkdir_ok mc (work_dir mc ?i)" by (simp_all add: builds_def)
  obtain files where files: "downloadAndExtract mc (d_source_key x) ?i = Some files" using assms(5) by (auto simp: builds_def)
  obtain w2 where 2: "run_state (bs_emit ?i ''info'' ''claimed by build-service'') ?w1 = ((), w2)" by (rule run_unit)
  have f1: "faults ?w1 = []" using assms(1) by simp
  note k2 = still_run [OF still_emit(2) 2 f1]
  then have t2: "faults w2 = []" "projects (db w2) = projects (db w)" by simp_all
  have l: "run_state (lookupSlug (d_project x)) w2 = (Inr (p_slug p), w2)"
    using t2 assms(4) by (simp add: lookupSlug_def)
  obtain w3 where 3: "run_state (bs_emit ?i ''info'' ''downloading source from object storage'') w2 = ((), w3)"
    by (rule run_unit)
  note k3 = still_run [OF still_emit(2) 3 k2(1)]
  obtain w4 where 4: "run_state (bs_emit ?i ''info'' ''source ready'') w3 = ((), w4)" by (rule run_unit)
  note k4 = still_run [OF still_emit(2) 4 k3(1)]
  obtain b w5 where 5: "run_state (Build registry mc files (p_slug p) ?i) w4 = (b, w5)" by (rule prod.exhaust)
  note k5 = still_run [OF still_Build [OF mc(1)] 5 k4(1)]
  have ds: "deployments (db w4) = update_rows (\<lambda>y. d_id y = ?i) ?f (deployments (db w))" using k2 k3 k4 by simp
  have "\<exists>y. dep_row ?i (db ?w1) = Some y \<and> d_status y = Building"
  proof -
    have "dep_row ?i (db ?w1) = map_option (\<lambda>y. if d_id y = ?i then ?f y else y) (dep_row ?i (db w))"
      by (simp add: dep_row_update claim_def)
    moreover obtain z where "dep_row ?i (db w) = Some z"
      using x by (cases "dep_row ?i (db w)") (auto simp: dep_row_def find_row_None)
    ultimately show ?thesis using dep_row_id [of ?i "db w" z] by (simp add: claim_def)
  qed
  then obtain y where y: "dep_row ?i (db w4) = Some y" "d_status y = Building"
    using ds by (auto simp: dep_row_def)
  have "b = Inr ?img"
    using Build_leaves [OF 5 k4(1) y(1)] mc(1,2) y(2) by (auto simp: machine_leaves_def succeeds_def)
  have bl: "\<forall>z \<in> set (deployments (db w5)). d_id z = ?i \<longrightarrow> d_status z = Building"
    using k5 ds by (auto simp: set_update_rows claim_def)
  have "run_state (finish_build ?i ?img) w5 = (r, v)"
    using assms(6) c 2 l 3 4 5 files mc(3) fx
    by (simp add: claimAndRun_def run_attempt run_build_def build_source_def Let_def \<open>b = Inr ?img\<close>)
  then obtain g where g: "r = Inr ()" "faults v = []" "same_deployment g" "\<forall>y. d_status (g y) = Pushing \<and> d_image (g y) = ?img"
    "tables v = (update_rows (\<lambda>y. d_id y = ?i) g (deployments (db w5)), projects (db w5), env_rows (db w5))"
    by (rule finish_build_run [OF _ k5(1) bl])
  have cl: "same_deployment ?f" by (simp add: same_deployment_def claim_def)
  show thesis
  proof (rule that [of "g \<circ> ?f", OF g(1,2)])
    show "same_deployment (g \<circ> ?f)" using g(3) cl by (simp add: same_deployment_def)
    show "tables v = (update_rows (\<lambda>y. d_id y = ?i) (g \<circ> ?f) (deployments (db w)), projects (db w), env_rows (db w))"
      using g(5) k2(2) k3(2) k4(2) k5(2) by (simp add: update_twice [OF cl])
  qed (use g(4) in simp)
qed



section \<open>The roll-out\<close>

lemma scheduling_ok: "faults w = [] \<Longrightarrow> \<exists>avoid. run_state (schedulingConstraints dc) w = (Inr avoid, w)"
  by (cases "dc_avoid_cp dc") (auto simp: schedulingConstraints_def hasSchedulableAgentNode_def)

text \<open>The workload of an app, running in the cluster with an image.\<close>

definition runs_image :: "deployer \<Rightarrow> string \<Rightarrow> string \<Rightarrow> objects \<Rightarrow> bool" where
  "runs_image dc slug img os = (case obj_get (deployment_key slug) os of
       Some (KDeployment wl) \<Rightarrow> (\<exists>ct \<in> set (wl_containers wl). ct_name ct = ''app'' \<and>
         ct_image ct = (if dc_registry dc \<noteq> [] then rewriteImageHost img (dc_registry dc) else img))
     | _ \<Rightarrow> False)"

lemma Apply_ok:
  assumes "faults w = []" and "\<not> bad_quantity dc m"
  obtains v where "run_state (Apply dc (deploy_input p slug m env allows enforce url)) w = (Inr (), v)"
    "runs_image dc slug (pd_image p) (objs v)"
proof -
  let ?ai = "deploy_input p slug m env allows enforce url"
  have s: "ai_slug ?ai = slug" by (simp add: deploy_input_def)
  obtain w1 w2 w3 where 1: "run_state (EnsureNamespace slug) w = (Inr (), w1)"
    "run_state (ensureEgressPolicy dc slug (ai_allows ?ai) (ai_enforce ?ai)) w1 = (Inr (), w2)"
    "run_state (applySecret slug (ai_env ?ai)) w2 = (Inr (), w3)" and w3: "faults w3 = []" "ns_there slug (objs w3)"
    by (rule apply_prefix [OF assms(1)])
  obtain avoid where a: "run_state (schedulingConstraints dc) w3 = (Inr avoid, w3)" using scheduling_ok [OF w3(1)] by blast
  let ?wl = "mk_workload dc ?ai avoid" and ?w4 = "\<lambda>wl. w3\<lparr>objs := obj_put (deployment_key slug) (KDeployment wl) (objs w3)\<rparr>"
  have ns: "has_namespace (k, namespaceFor slug, n) (objs w3)" if "k \<noteq> NamespaceK" for k n
    using w3(2) that by (simp add: has_namespace_def)
  have 2: "run_state (applyDeployment dc ?ai) w3 = (Inr (), ?w4 ?wl)"
    using assms(2) a k8s_apply_ok [OF w3(1) ns, of DeploymentK "''app''"]
    by (simp add: applyDeployment_def bad_quantity_def s deploy_input_def deployment_key_def run_attempt)
  have w4: "faults (?w4 ?wl) = []" "ns_there slug (objs (?w4 ?wl))" using w3 by (simp_all add: deployment_key_def)
  obtain w5 where 5: "run_state (applyService ?ai) (?w4 ?wl) = (Inr (), w5)" "faults w5 = []" "ns_there slug (objs w5)"
    using namespaced_apply_ok [OF w4, of _ ServiceK] unfolding applyService_def s by blast
  obtain v where v: "run_state (applyIngress dc ?ai) w5 = (Inr (), v)"
    using namespaced_apply_ok [OF 5(2,3), of "ingress_key slug" IngressK]
    unfolding applyIngress_def writeIngress_def writeIngressWithMiddlewareChain_def s ingress_key_def by blast
  have "objs w5 = obj_put (ServiceK, namespaceFor slug, ''app'') (KService \<lparr>sr_selector = appLabels slug, sr_port = 80, sr_target = ai_port ?ai\<rparr>)
      (objs (?w4 ?wl))"
    using k8s_apply_Inr [OF 5(1) [unfolded applyService_def s]] .
  moreover have "\<exists>x. objs v = obj_put (ingress_key slug) x (objs w5)"
    using k8s_apply_Inr [OF v [unfolded applyIngress_def writeIngress_def writeIngressWithMiddlewareChain_def s]] by blast
  ultimately have "obj_get (deployment_key slug) (objs v) = Some (KDeployment ?wl)"
    by (auto simp: deployment_key_def ingress_key_def)
  then have "runs_image dc slug (pd_image p) (objs v)"
    by (simp add: runs_image_def mk_workload_def app_container_def deploy_input_def)
  with that 1 2 5(1) v show thesis by (simp add: Apply_def s run_attempt)
qed


text \<open>What is written after the workload is no workload.\<close>

lemma image_apply: "fst k \<noteq> DeploymentK \<Longrightarrow> holds (runs_image dc slug img) (k8s_apply k v)"
  by (rule holds_apply) (auto simp: runs_image_def obj_get_put_if deployment_key_def)

lemma image_delete: "fst k \<noteq> DeploymentK \<Longrightarrow> holds (runs_image dc slug img) (k8s_delete k)"
  by (rule holds_delete) (auto simp: runs_image_def obj_get_del_if deployment_key_def)

lemma image_routes: "holds (runs_image dc slug img) (build_routes dc' s hosts base i rules routes wanted)"
proof (induction rules arbitrary: i routes wanted)
  case (Cons r rules)
  have "holds (runs_image dc slug img) (upsertAllowList ns n cs)" for ns n cs
    unfolding upsertAllowList_def by (rule image_apply) simp
  with Cons show ?case by (auto simp: Let_def intro!: holds_intros)
qed (simp add: holds_return)

lemma image_prune: "holds (runs_image dc slug img) (pruneRuleAllowLists ns kept)"
proof -
  have "holds (runs_image dc slug img) (delete_unkept ns kept names)" for names
  proof (induction ns kept names rule: delete_unkept.induct)
    case (2 ns kept name names)
    then show ?case by (auto intro!: holds_intros image_delete)
  qed (simp add: holds_return)
  moreover have "holds (runs_image dc slug img) (k8s_list f)" for f :: "objects \<Rightarrow> string list"
    by (rule holds_keeps) (auto simp: k8s_list_def intro!: keeps_call)
  ultimately show ?thesis unfolding pruneRuleAllowLists_def by (intro holds_intros)
qed

lemma image_sync: "holds (runs_image dc slug img) (SyncIngressHostnames dc' hi)"
proof -
  have "holds (runs_image dc slug img) (syncIPAllowList s cs)" for s cs
    unfolding syncIPAllowList_def Let_def
    by (intro holds_intros image_apply image_delete) (simp_all add: allow_list_key_def)
  moreover have "holds (runs_image dc slug img) (syncPathRuleIngressRoute dc' s hs rs tls b)" for s hs rs tls b
    unfolding syncPathRuleIngressRoute_def Let_def
    by (intro holds_intros image_apply image_delete image_routes image_prune) (simp_all add: route_key_def)
  ultimately show ?thesis
    unfolding SyncIngressHostnames_def writeIngressWithMiddlewareChain_def Let_def
    by (intro holds_intros image_apply) (simp_all add: ingress_key_def)
qed

lemma image_after_apply: "holds (runs_image dc slug img) (after_apply sv p)"
proof -
  have q: "holds P (query f)" "holds P (query_row g)" for P f g
    by (rule holds_keeps, intro keeps_intros; simp)+
  have e: "holds P (emit dep l m)" "holds P (publish dep)" for P dep l m
    by (auto simp: emit_def AppendEvent_def publish_def Let_def intro!: holds_keeps keeps_intros)
  have s: "holds (runs_image dc slug img) (syncIngressForProject sv pr)" for pr
    unfolding syncIngressForProject_def effectiveAllowCIDRs_def preset_cidrs_def GetCIDRPreset_def ListDomains_def ListProjectPathRules_def
    by (auto split: option.split intro!: holds_intros q image_sync)
  show ?thesis unfolding after_apply_def GetProjectByID_def by (intro holds_intros q e s)
qed


text \<open>The query of the tick when the built deployment is the only one being rolled out.\<close>

lemma filter_updated:
  assumes "distinct (map d_id ds)" and "x \<in> set ds" and "filter Q ds = []" and "Q (g x)"
  shows "filter Q (update_rows (\<lambda>y. d_id y = d_id x) g ds) = [g x]"
  using assms
proof (induction ds)
  case (Cons y ds)
  show ?case
  proof (cases "y = x")
    case True
    with Cons.prems(1) have "update_rows (\<lambda>y. d_id y = d_id x) g ds = ds" by (intro update_rows_id) (auto simp: image_iff)
    with True Cons.prems show ?thesis by (auto split: if_splits)
  next
    case False
    with Cons.prems have "d_id y \<noteq> d_id x" by (auto simp: image_iff)
    with False Cons show ?thesis by (auto split: if_splits)
  qed
qed simp

lemma todo_rolled:
  assumes "unique_by d_id (deployments d)" and "x \<in> set (deployments d)" and "todo d = []" and "same_deployment g"
    and "d_status (g x) \<in> {Pushing, Deploying}" and "project_live d (d_project x)"
    and "deployments e = update_rows (\<lambda>y. d_id y = d_id x) g (deployments d)" and "projects e = projects d"
  shows "todo e = [pending_of (g x)]"
proof -
  let ?Q = "\<lambda>x. d_status x \<in> {Pushing, Deploying} \<and> project_live d (d_project x)"
  have l: "project_live e = project_live d" by (simp add: project_live_def assms(8) fun_eq_iff)
  have "sort_key queue_key (filter ?Q (deployments d)) = []" using assms(3) by (simp add: todo_def)
  from arg_cong [OF this, of length] have "filter ?Q (deployments d) = []" by (simp only: length_sort list.size length_0_conv)
  moreover have "?Q (g x)" using assms(4-6) by (simp add: same_deployment_def)
  ultimately have "filter ?Q (deployments e) = [g x]"
    unfolding assms(7) using assms(1,2) by (intro filter_updated) (simp_all add: unique_by_def)
  then show ?thesis by (simp add: todo_def l)
qed

text \<open>Everything the manifest asks for is there already.\<close>

definition nothing_to_provision :: "server \<Rightarrow> manifest \<Rightarrow> (string \<Rightarrow> string option) \<Rightarrow> bool" where
  "nothing_to_provision sv m env \<longleftrightarrow>
     (mf_postgres m \<and> pg_Enabled sv \<longrightarrow> env ''DATABASE_URL'' \<noteq> None) \<and>
     (mf_redis m \<and> redis_Enabled sv \<longrightarrow> env ''REDIS_URL'' \<noteq> None) \<and>
     ((mf_s3 m \<or> mf_sqlite m) \<and> s3_Enabled sv \<longrightarrow> env ''S3_ACCESS_KEY_ID'' \<noteq> None)"

lemma prepare_run:
  assumes "faults w = []" and "find_row (\<lambda>p. p_id p = pd_project q \<and> live p) (projects (db w)) = Some p"
    and "decode_manifest (pd_manifest q) = (m, False)"
    and "fst (run_state (GetProjectEnv (sv_crypto sv) (sv_kek sv) (pd_project q)) w) = Inr env" and "nothing_to_provision sv m env"
  shows "run_state (prepare sv q) w = (Inr (p_slug p, m, merge_env (manifest_env m) env), w)"
proof -
  have s: "run_state (slugFor (pd_project q)) w = (Inr (p_slug p), w)" using assms(1,2) by (simp add: slugFor_def)
  have e: "run_state (GetProjectEnv (sv_crypto sv) (sv_kek sv) (pd_project q)) w = (Inr env, w)"
    using assms(1,4) by (simp add: GetProjectEnv_def run_attempt)
  have "provision_postgres sv q sl m env = ok env" "provision_redis sv q sl m env = ok env" "provision_s3 sv q sl m env = ok env" for sl
    using assms(5) by (auto simp: provision_postgres_def provision_redis_def provision_s3_def nothing_to_provision_def)
  with s e show ?thesis by (simp add: prepare_def assms(3) or_code_def run_attempt)
qed


text \<open>The status a deployment is marked with.\<close>

definition marked :: "int \<Rightarrow> dstatus \<Rightarrow> deployment \<Rightarrow> deployment" where
  "marked t st x = x\<lparr>d_status := st, d_failure := [], d_build_done := build_done_stamp t st x,
     d_deployed := (if st = Running \<and> d_deployed x = None then Some t else d_deployed x)\<rparr>"

lemma marked_same: "same_deployment (marked t st)" "d_image (marked t st x) = d_image x" "d_status (marked t st x) = st"
  by (simp_all add: same_deployment_def marked_def)

lemma mark_run: "faults w = [] \<Longrightarrow> run_state (MarkDeploymentStatus i st []) w =
    (Inr (), w\<lparr>db := (db w)\<lparr>deployments := update_rows (\<lambda>x. d_id x = i) (marked (now w) st) (deployments (db w))\<rparr>\<rparr>)"
  by (simp add: MarkDeploymentStatus_def update_deployments_def marked_def [abs_def])

lemma refines_none_keeps: "refines (\<lambda>_ _. False) m \<Longrightarrow> keeps db m"
proof -
  have "(\<lambda>_ _. False)\<^sup>*\<^sup>* d e \<Longrightarrow> e = d" for d e :: database by (induction rule: rtranclp_induct) simp_all
  then show "refines (\<lambda>_ _. False) m \<Longrightarrow> keeps db m" unfolding refines_def keeps_def by blast
qed

lemma keeps_after_apply: "keeps rollout_tables (after_apply sv p)"
proof -
  have s: "keeps rollout_tables (syncIngressForProject sv pr)" for pr
    by (rule keeps_comp [of db _ "\<lambda>d. (deployments d, projects d)"]) (rule refines_none_keeps [OF refines_syncIngress])
  show ?thesis unfolding after_apply_def GetProjectByID_def
    by (intro keeps_intros keeps_emit keeps_publish s; simp)
qed

lemma rollout_run:
  assumes "faults w = []" and "todo (db w) = [q]" and "pd_status q = Pushing"
    and "find_row (\<lambda>p. p_id p = pd_project q \<and> live p) (projects (db w)) = Some p"
    and "decode_manifest (pd_manifest q) = (m, False)" and "\<not> bad_quantity dc m"
    and "fst (run_state (GetProjectEnv (sv_crypto sv) (sv_kek sv) (pd_project q)) w) = Inr env" and "nothing_to_provision sv m env"
    and "run_state (tick sv dc kl sums) w = (r, v)"
  obtains t where "r = Some sums" "runs_image dc (p_slug p) (pd_image q) (objs v)"
    "rollout_tables v = (update_rows (\<lambda>x. d_id x = pd_id q) (marked t Deploying) (deployments (db w)), projects (db w))"
proof -
  let ?slug = "p_slug p" and ?env = "merge_env (manifest_env m) env"
  have t: "run_state (query todo) w = (Inr [q], w)" using assms(1,2) by simp
  note pr = prepare_run [OF assms(1,4,5,7,8)]
  obtain cfg w1 where c: "run_state (egressConfigForProject sv (pd_project q)) w = (cfg, w1)" by (rule prod.exhaust)
  note k1 = still_run [OF still_config c assms(1)]
  obtain allows enforce url ee where cfg: "cfg = (allows, enforce, url, ee)" by (cases cfg) auto
  let ?warn = "if ee \<noteq> None then emit (pd_id q) ''warn'' ''could not load egress allow-list, deploying without it'' else State_Monad.return ()"
  obtain w2 where 2: "run_state ?warn w1 = ((), w2)" by (rule run_unit)
  have "still ?warn" by (intro still_intros)
  note k2 = still_run [OF this 2 k1(1)]
  let ?w3 = "w2\<lparr>db := (db w2)\<lparr>deployments := update_rows (\<lambda>x. d_id x = pd_id q) (marked (now w2) Deploying) (deployments (db w2))\<rparr>\<rparr>"
  note 3 = mark_run [OF k2(1), of "pd_id q" Deploying]
  have f3: "faults ?w3 = []" using k2(1) by simp
  obtain w4 where 4: "run_state (emit (pd_id q) ''info'' ''applying Kubernetes manifests'') ?w3 = ((), w4)" by (rule run_unit)
  note k4 = still_run [OF still_emit(1) 4 f3]
  obtain w5 where 5: "run_state (publish (pd_id q)) w4 = ((), w5)" by (rule run_unit)
  note k5 = still_run [OF still_emit(3) 5 k4(1)]
  obtain w6 where 6: "run_state (Apply dc (deploy_input q ?slug m ?env allows enforce url)) w5 = (Inr (), w6)" "runs_image dc ?slug (pd_image q) (objs w6)"
    by (rule Apply_ok [OF k5(1) assms(6)])
  obtain w7 where 7: "run_state (after_apply sv q) w6 = ((), w7)" by (rule run_unit)
  have "run_state (handle_pushing sv dc q sums) w = (Some sums, w7)"
    using pr c 2 3 4 5 6(1) 7 by (simp add: handle_pushing_def cfg del: update_rows_def)
  then have rv: "r = Some sums" "v = w7"
    using assms(3,9) t by (auto simp: tick_def handle_def)
  have "tables w6 = tables w5" using keeps_runD [OF keeps_Apply 6(1)] by simp
  moreover have "rollout_tables v = rollout_tables w6" unfolding rv(2) by (rule keeps_runD [OF keeps_after_apply 7])
  ultimately have "rollout_tables v = (update_rows (\<lambda>x. d_id x = pd_id q) (marked (now w2) Deploying) (deployments (db w)), projects (db w))"
    using k1(2) k2(2) k4(2) k5(2) by simp
  moreover have "runs_image dc ?slug (pd_image q) (objs v)"
    unfolding rv(2) by (rule holds_runD [OF image_after_apply 7 6(2)])
  ultimately show thesis using that rv(1) by blast
qed


section \<open>The promotion\<close>

lemma ready_run:
  assumes "faults w = []" and "todo (db w) = [q]" and "pd_status q = Deploying"
    and "find_row (\<lambda>p. p_id p = pd_project q \<and> live p) (projects (db w)) = Some p"
    and "fst (run_state (PodSummary (p_slug p)) w) = Inr (summary, True, [])"
    and "run_state (tick sv dc kl sums) w = (r, v)"
  obtains u where "run_state (promote q) u = ((), v)" "faults u = []" "tables u = tables w"
proof -
  have t: "run_state (query todo) w = (Inr [q], w)" using assms(1,2) by simp
  have s: "run_state (slugFor (pd_project q)) w = (Inr (p_slug p), w)" using assms(1,4) by (simp add: slugFor_def)
  have pods: "run_state (PodSummary (p_slug p)) w = (Inr (summary, True, []), w)"
    using assms(1,5) by (simp add: PodSummary_def list_pods_def run_attempt)
  obtain sums' u where u: "run_state (report_summary (pd_id q) summary sums) w = (sums', u)" by (rule prod.exhaust)
  have "still (report_summary (pd_id q) summary sums)" unfolding report_summary_def by (intro still_intros)
  note k = still_run [OF this u assms(1)]
  obtain v' where v': "run_state (promote q) u = ((), v')" by (rule run_unit)
  have "run_state (handle_deploying kl q sums) w = (Some (sums'(pd_id q := None)), v')"
    using s pods u v' by (simp add: handle_deploying_def)
  then have "v = v'" using assms(3,6) t by (auto simp: tick_def handle_def)
  with that k v' show thesis by blast
qed


lemma keeps_promote: "keeps (\<lambda>w. map (\<lambda>x. (d_id x, d_project x, d_image x)) (deployments (db w))) (promote q)"
proof -
  have "keeps (\<lambda>w. map (\<lambda>x. (d_id x, d_project x, d_image x)) (deployments (db w))) (emit dep l m)" for dep l m
    using keeps_comp [OF keeps_emit, of "\<lambda>t. map (\<lambda>x. (d_id x, d_project x, d_image x)) (fst t)"] by simp
  then show ?thesis
    unfolding promote_def MarkDeploymentStatus_def SupersedeRunningSiblings_def update_deployments_def UpdateProjectStatus_def
      TouchProjectPushed_def update_project_def publish_def
    by (intro keeps_intros) (simp_all add: table_simps)
qed

lemma find_row_key: "distinct (map k t) \<Longrightarrow> r \<in> set t \<Longrightarrow> k r = i \<Longrightarrow> find_row (\<lambda>q. k q = i) t = Some r"
  by (induction t) (auto simp: image_iff)

text \<open>C3. From the queue to the running app: when nothing fails, the build's commands succeed and the
  pods get ready, the next queued deployment of a live project is built, its image runs in the cluster
  after the reconciler's next tick, and the tick after its pods are ready makes it the only running
  deployment of its project, with the image the build pushed, and the project running.\<close>

theorem deployment_goes_live:
  assumes "faults w = []" and "keys_ok (db w)" and "next_queued (deployments (db w)) = Some x" and "todo (db w) = []"
    and "find_row (\<lambda>p. p_id p = d_project x \<and> live p) (projects (db w)) = Some p"
    and "builds mc x" and "decode_manifest (d_manifest x) = (m, False)" and "\<not> bad_quantity dc m"
    and "fst (run_state (GetProjectEnv (sv_crypto sv) (sv_kek sv) (d_project x)) w) = Inr env" and "nothing_to_provision sv m env"
    and "run_state (claimAndRun registry mc) w = (r1, w1)" and "run_state (tick sv dc kl sums) w1 = (r2, w2)"
    and "db w3 = db w2" and "faults w3 = []" and "fst (run_state (PodSummary (p_slug p)) w3) = Inr (summary, True, [])"
    and "run_state (tick sv dc kl' sums') w3 = (r4, w4)"
  shows "runs_image dc (p_slug p) (imageRef registry (p_slug p) (d_id x)) (objs w2) \<and>
    (\<exists>y \<in> set (deployments (db w4)). d_id y = d_id x \<and> d_status y = Running \<and> d_image y = imageRef registry (p_slug p) (d_id x)) \<and>
    (\<forall>y \<in> set (deployments (db w4)). d_project y = d_project x \<longrightarrow> (d_status y = Running \<longleftrightarrow> d_id y = d_id x)) \<and>
    (\<forall>y \<in> set (projects (db w4)). p_id y = d_project x \<longrightarrow> p_status y = PRunning)"
proof -
  let ?i = "d_id x" and ?img = "imageRef registry (p_slug p) (d_id x)"
  have u: "unique_by d_id (deployments (db w))" "unique_by p_id (projects (db w))" using assms(2) by (simp_all add: keys_ok_def)
  note p = find_row_Some [OF assms(5)]
  have pf: "find_row (\<lambda>q. p_id q = d_project x) (projects (db w)) = Some p"
    by (rule find_row_key) (use p u(2) in \<open>simp_all add: unique_by_def\<close>)
  have x: "x \<in> set (deployments (db w))" using next_queued_row [OF assms(3)] by simp
  have live: "project_live (db w) (d_project x)" using p by (auto simp: project_live_def)
  obtain g where 1: "r1 = Inr ()" "faults w1 = []" "same_deployment g" "\<forall>y. d_status (g y) = Pushing \<and> d_image (g y) = ?img"
    "tables w1 = (update_rows (\<lambda>y. d_id y = ?i) g (deployments (db w)), projects (db w), env_rows (db w))"
    by (rule build_run [OF assms(1) u(1) assms(3) pf assms(6,11)])
  let ?q = "pending_of (g x)"
  note gx = same_deploymentD [OF 1(3), of x]
  have pd: "pd_id ?q = ?i" "pd_project ?q = d_project x" "pd_manifest ?q = d_manifest x" "pd_status ?q = Pushing" "pd_image ?q = ?img"
    using gx 1(4) by (simp_all add: pending_of_def)
  have t1: "todo (db w1) = [?q]"
    by (rule todo_rolled [OF u(1) x assms(4) 1(3) _ live]) (use 1(4,5) in simp_all)
  have f1: "find_row (\<lambda>p. p_id p = pd_project ?q \<and> live p) (projects (db w1)) = Some p"
    using assms(5) 1(5) pd(2) by simp
  have m1: "decode_manifest (pd_manifest ?q) = (m, False)" using assms(7) pd(3) by simp
  have "fst (run_state (GetProjectEnv (sv_crypto sv) (sv_kek sv) (d_project x)) w1) = Inr env"
    using assms(1,9) 1(2,5) by (simp add: GetProjectEnv_def run_attempt)
  then have e1: "fst (run_state (GetProjectEnv (sv_crypto sv) (sv_kek sv) (pd_project ?q)) w1) = Inr env" using pd(2) by simp
  obtain t where 2: "r2 = Some sums" "runs_image dc (p_slug p) (pd_image ?q) (objs w2)"
    "rollout_tables w2 = (update_rows (\<lambda>x. d_id x = pd_id ?q) (marked t Deploying) (deployments (db w1)), projects (db w1))"
    by (rule rollout_run [OF 1(2) t1 pd(4) f1 m1 assms(8) e1 assms(10,12)])
  let ?h = "marked t Deploying \<circ> g"
  have h: "same_deployment ?h" using 1(3) marked_same(1) by (simp add: same_deployment_def)
  have ds: "deployments (db w3) = update_rows (\<lambda>y. d_id y = ?i) ?h (deployments (db w))" "projects (db w3) = projects (db w)"
    using 2(3) 1(5) pd(1) assms(13) by (simp_all add: update_twice [OF 1(3)])
  let ?p = "pending_of (?h x)"
  have pr: "pd_id ?p = ?i" "pd_project ?p = d_project x" "pd_status ?p = Deploying"
    using gx by (simp_all add: pending_of_def marked_def)
  have t3: "todo (db w3) = [?p]"
    by (rule todo_rolled [OF u(1) x assms(4) h _ live ds]) (simp add: marked_same)
  have f3: "find_row (\<lambda>p. p_id p = pd_project ?p \<and> live p) (projects (db w3)) = Some p"
    using assms(5) ds(2) pr(2) by simp
  obtain v where v: "run_state (promote ?p) v = ((), w4)" "faults v = []" "tables v = tables w3"
    by (rule ready_run [OF assms(14) t3 pr(3) f3 assms(15,16)])
  note alone = promoted_runs_alone [OF v(1,2), unfolded pr(1,2)]
  have rows: "map (\<lambda>x. (d_id x, d_project x, d_image x)) (deployments (db w4)) = map (\<lambda>x. (d_id x, d_project x, d_image x)) (deployments (db v))"
    by (rule keeps_runD [OF keeps_promote v(1)])
  have "(?i, d_project x, ?img) \<in> set (map (\<lambda>x. (d_id x, d_project x, d_image x)) (deployments (db v)))"
  proof -
    have "?h x \<in> set (deployments (db v))" using v(3) ds(1) x by (auto simp: set_update_rows)
    then have "(d_id (?h x), d_project (?h x), d_image (?h x)) \<in> set (map (\<lambda>x. (d_id x, d_project x, d_image x)) (deployments (db v)))"
      unfolding set_map by (rule imageI)
    with gx 1(4) show ?thesis by (simp add: marked_def)
  qed
  then have "(?i, d_project x, ?img) \<in> (\<lambda>x. (d_id x, d_project x, d_image x)) ` set (deployments (db w4))"
    unfolding rows [symmetric] set_map .
  then obtain y where y: "y \<in> set (deployments (db w4))" "d_id y = ?i" "d_project y = d_project x" "d_image y = ?img" by auto
  then have "d_status y = Running" using alone by simp
  then have "\<exists>y \<in> set (deployments (db w4)). d_id y = ?i \<and> d_status y = Running \<and> d_image y = ?img" using y by (intro bexI [of _ y]) simp_all
  with 2(2) [unfolded pd(5)] show ?thesis using conjunct1 [OF alone] conjunct2 [OF alone] by (intro conjI)
qed


definition ready_pod :: pod where
  "ready_pod = \<lparr>pod_name = ''app-1'', pod_created = 1, pod_phase = ''Running'', pod_node = ''n1'', pod_ip = ''10.42.0.9'', pod_host_ip = ''10.0.0.1'',
     pod_started = Some 1, pod_annotations = [], pod_unschedulable = None,
     pod_statuses = [\<lparr>cs_ready = True, cs_state = CRunning 1, cs_restarts = 0, cs_image = ''i'', cs_last_exit = None\<rparr>]\<rparr>"

lemma deployment_goes_live_witness:
  "\<exists>w1 w2 w4. run_state (claimAndRun ''reg'' demo_machine) (build_world Queued) = (Inr (), w1) \<and>
     w2 = snd (run_state (tick sample_server sample_deployer (\<lambda>_ _ _ _. None) (\<lambda>_. None)) w1) \<and>
     w4 = snd (run_state (tick sample_server sample_deployer (\<lambda>_ _ _ _. None) (\<lambda>_. None)) (w2\<lparr>faults := [], pods := (\<lambda>_. [ready_pod])\<rparr>)) \<and>
     runs_image sample_deployer ''shop'' (imageRef ''reg'' ''shop'' ''d1'') (objs w2) \<and>
     (\<exists>y \<in> set (deployments (db w4)). d_id y = ''d1'' \<and> d_status y = Running)"
proof -
  let ?w = "build_world Queued" and ?kl = "\<lambda>_ _ _ _. None :: log_stream option" and ?s = "\<lambda>_. None :: string option"
  have f: "faults ?w = []" by (simp add: build_world_def sample_world_def)
  have k: "keys_ok (db ?w)" by code_simp
  have n: "next_queued (deployments (db ?w)) = Some demo_build" by code_simp
  have t: "todo (db ?w) = []" by code_simp
  have p: "find_row (\<lambda>p. p_id p = d_project demo_build \<and> live p) (projects (db ?w)) = Some shop" by code_simp
  have b: "builds demo_machine demo_build"
    by (auto simp: builds_def demo_machine_def downloadAndExtract_def split: if_splits)
  have "\<not> snd (decode_manifest (d_manifest demo_build))" by code_simp
  then obtain m where m: "decode_manifest (d_manifest demo_build) = (m, False)"
    by (cases "decode_manifest (d_manifest demo_build)") simp
  have q: "\<not> bad_quantity sample_deployer m" by (simp add: bad_quantity_def sample_deployer_def)
  have e: "fst (run_state (GetProjectEnv (sv_crypto sample_server) (sv_kek sample_server) (d_project demo_build)) ?w) = Inr (\<lambda>_. None)"
    by (simp add: GetProjectEnv_def run_attempt f) (simp add: build_world_def sample_world_def sample_db_def)
  have np: "nothing_to_provision sample_server m (\<lambda>_. None)"
    by (simp add: nothing_to_provision_def pg_Enabled_def redis_Enabled_def s3_Enabled_def sample_server_def)
  obtain r1 w1 where 1: "run_state (claimAndRun ''reg'' demo_machine) ?w = (r1, w1)" by (rule prod.exhaust)
  obtain r2 w2 where 2: "run_state (tick sample_server sample_deployer ?kl ?s) w1 = (r2, w2)" by (rule prod.exhaust)
  let ?w3 = "w2\<lparr>faults := [], pods := (\<lambda>_. [ready_pod])\<rparr>"
  obtain r4 w4 where 4: "run_state (tick sample_server sample_deployer ?kl ?s) ?w3 = (r4, w4)" by (rule prod.exhaust)
  have s: "fst (run_state (PodSummary (p_slug shop)) ?w3) = Inr (''container ready'', True, [])"
    by (simp add: PodSummary_def list_pods_def run_attempt pods_summary_def ready_pod_def newest_pod_def container_summary_def)
  have d: "db ?w3 = db w2" "faults ?w3 = []" by simp_all
  have "fst (run_state (claimAndRun ''reg'' demo_machine) ?w) = Inr ()" by code_simp
  with 1 have r1: "run_state (claimAndRun ''reg'' demo_machine) ?w = (Inr (), w1)" by simp
  have i: "d_id demo_build = ''d1''" "p_slug shop = ''shop''" by (simp_all add: demo_build_def queued_row_def shop_def new_project_def)
  from deployment_goes_live [OF f k n t p b m q e np 1 2 d s 4, unfolded i] r1 2 4 show ?thesis
    by (intro exI [of _ w1] exI [of _ w2] exI [of _ w4]) (simp, blast)
qed

end
