(* ===== verification/Spec2Isabelle.thy ===== *)
theory Spec2Isabelle
  imports History Env_Laws Auth_Laws Ingress_Laws Egress_Laws Deploy_Laws Build_Laws Startup_Laws Provision_Laws Pipeline
begin

text \<open>
  A verification library of IAI, a platform that builds and runs small web apps on a Kubernetes
  cluster.

  The program. The control plane (\<open>cmd/control-plane\<close>) serves an HTTP API (\<open>internal/api\<close>) on a Postgres
  database (\<open>internal/store\<close>) and drives the cluster (\<open>internal/k8sdriver\<close>): every project has a
  namespace with one Deployment, an Ingress behind the platform's login, allow-lists for who may
  reach it, and a NetworkPolicy and a squid proxy for what it may reach. A user creates a
  deployment and uploads its source; the build service (\<open>cmd/build-service\<close>, \<open>internal/builder\<close>) claims
  it from the queue, builds and pushes the image; the reconciler (\<open>internal/api/reconciler.go\<close>)
  provisions its databases (\<open>internal/provision\<close>), applies it to the cluster and promotes it once its
  pod is ready; clients follow along on an event stream. Secrets of the apps are sealed with
  AES-GCM (\<open>internal/auth/crypto.go\<close>) under a key that \<open>cmd/rekey-env\<close> rotates.

  The model. All parts share one state, the record \<open>world\<close>: the database with one list of rows per
  table, the objects of the cluster, the services, the clock, the sources of randomness, and a
  list \<open>faults\<close> that decides for each coming call to the database, the cluster or a service whether it
  fails. Code is a state transformer on it (\<open>'a prog\<close>), code that returns an error a transformer to
  \<open>err + 'a\<close> (\<open>'a fallible\<close>), with \<open>attempt\<close> for Go's early return and \<open>orelse\<close> for a handler's answer.
  Because the list of faults is arbitrary, a theorem about all worlds is a theorem about every
  pattern of failures. Definitions keep the names of the Go functions; strings are byte lists as
  in Go, Go's \<open>int\<close> is an integer where no overflow can happen and a word where it can (the
  exponent of an RSA key, the expiry of a login state), times are in milliseconds.

  The theories, bottom up:
  - \<open>Prelude\<close>: weakest preconditions and frame conditions (\<open>wp\<close>, \<open>keeps\<close>) for the state monad, tables
    as lists of rows, and the locale \<open>kv_store\<close> of the key-value tables.
  - \<open>Go_Strings\<close>, \<open>Netaddr\<close>: what the code uses of \<open>strings\<close>, \<open>strconv\<close>, \<open>regexp\<close>, \<open>net\<close> and \<open>net/netip\<close>, and
    the address-list functions of \<open>project_actions.go\<close>.
  - \<open>Naming\<close>: slugs (\<open>internal/scan/slug.go\<close>), host names, and every name derived from a slug.
  - \<open>Cluster\<close>, \<open>World\<close>, \<open>Kube\<close>: cluster objects and the meaning of a NetworkPolicy; the state and its
    fallible calls; the API server's get, create, update, delete and create-or-update.
  - \<open>Store\<close>, \<open>Secrets\<close>: \<open>internal/store\<close> query by query with the constraints of the migrations;
    encryption of the environment.
  - \<open>Egress_Policy\<close>, \<open>Ingress\<close>, \<open>Deployer\<close>: \<open>internal/k8sdriver\<close>. The policy a project gets, its Ingress,
    routes and allow-lists, and everything \<open>Apply\<close> writes.
  - \<open>Http\<close>: actors, responses and JSON bodies. \<open>Provision\<close>: the databases of the apps.
  - \<open>Config\<close>, \<open>Object_Store\<close>, \<open>Migrations\<close>: \<open>internal/config\<close>, the client of \<open>internal/storage\<close>, and applying
    \<open>migrations/*.up.sql\<close> (\<open>internal/store/store.go\<close>) with the effect of each file on the rows.
  - \<open>Access\<close>, \<open>Path_Rules\<close>, \<open>Egress\<close>, \<open>Squid\<close>, \<open>Egress_Log\<close>, \<open>Projects\<close>, \<open>Auth\<close>, \<open>Admin\<close>, \<open>Events\<close>, \<open>Deployments\<close>:
    the handlers of \<open>internal/api\<close> by file, with the proxy's configuration and squid's reading of it
    (\<open>Squid\<close>), the login and tokens of \<open>internal/auth\<close> (\<open>Auth\<close>), and the bus of \<open>internal/events\<close> (\<open>Events\<close>).
  - \<open>Reconciler\<close>, \<open>Build_Service\<close>, \<open>Rekey\<close>: the workers and the tool. A build runs on a \<open>machine\<close>, its commands
    are lists of output lines, polls of the watchdog and steps of others. \<open>Router\<close>: the routes and the
    CORS headers of \<open>internal/api/server.go\<close>; \<open>serve\<close> answers any request.
  - \<open>Startup\<close>: the mains of the two programs, from the command line to the loops they start.
  - \<open>Steps\<close>, \<open>Refinement\<close>: the abstract specification \<open>db_step\<close> of what may happen to the tables, and the
    proof that every handler, worker, tool and start refines it. \<open>Stages\<close>: all of them but the reconciler's
    tick and the build worker keep to its \<open>quiet_step\<close>s, which bring no deployment forward; these two,
    through the locale \<open>roll_outs\<close>, and that they roll out only what was built.
  - \<open>Integrity\<close>, \<open>History\<close>: the running platform (\<open>sys_step\<close>, \<open>reachable\<close>) and, through the locale
    \<open>db_invariant\<close>, its invariants.
  - \<open>Runs\<close>, \<open>Sample\<close>: rules to run programs, and a small platform for the witnesses.
  - \<open>Env_Laws\<close>, \<open>Auth_Laws\<close>, \<open>Ingress_Laws\<close>, \<open>Egress_Laws\<close>, \<open>Deploy_Laws\<close>, \<open>Build_Laws\<close>, \<open>Provision_Laws\<close>,
    \<open>Startup_Laws\<close>: what the parts guarantee. \<open>Pipeline\<close>: what they do together, from the queue to the
    running app.

  What the theorems show. Names: the validator is what it says, generated slugs pass it. Egress:
  the policy and the proxy's configuration let an app reach exactly what its rules name, listeners
  are never shared, the log is counted exactly and once. Ingress: path rules are written as routes
  in order, an allow-list that is named is there and closed. Secrets: a ciphertext is bound to its
  row, set and get round-trip, a rotation is all or nothing. Access: who is refused changes
  nothing, tokens live as long as they say. Deployments: only what was claimed and built
  is ever rolled out, the next in the queue goes live when nothing fails, and then runs alone, the queue
  is first in, first out, the event stream loses and repeats nothing, a superseded build
  stays superseded. Services: projects never touch each other's, the credentials handed out work,
  and no app is deployed without what its manifest needs. Starting: pods reach the services that
  are configured, and the control plane can always be started again. The whole: every request
  refines \<open>db_step\<close>, and keys, references, ports, contents and history stay intact in every state
  that is reached from an empty database. Some theorems show what the code does and should not,
  among them: a failing allow-list or egress look-up opens the app or its egress, every start
  undoes the TLS and access settings of projects, credentials of which only a part was stored are
  never completed, logs of a build are readable through any project, a project-less login token
  manages everything, and a malformed quantity in a manifest stops the control plane.

  Bounds. Endless loops are cut to a number of turns that is a parameter (the collector's turns,
  the rounds of an event stream), and every statement is for all values of it; recursion
  otherwise is over lists or has its termination proof, so there is no fuel to run out of.

  Not modelled. The libraries: JWT parsing, cryptography, UUID parsing, presigned URLs, quantity
  parsing and the answers of the kubelet and the identity provider are parameters, with the laws
  a theorem needs as its hypotheses (\<open>aead_ok\<close> for AES-GCM). Requests run one after the other:
  races between the statements of two requests are not modelled, except around builds and
  event streams, where any other steps may come in between. A migration is its effect on the rows
  of a database that has its tables; the schema changes are in the model of the store. The parsing
  of environment variables, the file system, \<open>tar\<close> and the build commands are parameters. Logging,
  error texts, HTTP listening, signals and shutdown are left out, as are the web console and the
  deployment files.
\<close>

section \<open>The platform as a whole\<close>

text \<open>C1. Every request, whoever sends it, whatever its method, path, headers and body, and whichever
  of its calls fail, changes the database by a sequence of the steps of \<open>db_step\<close>, the abstract
  specification of what the tables may undergo: there is no way through the router to any other
  change, not even by stopping half-way.\<close>

theorem requests_refine_specification:
  "(db_step (pc_server pc))\<^sup>*\<^sup>* (db w) (db (snd (run_state (serve pc rq) w)))"
  using quiet_refines [OF refines_serve] by (simp add: refines_def)



text \<open>C14. No two live projects ever share a listener of the egress proxy, and every listener's port is
  in 13128 to 13999: the isolation the proxy gives by port never mixes two projects.\<close>

theorem listeners_never_shared:
  assumes "reachable pc w w'" and "keys_ok (db w)" and "ports_ok (db w)"
    and "p \<in> set (projects (db w'))" and "q \<in> set (projects (db w'))" and "live p" and "live q"
    and "p_port p = Some n" and "p_port q = Some n"
  shows "p = q \<and> 13128 \<le> n \<and> n \<le> 13999"
proof -
  have ok: "keys_ok (db w')" "ports_ok (db w')" using ports.reached [OF assms(1) refl] assms(2,3) by simp_all
  then have "distinct (List.map_filter p_port (filter live (projects (db w'))))" by (simp add: ports_ok_def taken_ports_def)
  then have "p = q" by (rule distinct_map_filter_inj [where n = n]) (use assms(4-9) in simp_all)
  moreover have "n \<in> set (taken_ports (db w'))" using assms(4,6,8) by (auto simp: taken_ports_def set_map_filter)
  ultimately show ?thesis using ok(2) by (auto simp: ports_ok_def EgressProxyPortMin_def EgressProxyPortMax_def)
qed


text \<open>C18. Nothing that happened is taken back: from any state to any later one the audit trail and the
  deployment events are only appended to, users, projects, deployments and tokens are never removed
  and keep their identity, a deleted project stays deleted and the system presets stay.\<close>

theorem history_never_rewritten:
  assumes "reachable pc w w'" and "keys_ok (db w)"
  shows "extends (db w) (db w')"
  using history.reached [OF assms(1) refl] assms(2) extends_refl by blast


text \<open>C2. Only built deployments run: in every state a platform reaches that was installed on an empty
  database, a deployment that is pushing, deploying or running was queued, claimed by a build
  worker and given the image of a finished build, and a running one has its promotion time. No
  request, tool, restart or failure in between, no re-upload of a source while it is built or
  deployed, and no two workers at once bring a deployment forward that skipped a stage.\<close>

theorem only_built_deployments_run:
  assumes "reachable pc w w'" and "staged (db w)"
    and "x \<in> set (deployments (db w'))" and "d_status x \<in> {Pushing, Deploying, Running}"
  shows "d_queued x \<noteq> None \<and> d_build_started x \<noteq> None \<and> d_image x \<noteq> [] \<and> d_build_done x \<noteq> None \<and>
    (d_status x = Running \<longrightarrow> d_deployed x \<noteq> None)"
proof -
  have "staged (db w')" using assms(1,2) by (induction rule: rtranclp_induct) (auto intro: sys_step_staged)
  with assms(3) have "stage_ok x" by (simp add: staged_def)
  with assms(4) show ?thesis by (auto simp: stage_ok_def)
qed


text \<open>From an empty database on: whatever is requested, done by the workers and tools, and failing, in
  whatever order, starts and restarts of the control plane included, the keys are unique, the
  references resolve, the listener ports are distinct and in range, and the contents are valid.\<close>

lemma empty_db_ok: "keys_ok empty_db" "refs_ok empty_db" "ports_ok empty_db" "content_ok sv empty_db"
  by (simp_all add: empty_db_def keys_ok_def unique_by_def refs_ok_def ports_ok_def taken_ports_def content_ok_def)

text \<open>A platform that was installed on an empty database keeps all of its integrity: in every state
  it reaches, through any requests, workers, tools, starts and failures, the keys are unique, the
  references resolve, no two live projects share a listener port and the ports are in range, and
  everything that handlers validate is valid.\<close>

theorem installed_platform_intact:
  assumes "reachable pc w w'" and "db w = empty_db"
  shows "keys_ok (db w') \<and> refs_ok (db w') \<and> ports_ok (db w') \<and> content_ok (pc_server pc) (db w')"
  using assms(2) keys.reached [OF assms(1) refl] refs.reached [OF assms(1) refl] content.reached [OF assms(1) refl]
    ports.reached [OF assms(1) refl]
  by (simp add: empty_db_ok)

text \<open>C20. The control plane can always be started again: in every state a platform reaches that was
  installed on an empty database, a start whose calls do not fail succeeds, with the process its
  configuration describes; in particular the migrations, which run on every start, are never
  refused by the rows that are there.\<close>

theorem platform_restarts:
  assumes "reachable pc w w'" and "db w = empty_db" and "faults w' = []"
    and "LoadControlPlane (pl_env pl) = Some c" and "pl_dsn_ok pl (cp_DatabaseURL c)"
    and "pl_files pl ''/migrations'' = Some es" and "migration_dir es"
    and "LoadKEK (pl_crypto pl) (cp_KEKBase64 c) = Inr kek" and "New (pl_minio pl) (cp_storage c) = Some obj"
  shows "\<exists>w''. run_state (runServer pl) w' = (Inr (new_process pl c kek obj), w'')"
proof -
  have "content_ok (pc_server pc) (db w')"
    using content.reached [OF assms(1) refl] assms(2) by (simp add: empty_db_ok)
  then have "ports_checked (db w')" by (auto simp: ports_checked_def content_ok_def egress_rule_ok_def)
  from start_succeeds [OF assms(3-7) this assms(8,9)] show ?thesis by blast
qed


section \<open>The properties at the sample\<close>

text \<open>The sample's platform after a request that creates a project.\<close>

definition create_request :: request where
  "create_request = sample_request ''POST'' [''v1'', ''projects''] (Some (JObj [(''slug'', JStr ''news'')]))"

definition after_create :: world where
  "after_create = snd (run_state (serve sample_process create_request) sample_world)"

lemma create_reachable: "reachable sample_process sample_world after_create"
  unfolding after_create_def by (rule r_into_rtranclp, rule sys_step.request)



lemma listeners_never_shared_witness:
  "\<exists>p \<in> set (projects (db log_world)). p_port p = Some 13128 \<and> (13128 :: int) \<le> 13999"
proof -
  have "reachable sample_process log_world log_world" by simp
  from listeners_never_shared [OF this log_db(1,2,4,4,3,3), of 13128] show ?thesis using log_db(4) by force
qed


lemma history_never_rewritten_witness: "extends (db sample_world) (db after_create)"
proof -
  have "keys_ok (db sample_world)" by code_simp
  from history_never_rewritten [OF create_reachable this] show ?thesis .
qed

lemma installed_start:
  obtains w' where "run_state (runServer sample_platform) installed = (Inr (new_process sample_platform sample_control sample_kek sample_store), w')"
    "reachable sample_process installed w'"
proof -
  obtain w' where r: "run_state (runServer sample_platform) installed = (Inr (new_process sample_platform sample_control sample_kek sample_store), w')"
    using sample_start [OF installed_ok(1,2)] .
  from sys_step.start [OF sample_repo, of sample_process installed] r have "sys_step sample_process installed w'" by simp
  with r that show thesis by blast
qed

lemma installed_platform_intact_witness:
  "\<exists>w'. reachable sample_process installed w' \<and> keys_ok (db w')"
proof -
  obtain w' where "reachable sample_process installed w'" by (rule installed_start)
  with installed_platform_intact [OF this installed_ok(3)] show ?thesis by blast
qed

lemma platform_restarts_witness:
  "\<exists>w' w''. reachable sample_process installed w' \<and>
     run_state (runServer sample_platform) w' = (Inr (new_process sample_platform sample_control sample_kek sample_store), w'')"
proof -
  obtain v where v: "reachable sample_process installed v" by (rule installed_start)
  have "sys_step sample_process v (v\<lparr>faults := []\<rparr>)" by (rule sys_step.outside) simp
  with v have r: "reachable sample_process installed (v\<lparr>faults := []\<rparr>)" by simp
  from platform_restarts [OF this installed_ok(3) _ sample_opens(3,1,2) sample_dir sample_opens(4,5)] r show ?thesis by auto
qed


text \<open>The sample's queued deployment is built.\<close>

lemma only_built_deployments_run_witness:
  "\<exists>w' x. reachable sample_process (build_world Queued) w' \<and> x \<in> set (deployments (db w')) \<and> d_status x = Pushing \<and>
     d_build_started x \<noteq> None \<and> d_image x \<noteq> []"
proof -
  let ?w = "snd (run_state (claimAndRun ''reg'' demo_machine) (build_world Queued))"
  have "machine_refines (pc_server sample_process) demo_machine"
    by (auto simp: machine_refines_def demo_machine_def split: if_splits)
  from sys_step.build [OF this] have r: "reachable sample_process (build_world Queued) ?w" by (rule r_into_rtranclp)
  have s: "staged (db (build_world Queued))"
    by (simp add: build_world_def staged_def stage_ok_def demo_build_def queued_row_def)
  have "map d_status (deployments (db ?w)) = [Pushing]" by code_simp
  then obtain x where x: "x \<in> set (deployments (db ?w))" "d_status x = Pushing" by (cases "deployments (db ?w)") auto
  from x(2) have "d_status x \<in> {Pushing, Deploying, Running}" by simp
  from only_built_deployments_run [OF r s x(1) this] r x show ?thesis by blast
qed

end
